(* ===== verification/IoT_Prelude.thy ===== *)
theory IoT_Prelude
  imports Main "HOL-Library.State_Monad" "HOL-Library.Word"
begin

text \<open>
  Shared material of the development: the fact collections the component theories
  fill, the state-monad vocabulary in which the handlers of
  \<^verbatim>\<open>src/src/CloudIoTCoreMqtt.cpp\<close> are written (reads, writes, conditionals,
  running an action), a small calculus of preserved predicates, decimal rendering of
  integers as the Arduino \<^verbatim>\<open>String(int)\<close> constructor and \<^verbatim>\<open>printf("%i")\<close> do it,
  reading such a number back (\<open>int_of_digits\<close>, inverse to the rendering), and the
  arithmetic facts about clamping that the back-off proofs share.
\<close>

section \<open>Fact collections\<close>

named_theorems run_simps
  "run equations of compound actions: what they return and which state they leave"
named_theorems preserves_intros
  "introduction rules of the preserved-predicate calculus"
named_theorems frame_simps
  "fields an action leaves unchanged"

section \<open>Types of the model\<close>

text \<open>
  Instants and durations are milliseconds. The source computes with the results of
  \<^verbatim>\<open>millis()\<close> and with \<^verbatim>\<open>int\<close> fields; the model uses unbounded integers and
  states separately where a value must fit the machine type.
\<close>

type_synonym millis_t = int
type_synonym topic = string
type_synonym payload = string

section \<open>State-monad vocabulary\<close>

definition gets :: "('s \<Rightarrow> 'a) \<Rightarrow> ('s, 'a) state" where
  "gets f = State (\<lambda>s. (f s, s))"

definition modify :: "('s \<Rightarrow> 's) \<Rightarrow> ('s, unit) state" where
  "modify f = State (\<lambda>s. ((), f s))"

definition whenM :: "bool \<Rightarrow> ('s, unit) state \<Rightarrow> ('s, unit) state" where
  "whenM c m = (if c then m else State_Monad.return ())"

definition exec :: "('s, 'a) state \<Rightarrow> 's \<Rightarrow> 's" where
  "exec m s = snd (run_state m s)"

definition result :: "('s, 'a) state \<Rightarrow> 's \<Rightarrow> 'a" where
  "result m s = fst (run_state m s)"

lemma run_gets [simp]: "run_state (gets f) s = (f s, s)"
  by (simp add: gets_def)

lemma run_modify [simp]: "run_state (modify f) s = ((), f s)"
  by (simp add: modify_def)

lemma run_whenM [simp]:
  "run_state (whenM c m) s = (if c then run_state m s else ((), s))"
  by (simp add: whenM_def)

lemma run_if [simp]:
  "run_state (if c then m else n) s = (if c then run_state m s else run_state n s)"
  by simp

lemma run_state_eq: "run_state m s = (result m s, exec m s)"
  by (simp add: result_def exec_def)

lemma exec_return [simp]: "exec (State_Monad.return x) s = s"
  by (simp add: exec_def)

lemma result_return [simp]: "result (State_Monad.return x) s = x"
  by (simp add: result_def)

lemma exec_bind [simp]:
  "exec (State_Monad.bind m f) s = exec (f (result m s)) (exec m s)"
  by (simp add: exec_def result_def case_prod_beta)

lemma result_bind [simp]:
  "result (State_Monad.bind m f) s = result (f (result m s)) (exec m s)"
  by (simp add: exec_def result_def case_prod_beta)

lemma exec_gets [simp]: "exec (gets f) s = s"
  by (simp add: exec_def)

lemma result_gets [simp]: "result (gets f) s = f s"
  by (simp add: result_def)

lemma exec_modify [simp]: "exec (modify f) s = f s"
  by (simp add: exec_def)

lemma exec_whenM [simp]: "exec (whenM c m) s = (if c then exec m s else s)"
  by (simp add: exec_def)

lemma exec_if [simp]:
  "exec (if c then m else n) s = (if c then exec m s else exec n s)"
  by simp

lemma result_if [simp]:
  "result (if c then m else n) s = (if c then result m s else result n s)"
  by simp

section \<open>Preserved predicates\<close>

text \<open>
  \<open>preserves P m\<close>: whatever state the action \<open>m\<close> starts in, if \<open>P\<close> holds
  before it holds after. The rules below decompose an action along its binds and
  conditionals, so an invariant of a handler is proved from the invariants of the
  calls it makes.
\<close>

definition preserves :: "('s \<Rightarrow> bool) \<Rightarrow> ('s, 'a) state \<Rightarrow> bool" where
  "preserves P m \<longleftrightarrow> (\<forall>s. P s \<longrightarrow> P (exec m s))"

lemma preservesI: "(\<And>s. P s \<Longrightarrow> P (exec m s)) \<Longrightarrow> preserves P m"
  by (simp add: preserves_def)

lemma preservesD: "preserves P m \<Longrightarrow> P s \<Longrightarrow> P (exec m s)"
  by (simp add: preserves_def)

lemma preserves_return [preserves_intros]: "preserves P (State_Monad.return x)"
  by (simp add: preserves_def)

lemma preserves_gets [preserves_intros]: "preserves P (gets f)"
  by (simp add: preserves_def)

lemma preserves_bind [preserves_intros]:
  "preserves P m \<Longrightarrow> (\<And>x. preserves P (f x)) \<Longrightarrow> preserves P (State_Monad.bind m f)"
  by (simp add: preserves_def)

lemma preserves_whenM [preserves_intros]:
  "preserves P m \<Longrightarrow> preserves P (whenM c m)"
  by (simp add: preserves_def)

lemma preserves_if [preserves_intros]:
  "preserves P m \<Longrightarrow> preserves P n \<Longrightarrow> preserves P (if c then m else n)"
  by (simp add: preserves_def)

lemma preserves_modify:
  "(\<And>s. P s \<Longrightarrow> P (f s)) \<Longrightarrow> preserves P (modify f)"
  by (simp add: preserves_def)

lemma preserves_conj:
  "preserves P m \<Longrightarrow> preserves Q m \<Longrightarrow> preserves (\<lambda>s. P s \<and> Q s) m"
  by (simp add: preserves_def)

section \<open>Clamping\<close>

text \<open>
  \<open>clamp lo hi x\<close> first raises \<open>x\<close> to \<open>lo\<close>, then lowers it to \<open>hi\<close>; the
  back-off code performs the two comparisons at different points, so the facts are
  stated for \<open>max\<close> and \<open>min\<close> separately as well.
\<close>

definition clamp :: "int \<Rightarrow> int \<Rightarrow> int \<Rightarrow> int" where
  "clamp lo hi x = min hi (max lo x)"

lemma clamp_range: "lo \<le> hi \<Longrightarrow> lo \<le> clamp lo hi x \<and> clamp lo hi x \<le> hi"
  by (simp add: clamp_def)

lemma clamp_id: "lo \<le> x \<Longrightarrow> x \<le> hi \<Longrightarrow> clamp lo hi x = x"
  by (simp add: clamp_def)

lemma clamp_mono: "x \<le> y \<Longrightarrow> clamp lo hi x \<le> clamp lo hi y"
  by (auto simp: clamp_def min_def max_def)

lemma scale_grows:
  fixes b f r :: int
  assumes "0 \<le> b" and "1 \<le> f" and "0 \<le> r"
  shows "b \<le> b * f + r"
proof -
  from assms(1,2) have "b * 1 \<le> b * f" by (intro mult_left_mono) simp_all
  with assms(3) show ?thesis by simp
qed

lemma scale_strictly_grows:
  fixes b f r :: int
  assumes "0 < b" and "2 \<le> f" and "0 \<le> r"
  shows "b < b * f + r"
proof -
  from assms(1,2) have "b * 2 \<le> b * f" by (intro mult_left_mono) simp_all
  moreover from assms(1) have "b < b * 2" by simp
  ultimately show ?thesis using assms(3) by linarith
qed

section \<open>Decimal rendering\<close>

text \<open>
  \<open>String_nat\<close> and \<open>String_int\<close> render a number in decimal, most significant
  digit first, with a leading minus sign for negative values and no padding: what
  \<^verbatim>\<open>String(CLOUD_IOT_CORE_MQTT_PORT)\<close> and the \<^verbatim>\<open>%i\<close> of \<^verbatim>\<open>Serial.printf\<close>
  produce. \<open>nat_of_digits\<close> reads such a text back.
\<close>

definition digit_char :: "nat \<Rightarrow> char" where
  "digit_char d = char_of (48 + d)"

fun String_nat :: "nat \<Rightarrow> string" where
  "String_nat n = (if n < 10 then [digit_char n] else String_nat (n div 10) @ [digit_char (n mod 10)])"

declare String_nat.simps [simp del]

definition String_int :: "int \<Rightarrow> string" where
  "String_int i = (if i < 0 then CHR ''-'' # String_nat (nat (- i)) else String_nat (nat i))"

definition digit_val :: "char \<Rightarrow> nat" where
  "digit_val c = of_char c - 48"

definition nat_of_digits :: "string \<Rightarrow> nat" where
  "nat_of_digits cs = foldl (\<lambda>acc c. 10 * acc + digit_val c) 0 cs"

lemma digit_char_simps:
  "digit_char 0 = CHR ''0''" "digit_char 1 = CHR ''1''" "digit_char (Suc 0) = CHR ''1''"
  "digit_char 2 = CHR ''2''" "digit_char 3 = CHR ''3''" "digit_char 4 = CHR ''4''"
  "digit_char 5 = CHR ''5''" "digit_char 6 = CHR ''6''" "digit_char 7 = CHR ''7''"
  "digit_char 8 = CHR ''8''" "digit_char 9 = CHR ''9''"
  by (simp_all add: digit_char_def char_of_def bit_0)

lemmas render_defs = String_int_def String_nat.simps digit_char_simps

lemma digit_val_digit_char [simp]: "d < 10 \<Longrightarrow> digit_val (digit_char d) = d"
  by (simp add: digit_val_def digit_char_def)

lemma String_nat_nonempty [simp]: "String_nat n \<noteq> []"
  by (subst String_nat.simps) simp

lemma nat_of_digits_snoc:
  "nat_of_digits (cs @ [c]) = 10 * nat_of_digits cs + digit_val c"
  by (simp add: nat_of_digits_def)

lemma nat_of_digits_String_nat: "nat_of_digits (String_nat n) = n"
proof (induction n rule: String_nat.induct)
  case (1 n)
  show ?case
  proof (cases "n < 10")
    case True
    then show ?thesis
      by (subst String_nat.simps) (simp add: nat_of_digits_def)
  next
    case False
    with "1.IH" have "nat_of_digits (String_nat (n div 10)) = n div 10" by simp
    with False show ?thesis
      by (subst String_nat.simps) (simp add: nat_of_digits_snoc)
  qed
qed

lemma String_nat_inj: "String_nat m = String_nat n \<Longrightarrow> m = n"
  by (metis nat_of_digits_String_nat)


section \<open>Reading decimal text back\<close>

definition int_of_digits :: "string \<Rightarrow> int" where
  "int_of_digits cs =
     (case cs of
        [] \<Rightarrow> 0
      | c # ds \<Rightarrow> if c = CHR ''-'' then - int (nat_of_digits ds) else int (nat_of_digits cs))"

lemma of_char_digit_char: "d < 10 \<Longrightarrow> of_char (digit_char d) = 48 + d"
  by (simp add: digit_char_def)

lemma digit_char_not_minus: "d < 10 \<Longrightarrow> digit_char d \<noteq> CHR ''-''"
proof
  assume "d < 10" and "digit_char d = CHR ''-''"
  then have "(of_char (CHR ''-'') :: nat) = 48 + d" by (simp add: of_char_digit_char[symmetric])
  then show False by simp
qed

lemma hd_String_nat: "hd (String_nat n) \<noteq> CHR ''-''"
proof (induction n rule: String_nat.induct)
  case (1 n)
  show ?case
  proof (cases "n < 10")
    case True
    then show ?thesis by (subst String_nat.simps) (simp add: digit_char_not_minus)
  next
    case False
    with "1.IH" show ?thesis by (subst String_nat.simps) simp
  qed
qed

lemma int_of_digits_String_nat: "int_of_digits (String_nat n) = int n"
proof (cases "String_nat n")
  case Nil
  then show ?thesis by simp
next
  case (Cons c ds)
  with hd_String_nat[of n] have "c \<noteq> CHR ''-''" by simp
  with Cons show ?thesis
    by (simp add: int_of_digits_def nat_of_digits_String_nat[of n, unfolded Cons])
qed

lemma int_of_digits_String_int: "int_of_digits (String_int i) = i"
  by (simp add: String_int_def int_of_digits_String_nat) (simp add: int_of_digits_def nat_of_digits_String_nat)

end
