(* ===== verification/Lwmqtt.thy ===== *)
theory Lwmqtt
  imports IoT_Prelude
begin

text \<open>
  The two code enumerations of the MQTT client library that
  \<^verbatim>\<open>src/src/CloudIoTCoreMqtt.cpp\<close> inspects: the transport error reported by
  \<^verbatim>\<open>mqttClient->lastError()\<close> and the broker's CONNACK code reported by
  \<^verbatim>\<open>mqttClient->returnCode()\<close>. Each datatype has one constructor per enumerator
  the source names, in the order of the \<^verbatim>\<open>switch\<close> that names them, and one more
  constructor for every value the source does not name (the \<^verbatim>\<open>default\<close> branch).
  Both types are instances of \<open>enum\<close>, so statements over all codes are decided by
  evaluation.
\<close>

section \<open>Transport errors\<close>

datatype lwmqtt_err_t =
    LWMQTT_SUCCESS
  | LWMQTT_BUFFER_TOO_SHORT
  | LWMQTT_VARNUM_OVERFLOW
  | LWMQTT_NETWORK_FAILED_CONNECT
  | LWMQTT_NETWORK_TIMEOUT
  | LWMQTT_NETWORK_FAILED_READ
  | LWMQTT_NETWORK_FAILED_WRITE
  | LWMQTT_REMAINING_LENGTH_OVERFLOW
  | LWMQTT_REMAINING_LENGTH_MISMATCH
  | LWMQTT_MISSING_OR_WRONG_PACKET
  | LWMQTT_CONNECTION_DENIED
  | LWMQTT_FAILED_SUBSCRIPTION
  | LWMQTT_SUBACK_ARRAY_OVERFLOW
  | LWMQTT_PONG_TIMEOUT
  | LWMQTT_ERR_UNLISTED

section \<open>Broker return codes\<close>

datatype lwmqtt_return_code_t =
    LWMQTT_CONNECTION_ACCEPTED
  | LWMQTT_UNACCEPTABLE_PROTOCOL
  | LWMQTT_IDENTIFIER_REJECTED
  | LWMQTT_SERVER_UNAVAILABLE
  | LWMQTT_BAD_USERNAME_OR_PASSWORD
  | LWMQTT_NOT_AUTHORIZED
  | LWMQTT_UNKNOWN_RETURN_CODE
  | LWMQTT_RC_UNLISTED

section \<open>Both enumerations are finite and enumerable\<close>

lemma UNIV_lwmqtt_err_t:
  "UNIV = {LWMQTT_SUCCESS, LWMQTT_BUFFER_TOO_SHORT, LWMQTT_VARNUM_OVERFLOW,
     LWMQTT_NETWORK_FAILED_CONNECT, LWMQTT_NETWORK_TIMEOUT, LWMQTT_NETWORK_FAILED_READ,
     LWMQTT_NETWORK_FAILED_WRITE, LWMQTT_REMAINING_LENGTH_OVERFLOW,
     LWMQTT_REMAINING_LENGTH_MISMATCH, LWMQTT_MISSING_OR_WRONG_PACKET,
     LWMQTT_CONNECTION_DENIED, LWMQTT_FAILED_SUBSCRIPTION, LWMQTT_SUBACK_ARRAY_OVERFLOW,
     LWMQTT_PONG_TIMEOUT, LWMQTT_ERR_UNLISTED}"
proof -
  have "e \<in> {LWMQTT_SUCCESS, LWMQTT_BUFFER_TOO_SHORT, LWMQTT_VARNUM_OVERFLOW,
     LWMQTT_NETWORK_FAILED_CONNECT, LWMQTT_NETWORK_TIMEOUT, LWMQTT_NETWORK_FAILED_READ,
     LWMQTT_NETWORK_FAILED_WRITE, LWMQTT_REMAINING_LENGTH_OVERFLOW,
     LWMQTT_REMAINING_LENGTH_MISMATCH, LWMQTT_MISSING_OR_WRONG_PACKET,
     LWMQTT_CONNECTION_DENIED, LWMQTT_FAILED_SUBSCRIPTION, LWMQTT_SUBACK_ARRAY_OVERFLOW,
     LWMQTT_PONG_TIMEOUT, LWMQTT_ERR_UNLISTED}" for e
    by (cases e) simp_all
  then show ?thesis by blast
qed

lemma UNIV_lwmqtt_return_code_t:
  "UNIV = {LWMQTT_CONNECTION_ACCEPTED, LWMQTT_UNACCEPTABLE_PROTOCOL,
     LWMQTT_IDENTIFIER_REJECTED, LWMQTT_SERVER_UNAVAILABLE, LWMQTT_BAD_USERNAME_OR_PASSWORD,
     LWMQTT_NOT_AUTHORIZED, LWMQTT_UNKNOWN_RETURN_CODE, LWMQTT_RC_UNLISTED}"
proof -
  have "c \<in> {LWMQTT_CONNECTION_ACCEPTED, LWMQTT_UNACCEPTABLE_PROTOCOL,
     LWMQTT_IDENTIFIER_REJECTED, LWMQTT_SERVER_UNAVAILABLE, LWMQTT_BAD_USERNAME_OR_PASSWORD,
     LWMQTT_NOT_AUTHORIZED, LWMQTT_UNKNOWN_RETURN_CODE, LWMQTT_RC_UNLISTED}" for c
    by (cases c) simp_all
  then show ?thesis by blast
qed

instantiation lwmqtt_err_t :: enum
begin

definition enum_lwmqtt_err_t :: "lwmqtt_err_t list" where
  "enum_lwmqtt_err_t =
    [LWMQTT_SUCCESS, LWMQTT_BUFFER_TOO_SHORT, LWMQTT_VARNUM_OVERFLOW,
     LWMQTT_NETWORK_FAILED_CONNECT, LWMQTT_NETWORK_TIMEOUT, LWMQTT_NETWORK_FAILED_READ,
     LWMQTT_NETWORK_FAILED_WRITE, LWMQTT_REMAINING_LENGTH_OVERFLOW,
     LWMQTT_REMAINING_LENGTH_MISMATCH, LWMQTT_MISSING_OR_WRONG_PACKET,
     LWMQTT_CONNECTION_DENIED, LWMQTT_FAILED_SUBSCRIPTION, LWMQTT_SUBACK_ARRAY_OVERFLOW,
     LWMQTT_PONG_TIMEOUT, LWMQTT_ERR_UNLISTED]"

definition enum_all_lwmqtt_err_t :: "(lwmqtt_err_t \<Rightarrow> bool) \<Rightarrow> bool" where
  "enum_all_lwmqtt_err_t P = list_all P (enum_class.enum :: lwmqtt_err_t list)"

definition enum_ex_lwmqtt_err_t :: "(lwmqtt_err_t \<Rightarrow> bool) \<Rightarrow> bool" where
  "enum_ex_lwmqtt_err_t P = list_ex P (enum_class.enum :: lwmqtt_err_t list)"

instance
proof
  show "UNIV = set (enum_class.enum :: lwmqtt_err_t list)"
    by (simp add: UNIV_lwmqtt_err_t enum_lwmqtt_err_t_def)
  show "distinct (enum_class.enum :: lwmqtt_err_t list)"
    by (simp add: enum_lwmqtt_err_t_def)
  show "enum_class.enum_all P = Ball UNIV P" for P :: "lwmqtt_err_t \<Rightarrow> bool"
    by (simp add: UNIV_lwmqtt_err_t enum_all_lwmqtt_err_t_def enum_lwmqtt_err_t_def)
  show "enum_class.enum_ex P = Bex UNIV P" for P :: "lwmqtt_err_t \<Rightarrow> bool"
    by (simp add: UNIV_lwmqtt_err_t enum_ex_lwmqtt_err_t_def enum_lwmqtt_err_t_def)
qed

end

instantiation lwmqtt_return_code_t :: enum
begin

definition enum_lwmqtt_return_code_t :: "lwmqtt_return_code_t list" where
  "enum_lwmqtt_return_code_t =
    [LWMQTT_CONNECTION_ACCEPTED, LWMQTT_UNACCEPTABLE_PROTOCOL, LWMQTT_IDENTIFIER_REJECTED,
     LWMQTT_SERVER_UNAVAILABLE, LWMQTT_BAD_USERNAME_OR_PASSWORD, LWMQTT_NOT_AUTHORIZED,
     LWMQTT_UNKNOWN_RETURN_CODE, LWMQTT_RC_UNLISTED]"

definition enum_all_lwmqtt_return_code_t :: "(lwmqtt_return_code_t \<Rightarrow> bool) \<Rightarrow> bool" where
  "enum_all_lwmqtt_return_code_t P = list_all P (enum_class.enum :: lwmqtt_return_code_t list)"

definition enum_ex_lwmqtt_return_code_t :: "(lwmqtt_return_code_t \<Rightarrow> bool) \<Rightarrow> bool" where
  "enum_ex_lwmqtt_return_code_t P = list_ex P (enum_class.enum :: lwmqtt_return_code_t list)"

instance
proof
  show "UNIV = set (enum_class.enum :: lwmqtt_return_code_t list)"
    by (simp add: UNIV_lwmqtt_return_code_t enum_lwmqtt_return_code_t_def)
  show "distinct (enum_class.enum :: lwmqtt_return_code_t list)"
    by (simp add: enum_lwmqtt_return_code_t_def)
  show "enum_class.enum_all P = Ball UNIV P" for P :: "lwmqtt_return_code_t \<Rightarrow> bool"
    by (simp add: UNIV_lwmqtt_return_code_t enum_all_lwmqtt_return_code_t_def
        enum_lwmqtt_return_code_t_def)
  show "enum_class.enum_ex P = Bex UNIV P" for P :: "lwmqtt_return_code_t \<Rightarrow> bool"
    by (simp add: UNIV_lwmqtt_return_code_t enum_ex_lwmqtt_return_code_t_def
        enum_lwmqtt_return_code_t_def)
qed

end

text \<open>
  A property of every code follows from its instances on the enumeration; the
  simplifier evaluates the right-hand sides.
\<close>

lemma all_lwmqtt_err_t: "(\<forall>e :: lwmqtt_err_t. P e) \<longleftrightarrow> list_all P enum_class.enum"
  by (simp add: list_all_iff enum_UNIV)

lemma all_lwmqtt_return_code_t:
  "(\<forall>c :: lwmqtt_return_code_t. P c) \<longleftrightarrow> list_all P enum_class.enum"
  by (simp add: list_all_iff enum_UNIV)

lemmas lwmqtt_enum_defs = enum_lwmqtt_err_t_def enum_lwmqtt_return_code_t_def

end
