(* ===== verification/Mqtt_State.thy ===== *)
theory Mqtt_State
  imports Lwmqtt
begin

text \<open>
  The state of a \<^verbatim>\<open>CloudIoTCoreMqtt\<close> object and its boundary with the collaborators
  it calls. The collaborators (the MQTT client \<^verbatim>\<open>mqttClient\<close>, the device identity
  \<^verbatim>\<open>device\<close>, the sketch's \<^verbatim>\<open>getJwt()\<close>, the Arduino core's \<^verbatim>\<open>millis()\<close> and
  \<^verbatim>\<open>random()\<close>) are not part of \<^verbatim>\<open>src/\<close>: they are an opaque world value \<open>'w\<close> and a
  record of operations over it, \<open>'w platform\<close>, one field per function the source
  calls. Every call that can change the world is also appended to the history
  \<open>calls\<close>, in the order the source makes it and together with the value it
  returned (the token of \<^verbatim>\<open>getJwt\<close>, the number of \<^verbatim>\<open>random\<close>, the results of
  \<^verbatim>\<open>connect\<close> and \<^verbatim>\<open>publish\<close>), so that ordering properties can be stated
  whatever the world does. \<^verbatim>\<open>Serial\<close> output is part of the same history.
  Three calculi over actions carry the frame conditions of the methods: \<open>calls_only\<close>
  (no member changes), \<open>appends\<close> (the history only grows) and \<open>emits\<close> (every call
  appended satisfies a given predicate).
\<close>

section \<open>Build-time constants\<close>

text \<open>
  The back-off constants \<^verbatim>\<open>__minbackoff__\<close>, \<^verbatim>\<open>__factor__\<close>, \<^verbatim>\<open>__jitter__\<close>,
  \<^verbatim>\<open>__max_backoff__\<close> and the macros \<^verbatim>\<open>CLOUD_IOT_CORE_MQTT_HOST\<close>,
  \<^verbatim>\<open>CLOUD_IOT_CORE_MQTT_HOST_LTS\<close>, \<^verbatim>\<open>CLOUD_IOT_CORE_MQTT_PORT\<close>,
  \<^verbatim>\<open>CLOUD_IOT_CORE_HTTP_PORT\<close> are declared in the class header; the source only
  reads them. They are parameters of the model.
\<close>

record config =
  minbackoff :: int
  factor :: int
  jitter :: int
  max_backoff :: int
  mqtt_host :: string
  mqtt_host_lts :: string
  mqtt_port :: int
  http_port :: int

section \<open>The history of external calls\<close>

datatype serial_out =
    Print string
  | Println string
  | Println_err lwmqtt_err_t
  | Println_rc lwmqtt_return_code_t

datatype pub =
    Pub topic payload
  | PubQos topic payload bool int
  | PubRaw topic payload int

datatype call =
    Serial serial_out
  | GetJwt string
  | Random int int
  | Connect string string string bool bool
  | Disconnect
  | Subscribe topic int
  | Publish pub bool
  | Pump
  | Begin string int
  | OnMessage

text \<open>
  Which recorded calls open a session, which ask for a token, and which talk to the
  broker at all.
\<close>

fun is_connect :: "call \<Rightarrow> bool" where
  "is_connect (Connect clientId username password skip res) = True"
| "is_connect c = False"

fun is_getJwt :: "call \<Rightarrow> bool" where
  "is_getJwt (GetJwt tok) = True"
| "is_getJwt c = False"

fun on_wire :: "call \<Rightarrow> bool" where
  "on_wire (Serial out) = False"
| "on_wire (GetJwt tok) = False"
| "on_wire (Random n r) = False"
| "on_wire c = True"

section \<open>The collaborators as an interface\<close>

record 'w platform =
  sys_millis :: "'w \<Rightarrow> millis_t"
  sys_random :: "int \<Rightarrow> 'w \<Rightarrow> int \<times> 'w"
  sys_getJwt :: "'w \<Rightarrow> (string \<times> int) \<times> 'w"
  mc_connect :: "string \<Rightarrow> string \<Rightarrow> string \<Rightarrow> bool \<Rightarrow> 'w \<Rightarrow> bool \<times> 'w"
  mc_connected :: "'w \<Rightarrow> bool"
  mc_disconnect :: "'w \<Rightarrow> 'w"
  mc_subscribe :: "topic \<Rightarrow> int \<Rightarrow> 'w \<Rightarrow> 'w"
  mc_publish :: "pub \<Rightarrow> 'w \<Rightarrow> bool \<times> 'w"
  mc_lastError :: "'w \<Rightarrow> lwmqtt_err_t"
  mc_returnCode :: "'w \<Rightarrow> lwmqtt_return_code_t"
  mc_loop :: "'w \<Rightarrow> 'w"
  mc_begin :: "string \<Rightarrow> int \<Rightarrow> 'w \<Rightarrow> 'w"
  mc_onMessage :: "'w \<Rightarrow> 'w"
  dev_getExpMillis :: "'w \<Rightarrow> millis_t"
  dev_getClientId :: "'w \<Rightarrow> string"
  dev_getConfigTopic :: "'w \<Rightarrow> topic"
  dev_getCommandsTopic :: "'w \<Rightarrow> topic"
  dev_getEventsTopic :: "'w \<Rightarrow> topic"
  dev_getStateTopic :: "'w \<Rightarrow> topic"
  dev_getDeviceId :: "'w \<Rightarrow> string"

section \<open>The object\<close>

text \<open>
  One field per member the source reads or writes: \<^verbatim>\<open>__backoff__\<close>,
  \<^verbatim>\<open>__last_retry_at\<close>, \<^verbatim>\<open>logConnect\<close>, \<^verbatim>\<open>useLts\<close>, \<^verbatim>\<open>use443Port\<close>, the token
  \<^verbatim>\<open>jwt\<close> with its issued-at instant \<^verbatim>\<open>iat\<close>; then the history and the world the
  three pointers \<^verbatim>\<open>mqttClient\<close>, \<^verbatim>\<open>netClient\<close>, \<^verbatim>\<open>device\<close> lead to.
\<close>

record 'w mqtt =
  backoff :: int
  last_retry_at :: millis_t
  logConnect :: bool
  useLts :: bool
  use443Port :: bool
  iat :: int
  jwt :: string
  calls :: "call list"
  world :: 'w

section \<open>Calling out\<close>

text \<open>
  \<open>ext c f\<close> performs the world operation \<open>f\<close> and records the call \<open>c\<close> applied to
  the value \<open>f\<close> returned; \<open>ext_unit\<close> is the same for operations that return nothing;
  \<open>ask f\<close> reads the world without changing it; \<open>serial out\<close> records output
  written to \<^verbatim>\<open>Serial\<close>.
\<close>

definition ext :: "('a \<Rightarrow> call) \<Rightarrow> ('w \<Rightarrow> 'a \<times> 'w) \<Rightarrow> ('w mqtt, 'a) state" where
  "ext c f = State (\<lambda>s. case f (world s) of
     (a, w) \<Rightarrow> (a, s\<lparr>calls := calls s @ [c a], world := w\<rparr>))"

definition ext_unit :: "call \<Rightarrow> ('w \<Rightarrow> 'w) \<Rightarrow> ('w mqtt, unit) state" where
  "ext_unit c f = ext (\<lambda>_. c) (\<lambda>w. ((), f w))"

definition ask :: "('w \<Rightarrow> 'a) \<Rightarrow> ('w mqtt, 'a) state" where
  "ask f = gets (\<lambda>s. f (world s))"

definition serial :: "serial_out \<Rightarrow> ('w mqtt, unit) state" where
  "serial out = modify (\<lambda>s. s\<lparr>calls := calls s @ [Serial out]\<rparr>)"

lemma run_ext [simp]:
  "run_state (ext c f) s =
     (fst (f (world s)),
      s\<lparr>calls := calls s @ [c (fst (f (world s)))], world := snd (f (world s))\<rparr>)"
  by (simp add: ext_def case_prod_beta)

lemma run_ext_unit [simp]:
  "run_state (ext_unit c f) s = ((), s\<lparr>calls := calls s @ [c], world := f (world s)\<rparr>)"
  by (simp add: ext_unit_def)

lemma run_ask [simp]: "run_state (ask f) s = (f (world s), s)"
  by (simp add: ask_def)

lemma run_serial [simp]:
  "run_state (serial out) s = ((), s\<lparr>calls := calls s @ [Serial out]\<rparr>)"
  by (simp add: serial_def)

subsection \<open>One action per callee\<close>

definition Serial_print :: "string \<Rightarrow> ('w mqtt, unit) state" where
  "Serial_print str = serial (Print str)"

definition Serial_println :: "string \<Rightarrow> ('w mqtt, unit) state" where
  "Serial_println str = serial (Println str)"

definition millis :: "'w platform \<Rightarrow> ('w mqtt, millis_t) state" where
  "millis I = ask (sys_millis I)"

definition random :: "'w platform \<Rightarrow> int \<Rightarrow> ('w mqtt, int) state" where
  "random I howbig = ext (Random howbig) (sys_random I howbig)"

text \<open>
  \<^verbatim>\<open>getJwt()\<close> is the sketch's callback (declared on line 18 of the source). It
  mints a token and, as the credential provider of the specification, records the
  instant the token was issued: the action returns the token text and stores the
  reported instant in \<open>iat\<close>.
\<close>

definition getJwt :: "'w platform \<Rightarrow> ('w mqtt, string) state" where
  "getJwt I = do {
     minted \<leftarrow> ext (\<lambda>m. GetJwt (fst m)) (sys_getJwt I);
     modify (\<lambda>s. s\<lparr>iat := snd minted\<rparr>);
     State_Monad.return (fst minted)
   }"

definition mqttClient_connect ::
  "'w platform \<Rightarrow> string \<Rightarrow> string \<Rightarrow> string \<Rightarrow> bool \<Rightarrow> ('w mqtt, bool) state" where
  "mqttClient_connect I clientId username password skip =
     ext (Connect clientId username password skip)
       (mc_connect I clientId username password skip)"

definition mqttClient_connected :: "'w platform \<Rightarrow> ('w mqtt, bool) state" where
  "mqttClient_connected I = ask (mc_connected I)"

definition mqttClient_disconnect :: "'w platform \<Rightarrow> ('w mqtt, unit) state" where
  "mqttClient_disconnect I = ext_unit Disconnect (mc_disconnect I)"

definition mqttClient_subscribe :: "'w platform \<Rightarrow> topic \<Rightarrow> int \<Rightarrow> ('w mqtt, unit) state" where
  "mqttClient_subscribe I t qos = ext_unit (Subscribe t qos) (mc_subscribe I t qos)"

definition mqttClient_publish :: "'w platform \<Rightarrow> pub \<Rightarrow> ('w mqtt, bool) state" where
  "mqttClient_publish I p = ext (Publish p) (mc_publish I p)"

definition mqttClient_lastError :: "'w platform \<Rightarrow> ('w mqtt, lwmqtt_err_t) state" where
  "mqttClient_lastError I = ask (mc_lastError I)"

definition mqttClient_returnCode :: "'w platform \<Rightarrow> ('w mqtt, lwmqtt_return_code_t) state" where
  "mqttClient_returnCode I = ask (mc_returnCode I)"

definition mqttClient_loop :: "'w platform \<Rightarrow> ('w mqtt, unit) state" where
  "mqttClient_loop I = ext_unit Pump (mc_loop I)"

definition mqttClient_begin :: "'w platform \<Rightarrow> string \<Rightarrow> int \<Rightarrow> ('w mqtt, unit) state" where
  "mqttClient_begin I host port = ext_unit (Begin host port) (mc_begin I host port)"

definition mqttClient_onMessage :: "'w platform \<Rightarrow> ('w mqtt, unit) state" where
  "mqttClient_onMessage I = ext_unit OnMessage (mc_onMessage I)"

lemmas callee_defs =
  Serial_print_def Serial_println_def millis_def random_def getJwt_def
  mqttClient_connect_def mqttClient_connected_def mqttClient_disconnect_def
  mqttClient_subscribe_def mqttClient_publish_def mqttClient_lastError_def
  mqttClient_returnCode_def mqttClient_loop_def mqttClient_begin_def
  mqttClient_onMessage_def

subsection \<open>Run equations of the callee actions\<close>

lemma run_Serial_print [simp]:
  "run_state (Serial_print str) s = ((), s\<lparr>calls := calls s @ [Serial (Print str)]\<rparr>)"
  by (simp add: Serial_print_def)

lemma run_Serial_println [simp]:
  "run_state (Serial_println str) s = ((), s\<lparr>calls := calls s @ [Serial (Println str)]\<rparr>)"
  by (simp add: Serial_println_def)

lemma run_millis [simp]: "run_state (millis I) s = (sys_millis I (world s), s)"
  by (simp add: millis_def)

lemma run_random [simp]:
  "run_state (random I n) s =
     (fst (sys_random I n (world s)),
      s\<lparr>calls := calls s @ [Random n (fst (sys_random I n (world s)))],
        world := snd (sys_random I n (world s))\<rparr>)"
  by (simp add: random_def)

lemma run_getJwt [simp]:
  "run_state (getJwt I) s =
     (fst (fst (sys_getJwt I (world s))),
      s\<lparr>iat := snd (fst (sys_getJwt I (world s))),
        calls := calls s @ [GetJwt (fst (fst (sys_getJwt I (world s))))],
        world := snd (sys_getJwt I (world s))\<rparr>)"
  by (simp add: getJwt_def)

lemma run_mqttClient_connect [simp]:
  "run_state (mqttClient_connect I c u p k) s =
     (fst (mc_connect I c u p k (world s)),
      s\<lparr>calls := calls s @ [Connect c u p k (fst (mc_connect I c u p k (world s)))],
        world := snd (mc_connect I c u p k (world s))\<rparr>)"
  by (simp add: mqttClient_connect_def)

lemma run_mqttClient_connected [simp]:
  "run_state (mqttClient_connected I) s = (mc_connected I (world s), s)"
  by (simp add: mqttClient_connected_def)

lemma run_mqttClient_disconnect [simp]:
  "run_state (mqttClient_disconnect I) s =
     ((), s\<lparr>calls := calls s @ [Disconnect], world := mc_disconnect I (world s)\<rparr>)"
  by (simp add: mqttClient_disconnect_def)

lemma run_mqttClient_subscribe [simp]:
  "run_state (mqttClient_subscribe I t q) s =
     ((), s\<lparr>calls := calls s @ [Subscribe t q], world := mc_subscribe I t q (world s)\<rparr>)"
  by (simp add: mqttClient_subscribe_def)

lemma run_mqttClient_publish [simp]:
  "run_state (mqttClient_publish I p) s =
     (fst (mc_publish I p (world s)),
      s\<lparr>calls := calls s @ [Publish p (fst (mc_publish I p (world s)))],
        world := snd (mc_publish I p (world s))\<rparr>)"
  by (simp add: mqttClient_publish_def)

lemma run_mqttClient_lastError [simp]:
  "run_state (mqttClient_lastError I) s = (mc_lastError I (world s), s)"
  by (simp add: mqttClient_lastError_def)

lemma run_mqttClient_returnCode [simp]:
  "run_state (mqttClient_returnCode I) s = (mc_returnCode I (world s), s)"
  by (simp add: mqttClient_returnCode_def)

lemma run_mqttClient_loop [simp]:
  "run_state (mqttClient_loop I) s =
     ((), s\<lparr>calls := calls s @ [Pump], world := mc_loop I (world s)\<rparr>)"
  by (simp add: mqttClient_loop_def)

lemma run_mqttClient_begin [simp]:
  "run_state (mqttClient_begin I h p) s =
     ((), s\<lparr>calls := calls s @ [Begin h p], world := mc_begin I h p (world s)\<rparr>)"
  by (simp add: mqttClient_begin_def)

lemma run_mqttClient_onMessage [simp]:
  "run_state (mqttClient_onMessage I) s =
     ((), s\<lparr>calls := calls s @ [OnMessage], world := mc_onMessage I (world s)\<rparr>)"
  by (simp add: mqttClient_onMessage_def)

subsection \<open>Final state and result of the primitive and callee actions\<close>

lemma exec_prims [simp]:
  "exec (ext c f) s = s\<lparr>calls := calls s @ [c (fst (f (world s)))], world := snd (f (world s))\<rparr>"
  "exec (ext_unit c' g) s = s\<lparr>calls := calls s @ [c'], world := g (world s)\<rparr>"
  "exec (ask h) s = s"
  "exec (serial out) s = s\<lparr>calls := calls s @ [Serial out]\<rparr>"
  by (simp_all add: exec_def)

lemma result_prims [simp]:
  "result (ext c f) s = fst (f (world s))"
  "result (ask h) s = h (world s)"
  by (simp_all add: result_def)

lemma exec_callee [simp]:
  "exec (Serial_print str) s = s\<lparr>calls := calls s @ [Serial (Print str)]\<rparr>"
  "exec (Serial_println str) s = s\<lparr>calls := calls s @ [Serial (Println str)]\<rparr>"
  "exec (millis I) s = s"
  "exec (random I n) s =
     s\<lparr>calls := calls s @ [Random n (fst (sys_random I n (world s)))],
       world := snd (sys_random I n (world s))\<rparr>"
  "exec (getJwt I) s =
     s\<lparr>iat := snd (fst (sys_getJwt I (world s))),
       calls := calls s @ [GetJwt (fst (fst (sys_getJwt I (world s))))],
       world := snd (sys_getJwt I (world s))\<rparr>"
  "exec (mqttClient_connect I c u p k) s =
     s\<lparr>calls := calls s @ [Connect c u p k (fst (mc_connect I c u p k (world s)))],
       world := snd (mc_connect I c u p k (world s))\<rparr>"
  "exec (mqttClient_connected I) s = s"
  "exec (mqttClient_disconnect I) s =
     s\<lparr>calls := calls s @ [Disconnect], world := mc_disconnect I (world s)\<rparr>"
  "exec (mqttClient_subscribe I t q) s =
     s\<lparr>calls := calls s @ [Subscribe t q], world := mc_subscribe I t q (world s)\<rparr>"
  "exec (mqttClient_publish I pb) s =
     s\<lparr>calls := calls s @ [Publish pb (fst (mc_publish I pb (world s)))],
       world := snd (mc_publish I pb (world s))\<rparr>"
  "exec (mqttClient_lastError I) s = s"
  "exec (mqttClient_returnCode I) s = s"
  "exec (mqttClient_loop I) s = s\<lparr>calls := calls s @ [Pump], world := mc_loop I (world s)\<rparr>"
  "exec (mqttClient_begin I h pt) s =
     s\<lparr>calls := calls s @ [Begin h pt], world := mc_begin I h pt (world s)\<rparr>"
  "exec (mqttClient_onMessage I) s =
     s\<lparr>calls := calls s @ [OnMessage], world := mc_onMessage I (world s)\<rparr>"
  by (simp_all add: exec_def)

lemma result_callee [simp]:
  "result (millis I) s = sys_millis I (world s)"
  "result (random I n) s = fst (sys_random I n (world s))"
  "result (getJwt I) s = fst (fst (sys_getJwt I (world s)))"
  "result (mqttClient_connect I c u p k) s = fst (mc_connect I c u p k (world s))"
  "result (mqttClient_connected I) s = mc_connected I (world s)"
  "result (mqttClient_publish I pb) s = fst (mc_publish I pb (world s))"
  "result (mqttClient_lastError I) s = mc_lastError I (world s)"
  "result (mqttClient_returnCode I) s = mc_returnCode I (world s)"
  by (simp_all add: result_def)

section \<open>Actions that leave the object's own fields alone\<close>

text \<open>
  A predicate that reads neither the history nor the world is preserved by every
  call that only appends to the history and changes the world.
\<close>

definition own_fields :: "('w mqtt \<Rightarrow> bool) \<Rightarrow> bool" where
  "own_fields P \<longleftrightarrow> (\<forall>s cs w. P (s\<lparr>calls := cs, world := w\<rparr>) = P s)"

lemma own_fieldsD: "own_fields P \<Longrightarrow> P (s\<lparr>calls := cs, world := w\<rparr>) = P s"
  by (simp add: own_fields_def)

lemma own_fields_calls: "own_fields P \<Longrightarrow> P (s\<lparr>calls := cs\<rparr>) = P s"
  using own_fieldsD[where P = P and s = s and cs = cs and w = "world s"] by simp

lemma preserves_ext [preserves_intros]: "own_fields P \<Longrightarrow> preserves P (ext c f)"
  by (simp add: preserves_def exec_def own_fieldsD)

lemma preserves_ext_unit [preserves_intros]: "own_fields P \<Longrightarrow> preserves P (ext_unit c f)"
  by (simp add: preserves_def exec_def own_fieldsD)

lemma preserves_ask [preserves_intros]: "preserves P (ask f)"
  by (simp add: preserves_def exec_def)

lemma preserves_serial [preserves_intros]: "own_fields P \<Longrightarrow> preserves P (serial out)"
  by (simp add: preserves_def exec_def own_fields_calls)

lemma preserves_callee [preserves_intros]:
  assumes "own_fields P"
  shows "preserves P (Serial_print str)"
    and "preserves P (Serial_println str)"
    and "preserves P (millis I)"
    and "preserves P (random I n)"
    and "preserves P (mqttClient_connect I c u p k)"
    and "preserves P (mqttClient_connected I)"
    and "preserves P (mqttClient_disconnect I)"
    and "preserves P (mqttClient_subscribe I t q)"
    and "preserves P (mqttClient_publish I pb)"
    and "preserves P (mqttClient_lastError I)"
    and "preserves P (mqttClient_returnCode I)"
    and "preserves P (mqttClient_loop I)"
    and "preserves P (mqttClient_begin I h pt)"
    and "preserves P (mqttClient_onMessage I)"
  unfolding callee_defs by (intro preserves_intros assms)+

section \<open>Actions that only call out\<close>

text \<open>
  \<open>members s\<close> are the object's own fields. An action is \<open>calls_only\<close> when it
  leaves them all unchanged: whatever it does, it does to the history and the world.
  The rules decompose an action as those for \<open>preserves\<close> do.
\<close>

named_theorems calls_only_intros
  "introduction rules for actions that leave the object's members unchanged"

definition members :: "'w mqtt \<Rightarrow> int \<times> millis_t \<times> bool \<times> bool \<times> bool \<times> int \<times> string" where
  "members s =
     (backoff s, last_retry_at s, logConnect s, useLts s, use443Port s, iat s, jwt s)"

definition calls_only :: "('w mqtt, 'a) state \<Rightarrow> bool" where
  "calls_only m \<longleftrightarrow> (\<forall>s. members (exec m s) = members s)"

lemma calls_only_frame [simp]:
  assumes "calls_only m"
  shows "backoff (exec m s) = backoff s"
    and "last_retry_at (exec m s) = last_retry_at s"
    and "logConnect (exec m s) = logConnect s"
    and "useLts (exec m s) = useLts s"
    and "use443Port (exec m s) = use443Port s"
    and "iat (exec m s) = iat s"
    and "jwt (exec m s) = jwt s"
  using assms by (auto simp: calls_only_def members_def dest: spec[where x = s])

lemma calls_only_members: "calls_only m \<Longrightarrow> members (exec m s) = members s"
  by (simp add: calls_only_def)

lemma calls_only_return [calls_only_intros, simp]: "calls_only (State_Monad.return x)"
  by (simp add: calls_only_def)

lemma calls_only_gets [calls_only_intros, simp]: "calls_only (gets f)"
  by (simp add: calls_only_def)

lemma calls_only_bind [calls_only_intros]:
  "calls_only m \<Longrightarrow> (\<And>x. calls_only (f x)) \<Longrightarrow> calls_only (State_Monad.bind m f)"
  by (simp add: calls_only_def)

lemma calls_only_whenM [calls_only_intros]: "calls_only m \<Longrightarrow> calls_only (whenM c m)"
  by (simp add: calls_only_def)

lemma calls_only_if [calls_only_intros]:
  "calls_only m \<Longrightarrow> calls_only n \<Longrightarrow> calls_only (if c then m else n)"
  by (simp add: calls_only_def)

lemma calls_only_prims [calls_only_intros, simp]:
  "calls_only (ext c f)" "calls_only (ext_unit c' g)" "calls_only (ask h)"
  "calls_only (serial out)"
  by (simp_all add: calls_only_def exec_def members_def)

lemma calls_only_callee [calls_only_intros, simp]:
  "calls_only (Serial_print str)" "calls_only (Serial_println str)" "calls_only (millis I)"
  "calls_only (random I n)" "calls_only (mqttClient_connect I c u p k)"
  "calls_only (mqttClient_connected I)" "calls_only (mqttClient_disconnect I)"
  "calls_only (mqttClient_subscribe I t q)" "calls_only (mqttClient_publish I pb)"
  "calls_only (mqttClient_lastError I)" "calls_only (mqttClient_returnCode I)"
  "calls_only (mqttClient_loop I)" "calls_only (mqttClient_begin I h pt)"
  "calls_only (mqttClient_onMessage I)"
  by (simp_all add: callee_defs)

lemma calls_only_preserves:
  "calls_only m \<Longrightarrow> (\<And>s t. members s = members t \<Longrightarrow> P s = P t) \<Longrightarrow> preserves P m"
  by (metis calls_only_members preserves_def)

section \<open>The history only grows\<close>

definition appends :: "('w mqtt, 'a) state \<Rightarrow> bool" where
  "appends m \<longleftrightarrow> (\<forall>s. \<exists>cs. calls (exec m s) = calls s @ cs)"

lemma appendsD: "appends m \<Longrightarrow> \<exists>cs. calls (exec m s) = calls s @ cs"
  by (simp add: appends_def)

lemma appends_return [simp]: "appends (State_Monad.return x)"
  by (simp add: appends_def)

lemma appends_gets [simp]: "appends (gets f)"
  by (simp add: appends_def)

lemma appends_bind: "appends m \<Longrightarrow> (\<And>x. appends (f x)) \<Longrightarrow> appends (State_Monad.bind m f)"
  unfolding appends_def
proof
  fix s
  assume m: "\<forall>s. \<exists>cs. calls (exec m s) = calls s @ cs"
    and f: "\<And>x. \<forall>s. \<exists>cs. calls (exec (f x) s) = calls s @ cs"
  from m obtain cs where cs: "calls (exec m s) = calls s @ cs" by blast
  from f obtain ds where "calls (exec (f (result m s)) (exec m s)) = calls (exec m s) @ ds"
    by blast
  with cs show "\<exists>cs. calls (exec (State_Monad.bind m f) s) = calls s @ cs" by simp
qed

lemma appends_whenM: "appends m \<Longrightarrow> appends (whenM c m)"
  by (simp add: appends_def)

lemma appends_if: "appends m \<Longrightarrow> appends n \<Longrightarrow> appends (if c then m else n)"
  by (simp add: appends_def)

lemma appends_prims [simp]:
  "appends (ext c f)" "appends (ext_unit c' g)" "appends (ask h)" "appends (serial out)"
  by (simp_all add: appends_def exec_def)

lemma appends_modify: "(\<And>s. calls (f s) = calls s) \<Longrightarrow> appends (modify f)"
  by (simp add: appends_def)

lemma appends_callee [simp]:
  "appends (Serial_print str)" "appends (Serial_println str)" "appends (millis I)"
  "appends (random I n)" "appends (mqttClient_connect I c u p k)"
  "appends (mqttClient_connected I)" "appends (mqttClient_disconnect I)"
  "appends (mqttClient_subscribe I t q)" "appends (mqttClient_publish I pb)"
  "appends (mqttClient_lastError I)" "appends (mqttClient_returnCode I)"
  "appends (mqttClient_loop I)" "appends (mqttClient_begin I h pt)"
  "appends (mqttClient_onMessage I)" "appends (getJwt I)"
  by (simp_all add: callee_defs appends_bind appends_modify)

lemmas appends_intros = appends_bind appends_whenM appends_if appends_modify

section \<open>What the model assumes of the collaborators, where it assumes anything\<close>

text \<open>
  Theorems that depend on the behaviour of a collaborator name the assumption
  they need. \<open>random_in_range\<close>: the Arduino \<^verbatim>\<open>random(howbig)\<close> returns a value in
  \<open>[0, howbig)\<close>, and 0 when \<open>howbig\<close> is 0. \<open>disconnect_disconnects\<close>: after
  \<^verbatim>\<open>disconnect()\<close> the client reports not connected. \<open>connect_coherent\<close>: the
  result of \<^verbatim>\<open>connect\<close> agrees with \<^verbatim>\<open>connected()\<close> and with
  \<^verbatim>\<open>lastError() == LWMQTT_SUCCESS\<close> afterwards. \<open>publish_needs_connection\<close>: a
  publish on a client that is not connected returns false.
\<close>

definition random_in_range :: "'w platform \<Rightarrow> bool" where
  "random_in_range I \<longleftrightarrow>
     (\<forall>n w. 0 \<le> fst (sys_random I n w) \<and> (0 < n \<longrightarrow> fst (sys_random I n w) < n))"

definition disconnect_disconnects :: "'w platform \<Rightarrow> bool" where
  "disconnect_disconnects I \<longleftrightarrow> (\<forall>w. \<not> mc_connected I (mc_disconnect I w))"

definition connect_coherent :: "'w platform \<Rightarrow> bool" where
  "connect_coherent I \<longleftrightarrow>
     (\<forall>c u p k w. fst (mc_connect I c u p k w) = mc_connected I (snd (mc_connect I c u p k w))
        \<and> fst (mc_connect I c u p k w)
            = (mc_lastError I (snd (mc_connect I c u p k w)) = LWMQTT_SUCCESS))"

definition publish_needs_connection :: "'w platform \<Rightarrow> bool" where
  "publish_needs_connection I \<longleftrightarrow> (\<forall>p w. \<not> mc_connected I w \<longrightarrow> \<not> fst (mc_publish I p w))"

lemma random_in_rangeD:
  "random_in_range I \<Longrightarrow> 0 \<le> fst (sys_random I n w)"
  "random_in_range I \<Longrightarrow> 0 < n \<Longrightarrow> fst (sys_random I n w) < n"
  by (simp_all add: random_in_range_def)


section \<open>Actions that emit only calls of a given kind\<close>

text \<open>
  \<open>emits P m\<close>: whatever state \<open>m\<close> starts in, it only appends to the history, and
  every call it appends satisfies \<open>P\<close>. The rules follow the structure of an action,
  so a property of all calls of a method is proved from the calls it makes itself.
\<close>

definition emits :: "(call \<Rightarrow> bool) \<Rightarrow> ('w mqtt, 'a) state \<Rightarrow> bool" where
  "emits P m \<longleftrightarrow> (\<forall>s. \<exists>cs. calls (exec m s) = calls s @ cs \<and> list_all P cs)"

lemma emitsD: "emits P m \<Longrightarrow> \<exists>cs. calls (exec m s) = calls s @ cs \<and> list_all P cs"
  by (simp add: emits_def)

lemma emitsI: "(\<And>s. calls (exec m s) = calls s @ cs s \<and> list_all P (cs s)) \<Longrightarrow> emits P m"
  unfolding emits_def by blast

lemma emits_keeps:
  assumes "emits P m" and "list_all P (calls s)"
  shows "list_all P (calls (exec m s))"
  using emitsD[OF assms(1), of s] assms(2) by auto

lemma emits_return [simp]: "emits P (State_Monad.return x)"
  by (simp add: emits_def)

lemma emits_gets [simp]: "emits P (gets f)"
  by (simp add: emits_def)

lemma emits_bind: "emits P m \<Longrightarrow> (\<And>x. emits P (f x)) \<Longrightarrow> emits P (State_Monad.bind m f)"
  unfolding emits_def
proof
  fix s
  assume m: "\<forall>s. \<exists>cs. calls (exec m s) = calls s @ cs \<and> list_all P cs"
    and f: "\<And>x. \<forall>s. \<exists>cs. calls (exec (f x) s) = calls s @ cs \<and> list_all P cs"
  from m obtain cs where cs: "calls (exec m s) = calls s @ cs" "list_all P cs" by blast
  from f obtain ds where "calls (exec (f (result m s)) (exec m s)) = calls (exec m s) @ ds"
    and "list_all P ds" by blast
  with cs have "calls (exec (State_Monad.bind m f) s) = calls s @ (cs @ ds) \<and> list_all P (cs @ ds)"
    by simp
  then show "\<exists>cs. calls (exec (State_Monad.bind m f) s) = calls s @ cs \<and> list_all P cs" ..
qed

lemma emits_whenM: "emits P m \<Longrightarrow> emits P (whenM c m)"
  by (simp add: emits_def)

lemma emits_if: "emits P m \<Longrightarrow> emits P n \<Longrightarrow> emits P (if c then m else n)"
  by (simp add: emits_def)

lemma emits_modify: "(\<And>s. calls (f s) = calls s) \<Longrightarrow> emits P (modify f)"
  by (simp add: emits_def)

lemma emits_prims:
  "(\<And>a. P (c a)) \<Longrightarrow> emits P (ext c f)" "P c' \<Longrightarrow> emits P (ext_unit c' g)" "emits P (ask h)"
  "P (Serial out) \<Longrightarrow> emits P (serial out)"
  by (simp_all add: emits_def)

lemma emits_callee:
  "P (Serial (Print str)) \<Longrightarrow> emits P (Serial_print str)"
  "P (Serial (Println str)) \<Longrightarrow> emits P (Serial_println str)"
  "emits P (millis I)" "(\<And>r. P (Random n r)) \<Longrightarrow> emits P (random I n)"
  "(\<And>tok. P (GetJwt tok)) \<Longrightarrow> emits P (getJwt I)"
  "(\<And>r. P (Connect c u p k r)) \<Longrightarrow> emits P (mqttClient_connect I c u p k)"
  "emits P (mqttClient_connected I)" "P Disconnect \<Longrightarrow> emits P (mqttClient_disconnect I)"
  "P (Subscribe t q) \<Longrightarrow> emits P (mqttClient_subscribe I t q)"
  "(\<And>r. P (Publish pb r)) \<Longrightarrow> emits P (mqttClient_publish I pb)"
  "emits P (mqttClient_lastError I)" "emits P (mqttClient_returnCode I)"
  "P Pump \<Longrightarrow> emits P (mqttClient_loop I)" "P (Begin h pt) \<Longrightarrow> emits P (mqttClient_begin I h pt)"
  "P OnMessage \<Longrightarrow> emits P (mqttClient_onMessage I)"
  by (simp_all add: emits_def)

lemmas emits_intros = emits_bind emits_whenM emits_if emits_modify emits_callee emits_prims

lemma emits_appends: "emits P m \<Longrightarrow> appends m"
  unfolding emits_def appends_def by blast

section \<open>Actions that move the collaborators along a relation\<close>

text \<open>
  \<open>moves R m\<close>: whatever state \<open>m\<close> starts in, the world it leaves is related by
  \<open>R\<close> to the world it found. For a reflexive and transitive \<open>R\<close> the rules follow
  the structure of an action, so what a method does to the collaborators is proved
  from what each call on a collaborator does.
\<close>

definition moves :: "('w \<Rightarrow> 'w \<Rightarrow> bool) \<Rightarrow> ('w mqtt, 'a) state \<Rightarrow> bool" where
  "moves R m \<longleftrightarrow> (\<forall>s. R (world s) (world (exec m s)))"

lemma movesD: "moves R m \<Longrightarrow> R (world s) (world (exec m s))"
  by (simp add: moves_def)

lemma moves_pure:
  assumes "reflp R"
  shows "moves R (State_Monad.return x)" and "moves R (gets f)" and "moves R (ask h)"
    and "moves R (serial out)"
  using assms by (simp_all add: moves_def reflp_def ask_def serial_def)

lemma moves_modify:
  assumes "reflp R" and "\<And>s. world (f s) = world s"
  shows "moves R (modify f)"
  using assms by (simp add: moves_def reflp_def)

lemma moves_bind:
  assumes "transp R" and "moves R m" and "\<And>x. moves R (f x)"
  shows "moves R (State_Monad.bind m f)"
  unfolding moves_def
proof
  fix s
  from assms(2,3) have "R (world s) (world (exec m s))"
    and "R (world (exec m s)) (world (exec (f (result m s)) (exec m s)))"
    by (simp_all add: moves_def)
  with assms(1) show "R (world s) (world (exec (State_Monad.bind m f) s))"
    by (auto dest: transpD)
qed

lemma moves_branch:
  assumes "reflp R"
  shows "moves R m \<Longrightarrow> moves R (whenM c m)"
    and "moves R m \<Longrightarrow> moves R n \<Longrightarrow> moves R (if c then m else n)"
  using assms by (simp_all add: moves_def reflp_def)

lemma moves_prims:
  "(\<And>w. R w (snd (f w))) \<Longrightarrow> moves R (ext c f)"
  "(\<And>w. R w (g w)) \<Longrightarrow> moves R (ext_unit c' g)"
  by (simp_all add: moves_def exec_def ext_def ext_unit_def case_prod_beta)

end
