(* ===== verification/Sim_World.thy ===== *)
theory Sim_World
  imports Mqtt_State
begin

text \<open>
  An executable implementation of the collaborator interface \<open>'w platform\<close>: a
  device with a millisecond clock, a broker whose answers to the coming connection
  attempts are scripted, a random source whose coming raw draws are listed, and a
  credential provider that stamps each token with the wall clock. It stands for the
  MQTT client library, the device identity and the Arduino core, none of which is
  under \<^verbatim>\<open>src/\<close>; it follows their description in the specification (sections 2
  and 6). The simulation discharges the assumptions that theorems over an arbitrary
  platform make, and it is the world in which scenarios are run. A second platform,
  \<open>sim_silent\<close>, is a client that records no error when the network cannot be
  reached; the example states \<open>boot\<close>, \<open>facing\<close>, \<open>online\<close>, \<open>waiting\<close> and
  \<open>stale\<close> are the inputs at which theorems are instantiated.
\<close>

section \<open>The simulated world\<close>

datatype net_outcome =
    Net_accept
  | Net_reject lwmqtt_return_code_t
  | Net_timeout
  | Net_unreachable

record sim_world =
  w_now :: millis_t
  w_clock :: int
  w_ttl :: millis_t
  w_exp_millis :: millis_t
  w_connected :: bool
  w_last_error :: lwmqtt_err_t
  w_return_code :: lwmqtt_return_code_t
  w_rng :: "int list"
  w_net :: "net_outcome list"
  w_connect_cost :: millis_t
  w_subs :: "(topic \<times> int) list"
  w_sent :: "pub list"
  w_broker :: "(string \<times> int) option"
  w_handler :: bool
  w_device_id :: string
  w_registry :: string

section \<open>Its operations\<close>

definition sim_random :: "int \<Rightarrow> sim_world \<Rightarrow> int \<times> sim_world" where
  "sim_random howbig w =
     (case w_rng w of
        [] \<Rightarrow> (0, w)
      | x # xs \<Rightarrow> ((if howbig = 0 then 0 else \<bar>x\<bar> mod \<bar>howbig\<bar>), w\<lparr>w_rng := xs\<rparr>))"

definition sim_getJwt :: "sim_world \<Rightarrow> (string \<times> int) \<times> sim_world" where
  "sim_getJwt w =
     ((''jwt-'' @ String_int (w_clock w), w_clock w),
      w\<lparr>w_exp_millis := w_now w + w_ttl w\<rparr>)"

definition sim_attempt :: "sim_world \<Rightarrow> sim_world" where
  "sim_attempt w = w\<lparr>w_now := w_now w + w_connect_cost w, w_net := tl (w_net w)\<rparr>"

definition sim_connect ::
  "string \<Rightarrow> string \<Rightarrow> string \<Rightarrow> bool \<Rightarrow> sim_world \<Rightarrow> bool \<times> sim_world" where
  "sim_connect clientId username password skip w =
     (case w_net w of
        [] \<Rightarrow> (False, (sim_attempt w)\<lparr>w_connected := False,
                  w_last_error := LWMQTT_NETWORK_FAILED_CONNECT\<rparr>)
      | Net_accept # _ \<Rightarrow> (True, (sim_attempt w)\<lparr>w_connected := True,
                  w_last_error := LWMQTT_SUCCESS,
                  w_return_code := LWMQTT_CONNECTION_ACCEPTED\<rparr>)
      | Net_reject rc # _ \<Rightarrow> (False, (sim_attempt w)\<lparr>w_connected := False,
                  w_last_error := LWMQTT_CONNECTION_DENIED, w_return_code := rc\<rparr>)
      | Net_timeout # _ \<Rightarrow> (False, (sim_attempt w)\<lparr>w_connected := False,
                  w_last_error := LWMQTT_NETWORK_TIMEOUT\<rparr>)
      | Net_unreachable # _ \<Rightarrow> (False, (sim_attempt w)\<lparr>w_connected := False,
                  w_last_error := LWMQTT_NETWORK_FAILED_CONNECT\<rparr>))"

definition sim_disconnect :: "sim_world \<Rightarrow> sim_world" where
  "sim_disconnect w = w\<lparr>w_connected := False\<rparr>"

definition sim_subscribe :: "topic \<Rightarrow> int \<Rightarrow> sim_world \<Rightarrow> sim_world" where
  "sim_subscribe t qos w =
     (if w_connected w then w\<lparr>w_subs := w_subs w @ [(t, qos)]\<rparr>
      else w\<lparr>w_last_error := LWMQTT_NETWORK_FAILED_WRITE\<rparr>)"

definition sim_publish :: "pub \<Rightarrow> sim_world \<Rightarrow> bool \<times> sim_world" where
  "sim_publish p w =
     (if w_connected w then (True, w\<lparr>w_sent := w_sent w @ [p]\<rparr>)
      else (False, w\<lparr>w_last_error := LWMQTT_NETWORK_FAILED_WRITE\<rparr>))"

definition sim_begin :: "string \<Rightarrow> int \<Rightarrow> sim_world \<Rightarrow> sim_world" where
  "sim_begin host port w = w\<lparr>w_broker := Some (host, port)\<rparr>"

definition sim_onMessage :: "sim_world \<Rightarrow> sim_world" where
  "sim_onMessage w = w\<lparr>w_handler := True\<rparr>"

definition sim_clientId :: "sim_world \<Rightarrow> string" where
  "sim_clientId w = ''registries/'' @ w_registry w @ ''/devices/'' @ w_device_id w"

definition sim_topic :: "string \<Rightarrow> sim_world \<Rightarrow> topic" where
  "sim_topic leaf w = ''/devices/'' @ w_device_id w @ leaf"

definition sim :: "sim_world platform" where
  "sim = \<lparr>
     sys_millis = w_now,
     sys_random = sim_random,
     sys_getJwt = sim_getJwt,
     mc_connect = sim_connect,
     mc_connected = w_connected,
     mc_disconnect = sim_disconnect,
     mc_subscribe = sim_subscribe,
     mc_publish = sim_publish,
     mc_lastError = w_last_error,
     mc_returnCode = w_return_code,
     mc_loop = (\<lambda>w. w),
     mc_begin = sim_begin,
     mc_onMessage = sim_onMessage,
     dev_getExpMillis = w_exp_millis,
     dev_getClientId = sim_clientId,
     dev_getConfigTopic = sim_topic ''/config'',
     dev_getCommandsTopic = sim_topic ''/commands/#'',
     dev_getEventsTopic = sim_topic ''/events'',
     dev_getStateTopic = sim_topic ''/state'',
     dev_getDeviceId = w_device_id
   \<rparr>"

lemmas sim_defs =
  sim_def sim_random_def sim_getJwt_def sim_attempt_def sim_connect_def sim_disconnect_def
  sim_subscribe_def sim_publish_def sim_begin_def sim_onMessage_def sim_clientId_def
  sim_topic_def

lemma sim_fields [simp]:
  "sys_millis sim = w_now" "sys_random sim = sim_random" "sys_getJwt sim = sim_getJwt"
  "mc_connect sim = sim_connect" "mc_connected sim = w_connected"
  "mc_disconnect sim = sim_disconnect" "mc_subscribe sim = sim_subscribe"
  "mc_publish sim = sim_publish" "mc_lastError sim = w_last_error"
  "mc_returnCode sim = w_return_code" "mc_loop sim = (\<lambda>w. w)" "mc_begin sim = sim_begin"
  "mc_onMessage sim = sim_onMessage" "dev_getExpMillis sim = w_exp_millis"
  "dev_getClientId sim = sim_clientId" "dev_getConfigTopic sim = sim_topic ''/config''"
  "dev_getCommandsTopic sim = sim_topic ''/commands/#''"
  "dev_getEventsTopic sim = sim_topic ''/events''"
  "dev_getStateTopic sim = sim_topic ''/state''" "dev_getDeviceId sim = w_device_id"
  by (simp_all add: sim_def)

section \<open>The environment\<close>

text \<open>Time passing between two calls of the sketch, and the link dropping.\<close>

definition advance :: "millis_t \<Rightarrow> sim_world \<Rightarrow> sim_world" where
  "advance dt w = w\<lparr>w_now := w_now w + dt, w_clock := w_clock w + dt div 1000\<rparr>"

definition drop_link :: "sim_world \<Rightarrow> sim_world" where
  "drop_link w = w\<lparr>w_connected := False, w_last_error := LWMQTT_NETWORK_FAILED_READ\<rparr>"

section \<open>The simulation meets the assumptions on collaborators\<close>

lemma sim_random_range:
  "0 \<le> fst (sim_random n w)" "0 < n \<Longrightarrow> fst (sim_random n w) < n"
  by (auto simp: sim_random_def split: list.splits)

lemma sim_random_in_range [simp]: "random_in_range sim"
  by (simp add: random_in_range_def sim_random_range)

lemma sim_disconnect_disconnects [simp]: "disconnect_disconnects sim"
  by (simp add: disconnect_disconnects_def sim_disconnect_def)

lemma sim_connect_coherent [simp]: "connect_coherent sim"
  by (auto simp: connect_coherent_def sim_connect_def sim_attempt_def
      split: list.splits net_outcome.splits)

lemma sim_publish_needs_connection [simp]: "publish_needs_connection sim"
  by (simp add: publish_needs_connection_def sim_publish_def)

section \<open>A client that keeps quiet about network failures\<close>

text \<open>
  \<open>sim_silent\<close> is \<open>sim\<close> with a client whose \<^verbatim>\<open>lastError\<close> stays at
  \<^verbatim>\<open>LWMQTT_SUCCESS\<close> whatever happens: a client that returns false from
  \<^verbatim>\<open>connect\<close> when the network connection cannot be opened, before the MQTT
  layer has recorded anything. It does not meet \<open>connect_coherent\<close>.
\<close>

definition sim_silent :: "sim_world platform" where
  "sim_silent = sim\<lparr>mc_lastError := (\<lambda>w. LWMQTT_SUCCESS)\<rparr>"

lemma sim_silent_fields [simp]:
  "sys_millis sim_silent = w_now" "sys_random sim_silent = sim_random"
  "sys_getJwt sim_silent = sim_getJwt" "mc_connect sim_silent = sim_connect"
  "mc_connected sim_silent = w_connected" "mc_lastError sim_silent = (\<lambda>w. LWMQTT_SUCCESS)"
  "mc_returnCode sim_silent = w_return_code" "dev_getClientId sim_silent = sim_clientId"
  by (simp_all add: sim_silent_def)

lemma sim_silent_not_coherent: "\<not> connect_coherent sim_silent"
  by (auto simp: connect_coherent_def sim_connect_def
      intro!: exI[of _ "\<lparr>w_now = 0, w_clock = 0, w_ttl = 0, w_exp_millis = 0,
        w_connected = False, w_last_error = LWMQTT_SUCCESS,
        w_return_code = LWMQTT_CONNECTION_ACCEPTED, w_rng = [], w_net = [],
        w_connect_cost = 0, w_subs = [], w_sent = [], w_broker = None, w_handler = False,
        w_device_id = [], w_registry = []\<rparr>"])

section \<open>A device to run examples on\<close>

definition example_config :: config where
  "example_config = \<lparr>
     minbackoff = 1000, factor = 2, jitter = 500, max_backoff = 60000,
     mqtt_host = ''mqtt.example.com'', mqtt_host_lts = ''mqtt.lts.example.com'',
     mqtt_port = 8883, http_port = 443 \<rparr>"

definition boot_world :: sim_world where
  "boot_world = \<lparr>
     w_now = 5000, w_clock = 1600000000, w_ttl = 3600000, w_exp_millis = 0,
     w_connected = False, w_last_error = LWMQTT_SUCCESS,
     w_return_code = LWMQTT_CONNECTION_ACCEPTED, w_rng = [7, 1234, 499, 500, 40001],
     w_net = [], w_connect_cost = 150, w_subs = [], w_sent = [], w_broker = None,
     w_handler = False, w_device_id = ''dev1'', w_registry = ''reg1'' \<rparr>"

definition boot :: "sim_world mqtt" where
  "boot = \<lparr> backoff = 1000, last_retry_at = 0, logConnect = True, useLts = False,
     use443Port = False, iat = 0, jwt = [], calls = [], world = boot_world \<rparr>"

text \<open>
  \<open>facing net\<close> is the device at boot with the broker answering the coming
  connection attempts as \<open>net\<close> lists them. \<open>online\<close> is a device with a session
  and a token valid for another hour; \<open>waiting\<close> is a device whose last attempt,
  one second ago, failed, with a delay of about two seconds to wait; \<open>stale\<close> is
  \<open>online\<close> after its token has expired.
\<close>

definition facing :: "net_outcome list \<Rightarrow> sim_world mqtt" where
  "facing net = boot\<lparr>world := boot_world\<lparr>w_net := net\<rparr>\<rparr>"

definition online :: "sim_world mqtt" where
  "online = boot\<lparr>last_retry_at := 5000, iat := 1600000000, jwt := ''jwt-1600000000'',
     world := boot_world\<lparr>w_now := 9000, w_clock := 1600000004, w_exp_millis := 3605000,
       w_connected := True, w_net := [Net_accept]\<rparr>\<rparr>"

definition waiting :: "sim_world mqtt" where
  "waiting = boot\<lparr>backoff := 2007, last_retry_at := 5000, iat := 1600000000,
     jwt := ''jwt-1600000000'',
     world := boot_world\<lparr>w_now := 6000, w_clock := 1600000001, w_exp_millis := 3605000,
       w_last_error := LWMQTT_NETWORK_TIMEOUT, w_net := [Net_accept]\<rparr>\<rparr>"

definition stale :: "sim_world mqtt" where
  "stale = online\<lparr>world := (world online)\<lparr>w_now := 3605001, w_clock := 1600003600\<rparr>\<rparr>"

lemmas example_defs =
  example_config_def boot_world_def boot_def facing_def online_def waiting_def stale_def

end
