(* ===== verification/Backoff.thy ===== *)
theory Backoff
  imports Sim_World
begin

text \<open>
  The back-off policy: \<^verbatim>\<open>CloudIoTCoreMqtt::increaseBackoff\<close> (lines 55 to 65 of
  \<^verbatim>\<open>src/src/CloudIoTCoreMqtt.cpp\<close>) as an action on the object, the pure function
  \<open>next_backoff\<close> the specification describes, the refinement between the two, the
  bounds of the delay, its growth over consecutive failures up to the ceiling, and a
  reader of the line the method prints, which returns the delay stored.
\<close>

section \<open>The policy as a function\<close>

definition next_backoff :: "config \<Rightarrow> int \<Rightarrow> int \<Rightarrow> int" where
  "next_backoff cfg b r =
     min (max_backoff cfg) (max (minbackoff cfg) b * factor cfg + r)"

definition backoff_cfg_ok :: "config \<Rightarrow> bool" where
  "backoff_cfg_ok cfg \<longleftrightarrow>
     0 \<le> minbackoff cfg \<and> minbackoff cfg \<le> max_backoff cfg \<and> 1 \<le> factor cfg"

definition backoff_in_range :: "config \<Rightarrow> 'w mqtt \<Rightarrow> bool" where
  "backoff_in_range cfg s \<longleftrightarrow> minbackoff cfg \<le> backoff s \<and> backoff s \<le> max_backoff cfg"

text \<open>The delay after a run of consecutive failures whose jitter draws are \<open>rs\<close>.\<close>

definition backoff_after :: "config \<Rightarrow> int \<Rightarrow> int list \<Rightarrow> int" where
  "backoff_after cfg b rs = foldl (next_backoff cfg) b rs"

section \<open>The method\<close>

definition increaseBackoff :: "config \<Rightarrow> 'w platform \<Rightarrow> ('w mqtt, unit) state" where
  "increaseBackoff cfg I = do {
     b \<leftarrow> gets backoff;
     whenM (b < minbackoff cfg) (modify (\<lambda>s. s\<lparr>backoff := minbackoff cfg\<rparr>));
     b \<leftarrow> gets backoff;
     r \<leftarrow> random I (jitter cfg);
     modify (\<lambda>s. s\<lparr>backoff := b * factor cfg + r\<rparr>);
     b \<leftarrow> gets backoff;
     whenM (b > max_backoff cfg) (modify (\<lambda>s. s\<lparr>backoff := max_backoff cfg\<rparr>));
     b \<leftarrow> gets backoff;
     Serial_print (''Back-off: '' @ String_int b @ ''ms'' @ [CHR 0x0A])
   }"

section \<open>Facts about the function\<close>

lemma next_backoff_le_max: "next_backoff cfg b r \<le> max_backoff cfg"
  by (simp add: next_backoff_def)

lemma next_backoff_ge_min:
  assumes "backoff_cfg_ok cfg" and "0 \<le> r"
  shows "minbackoff cfg \<le> next_backoff cfg b r"
proof -
  let ?b = "max (minbackoff cfg) b"
  from assms have "0 \<le> ?b" and "1 \<le> factor cfg"
    by (simp_all add: backoff_cfg_ok_def le_max_iff_disj)
  then have "?b \<le> ?b * factor cfg + r" using \<open>0 \<le> r\<close> by (rule scale_grows)
  then have "minbackoff cfg \<le> ?b * factor cfg + r" by simp
  with assms(1) show ?thesis by (simp add: next_backoff_def backoff_cfg_ok_def)
qed

lemma next_backoff_clamp:
  assumes "backoff_cfg_ok cfg" and "0 \<le> r"
  shows "next_backoff cfg b r
           = clamp (minbackoff cfg) (max_backoff cfg) (max (minbackoff cfg) b * factor cfg + r)"
proof -
  from assms(1) have "0 \<le> max (minbackoff cfg) b" and "1 \<le> factor cfg"
    by (simp_all add: backoff_cfg_ok_def le_max_iff_disj)
  then have "max (minbackoff cfg) b \<le> max (minbackoff cfg) b * factor cfg + r"
    using assms(2) by (rule scale_grows)
  then have "minbackoff cfg \<le> max (minbackoff cfg) b * factor cfg + r" by simp
  then show ?thesis by (simp add: next_backoff_def clamp_def max_absorb2)
qed

lemma next_backoff_grows:
  assumes "backoff_cfg_ok cfg" and "0 \<le> r" and "b \<le> max_backoff cfg"
  shows "b \<le> next_backoff cfg b r"
proof -
  let ?b = "max (minbackoff cfg) b"
  from assms have "0 \<le> ?b" and "1 \<le> factor cfg"
    by (simp_all add: backoff_cfg_ok_def le_max_iff_disj)
  then have "?b \<le> ?b * factor cfg + r" using \<open>0 \<le> r\<close> by (rule scale_grows)
  then have "b \<le> ?b * factor cfg + r" by simp
  with assms(3) show ?thesis by (simp add: next_backoff_def)
qed

lemma next_backoff_uncapped:
  assumes "minbackoff cfg \<le> b" and "b * factor cfg + r \<le> max_backoff cfg"
  shows "next_backoff cfg b r = b * factor cfg + r"
  using assms by (simp add: next_backoff_def max_def)

lemma next_backoff_capped:
  assumes "max_backoff cfg \<le> max (minbackoff cfg) b * factor cfg + r"
  shows "next_backoff cfg b r = max_backoff cfg"
  using assms by (simp add: next_backoff_def)

lemma next_backoff_at_max:
  assumes "backoff_cfg_ok cfg" and "0 \<le> r"
  shows "next_backoff cfg (max_backoff cfg) r = max_backoff cfg"
  using next_backoff_grows[OF assms order_refl] next_backoff_le_max[of cfg "max_backoff cfg" r]
  by simp

section \<open>Facts about the method\<close>

lemma run_increaseBackoff [run_simps]:
  "run_state (increaseBackoff cfg I) s =
     (let r = fst (sys_random I (jitter cfg) (world s));
          b = next_backoff cfg (backoff s) r
      in ((), s\<lparr>backoff := b,
                calls := calls s @ [Random (jitter cfg) r,
                          Serial (Print (''Back-off: '' @ String_int b @ ''ms'' @ [CHR 0x0A]))],
                world := snd (sys_random I (jitter cfg) (world s))\<rparr>))"
  by (simp add: increaseBackoff_def next_backoff_def Let_def min_def max_def)

lemma exec_increaseBackoff:
  "exec (increaseBackoff cfg I) s =
     s\<lparr>backoff := next_backoff cfg (backoff s) (fst (sys_random I (jitter cfg) (world s))),
       calls := calls s @ [Random (jitter cfg) (fst (sys_random I (jitter cfg) (world s))),
         Serial (Print (''Back-off: ''
           @ String_int (next_backoff cfg (backoff s) (fst (sys_random I (jitter cfg) (world s))))
           @ ''ms'' @ [CHR 0x0A]))],
       world := snd (sys_random I (jitter cfg) (world s))\<rparr>"
  by (simp add: exec_def run_increaseBackoff Let_def)

lemma increaseBackoff_frame [frame_simps]:
  "last_retry_at (exec (increaseBackoff cfg I) s) = last_retry_at s"
  "logConnect (exec (increaseBackoff cfg I) s) = logConnect s"
  "useLts (exec (increaseBackoff cfg I) s) = useLts s"
  "use443Port (exec (increaseBackoff cfg I) s) = use443Port s"
  "iat (exec (increaseBackoff cfg I) s) = iat s"
  "jwt (exec (increaseBackoff cfg I) s) = jwt s"
  by (simp_all add: exec_increaseBackoff)

lemma increaseBackoff_establishes_range:
  assumes "backoff_cfg_ok cfg" and "random_in_range I"
  shows "backoff_in_range cfg (exec (increaseBackoff cfg I) s)"
  using next_backoff_ge_min[OF assms(1) random_in_rangeD(1)[OF assms(2)]]
  by (simp add: backoff_in_range_def exec_increaseBackoff next_backoff_le_max)

lemma preserves_increaseBackoff_range [preserves_intros]:
  "backoff_cfg_ok cfg \<Longrightarrow> random_in_range I \<Longrightarrow>
     preserves (backoff_in_range cfg) (increaseBackoff cfg I)"
  by (simp add: preserves_def increaseBackoff_establishes_range)



section \<open>Runs of consecutive failures\<close>

text \<open>
  \<open>backoff_after cfg b rs\<close> is the delay after as many consecutive calls of
  \<^verbatim>\<open>increaseBackoff\<close> as \<open>rs\<close> has elements, the \<open>i\<close>-th drawing the jitter
  \<open>rs ! i\<close>. With a factor of at least two every call at least doubles the delay
  until the cap, so the cap is reached after logarithmically many failures.
\<close>

lemma backoff_after_Nil [simp]: "backoff_after cfg b [] = b"
  by (simp add: backoff_after_def)

lemma backoff_after_snoc [simp]:
  "backoff_after cfg b (rs @ [r]) = next_backoff cfg (backoff_after cfg b rs) r"
  by (simp add: backoff_after_def)

lemma backoff_after_Cons:
  "backoff_after cfg b (r # rs) = backoff_after cfg (next_backoff cfg b r) rs"
  by (simp add: backoff_after_def)

lemma backoff_after_le_max:
  "b \<le> max_backoff cfg \<Longrightarrow> backoff_after cfg b rs \<le> max_backoff cfg"
  by (induction rs rule: rev_induct) (simp_all add: next_backoff_le_max)

lemma backoff_after_grows:
  assumes "backoff_cfg_ok cfg" and "list_all (\<lambda>r. 0 \<le> r) rs" and "b \<le> max_backoff cfg"
  shows "b \<le> backoff_after cfg b rs"
  using assms(2)
proof (induction rs rule: rev_induct)
  case Nil
  show ?case by simp
next
  case (snoc r rs)
  then have "b \<le> backoff_after cfg b rs" and "0 \<le> r" by simp_all
  moreover have "backoff_after cfg b rs \<le> next_backoff cfg (backoff_after cfg b rs) r"
    using \<open>0 \<le> r\<close> by (intro next_backoff_grows assms(1) backoff_after_le_max assms(3))
  ultimately show ?case by simp
qed

lemma next_backoff_doubles:
  assumes "backoff_cfg_ok cfg" and "2 \<le> factor cfg" and "0 \<le> r"
    and "min (max_backoff cfg) (minbackoff cfg * 2 ^ n) \<le> b"
  shows "min (max_backoff cfg) (minbackoff cfg * 2 ^ Suc n) \<le> next_backoff cfg b r"
proof -
  let ?m = "minbackoff cfg" and ?M = "max_backoff cfg"
  from assms(1) have m: "0 \<le> ?m" and mM: "?m \<le> ?M" by (simp_all add: backoff_cfg_ok_def)
  define c where "c = max ?m b"
  have c0: "0 \<le> c" and mc: "?m \<le> c" and bc: "b \<le> c" using m by (simp_all add: c_def)
  have "c * 2 \<le> c * factor cfg" using c0 assms(2) by (intro mult_left_mono) simp_all
  then have step: "c * 2 \<le> c * factor cfg + r" using assms(3) by simp
  have nb: "next_backoff cfg b r = min ?M (c * factor cfg + r)"
    by (simp add: next_backoff_def c_def)
  show ?thesis
  proof (cases "?M \<le> ?m * 2 ^ n")
    case True
    with assms(4) have "?M \<le> b" by simp
    with bc c0 step have "?M \<le> c * factor cfg + r" by linarith
    then show ?thesis by (simp add: nb)
  next
    case False
    with assms(4) have "?m * 2 ^ n \<le> b" by simp
    with bc have "?m * 2 ^ n * 2 \<le> c * 2" by linarith
    with step have "?m * 2 ^ Suc n \<le> c * factor cfg + r" by (simp add: mult.assoc)
    then show ?thesis by (simp add: nb min_le_iff_disj)
  qed
qed

lemma backoff_after_lower_bound:
  assumes "backoff_cfg_ok cfg" and "2 \<le> factor cfg" and "list_all (\<lambda>r. 0 \<le> r) rs"
    and "minbackoff cfg \<le> b"
  shows "min (max_backoff cfg) (minbackoff cfg * 2 ^ length rs) \<le> backoff_after cfg b rs"
  using assms(3)
proof (induction rs rule: rev_induct)
  case Nil
  from assms(4) show ?case by (simp add: min_le_iff_disj)
next
  case (snoc r rs)
  then have "min (max_backoff cfg) (minbackoff cfg * 2 ^ length rs) \<le> backoff_after cfg b rs"
    and "0 \<le> r" by simp_all
  from next_backoff_doubles[OF assms(1,2) this(2,1)] show ?case by simp
qed

text \<open>
  \<^bold>\<open>C12\<close> (the method computes the policy). One call of
  \<^verbatim>\<open>increaseBackoff\<close> replaces the delay by
  \<open>next_backoff\<close> of the old delay and the jitter it draws, draws exactly
  one random number, with the jitter bound as argument and recorded with the number
  drawn, prints the new delay, and changes no other member.
\<close>
theorem increaseBackoff_refines_next_backoff:
  "run_state (increaseBackoff cfg I) s =
     ((), s\<lparr>backoff := next_backoff cfg (backoff s) (fst (sys_random I (jitter cfg) (world s))),
            calls := calls s @ [Random (jitter cfg) (fst (sys_random I (jitter cfg) (world s))),
              Serial (Print (''Back-off: ''
                @ String_int (next_backoff cfg (backoff s) (fst (sys_random I (jitter cfg) (world s))))
                @ ''ms'' @ [CHR 0x0A]))],
            world := snd (sys_random I (jitter cfg) (world s))\<rparr>)"
  by (simp add: run_state_eq exec_increaseBackoff)

text \<open>
  \<^bold>\<open>C13\<close> (the computed delay is within its bounds). For a
  configuration with 0 \<le> minimum \<le> maximum and factor at least 1 and a jitter
  that is not negative, the delay computed from any old delay, in range or not, is at
  least the minimum and at most the maximum.
\<close>
theorem next_backoff_within_bounds:
  assumes "backoff_cfg_ok cfg" and "0 \<le> r"
  shows "minbackoff cfg \<le> next_backoff cfg b r \<and> next_backoff cfg b r \<le> max_backoff cfg"
  using next_backoff_ge_min[OF assms] by (simp add: next_backoff_le_max)

theorem next_backoff_within_bounds_witness:
  "backoff_cfg_ok example_config \<and> (0::int) \<le> 499
   \<and> minbackoff example_config \<le> next_backoff example_config 40000 499
   \<and> next_backoff example_config 40000 499 \<le> max_backoff example_config
   \<and> next_backoff example_config 40000 499 = 60000
   \<and> next_backoff example_config 0 7 = 2007"
  using next_backoff_within_bounds[of example_config 499 40000]
  by (simp add: backoff_cfg_ok_def next_backoff_def example_defs)

text \<open>
  \<^bold>\<open>C26\<close> (the delay reaches its ceiling). With a factor of at
  least two, a run of consecutive failures (the policy \<open>next_backoff\<close>
  applied once for each jitter drawn) long enough that the minimum doubled that many
  times reaches the maximum leaves the delay exactly at the maximum, whatever jitter
  was drawn.
\<close>
theorem backoff_after_reaches_ceiling:
  assumes "backoff_cfg_ok cfg" and "2 \<le> factor cfg" and "list_all (\<lambda>r. 0 \<le> r) rs"
    and "minbackoff cfg \<le> b" and "b \<le> max_backoff cfg"
    and "max_backoff cfg \<le> minbackoff cfg * 2 ^ length rs"
  shows "backoff_after cfg b rs = max_backoff cfg"
  using backoff_after_lower_bound[OF assms(1-4)] backoff_after_le_max[OF assms(5), of rs] assms(6)
  by simp

theorem backoff_after_reaches_ceiling_witness:
  "backoff_cfg_ok example_config \<and> 2 \<le> factor example_config
   \<and> list_all (\<lambda>r. 0 \<le> r) [7, 234, 499, 0, 12, 3::int]
   \<and> minbackoff example_config \<le> 1000 \<and> 1000 \<le> max_backoff example_config
   \<and> max_backoff example_config \<le> minbackoff example_config * 2 ^ length [7, 234, 499, 0, 12, 3::int]
   \<and> backoff_after example_config 1000 [7, 234, 499, 0, 12, 3] = max_backoff example_config"
  using backoff_after_reaches_ceiling[of example_config "[7, 234, 499, 0, 12, 3]" 1000]
  by (simp add: backoff_cfg_ok_def example_defs)

theorem backoff_after_never_shrinks:
  assumes "backoff_cfg_ok cfg" and "list_all (\<lambda>r. 0 \<le> r) (rs @ [r])"
    and "b \<le> max_backoff cfg"
  shows "backoff_after cfg b rs \<le> backoff_after cfg b (rs @ [r])
         \<and> backoff_after cfg b (rs @ [r]) \<le> max_backoff cfg"
proof -
  from assms(2) have "0 \<le> r" by simp
  with next_backoff_grows[OF assms(1) this backoff_after_le_max[OF assms(3)], of rs]
  show ?thesis by (simp add: next_backoff_le_max)
qed

theorem backoff_after_never_shrinks_witness:
  "backoff_cfg_ok example_config \<and> list_all (\<lambda>r. 0 \<le> r) ([7, 234] @ [499::int])
   \<and> 1000 \<le> max_backoff example_config
   \<and> backoff_after example_config 1000 [7, 234] \<le> backoff_after example_config 1000 ([7, 234] @ [499])
   \<and> backoff_after example_config 1000 ([7, 234] @ [499]) \<le> max_backoff example_config"
  using backoff_after_never_shrinks[of example_config "[7, 234]" 499 1000]
  by (simp add: backoff_cfg_ok_def example_defs)

section \<open>Reading the delay back from the log\<close>

text \<open>
  \<open>read_backoff_line\<close> is what a reader of the serial log does with the line that
  \<^verbatim>\<open>Serial.printf("Back-off: %ims\\n", ...)\<close> of line 64 prints.
\<close>

definition read_backoff_line :: "string \<Rightarrow> int option" where
  "read_backoff_line l =
     (if 13 \<le> length l \<and> take 10 l = ''Back-off: '' \<and> drop (length l - 3) l = ''ms'' @ [CHR 0x0A]
      then Some (int_of_digits (take (length l - 13) (drop 10 l))) else None)"

lemma read_backoff_line_printed:
  "read_backoff_line (''Back-off: '' @ String_int b @ ''ms'' @ [CHR 0x0A]) = Some b"
proof -
  have "String_int b \<noteq> []" by (simp add: String_int_def)
  then have "1 \<le> length (String_int b)" by (cases "String_int b") simp_all
  then show ?thesis by (simp add: read_backoff_line_def int_of_digits_String_int)
qed

lemma backoff_line_printed:
  "\<exists>l. last (calls (exec (increaseBackoff cfg I) s)) = Serial (Print l)
       \<and> read_backoff_line l = Some (backoff (exec (increaseBackoff cfg I) s))"
  using read_backoff_line_printed[of "next_backoff cfg (backoff s) (fst (sys_random I (jitter cfg) (world s)))"]
  by (simp add: exec_increaseBackoff)

end
