(* ===== verification/Diagnostics.thy ===== *)
theory Diagnostics
  imports Backoff
begin

text \<open>
  The diagnostics reporter: \<^verbatim>\<open>logError\<close> (lines 197 to 243 of
  \<^verbatim>\<open>src/src/CloudIoTCoreMqtt.cpp\<close>), \<^verbatim>\<open>logConfiguration\<close> (245 to 252) and
  \<^verbatim>\<open>logReturnCode\<close> (254 to 284). Each is an action that writes to \<^verbatim>\<open>Serial\<close>;
  \<^verbatim>\<open>logReturnCode\<close> also clears \<open>iat\<close> for two of the broker's codes. The
  classification each \<^verbatim>\<open>switch\<close> computes is stated as a pure function
  (\<open>error_text\<close>, \<open>return_code_text\<close>, \<open>invalidates_token\<close>) and the actions are
  proved to print and do exactly what it says. Readers of the printed lines
  (\<open>error_of_text\<close>, \<open>return_code_of_text\<close>) show that the log determines what was
  reported.
\<close>

section \<open>The reporter's actions\<close>

definition logError :: "'w platform \<Rightarrow> ('w mqtt, unit) state" where
  "logError I = do {
     e \<leftarrow> mqttClient_lastError I;
     serial (Println_err e);
     e \<leftarrow> mqttClient_lastError I;
     (case e of
        LWMQTT_BUFFER_TOO_SHORT \<Rightarrow> Serial_println ''LWMQTT_BUFFER_TOO_SHORT''
      | LWMQTT_VARNUM_OVERFLOW \<Rightarrow> Serial_println ''LWMQTT_VARNUM_OVERFLOW''
      | LWMQTT_NETWORK_FAILED_CONNECT \<Rightarrow> Serial_println ''LWMQTT_NETWORK_FAILED_CONNECT''
      | LWMQTT_NETWORK_TIMEOUT \<Rightarrow> Serial_println ''LWMQTT_NETWORK_TIMEOUT''
      | LWMQTT_NETWORK_FAILED_READ \<Rightarrow> Serial_println ''LWMQTT_NETWORK_FAILED_READ''
      | LWMQTT_NETWORK_FAILED_WRITE \<Rightarrow> Serial_println ''LWMQTT_NETWORK_FAILED_WRITE''
      | LWMQTT_REMAINING_LENGTH_OVERFLOW \<Rightarrow> Serial_println ''LWMQTT_REMAINING_LENGTH_OVERFLOW''
      | LWMQTT_REMAINING_LENGTH_MISMATCH \<Rightarrow> Serial_println ''LWMQTT_REMAINING_LENGTH_MISMATCH''
      | LWMQTT_MISSING_OR_WRONG_PACKET \<Rightarrow> Serial_println ''LWMQTT_MISSING_OR_WRONG_PACKET''
      | LWMQTT_CONNECTION_DENIED \<Rightarrow> Serial_println ''LWMQTT_CONNECTION_DENIED''
      | LWMQTT_FAILED_SUBSCRIPTION \<Rightarrow> Serial_println ''LWMQTT_FAILED_SUBSCRIPTION''
      | LWMQTT_SUBACK_ARRAY_OVERFLOW \<Rightarrow> Serial_println ''LWMQTT_SUBACK_ARRAY_OVERFLOW''
      | LWMQTT_PONG_TIMEOUT \<Rightarrow> Serial_println ''LWMQTT_PONG_TIMEOUT''
      | _ \<Rightarrow> Serial_println ''This error code should never be reached.'')
   }"

definition logConfiguration :: "config \<Rightarrow> 'w platform \<Rightarrow> bool \<Rightarrow> ('w mqtt, unit) state" where
  "logConfiguration cfg I showJWT = do {
     Serial_println (''Connect with '' @ mqtt_host_lts cfg @ '':'' @ String_int (mqtt_port cfg));
     clientId \<leftarrow> ask (dev_getClientId I);
     Serial_println (''ClientId: '' @ clientId);
     whenM showJWT (do {
       tok \<leftarrow> getJwt I;
       Serial_println (''JWT: '' @ tok)
     })
   }"

definition logReturnCode :: "'w platform \<Rightarrow> ('w mqtt, unit) state" where
  "logReturnCode I = do {
     rc \<leftarrow> mqttClient_returnCode I;
     serial (Println_rc rc);
     rc \<leftarrow> mqttClient_returnCode I;
     (case rc of
        LWMQTT_CONNECTION_ACCEPTED \<Rightarrow> Serial_println ''OK''
      | LWMQTT_UNACCEPTABLE_PROTOCOL \<Rightarrow> Serial_println ''LWMQTT_UNACCEPTABLE_PROTOCOLL''
      | LWMQTT_IDENTIFIER_REJECTED \<Rightarrow> Serial_println ''LWMQTT_IDENTIFIER_REJECTED''
      | LWMQTT_SERVER_UNAVAILABLE \<Rightarrow> Serial_println ''LWMQTT_SERVER_UNAVAILABLE''
      | LWMQTT_BAD_USERNAME_OR_PASSWORD \<Rightarrow> do {
          Serial_println ''LWMQTT_BAD_USERNAME_OR_PASSWORD'';
          modify (\<lambda>s. s\<lparr>iat := 0\<rparr>)
        }
      | LWMQTT_NOT_AUTHORIZED \<Rightarrow> do {
          Serial_println ''LWMQTT_NOT_AUTHORIZED'';
          modify (\<lambda>s. s\<lparr>iat := 0\<rparr>)
        }
      | LWMQTT_UNKNOWN_RETURN_CODE \<Rightarrow> Serial_println ''LWMQTT_UNKNOWN_RETURN_CODE''
      | LWMQTT_RC_UNLISTED \<Rightarrow> Serial_println ''This return code should never be reached.'')
   }"

section \<open>The classification\<close>

fun error_text :: "lwmqtt_err_t \<Rightarrow> string" where
  "error_text LWMQTT_BUFFER_TOO_SHORT = ''LWMQTT_BUFFER_TOO_SHORT''"
| "error_text LWMQTT_VARNUM_OVERFLOW = ''LWMQTT_VARNUM_OVERFLOW''"
| "error_text LWMQTT_NETWORK_FAILED_CONNECT = ''LWMQTT_NETWORK_FAILED_CONNECT''"
| "error_text LWMQTT_NETWORK_TIMEOUT = ''LWMQTT_NETWORK_TIMEOUT''"
| "error_text LWMQTT_NETWORK_FAILED_READ = ''LWMQTT_NETWORK_FAILED_READ''"
| "error_text LWMQTT_NETWORK_FAILED_WRITE = ''LWMQTT_NETWORK_FAILED_WRITE''"
| "error_text LWMQTT_REMAINING_LENGTH_OVERFLOW = ''LWMQTT_REMAINING_LENGTH_OVERFLOW''"
| "error_text LWMQTT_REMAINING_LENGTH_MISMATCH = ''LWMQTT_REMAINING_LENGTH_MISMATCH''"
| "error_text LWMQTT_MISSING_OR_WRONG_PACKET = ''LWMQTT_MISSING_OR_WRONG_PACKET''"
| "error_text LWMQTT_CONNECTION_DENIED = ''LWMQTT_CONNECTION_DENIED''"
| "error_text LWMQTT_FAILED_SUBSCRIPTION = ''LWMQTT_FAILED_SUBSCRIPTION''"
| "error_text LWMQTT_SUBACK_ARRAY_OVERFLOW = ''LWMQTT_SUBACK_ARRAY_OVERFLOW''"
| "error_text LWMQTT_PONG_TIMEOUT = ''LWMQTT_PONG_TIMEOUT''"
| "error_text _ = ''This error code should never be reached.''"

fun return_code_text :: "lwmqtt_return_code_t \<Rightarrow> string" where
  "return_code_text LWMQTT_CONNECTION_ACCEPTED = ''OK''"
| "return_code_text LWMQTT_UNACCEPTABLE_PROTOCOL = ''LWMQTT_UNACCEPTABLE_PROTOCOLL''"
| "return_code_text LWMQTT_IDENTIFIER_REJECTED = ''LWMQTT_IDENTIFIER_REJECTED''"
| "return_code_text LWMQTT_SERVER_UNAVAILABLE = ''LWMQTT_SERVER_UNAVAILABLE''"
| "return_code_text LWMQTT_BAD_USERNAME_OR_PASSWORD = ''LWMQTT_BAD_USERNAME_OR_PASSWORD''"
| "return_code_text LWMQTT_NOT_AUTHORIZED = ''LWMQTT_NOT_AUTHORIZED''"
| "return_code_text LWMQTT_UNKNOWN_RETURN_CODE = ''LWMQTT_UNKNOWN_RETURN_CODE''"
| "return_code_text LWMQTT_RC_UNLISTED = ''This return code should never be reached.''"

definition invalidates_token :: "lwmqtt_return_code_t \<Rightarrow> bool" where
  "invalidates_token rc \<longleftrightarrow> rc = LWMQTT_BAD_USERNAME_OR_PASSWORD \<or> rc = LWMQTT_NOT_AUTHORIZED"

section \<open>The actions compute the classification\<close>

lemma run_logError [run_simps]:
  "run_state (logError I) s =
     ((), s\<lparr>calls := calls s @ [Serial (Println_err (mc_lastError I (world s))),
                                 Serial (Println (error_text (mc_lastError I (world s))))]\<rparr>)"
  by (cases "mc_lastError I (world s)") (simp_all add: logError_def)

lemma run_logReturnCode [run_simps]:
  "run_state (logReturnCode I) s =
     ((), s\<lparr>iat := (if invalidates_token (mc_returnCode I (world s)) then 0 else iat s),
            calls := calls s @ [Serial (Println_rc (mc_returnCode I (world s))),
                                Serial (Println (return_code_text (mc_returnCode I (world s))))]\<rparr>)"
  by (cases "mc_returnCode I (world s)") (simp_all add: logReturnCode_def invalidates_token_def)

lemma run_logConfiguration_quiet [run_simps]:
  "run_state (logConfiguration cfg I False) s =
     ((), s\<lparr>calls := calls s @
        [Serial (Println (''Connect with '' @ mqtt_host_lts cfg @ '':'' @ String_int (mqtt_port cfg))),
         Serial (Println (''ClientId: '' @ dev_getClientId I (world s)))]\<rparr>)"
  by (simp add: logConfiguration_def)

lemma run_logConfiguration_show [run_simps]:
  "run_state (logConfiguration cfg I True) s =
     ((), s\<lparr>iat := snd (fst (sys_getJwt I (world s))),
            calls := calls s @
        [Serial (Println (''Connect with '' @ mqtt_host_lts cfg @ '':'' @ String_int (mqtt_port cfg))),
         Serial (Println (''ClientId: '' @ dev_getClientId I (world s))),
         GetJwt (fst (fst (sys_getJwt I (world s)))),
         Serial (Println (''JWT: '' @ fst (fst (sys_getJwt I (world s)))))],
            world := snd (sys_getJwt I (world s))\<rparr>)"
  by (simp add: logConfiguration_def)


lemma exec_logReturnCode:
  "exec (logReturnCode I) s =
     s\<lparr>iat := (if invalidates_token (mc_returnCode I (world s)) then 0 else iat s),
       calls := calls s @ [Serial (Println_rc (mc_returnCode I (world s))),
                           Serial (Println (return_code_text (mc_returnCode I (world s))))]\<rparr>"
  by (simp add: exec_def run_logReturnCode)

lemma exec_logError:
  "exec (logError I) s =
     s\<lparr>calls := calls s @ [Serial (Println_err (mc_lastError I (world s))),
                           Serial (Println (error_text (mc_lastError I (world s))))]\<rparr>"
  by (simp add: exec_def run_logError)

section \<open>What the diagnostics guarantee\<close>

text \<open>
  \<^bold>\<open>C34\<close> (which return codes clear the stamp).
  \<^verbatim>\<open>logReturnCode\<close> sets the issued-at stamp to zero exactly
  when the broker's return code is bad user name or password, or not authorized; for
  every other code the stamp is unchanged, and in every case the delay, the token, the
  time of the last attempt and the collaborators are unchanged.
\<close>
theorem logReturnCode_clears_stamp_iff:
  "iat (exec (logReturnCode I) s) =
     (if mc_returnCode I (world s) = LWMQTT_BAD_USERNAME_OR_PASSWORD
         \<or> mc_returnCode I (world s) = LWMQTT_NOT_AUTHORIZED
      then 0 else iat s)
   \<and> backoff (exec (logReturnCode I) s) = backoff s
   \<and> jwt (exec (logReturnCode I) s) = jwt s
   \<and> last_retry_at (exec (logReturnCode I) s) = last_retry_at s
   \<and> world (exec (logReturnCode I) s) = world s"
  by (simp add: exec_logReturnCode invalidates_token_def)

theorem error_text_names_the_error:
  "error_text e = error_text e' \<longleftrightarrow>
     e = e' \<or> (e \<in> {LWMQTT_SUCCESS, LWMQTT_ERR_UNLISTED} \<and> e' \<in> {LWMQTT_SUCCESS, LWMQTT_ERR_UNLISTED})"
  by (cases e; cases e'; simp)

theorem return_code_text_names_the_code:
  "(return_code_text c = return_code_text c' \<longleftrightarrow> c = c')
   \<and> return_code_text LWMQTT_CONNECTION_ACCEPTED = ''OK''
   \<and> return_code_text LWMQTT_UNACCEPTABLE_PROTOCOL = ''LWMQTT_UNACCEPTABLE_PROTOCOLL''"
  by (cases c; cases c'; simp)

theorem logConfiguration_prints_fixed_endpoint:
  "calls (exec (logConfiguration cfg I False) (s\<lparr>useLts := lts, use443Port := on443\<rparr>)) =
     calls s @ [Serial (Println (''Connect with '' @ mqtt_host_lts cfg @ '':''
                                  @ String_int (mqtt_port cfg))),
                Serial (Println (''ClientId: '' @ dev_getClientId I (world s)))]"
  by (simp add: exec_def run_logConfiguration_quiet)

theorem logConfiguration_show_mints_token:
  "run_state (logConfiguration cfg I True) s =
     ((), s\<lparr>iat := snd (fst (sys_getJwt I (world s))),
            calls := calls s @ [Serial (Println (''Connect with '' @ mqtt_host_lts cfg @ '':''
                                  @ String_int (mqtt_port cfg))),
                Serial (Println (''ClientId: '' @ dev_getClientId I (world s))), GetJwt (fst (fst (sys_getJwt I (world s)))),
                Serial (Println (''JWT: '' @ fst (fst (sys_getJwt I (world s)))))],
            world := snd (sys_getJwt I (world s))\<rparr>)"
  by (simp add: run_logConfiguration_show)

section \<open>Reading the diagnostics back\<close>

text \<open>
  \<open>error_of_text\<close> and \<open>return_code_of_text\<close> look a printed line up among the
  lines the two switches can print: the first code, in the order of the enumeration,
  whose line it is.
\<close>

definition error_of_text :: "string \<Rightarrow> lwmqtt_err_t option" where
  "error_of_text t = find (\<lambda>e. error_text e = t) enum_class.enum"

definition return_code_of_text :: "string \<Rightarrow> lwmqtt_return_code_t option" where
  "return_code_of_text t = find (\<lambda>c. return_code_text c = t) enum_class.enum"

lemma error_of_text_error_text:
  "error_of_text (error_text e) = Some (if e = LWMQTT_ERR_UNLISTED then LWMQTT_SUCCESS else e)"
  by (cases e) (simp_all add: error_of_text_def enum_lwmqtt_err_t_def)

lemma return_code_of_text_return_code_text:
  "return_code_of_text (return_code_text c) = Some c"
  by (cases c) (simp_all add: return_code_of_text_def enum_lwmqtt_return_code_t_def)

lemma error_text_error_of_text: "error_of_text t = Some e \<Longrightarrow> error_text e = t"
  by (auto simp: error_of_text_def find_Some_iff)

lemma return_code_text_return_code_of_text:
  "return_code_of_text t = Some c \<Longrightarrow> return_code_text c = t"
  by (auto simp: return_code_of_text_def find_Some_iff)

text \<open>
  \<^bold>\<open>C35\<close> (the log can be read back). The line
  \<^verbatim>\<open>logError\<close> prints determines the error among the errors its
  switch names (success and unlisted values share the line of the default branch); the
  line \<^verbatim>\<open>logReturnCode\<close> prints determines the return code, an
  unacceptable protocol being printed with a doubled final letter; and the number in
  the line \<^verbatim>\<open>increaseBackoff\<close> prints is the delay it has just
  stored. In each case the line is the last one the method prints.
\<close>
theorem log_reads_back:
  "error_of_text (error_text e) = Some (if e = LWMQTT_ERR_UNLISTED then LWMQTT_SUCCESS else e)
   \<and> return_code_of_text (return_code_text c) = Some c
   \<and> return_code_text LWMQTT_UNACCEPTABLE_PROTOCOL = ''LWMQTT_UNACCEPTABLE_PROTOCOLL''
   \<and> (\<exists>l. last (calls (exec (logReturnCode I) s)) = Serial (Println l)
          \<and> return_code_of_text l = Some (mc_returnCode I (world s)))
   \<and> (\<exists>l. last (calls (exec (logError I) s)) = Serial (Println l)
          \<and> error_of_text l = Some (if mc_lastError I (world s) = LWMQTT_ERR_UNLISTED
                                      then LWMQTT_SUCCESS else mc_lastError I (world s)))
   \<and> (\<exists>l. last (calls (exec (increaseBackoff cfg I) s)) = Serial (Print l)
          \<and> read_backoff_line l = Some (backoff (exec (increaseBackoff cfg I) s)))"
  using backoff_line_printed[of cfg I s]
  by (simp add: error_of_text_error_text return_code_of_text_return_code_text
      exec_logReturnCode exec_logError)

text \<open>
  \<^bold>\<open>C39\<close> (what the configuration log shows and does).
  \<^verbatim>\<open>logConfiguration\<close> prints the long-term-support host and
  the MQTT port, whatever the two endpoint options are, and the port reads back as the
  number configured; \<^verbatim>\<open>logConfiguration(true)\<close> also calls
  \<^verbatim>\<open>getJwt\<close> to print a token: the issued-at stamp becomes the
  one of the printed token while the stored token stays the old one.
\<close>
theorem logConfiguration_output:
  "calls (exec (logConfiguration cfg I False) (s\<lparr>useLts := lts, use443Port := on443\<rparr>)) =
     calls s @ [Serial (Println (''Connect with '' @ mqtt_host_lts cfg @ '':''
                                  @ String_int (mqtt_port cfg))),
                Serial (Println (''ClientId: '' @ dev_getClientId I (world s)))]
   \<and> run_state (logConfiguration cfg I True) s =
     ((), s\<lparr>iat := snd (fst (sys_getJwt I (world s))),
            calls := calls s @ [Serial (Println (''Connect with '' @ mqtt_host_lts cfg @ '':''
                                  @ String_int (mqtt_port cfg))),
                Serial (Println (''ClientId: '' @ dev_getClientId I (world s))), GetJwt (fst (fst (sys_getJwt I (world s)))),
                Serial (Println (''JWT: '' @ fst (fst (sys_getJwt I (world s)))))],
            world := snd (sys_getJwt I (world s))\<rparr>)
   \<and> int_of_digits (String_int (mqtt_port cfg)) = mqtt_port cfg"
  by (simp add: exec_def run_logConfiguration_quiet run_logConfiguration_show
      int_of_digits_String_int)

end
