(* ===== verification/Controller.thy ===== *)
theory Controller
  imports Diagnostics
begin

text \<open>
  The connection lifecycle controller: the remaining methods of
  \<^verbatim>\<open>CloudIoTCoreMqtt\<close> in \<^verbatim>\<open>src/src/CloudIoTCoreMqtt.cpp\<close>, each as one action on
  the object: the constructor (lines 27 to 32), \<^verbatim>\<open>loop\<close> (34 to 53),
  \<^verbatim>\<open>mqttConnect\<close> (67 to 102), \<^verbatim>\<open>mqttConnectAsync\<close> (104 to 149), \<^verbatim>\<open>startMQTT\<close>
  (151 to 162), the six overloads of \<^verbatim>\<open>publishTelemetry\<close> and the two of
  \<^verbatim>\<open>publishState\<close> (164 to 195), \<^verbatim>\<open>onConnect\<close> (286 to 291) and the three
  setters (293 to 303). The definitions come first and follow the source statement by
  statement. Then the two connect paths and the tick are cut into blocks, proved equal
  to the methods, and described member by member and call by call; the properties of
  the tick, of an attempt, of publishing and of setup are proved from these
  descriptions. The last section compares the two connect paths: what they do to the
  members, to the collaborators and on the wire.
\<close>

section \<open>Construction and configuration\<close>

definition CloudIoTCoreMqtt :: "'w \<Rightarrow> ('w mqtt, unit) state" where
  "CloudIoTCoreMqtt collaborators = modify (\<lambda>s. s\<lparr>world := collaborators\<rparr>)"

definition setLogConnect :: "bool \<Rightarrow> ('w mqtt, unit) state" where
  "setLogConnect enabled = modify (\<lambda>s. s\<lparr>logConnect := enabled\<rparr>)"

definition setUseLts :: "bool \<Rightarrow> ('w mqtt, unit) state" where
  "setUseLts enabled = modify (\<lambda>s. s\<lparr>useLts := enabled\<rparr>)"

definition setUse443Port :: "bool \<Rightarrow> ('w mqtt, unit) state" where
  "setUse443Port enabled = modify (\<lambda>s. s\<lparr>use443Port := enabled\<rparr>)"

definition startMQTT :: "config \<Rightarrow> 'w platform \<Rightarrow> ('w mqtt, unit) state" where
  "startMQTT cfg I = do {
     on443 \<leftarrow> gets use443Port;
     lts \<leftarrow> gets useLts;
     (if lts
      then mqttClient_begin I (mqtt_host_lts cfg) (if on443 then http_port cfg else mqtt_port cfg)
      else mqttClient_begin I (mqtt_host cfg) (if on443 then http_port cfg else mqtt_port cfg));
     mqttClient_onMessage I
   }"

section \<open>Publishing\<close>

definition publishTelemetry :: "'w platform \<Rightarrow> payload \<Rightarrow> ('w mqtt, bool) state" where
  "publishTelemetry I data = do {
     t \<leftarrow> ask (dev_getEventsTopic I);
     mqttClient_publish I (Pub t data)
   }"

definition publishTelemetry_qos :: "'w platform \<Rightarrow> payload \<Rightarrow> int \<Rightarrow> ('w mqtt, bool) state" where
  "publishTelemetry_qos I data qos = do {
     t \<leftarrow> ask (dev_getEventsTopic I);
     mqttClient_publish I (PubQos t data False qos)
   }"

definition publishTelemetry_raw :: "'w platform \<Rightarrow> payload \<Rightarrow> int \<Rightarrow> ('w mqtt, bool) state" where
  "publishTelemetry_raw I data len = do {
     t \<leftarrow> ask (dev_getEventsTopic I);
     mqttClient_publish I (PubRaw t data len)
   }"

definition publishTelemetry_sub ::
  "'w platform \<Rightarrow> topic \<Rightarrow> payload \<Rightarrow> ('w mqtt, bool) state" where
  "publishTelemetry_sub I subtopic data = do {
     t \<leftarrow> ask (dev_getEventsTopic I);
     mqttClient_publish I (Pub (t @ subtopic) data)
   }"

definition publishTelemetry_sub_qos ::
  "'w platform \<Rightarrow> topic \<Rightarrow> payload \<Rightarrow> int \<Rightarrow> ('w mqtt, bool) state" where
  "publishTelemetry_sub_qos I subtopic data qos = do {
     t \<leftarrow> ask (dev_getEventsTopic I);
     mqttClient_publish I (PubQos (t @ subtopic) data False qos)
   }"

definition publishTelemetry_sub_raw ::
  "'w platform \<Rightarrow> topic \<Rightarrow> payload \<Rightarrow> int \<Rightarrow> ('w mqtt, bool) state" where
  "publishTelemetry_sub_raw I subtopic data len = do {
     t \<leftarrow> ask (dev_getEventsTopic I);
     mqttClient_publish I (PubRaw (t @ subtopic) data len)
   }"

definition publishState :: "'w platform \<Rightarrow> payload \<Rightarrow> ('w mqtt, bool) state" where
  "publishState I data = do {
     t \<leftarrow> ask (dev_getStateTopic I);
     mqttClient_publish I (Pub t data)
   }"

definition publishState_raw :: "'w platform \<Rightarrow> payload \<Rightarrow> int \<Rightarrow> ('w mqtt, bool) state" where
  "publishState_raw I data len = do {
     t \<leftarrow> ask (dev_getStateTopic I);
     mqttClient_publish I (PubRaw t data len)
   }"

definition onConnect :: "'w platform \<Rightarrow> ('w mqtt, unit) state" where
  "onConnect I = do {
     enabled \<leftarrow> gets logConnect;
     whenM enabled (do {
       _ \<leftarrow> publishState I ''connected'';
       deviceId \<leftarrow> ask (dev_getDeviceId I);
       _ \<leftarrow> publishTelemetry_sub I ''/events'' (deviceId @ ''-connected'');
       State_Monad.return ()
     })
   }"

section \<open>Connecting\<close>

definition mqttConnect :: "config \<Rightarrow> 'w platform \<Rightarrow> bool \<Rightarrow> ('w mqtt, unit) state" where
  "mqttConnect cfg I skip = do {
     Serial_print ''Connecting MQTT... '';
     issued \<leftarrow> gets iat;
     whenM (issued = 0) (do {
       tok \<leftarrow> getJwt I;
       modify (\<lambda>s. s\<lparr>jwt := tok\<rparr>)
     });
     now \<leftarrow> millis I;
     modify (\<lambda>s. s\<lparr>last_retry_at := now\<rparr>);
     clientId \<leftarrow> ask (dev_getClientId I);
     password \<leftarrow> gets jwt;
     result \<leftarrow> mqttClient_connect I clientId ''unused'' password False;
     up \<leftarrow> mqttClient_connected I;
     Serial_println (if up then ''connected'' else ''not connected'');
     err \<leftarrow> mqttClient_lastError I;
     (if err \<noteq> LWMQTT_SUCCESS \<and> \<not> result then do {
        Serial_println ''Settings incorrect or missing a cyper for SSL'';
        logError I;
        logReturnCode I;
        logConfiguration cfg I False;
        increaseBackoff cfg I
      } else do {
        Serial_println ''Library connected!'';
        modify (\<lambda>s. s\<lparr>backoff := minbackoff cfg\<rparr>)
      });
     configTopic \<leftarrow> ask (dev_getConfigTopic I);
     mqttClient_subscribe I configTopic 1;
     commandsTopic \<leftarrow> ask (dev_getCommandsTopic I);
     mqttClient_subscribe I commandsTopic 0;
     onConnect I
   }"

definition mqttConnectAsync :: "config \<Rightarrow> 'w platform \<Rightarrow> bool \<Rightarrow> ('w mqtt, unit) state" where
  "mqttConnectAsync cfg I skip = do {
     Serial_print ''Connecting MQTT async [NOT COMPLETE IMPLEMENTATION]...'';
     issued \<leftarrow> gets iat;
     whenM (issued = 0) (do {
       tok \<leftarrow> getJwt I;
       modify (\<lambda>s. s\<lparr>jwt := tok\<rparr>)
     });
     now \<leftarrow> millis I;
     modify (\<lambda>s. s\<lparr>last_retry_at := now\<rparr>);
     clientId \<leftarrow> ask (dev_getClientId I);
     password \<leftarrow> gets jwt;
     result \<leftarrow> mqttClient_connect I clientId ''unused'' password skip;
     err \<leftarrow> mqttClient_lastError I;
     (if err \<noteq> LWMQTT_SUCCESS \<and> result then do {
        logError I;
        logReturnCode I;
        logConfiguration cfg I False;
        increaseBackoff cfg I
      } else do {
        up \<leftarrow> mqttClient_connected I;
        Serial_println (if up then ''connected'' else ''not connected'');
        up \<leftarrow> mqttClient_connected I;
        (if \<not> up then do {
           Serial_println ''No internet or Settings incorrect or missing a cyper for SSL'';
           logConfiguration cfg I False;
           Serial_println (CHR 0x0A # ''aborting mqtt connection attempt, lets rety later...''
             @ CHR 0x09 # ''Library not connected!'');
           increaseBackoff cfg I
         } else do {
           Serial_println (CHR 0x0A # ''Library connected!'');
           modify (\<lambda>s. s\<lparr>backoff := minbackoff cfg\<rparr>)
         })
      });
     configTopic \<leftarrow> ask (dev_getConfigTopic I);
     mqttClient_subscribe I configTopic 1;
     commandsTopic \<leftarrow> ask (dev_getCommandsTopic I);
     mqttClient_subscribe I commandsTopic 0;
     onConnect I
   }"

section \<open>The periodic tick\<close>

definition loop :: "config \<Rightarrow> 'w platform \<Rightarrow> ('w mqtt, unit) state" where
  "loop cfg I = do {
     now \<leftarrow> millis I;
     expiry \<leftarrow> ask (dev_getExpMillis I);
     needToReconnect \<leftarrow> (if now > expiry then do {
        Serial_println ''Reconnecting before JWT expiration'';
        modify (\<lambda>s. s\<lparr>iat := 0\<rparr>);
        up \<leftarrow> mqttClient_connected I;
        whenM up (mqttClient_disconnect I);
        State_Monad.return True
      } else State_Monad.return False);
     up \<leftarrow> mqttClient_connected I;
     last \<leftarrow> gets last_retry_at;
     now \<leftarrow> millis I;
     delay \<leftarrow> gets backoff;
     needToReconnect \<leftarrow> (if \<not> up \<and> \<bar>last - now\<bar> \<ge> delay then do {
        Serial_println ''Reconnecting with back-off'';
        modify (\<lambda>s. s\<lparr>iat := 0\<rparr>);
        State_Monad.return True
      } else State_Monad.return needToReconnect);
     whenM needToReconnect (mqttConnect cfg I False);
     mqttClient_loop I
   }"



section \<open>Blocks of the connect paths\<close>

text \<open>
  Both connect paths run the same opening (banner, token refresh, time stamp,
  \<^verbatim>\<open>connect\<close>: lines 68 to 78 and 105 to 116) and the same ending (the two
  subscriptions and \<^verbatim>\<open>onConnect\<close>: lines 96 to 101 and 143 to 148). The blocks
  below name these stretches; \<open>mqttConnect_blocks\<close> and \<open>mqttConnectAsync_blocks\<close>
  prove that each method is the sequence of its blocks. \<open>token_source\<close>,
  \<open>connect_outcome\<close> and \<open>connect_call\<close> are what the opening reads from the
  world: the token used and the world after obtaining it, the result of
  \<^verbatim>\<open>connect\<close> with the world it leaves, and the call as recorded.
\<close>

definition token_source :: "'w platform \<Rightarrow> 'w mqtt \<Rightarrow> (string \<times> int) \<times> 'w" where
  "token_source I s =
     (if iat s = 0 then sys_getJwt I (world s) else ((jwt s, iat s), world s))"

definition connect_outcome :: "'w platform \<Rightarrow> bool \<Rightarrow> 'w mqtt \<Rightarrow> bool \<times> 'w" where
  "connect_outcome I skip s =
     mc_connect I (dev_getClientId I (snd (token_source I s))) ''unused''
       (fst (fst (token_source I s))) skip (snd (token_source I s))"

definition connect_call :: "'w platform \<Rightarrow> bool \<Rightarrow> 'w mqtt \<Rightarrow> call" where
  "connect_call I skip s =
     Connect (dev_getClientId I (snd (token_source I s))) ''unused''
       (fst (fst (token_source I s))) skip (fst (connect_outcome I skip s))"

definition attempt_failed :: "'w platform \<Rightarrow> bool \<Rightarrow> 'w \<Rightarrow> bool" where
  "attempt_failed I res w \<longleftrightarrow> mc_lastError I w \<noteq> LWMQTT_SUCCESS \<and> \<not> res"

definition connect_failed :: "'w platform \<Rightarrow> 'w mqtt \<Rightarrow> bool" where
  "connect_failed I s \<longleftrightarrow>
     attempt_failed I (fst (connect_outcome I False s)) (snd (connect_outcome I False s))"

definition failure_report :: "config \<Rightarrow> 'w platform \<Rightarrow> 'w \<Rightarrow> int \<Rightarrow> call list" where
  "failure_report cfg I w b =
     [Serial (Println_err (mc_lastError I w)),
      Serial (Println (error_text (mc_lastError I w))),
      Serial (Println_rc (mc_returnCode I w)),
      Serial (Println (return_code_text (mc_returnCode I w))),
      Serial (Println (''Connect with '' @ mqtt_host_lts cfg @ '':'' @ String_int (mqtt_port cfg))),
      Serial (Println (''ClientId: '' @ dev_getClientId I w)),
      Random (jitter cfg) (fst (sys_random I (jitter cfg) w)),
      Serial (Print (''Back-off: '' @ String_int b @ ''ms'' @ [CHR 0x0A]))]"

definition announce :: "'w platform \<Rightarrow> 'w \<Rightarrow> call list" where
  "announce I w =
     (let p = Pub (dev_getStateTopic I w) ''connected'';
          w' = snd (mc_publish I p w);
          p' = Pub (dev_getEventsTopic I w' @ ''/events'') (dev_getDeviceId I w' @ ''-connected'')
      in [Publish p (fst (mc_publish I p w)), Publish p' (fst (mc_publish I p' w'))])"

definition begin_attempt :: "string \<Rightarrow> 'w platform \<Rightarrow> bool \<Rightarrow> ('w mqtt, bool) state" where
  "begin_attempt banner I skip = do {
     Serial_print banner;
     issued \<leftarrow> gets iat;
     whenM (issued = 0) (do {
       tok \<leftarrow> getJwt I;
       modify (\<lambda>s. s\<lparr>jwt := tok\<rparr>)
     });
     now \<leftarrow> millis I;
     modify (\<lambda>s. s\<lparr>last_retry_at := now\<rparr>);
     clientId \<leftarrow> ask (dev_getClientId I);
     password \<leftarrow> gets jwt;
     mqttClient_connect I clientId ''unused'' password skip
   }"

definition report_failure :: "config \<Rightarrow> 'w platform \<Rightarrow> ('w mqtt, unit) state" where
  "report_failure cfg I = do {
     logError I;
     logReturnCode I;
     logConfiguration cfg I False;
     increaseBackoff cfg I
   }"

definition settle :: "config \<Rightarrow> 'w platform \<Rightarrow> bool \<Rightarrow> ('w mqtt, unit) state" where
  "settle cfg I res = do {
     err \<leftarrow> mqttClient_lastError I;
     (if err \<noteq> LWMQTT_SUCCESS \<and> \<not> res then do {
        Serial_println ''Settings incorrect or missing a cyper for SSL'';
        report_failure cfg I
      } else do {
        Serial_println ''Library connected!'';
        modify (\<lambda>s. s\<lparr>backoff := minbackoff cfg\<rparr>)
      })
   }"

definition resubscribe :: "'w platform \<Rightarrow> ('w mqtt, unit) state" where
  "resubscribe I = do {
     configTopic \<leftarrow> ask (dev_getConfigTopic I);
     mqttClient_subscribe I configTopic 1;
     commandsTopic \<leftarrow> ask (dev_getCommandsTopic I);
     mqttClient_subscribe I commandsTopic 0;
     onConnect I
   }"

lemmas block_defs = begin_attempt_def report_failure_def settle_def resubscribe_def

lemma mqttConnect_blocks:
  "mqttConnect cfg I skip = do {
     res \<leftarrow> begin_attempt ''Connecting MQTT... '' I False;
     up \<leftarrow> mqttClient_connected I;
     Serial_println (if up then ''connected'' else ''not connected'');
     settle cfg I res;
     resubscribe I
   }"
  by (simp add: mqttConnect_def block_defs cong: if_cong)

subsection \<open>begin_attempt\<close>

lemma run_begin_attempt:
  "run_state (begin_attempt banner I skip) s =
     (fst (connect_outcome I skip s),
      s\<lparr>jwt := fst (fst (token_source I s)), iat := snd (fst (token_source I s)),
        last_retry_at := sys_millis I (snd (token_source I s)),
        calls := calls s @ Serial (Print banner) # (if iat s = 0 then [GetJwt (fst (fst (token_source I s)))] else [])
                   @ [connect_call I skip s],
        world := snd (connect_outcome I skip s)\<rparr>)"
  by (simp add: begin_attempt_def token_source_def connect_outcome_def connect_call_def)

lemma result_begin_attempt [simp]:
  "result (begin_attempt banner I skip) s = fst (connect_outcome I skip s)"
  by (simp add: result_def run_begin_attempt)

lemma exec_begin_attempt [simp]:
  "exec (begin_attempt banner I skip) s =
     s\<lparr>jwt := fst (fst (token_source I s)), iat := snd (fst (token_source I s)),
       last_retry_at := sys_millis I (snd (token_source I s)),
       calls := calls s @ Serial (Print banner) # (if iat s = 0 then [GetJwt (fst (fst (token_source I s)))] else [])
                  @ [connect_call I skip s],
       world := snd (connect_outcome I skip s)\<rparr>"
  by (simp add: exec_def run_begin_attempt)

subsection \<open>Reporting a failure\<close>

lemma run_report_failure [run_simps]:
  "run_state (report_failure cfg I) s =
     ((), s\<lparr>iat := (if invalidates_token (mc_returnCode I (world s)) then 0 else iat s),
            backoff := next_backoff cfg (backoff s) (fst (sys_random I (jitter cfg) (world s))),
            calls := calls s @ failure_report cfg I (world s)
              (next_backoff cfg (backoff s) (fst (sys_random I (jitter cfg) (world s)))),
            world := snd (sys_random I (jitter cfg) (world s))\<rparr>)"
  by (simp add: report_failure_def run_simps failure_report_def Let_def)

lemma exec_report_failure [simp]:
  "exec (report_failure cfg I) s =
     s\<lparr>iat := (if invalidates_token (mc_returnCode I (world s)) then 0 else iat s),
       backoff := next_backoff cfg (backoff s) (fst (sys_random I (jitter cfg) (world s))),
       calls := calls s @ failure_report cfg I (world s)
         (next_backoff cfg (backoff s) (fst (sys_random I (jitter cfg) (world s)))),
       world := snd (sys_random I (jitter cfg) (world s))\<rparr>"
  by (simp add: exec_def run_report_failure)

subsection \<open>Settling the attempt\<close>

lemma exec_settle:
  "exec (settle cfg I res) s =
     (if attempt_failed I res (world s)
      then exec (report_failure cfg I)
             (s\<lparr>calls := calls s @ [Serial (Println ''Settings incorrect or missing a cyper for SSL'')]\<rparr>)
      else s\<lparr>backoff := minbackoff cfg, calls := calls s @ [Serial (Println ''Library connected!'')]\<rparr>)"
  by (simp add: settle_def attempt_failed_def)


lemma settle_members:
  "backoff (exec (settle cfg I res) s) =
     (if attempt_failed I res (world s)
      then next_backoff cfg (backoff s) (fst (sys_random I (jitter cfg) (world s)))
      else minbackoff cfg)"
  "iat (exec (settle cfg I res) s) =
     (if attempt_failed I res (world s) \<and> invalidates_token (mc_returnCode I (world s))
      then 0 else iat s)"
  "jwt (exec (settle cfg I res) s) = jwt s"
  "last_retry_at (exec (settle cfg I res) s) = last_retry_at s"
  "logConnect (exec (settle cfg I res) s) = logConnect s"
  "useLts (exec (settle cfg I res) s) = useLts s"
  "use443Port (exec (settle cfg I res) s) = use443Port s"
  by (simp_all add: exec_settle)

lemma world_settle:
  "world (exec (settle cfg I res) s) =
     (if attempt_failed I res (world s) then snd (sys_random I (jitter cfg) (world s))
      else world s)"
  by (simp add: exec_settle)

lemma calls_settle:
  "calls (exec (settle cfg I res) s) = calls s @
     (if attempt_failed I res (world s)
      then Serial (Println ''Settings incorrect or missing a cyper for SSL'')
             # failure_report cfg I (world s)
                 (next_backoff cfg (backoff s) (fst (sys_random I (jitter cfg) (world s))))
      else [Serial (Println ''Library connected!'')])"
  by (simp add: exec_settle)

subsection \<open>Publishing and the connect notification\<close>

lemmas publish_defs =
  publishTelemetry_def publishTelemetry_qos_def publishTelemetry_raw_def
  publishTelemetry_sub_def publishTelemetry_sub_qos_def publishTelemetry_sub_raw_def
  publishState_def publishState_raw_def

lemma calls_only_publish [simp, calls_only_intros]:
  "calls_only (publishTelemetry I d)" "calls_only (publishTelemetry_qos I d q)"
  "calls_only (publishTelemetry_raw I d n)" "calls_only (publishTelemetry_sub I t d)"
  "calls_only (publishTelemetry_sub_qos I t d q)" "calls_only (publishTelemetry_sub_raw I t d n)"
  "calls_only (publishState I d)" "calls_only (publishState_raw I d n)"
  by (simp_all add: publish_defs calls_only_bind)

lemma calls_only_onConnect [simp, calls_only_intros]: "calls_only (onConnect I)"
  by (simp add: onConnect_def calls_only_bind calls_only_whenM)

lemma calls_only_resubscribe [simp, calls_only_intros]: "calls_only (resubscribe I)"
  by (simp add: resubscribe_def calls_only_bind)

lemma calls_onConnect:
  "calls (exec (onConnect I) s) = calls s @ (if logConnect s then announce I (world s) else [])"
  by (simp add: onConnect_def publish_defs announce_def Let_def)

subsection \<open>mqttConnect, field by field\<close>

lemma mqttConnect_members:
  "backoff (exec (mqttConnect cfg I skip) s) =
     (if connect_failed I s
      then next_backoff cfg (backoff s)
             (fst (sys_random I (jitter cfg) (snd (connect_outcome I False s))))
      else minbackoff cfg)"
  "iat (exec (mqttConnect cfg I skip) s) =
     (if connect_failed I s
         \<and> invalidates_token (mc_returnCode I (snd (connect_outcome I False s)))
      then 0 else snd (fst (token_source I s)))"
  "jwt (exec (mqttConnect cfg I skip) s) = fst (fst (token_source I s))"
  "last_retry_at (exec (mqttConnect cfg I skip) s) = sys_millis I (snd (token_source I s))"
  "logConnect (exec (mqttConnect cfg I skip) s) = logConnect s"
  "useLts (exec (mqttConnect cfg I skip) s) = useLts s"
  "use443Port (exec (mqttConnect cfg I skip) s) = use443Port s"
  by (simp_all add: mqttConnect_blocks settle_members connect_failed_def)

section \<open>The asynchronous connect path\<close>

text \<open>
  \<^verbatim>\<open>mqttConnectAsync\<close> (lines 104 to 149) opens and ends like \<^verbatim>\<open>mqttConnect\<close>;
  \<open>settle_async\<close> is what it does in between (lines 118 to 141). Its first
  guard asks for an error \<^emph>\<open>and\<close> a true result of \<^verbatim>\<open>connect\<close>.
\<close>


definition settle_async :: "config \<Rightarrow> 'w platform \<Rightarrow> bool \<Rightarrow> ('w mqtt, unit) state" where
  "settle_async cfg I res = do {
     err \<leftarrow> mqttClient_lastError I;
     (if err \<noteq> LWMQTT_SUCCESS \<and> res then report_failure cfg I
      else do {
        up \<leftarrow> mqttClient_connected I;
        Serial_println (if up then ''connected'' else ''not connected'');
        up \<leftarrow> mqttClient_connected I;
        (if \<not> up then do {
           Serial_println ''No internet or Settings incorrect or missing a cyper for SSL'';
           logConfiguration cfg I False;
           Serial_println (CHR 0x0A # ''aborting mqtt connection attempt, lets rety later...''
             @ CHR 0x09 # ''Library not connected!'');
           increaseBackoff cfg I
         } else do {
           Serial_println (CHR 0x0A # ''Library connected!'');
           modify (\<lambda>s. s\<lparr>backoff := minbackoff cfg\<rparr>)
         })
      })
   }"

lemma mqttConnectAsync_blocks:
  "mqttConnectAsync cfg I skip = do {
     res \<leftarrow> begin_attempt ''Connecting MQTT async [NOT COMPLETE IMPLEMENTATION]...'' I skip;
     settle_async cfg I res;
     resubscribe I
   }"
  by (simp add: mqttConnectAsync_def block_defs settle_async_def cong: if_cong)

lemma settle_async_members:
  "backoff (exec (settle_async cfg I res) s) =
     (if (mc_lastError I (world s) \<noteq> LWMQTT_SUCCESS \<and> res) \<or> \<not> mc_connected I (world s)
      then next_backoff cfg (backoff s) (fst (sys_random I (jitter cfg) (world s)))
      else minbackoff cfg)"
  "iat (exec (settle_async cfg I res) s) =
     (if mc_lastError I (world s) \<noteq> LWMQTT_SUCCESS \<and> res
         \<and> invalidates_token (mc_returnCode I (world s))
      then 0 else iat s)"
  "jwt (exec (settle_async cfg I res) s) = jwt s"
  "last_retry_at (exec (settle_async cfg I res) s) = last_retry_at s"
  "logConnect (exec (settle_async cfg I res) s) = logConnect s"
  "useLts (exec (settle_async cfg I res) s) = useLts s"
  "use443Port (exec (settle_async cfg I res) s) = use443Port s"
  by (simp_all add: settle_async_def exec_increaseBackoff exec_def[of "logConfiguration cfg I False"]
      run_logConfiguration_quiet)

lemma mqttConnectAsync_members:
  "backoff (exec (mqttConnectAsync cfg I skip) s) =
     (if (mc_lastError I (snd (connect_outcome I skip s)) \<noteq> LWMQTT_SUCCESS
            \<and> fst (connect_outcome I skip s))
         \<or> \<not> mc_connected I (snd (connect_outcome I skip s))
      then next_backoff cfg (backoff s)
             (fst (sys_random I (jitter cfg) (snd (connect_outcome I skip s))))
      else minbackoff cfg)"
  "iat (exec (mqttConnectAsync cfg I skip) s) =
     (if mc_lastError I (snd (connect_outcome I skip s)) \<noteq> LWMQTT_SUCCESS
         \<and> fst (connect_outcome I skip s)
         \<and> invalidates_token (mc_returnCode I (snd (connect_outcome I skip s)))
      then 0 else snd (fst (token_source I s)))"
  "jwt (exec (mqttConnectAsync cfg I skip) s) = fst (fst (token_source I s))"
  "last_retry_at (exec (mqttConnectAsync cfg I skip) s) = sys_millis I (snd (token_source I s))"
  "logConnect (exec (mqttConnectAsync cfg I skip) s) = logConnect s"
  "useLts (exec (mqttConnectAsync cfg I skip) s) = useLts s"
  "use443Port (exec (mqttConnectAsync cfg I skip) s) = use443Port s"
  by (simp_all add: mqttConnectAsync_blocks settle_async_members)

lemma connect_coherentD:
  assumes "connect_coherent I"
  shows "fst (connect_outcome I k s) = mc_connected I (snd (connect_outcome I k s))"
    and "fst (connect_outcome I k s) = (mc_lastError I (snd (connect_outcome I k s)) = LWMQTT_SUCCESS)"
  using assms unfolding connect_coherent_def connect_outcome_def by blast+

lemma connect_failed_coherent:
  "connect_coherent I \<Longrightarrow> connect_failed I s \<longleftrightarrow> \<not> fst (connect_outcome I False s)"
  by (auto simp: connect_failed_def attempt_failed_def dest: connect_coherentD(2))


section \<open>Blocks of the tick\<close>

text \<open>
  \<^verbatim>\<open>loop\<close> decides in two steps (lines 36 to 42, then 43 to 48) whether to
  reconnect, reconnects if so (49 to 51) and pumps the client (52).
  \<open>needs_reconnect\<close> is the decision and \<open>before_connect\<close> the state in which
  \<^verbatim>\<open>mqttConnect\<close> is then called.
\<close>

definition token_expired :: "'w platform \<Rightarrow> 'w \<Rightarrow> bool" where
  "token_expired I w \<longleftrightarrow> sys_millis I w > dev_getExpMillis I w"

definition backoff_elapsed :: "'w platform \<Rightarrow> 'w mqtt \<Rightarrow> bool" where
  "backoff_elapsed I s \<longleftrightarrow>
     \<not> mc_connected I (world s) \<and> \<bar>last_retry_at s - sys_millis I (world s)\<bar> \<ge> backoff s"

definition check_expiry :: "'w platform \<Rightarrow> ('w mqtt, bool) state" where
  "check_expiry I = do {
     now \<leftarrow> millis I;
     expiry \<leftarrow> ask (dev_getExpMillis I);
     (if now > expiry then do {
        Serial_println ''Reconnecting before JWT expiration'';
        modify (\<lambda>s. s\<lparr>iat := 0\<rparr>);
        up \<leftarrow> mqttClient_connected I;
        whenM up (mqttClient_disconnect I);
        State_Monad.return True
      } else State_Monad.return False)
   }"

definition check_backoff :: "'w platform \<Rightarrow> bool \<Rightarrow> ('w mqtt, bool) state" where
  "check_backoff I needToReconnect = do {
     up \<leftarrow> mqttClient_connected I;
     last \<leftarrow> gets last_retry_at;
     now \<leftarrow> millis I;
     delay \<leftarrow> gets backoff;
     (if \<not> up \<and> \<bar>last - now\<bar> \<ge> delay then do {
        Serial_println ''Reconnecting with back-off'';
        modify (\<lambda>s. s\<lparr>iat := 0\<rparr>);
        State_Monad.return True
      } else State_Monad.return needToReconnect)
   }"

definition decide :: "'w platform \<Rightarrow> ('w mqtt, bool) state" where
  "decide I = do { need \<leftarrow> check_expiry I; check_backoff I need }"

definition needs_reconnect :: "'w platform \<Rightarrow> 'w mqtt \<Rightarrow> bool" where
  "needs_reconnect I s \<longleftrightarrow> result (decide I) s"

definition before_connect :: "'w platform \<Rightarrow> 'w mqtt \<Rightarrow> 'w mqtt" where
  "before_connect I s = exec (decide I) s"

lemma loop_blocks:
  "loop cfg I = do {
     need \<leftarrow> decide I;
     whenM need (mqttConnect cfg I False);
     mqttClient_loop I
   }"
  by (simp add: loop_def decide_def check_expiry_def check_backoff_def cong: if_cong)

lemma run_check_expiry:
  "run_state (check_expiry I) s =
     (token_expired I (world s),
      if token_expired I (world s)
      then s\<lparr>iat := 0,
             calls := calls s @ Serial (Println ''Reconnecting before JWT expiration'')
                        # (if mc_connected I (world s) then [Disconnect] else []),
             world := (if mc_connected I (world s) then mc_disconnect I (world s) else world s)\<rparr>
      else s)"
  by (simp add: check_expiry_def token_expired_def)

lemma run_check_backoff:
  "run_state (check_backoff I need) s =
     (backoff_elapsed I s \<or> need,
      if backoff_elapsed I s
      then s\<lparr>iat := 0, calls := calls s @ [Serial (Println ''Reconnecting with back-off'')]\<rparr>
      else s)"
  by (simp add: check_backoff_def backoff_elapsed_def)

lemma result_check_expiry [simp]: "result (check_expiry I) s = token_expired I (world s)"
  by (simp add: result_def run_check_expiry)

lemma exec_check_expiry:
  "exec (check_expiry I) s =
     (if token_expired I (world s)
      then s\<lparr>iat := 0,
             calls := calls s @ Serial (Println ''Reconnecting before JWT expiration'')
                        # (if mc_connected I (world s) then [Disconnect] else []),
             world := (if mc_connected I (world s) then mc_disconnect I (world s) else world s)\<rparr>
      else s)"
  by (simp add: exec_def run_check_expiry)

lemma result_check_backoff [simp]:
  "result (check_backoff I need) s \<longleftrightarrow> backoff_elapsed I s \<or> need"
  by (simp add: result_def run_check_backoff)

lemma exec_check_backoff:
  "exec (check_backoff I need) s =
     (if backoff_elapsed I s
      then s\<lparr>iat := 0, calls := calls s @ [Serial (Println ''Reconnecting with back-off'')]\<rparr>
      else s)"
  by (simp add: exec_def run_check_backoff)

lemma needs_reconnect_iff:
  "needs_reconnect I s \<longleftrightarrow>
     token_expired I (world s) \<or> backoff_elapsed I (exec (check_expiry I) s)"
  by (auto simp: needs_reconnect_def decide_def)

lemma not_needs_reconnect_iff:
  "\<not> needs_reconnect I s \<longleftrightarrow>
     \<not> token_expired I (world s) \<and> \<not> backoff_elapsed I s"
  by (auto simp: needs_reconnect_iff exec_check_expiry split: if_splits)

lemma before_connect_idle: "\<not> needs_reconnect I s \<Longrightarrow> before_connect I s = s"
  by (simp add: not_needs_reconnect_iff before_connect_def decide_def exec_check_expiry
      exec_check_backoff)

lemma before_connect_members:
  "needs_reconnect I s \<Longrightarrow> iat (before_connect I s) = 0"
  "backoff (before_connect I s) = backoff s"
  "jwt (before_connect I s) = jwt s"
  "last_retry_at (before_connect I s) = last_retry_at s"
  "logConnect (before_connect I s) = logConnect s"
  "useLts (before_connect I s) = useLts s"
  "use443Port (before_connect I s) = use443Port s"
  by (auto simp: needs_reconnect_iff before_connect_def decide_def exec_check_expiry
      exec_check_backoff)

lemma before_connect_disconnected:
  assumes "disconnect_disconnects I" and "needs_reconnect I s"
  shows "\<not> mc_connected I (world (before_connect I s))"
  using assms
  by (auto simp: needs_reconnect_iff before_connect_def decide_def exec_check_expiry
      exec_check_backoff backoff_elapsed_def disconnect_disconnects_def split: if_splits)

lemma exec_loop:
  "exec (loop cfg I) s =
     exec (mqttClient_loop I)
       (if needs_reconnect I s then exec (mqttConnect cfg I False) (before_connect I s) else s)"
  by (simp add: loop_blocks needs_reconnect_def before_connect_def before_connect_idle[unfolded needs_reconnect_def before_connect_def])



section \<open>Call histories of the connect path and of the tick\<close>

text \<open>
  The calls one \<^verbatim>\<open>mqttConnect\<close> appends to the history, in order: the banner, the
  token request if the stamp is zero, \<^verbatim>\<open>connect\<close>, the \<open>verdict\<close> (what it
  prints about the outcome, with the failure report), and the \<open>aftermath\<close> (the
  two subscriptions and the connect notification). \<open>settled\<close> is the world after
  the verdict and \<open>subscribed\<close> the world after the subscriptions;
  \<open>prelude_calls\<close> are the calls of \<^verbatim>\<open>loop\<close> before it connects.
\<close>

definition subscriptions :: "'w platform \<Rightarrow> 'w \<Rightarrow> call list" where
  "subscriptions I w =
     [Subscribe (dev_getConfigTopic I w) 1,
      Subscribe (dev_getCommandsTopic I (mc_subscribe I (dev_getConfigTopic I w) 1 w)) 0]"

definition subscribed :: "'w platform \<Rightarrow> 'w \<Rightarrow> 'w" where
  "subscribed I w =
     mc_subscribe I (dev_getCommandsTopic I (mc_subscribe I (dev_getConfigTopic I w) 1 w)) 0
       (mc_subscribe I (dev_getConfigTopic I w) 1 w)"

definition settled :: "config \<Rightarrow> 'w platform \<Rightarrow> 'w mqtt \<Rightarrow> 'w" where
  "settled cfg I s =
     (if connect_failed I s then snd (sys_random I (jitter cfg) (snd (connect_outcome I False s)))
      else snd (connect_outcome I False s))"

definition verdict :: "config \<Rightarrow> 'w platform \<Rightarrow> 'w mqtt \<Rightarrow> call list" where
  "verdict cfg I s =
     Serial (Println (if mc_connected I (snd (connect_outcome I False s))
                      then ''connected'' else ''not connected''))
     # (if connect_failed I s
        then Serial (Println ''Settings incorrect or missing a cyper for SSL'')
               # failure_report cfg I (snd (connect_outcome I False s))
                   (next_backoff cfg (backoff s)
                      (fst (sys_random I (jitter cfg) (snd (connect_outcome I False s)))))
        else [Serial (Println ''Library connected!'')])"

definition aftermath :: "config \<Rightarrow> 'w platform \<Rightarrow> 'w mqtt \<Rightarrow> call list" where
  "aftermath cfg I s =
     subscriptions I (settled cfg I s)
       @ (if logConnect s then announce I (subscribed I (settled cfg I s)) else [])"

lemma calls_resubscribe_eq:
  "calls (exec (resubscribe I) s) = calls s @ subscriptions I (world s)
     @ (if logConnect s then announce I (subscribed I (world s)) else [])"
  by (simp add: resubscribe_def calls_onConnect subscriptions_def subscribed_def)

lemma calls_mqttConnect:
  "calls (exec (mqttConnect cfg I skip) s) =
     calls s @ Serial (Print ''Connecting MQTT... '') # (if iat s = 0 then [GetJwt (fst (fst (token_source I s)))] else [])
       @ connect_call I False s # verdict cfg I s @ aftermath cfg I s"
  by (simp add: mqttConnect_blocks calls_resubscribe_eq calls_settle world_settle settle_members
      verdict_def settled_def aftermath_def connect_failed_def)

lemma not_connect_verdict [simp]: "\<not> list_ex is_connect (verdict cfg I s)"
  by (simp add: verdict_def failure_report_def)

lemma not_connect_aftermath [simp]: "\<not> list_ex is_connect (aftermath cfg I s)"
  by (simp add: aftermath_def subscriptions_def announce_def Let_def)

definition prelude_calls :: "'w platform \<Rightarrow> 'w mqtt \<Rightarrow> call list" where
  "prelude_calls I s =
     (if token_expired I (world s)
      then Serial (Println ''Reconnecting before JWT expiration'')
             # (if mc_connected I (world s) then [Disconnect] else [])
      else [])
     @ (if backoff_elapsed I (exec (check_expiry I) s)
        then [Serial (Println ''Reconnecting with back-off'')] else [])"

lemma calls_before_connect: "calls (before_connect I s) = calls s @ prelude_calls I s"
  by (simp add: before_connect_def decide_def exec_check_expiry exec_check_backoff
      prelude_calls_def)

lemma not_connect_prelude [simp]: "\<not> list_ex is_connect (prelude_calls I s)"
  by (simp add: prelude_calls_def)

lemma world_before_connect:
  "world (before_connect I s) =
     (if token_expired I (world s) \<and> mc_connected I (world s) then mc_disconnect I (world s)
      else world s)"
  by (simp add: before_connect_def decide_def exec_check_expiry exec_check_backoff)

lemma run_loop_idle:
  assumes "\<not> needs_reconnect I s"
  shows "run_state (loop cfg I) s = ((), s\<lparr>calls := calls s @ [Pump], world := mc_loop I (world s)\<rparr>)"
  using assms by (simp add: run_state_eq exec_loop)

lemma token_source_fresh: "iat s = 0 \<Longrightarrow> token_source I s = sys_getJwt I (world s)"
  by (simp add: token_source_def)

lemma token_source_kept: "iat s \<noteq> 0 \<Longrightarrow> token_source I s = ((jwt s, iat s), world s)"
  by (simp add: token_source_def)

lemma calls_loop_reconnect:
  assumes "needs_reconnect I s"
  shows "calls (exec (loop cfg I) s) =
     calls s @ prelude_calls I s @ Serial (Print ''Connecting MQTT... '')
       # GetJwt (fst (fst (sys_getJwt I (world (before_connect I s)))))
       # Connect (dev_getClientId I (snd (sys_getJwt I (world (before_connect I s))))) ''unused''
           (fst (fst (sys_getJwt I (world (before_connect I s))))) False
           (fst (connect_outcome I False (before_connect I s)))
       # verdict cfg I (before_connect I s) @ aftermath cfg I (before_connect I s) @ [Pump]"
  using assms
  by (simp add: exec_loop calls_mqttConnect calls_before_connect before_connect_members(1)
      connect_call_def token_source_fresh)

lemma no_connect_filter: "\<not> list_ex is_connect xs \<Longrightarrow> filter is_connect xs = []"
  by (simp add: list_ex_iff filter_empty_conv)

lemma connects_per_tick:
  "length (filter is_connect (drop (length (calls s)) (calls (exec (loop cfg I) s))))
     = (if needs_reconnect I s then 1 else 0)"
proof (cases "needs_reconnect I s")
  case True
  then show ?thesis by (simp add: calls_loop_reconnect no_connect_filter)
next
  case False
  from run_loop_idle[OF this, of cfg] False show ?thesis by (simp add: exec_def)
qed

section \<open>Properties of the tick\<close>

text \<open>
  \<^bold>\<open>C1\<close> (no premature retry). While the token has not expired, a
  call of \<^verbatim>\<open>loop\<close> that finds the client connected, or finds it
  disconnected with less than the current back-off delay elapsed since the last
  attempt, only pumps the client: it starts no connection attempt, obtains no token,
  prints nothing and leaves every member as it was.
\<close>
theorem loop_no_premature_retry:
  assumes "\<not> token_expired I (world s)"
    and "mc_connected I (world s) \<or> \<bar>last_retry_at s - sys_millis I (world s)\<bar> < backoff s"
  shows "run_state (loop cfg I) s
           = ((), s\<lparr>calls := calls s @ [Pump], world := mc_loop I (world s)\<rparr>)"
proof -
  from assms have "\<not> needs_reconnect I s"
    by (auto simp: not_needs_reconnect_iff backoff_elapsed_def)
  then show ?thesis by (rule run_loop_idle)
qed

theorem loop_no_premature_retry_witness:
  "\<not> token_expired sim (world waiting)
   \<and> (mc_connected sim (world waiting)
        \<or> \<bar>last_retry_at waiting - sys_millis sim (world waiting)\<bar> < backoff waiting)
   \<and> run_state (loop example_config sim) waiting = ((), waiting\<lparr>calls := [Pump]\<rparr>)"
  using loop_no_premature_retry[of sim waiting example_config]
  by (simp add: token_expired_def example_defs)

text \<open>
  \<^bold>\<open>C2\<close> (a fresh token before the reconnect). When
  \<^verbatim>\<open>loop\<close> finds the token expired, whether or not the client
  is connected, the calls it makes contain a call of \<^verbatim>\<open>getJwt\<close>
  immediately followed by \<^verbatim>\<open>connect\<close> with exactly the token
  that call returned as password, and no \<^verbatim>\<open>connect\<close> precedes
  them.
\<close>
theorem loop_refreshes_expired_token:
  assumes "token_expired I (world s)"
  shows "\<exists>pre rest. calls (exec (loop cfg I) s) =
           calls s @ pre @ GetJwt (fst (fst (sys_getJwt I (world (before_connect I s)))))
             # Connect (dev_getClientId I (snd (sys_getJwt I (world (before_connect I s)))))
                 ''unused'' (fst (fst (sys_getJwt I (world (before_connect I s))))) False
                 (fst (connect_outcome I False (before_connect I s)))
             # rest
         \<and> \<not> list_ex is_connect pre"
proof -
  from assms have "needs_reconnect I s" by (simp add: needs_reconnect_iff)
  then show ?thesis
    by (intro exI[of _ "prelude_calls I s @ [Serial (Print ''Connecting MQTT... '')]"]
          exI[of _ "verdict cfg I (before_connect I s) @ aftermath cfg I (before_connect I s) @ [Pump]"])
       (simp add: calls_loop_reconnect)
qed

theorem loop_refreshes_expired_token_witness:
  "token_expired sim (world stale)
   \<and> (\<exists>pre rest. calls (exec (loop example_config sim) stale) =
           calls stale @ pre @ GetJwt (fst (fst (sys_getJwt sim (world (before_connect sim stale)))))
             # Connect (dev_getClientId sim (snd (sys_getJwt sim (world (before_connect sim stale)))))
                 ''unused'' (fst (fst (sys_getJwt sim (world (before_connect sim stale))))) False
                 (fst (connect_outcome sim False (before_connect sim stale)))
             # rest
         \<and> \<not> list_ex is_connect pre)"
proof -
  have h: "token_expired sim (world stale)" by (simp add: token_expired_def example_defs)
  from loop_refreshes_expired_token[OF h, of example_config] h show ?thesis by blast
qed

text \<open>
  \<^bold>\<open>C3\<close> (reconnect only when disconnected and due, and once). If
  \<^verbatim>\<open>disconnect\<close> leaves the client disconnected, then whenever
  a call of \<^verbatim>\<open>loop\<close> makes a \<^verbatim>\<open>connect\<close>
  call, it makes exactly one, the client is disconnected at the moment
  \<^verbatim>\<open>mqttConnect\<close> starts, and either the token had expired or
  at least the back-off delay had elapsed since the last attempt: a failed attempt is
  never retried within the same call.
\<close>
theorem loop_connects_only_when_disconnected:
  assumes "disconnect_disconnects I"
    and "list_ex is_connect (drop (length (calls s)) (calls (exec (loop cfg I) s)))"
  shows "\<not> mc_connected I (world (before_connect I s))
         \<and> (token_expired I (world s)
              \<or> backoff s \<le> \<bar>last_retry_at s - sys_millis I (world s)\<bar>)
         \<and> length (filter is_connect (drop (length (calls s)) (calls (exec (loop cfg I) s)))) = 1"
proof -
  have need: "needs_reconnect I s"
  proof (rule ccontr)
    assume "\<not> needs_reconnect I s"
    from run_loop_idle[OF this, of cfg] assms(2) show False by (simp add: exec_def)
  qed
  then have "token_expired I (world s) \<or> backoff s \<le> \<bar>last_retry_at s - sys_millis I (world s)\<bar>"
    by (auto simp: needs_reconnect_iff exec_check_expiry backoff_elapsed_def split: if_splits)
  with before_connect_disconnected[OF assms(1) need] need show ?thesis
    by (simp add: connects_per_tick)
qed

theorem loop_connects_only_when_disconnected_witness:
  "disconnect_disconnects sim
   \<and> list_ex is_connect (drop (length (calls stale)) (calls (exec (loop example_config sim) stale)))
   \<and> \<not> mc_connected sim (world (before_connect sim stale))
   \<and> (token_expired sim (world stale)
        \<or> backoff stale \<le> \<bar>last_retry_at stale - sys_millis sim (world stale)\<bar>)
   \<and> length (filter is_connect
        (drop (length (calls stale)) (calls (exec (loop example_config sim) stale)))) = 1"
proof -
  have need: "needs_reconnect sim stale"
    by (simp add: needs_reconnect_iff token_expired_def example_defs)
  have h: "list_ex is_connect
      (drop (length (calls stale)) (calls (exec (loop example_config sim) stale)))"
    by (simp add: calls_loop_reconnect[OF need])
  from loop_connects_only_when_disconnected[OF sim_disconnect_disconnects h] h
  show ?thesis by simp
qed

section \<open>Properties of the connect path\<close>

text \<open>
  \<^bold>\<open>C5\<close> (a rejected credential is not reused). When an attempt of
  \<^verbatim>\<open>mqttConnect\<close> fails and the broker's return code is bad
  user name or password, or not authorized, the issued-at stamp is zero afterwards,
  and the next \<^verbatim>\<open>mqttConnect\<close> obtains a new token before it
  connects.
\<close>
theorem mqttConnect_rejection_invalidates_token:
  assumes "connect_failed I s"
    and "invalidates_token (mc_returnCode I (snd (connect_outcome I False s)))"
  shows "iat (exec (mqttConnect cfg I skip) s) = 0
         \<and> (\<exists>tok rest. calls (exec (mqttConnect cfg I skip') (exec (mqttConnect cfg I skip) s)) =
               calls (exec (mqttConnect cfg I skip) s)
                 @ Serial (Print ''Connecting MQTT... '') # GetJwt tok
                 # Connect (dev_getClientId I
                     (snd (sys_getJwt I (world (exec (mqttConnect cfg I skip) s)))))
                     ''unused'' tok False
                     (fst (connect_outcome I False (exec (mqttConnect cfg I skip) s)))
                 # rest)"
proof -
  from assms have "iat (exec (mqttConnect cfg I skip) s) = 0"
    by (simp add: mqttConnect_members)
  then show ?thesis
    by (simp add: calls_mqttConnect[of cfg I skip'] connect_call_def token_source_fresh)
qed

theorem mqttConnect_rejection_invalidates_token_witness:
  "connect_failed sim (facing [Net_reject LWMQTT_NOT_AUTHORIZED])
   \<and> invalidates_token (mc_returnCode sim
         (snd (connect_outcome sim False (facing [Net_reject LWMQTT_NOT_AUTHORIZED]))))
   \<and> iat (exec (mqttConnect example_config sim False)
         (facing [Net_reject LWMQTT_NOT_AUTHORIZED])) = 0
   \<and> (\<exists>tok rest. calls (exec (mqttConnect example_config sim False)
          (exec (mqttConnect example_config sim False)
             (facing [Net_reject LWMQTT_NOT_AUTHORIZED]))) =
        calls (exec (mqttConnect example_config sim False)
                 (facing [Net_reject LWMQTT_NOT_AUTHORIZED]))
          @ Serial (Print ''Connecting MQTT... '') # GetJwt tok
          # Connect (dev_getClientId sim (snd (sys_getJwt sim (world
                (exec (mqttConnect example_config sim False)
                   (facing [Net_reject LWMQTT_NOT_AUTHORIZED]))))))
              ''unused'' tok False
              (fst (connect_outcome sim False (exec (mqttConnect example_config sim False)
                 (facing [Net_reject LWMQTT_NOT_AUTHORIZED]))))
          # rest)"
proof -
  let ?s = "facing [Net_reject LWMQTT_NOT_AUTHORIZED]"
  have out: "connect_outcome sim False ?s
      = sim_connect (sim_clientId (snd (sim_getJwt (world ?s)))) ''unused''
          (fst (fst (sim_getJwt (world ?s)))) False (snd (sim_getJwt (world ?s)))"
    by (simp add: connect_outcome_def token_source_def example_defs)
  have h1: "connect_failed sim ?s"
    by (simp add: connect_failed_def attempt_failed_def out)
       (simp add: sim_defs example_defs)
  have h2: "invalidates_token (mc_returnCode sim (snd (connect_outcome sim False ?s)))"
    by (simp add: out) (simp add: sim_defs example_defs invalidates_token_def)
  from mqttConnect_rejection_invalidates_token[OF h1 h2, of example_config False False] h1 h2
  show ?thesis by blast
qed

text \<open>
  \<^bold>\<open>C6\<close> (a cleared stamp forces a new token). Started with
  issued-at stamp zero, \<^verbatim>\<open>mqttConnect\<close> calls
  \<^verbatim>\<open>getJwt\<close> right after its banner and connects next, and only
  once, with the token just obtained and the client id read after obtaining it; it
  keeps that token in \<^verbatim>\<open>jwt\<close>.
\<close>
theorem mqttConnect_uses_fresh_token:
  assumes "iat s = 0"
  shows "\<exists>rest. calls (exec (mqttConnect cfg I skip) s) =
           calls s @ Serial (Print ''Connecting MQTT... '')
             # GetJwt (fst (fst (sys_getJwt I (world s))))
             # Connect (dev_getClientId I (snd (sys_getJwt I (world s)))) ''unused''
                 (fst (fst (sys_getJwt I (world s)))) False (fst (connect_outcome I False s))
             # rest
         \<and> \<not> list_ex is_connect rest
         \<and> jwt (exec (mqttConnect cfg I skip) s) = fst (fst (sys_getJwt I (world s)))"
  using assms
  by (simp add: calls_mqttConnect mqttConnect_members connect_call_def token_source_fresh)

theorem mqttConnect_uses_fresh_token_witness:
  "iat boot = 0
   \<and> (\<exists>rest. calls (exec (mqttConnect example_config sim False) boot) =
           calls boot @ Serial (Print ''Connecting MQTT... '')
             # GetJwt (fst (fst (sys_getJwt sim (world boot))))
             # Connect (dev_getClientId sim (snd (sys_getJwt sim (world boot)))) ''unused''
                 (fst (fst (sys_getJwt sim (world boot)))) False
                 (fst (connect_outcome sim False boot))
             # rest
         \<and> \<not> list_ex is_connect rest
         \<and> jwt (exec (mqttConnect example_config sim False) boot)
             = fst (fst (sys_getJwt sim (world boot))))"
proof -
  have h: "iat boot = 0" by (simp add: example_defs)
  from mqttConnect_uses_fresh_token[OF h, of example_config sim False] h show ?thesis by blast
qed

text \<open>
  \<^bold>\<open>C9\<close> (a valid token is reused). Started with a non-zero
  issued-at stamp, \<^verbatim>\<open>mqttConnect\<close> does not call
  \<^verbatim>\<open>getJwt\<close>: it connects with the stored token, and the stored
  token is unchanged afterwards.
\<close>
theorem mqttConnect_reuses_valid_token:
  assumes "iat s \<noteq> 0"
  shows "calls (exec (mqttConnect cfg I skip) s) =
           calls s @ Serial (Print ''Connecting MQTT... '')
             # Connect (dev_getClientId I (world s)) ''unused'' (jwt s) False
                 (fst (connect_outcome I False s))
             # verdict cfg I s @ aftermath cfg I s
         \<and> jwt (exec (mqttConnect cfg I skip) s) = jwt s"
  using assms
  by (simp add: calls_mqttConnect mqttConnect_members connect_call_def token_source_kept)

theorem mqttConnect_reuses_valid_token_witness:
  "iat waiting \<noteq> 0
   \<and> calls (exec (mqttConnect example_config sim False) waiting) =
           calls waiting @ Serial (Print ''Connecting MQTT... '')
             # Connect (dev_getClientId sim (world waiting)) ''unused'' (jwt waiting) False
                 (fst (connect_outcome sim False waiting))
             # verdict example_config sim waiting @ aftermath example_config sim waiting
   \<and> jwt (exec (mqttConnect example_config sim False) waiting) = jwt waiting"
proof -
  have h: "iat waiting \<noteq> 0" by (simp add: example_defs)
  from mqttConnect_reuses_valid_token[OF h, of example_config sim False] h show ?thesis by blast
qed

text \<open>
  \<^bold>\<open>C7\<close> (the delay after an attempt). After
  \<^verbatim>\<open>mqttConnect\<close> the back-off delay is the minimum if the
  attempt counted as a success, and otherwise the old delay raised to the minimum,
  multiplied by the factor, increased by the jitter drawn, and capped at the maximum.
  The attempt counts as failed exactly when the client reports an error and
  \<^verbatim>\<open>connect\<close> returned false.
\<close>
theorem mqttConnect_backoff_outcome:
  "backoff (exec (mqttConnect cfg I skip) s) =
     (if mc_lastError I (snd (connect_outcome I False s)) \<noteq> LWMQTT_SUCCESS
         \<and> \<not> fst (connect_outcome I False s)
      then next_backoff cfg (backoff s)
             (fst (sys_random I (jitter cfg) (snd (connect_outcome I False s))))
      else minbackoff cfg)"
  by (simp add: mqttConnect_members connect_failed_def attempt_failed_def)

lemma mqttConnect_establishes_range:
  assumes "backoff_cfg_ok cfg" and "random_in_range I"
  shows "backoff_in_range cfg (exec (mqttConnect cfg I skip) s)"
  using next_backoff_ge_min[OF assms(1) random_in_rangeD(1)[OF assms(2)]] assms(1)
  by (simp add: backoff_in_range_def mqttConnect_members next_backoff_le_max backoff_cfg_ok_def)

lemma mqttConnectAsync_establishes_range:
  assumes "backoff_cfg_ok cfg" and "random_in_range I"
  shows "backoff_in_range cfg (exec (mqttConnectAsync cfg I skip) s)"
  using next_backoff_ge_min[OF assms(1) random_in_rangeD(1)[OF assms(2)]] assms(1)
  by (simp add: backoff_in_range_def mqttConnectAsync_members next_backoff_le_max
      backoff_cfg_ok_def)

lemma preserves_loop_range:
  assumes "backoff_cfg_ok cfg" and "random_in_range I"
  shows "preserves (backoff_in_range cfg) (loop cfg I)"
proof (rule preservesI)
  fix s :: "'a mqtt"
  assume "backoff_in_range cfg s"
  with mqttConnect_establishes_range[OF assms, of False "before_connect I s"]
  show "backoff_in_range cfg (exec (loop cfg I) s)"
    by (simp add: exec_loop backoff_in_range_def)
qed

text \<open>
  \<^bold>\<open>C8\<close> (the delay stays within its bounds). For a configuration
  with 0 \<le> minimum \<le> maximum and factor at least 1, and a
  \<^verbatim>\<open>random\<close> that returns no negative number, the delay lies
  between the minimum and the maximum after every
  \<^verbatim>\<open>mqttConnect\<close> and every
  \<^verbatim>\<open>mqttConnectAsync\<close>, from any state, and
  \<^verbatim>\<open>loop\<close> keeps it there.
\<close>
theorem connect_paths_keep_backoff_in_range:
  assumes "backoff_cfg_ok cfg" and "random_in_range I"
  shows "backoff_in_range cfg (exec (mqttConnect cfg I skip) s)
         \<and> backoff_in_range cfg (exec (mqttConnectAsync cfg I skip) s)
         \<and> (backoff_in_range cfg s \<longrightarrow> backoff_in_range cfg (exec (loop cfg I) s))"
  using mqttConnect_establishes_range[OF assms] mqttConnectAsync_establishes_range[OF assms]
    preserves_loop_range[OF assms]
  by (simp add: preserves_def)

theorem connect_paths_keep_backoff_in_range_witness:
  "backoff_cfg_ok example_config \<and> random_in_range sim
   \<and> backoff_in_range example_config (exec (mqttConnect example_config sim False) boot)
   \<and> backoff_in_range example_config (exec (mqttConnectAsync example_config sim False) boot)
   \<and> backoff_in_range example_config boot
   \<and> backoff_in_range example_config (exec (loop example_config sim) boot)"
proof -
  have h: "backoff_cfg_ok example_config" by (simp add: backoff_cfg_ok_def example_defs)
  have b: "backoff_in_range example_config boot" by (simp add: backoff_in_range_def example_defs)
  from connect_paths_keep_backoff_in_range[OF h sim_random_in_range, of False boot] h b
  show ?thesis by simp
qed



section \<open>Where the code departs from its description\<close>

text \<open>
  Four behaviours of the methods that a reader of their comments, or of a description
  of the lifecycle, would not expect. Each is stated as the code behaves.
\<close>

lemma report_is_not_the_success_line [simp]:
  "''Library connected!'' \<noteq> error_text e" "''Library connected!'' \<noteq> return_code_text rc"
  by (cases e; simp) (cases rc; simp)

text \<open>
  \<^bold>\<open>C28\<close> (subscriptions follow a failed attempt). After a failed
  attempt, one whose calls include the line that reports the failure and not the line
  that reports success, \<^verbatim>\<open>mqttConnect\<close> still subscribes to the
  configuration topic with quality of service 1 and to the commands topic with quality
  of service 0, and still runs \<^verbatim>\<open>onConnect\<close>: these are the
  last calls it makes.
\<close>
theorem mqttConnect_subscribes_after_failure:
  assumes "connect_failed I s"
  shows "\<exists>pre. calls (exec (mqttConnect cfg I skip) s) =
           calls s @ pre @ Subscribe (dev_getConfigTopic I (settled cfg I s)) 1
             # Subscribe (dev_getCommandsTopic I
                 (mc_subscribe I (dev_getConfigTopic I (settled cfg I s)) 1 (settled cfg I s))) 0
             # (if logConnect s then announce I (subscribed I (settled cfg I s)) else [])
           \<and> Serial (Println ''Settings incorrect or missing a cyper for SSL'') \<in> set pre
           \<and> Serial (Println ''Library connected!'') \<notin> set pre"
  using assms
  by (intro exI[of _ "Serial (Print ''Connecting MQTT... '')
        # (if iat s = 0 then [GetJwt (fst (fst (token_source I s)))] else [])
        @ connect_call I False s # verdict cfg I s"])
     (simp add: calls_mqttConnect aftermath_def subscriptions_def verdict_def failure_report_def
        connect_call_def)

theorem mqttConnect_subscribes_after_failure_witness:
  "connect_failed sim (facing [Net_timeout])
   \<and> (\<exists>pre. calls (exec (mqttConnect example_config sim False) (facing [Net_timeout])) =
           calls (facing [Net_timeout])
             @ pre @ Subscribe (dev_getConfigTopic sim (settled example_config sim (facing [Net_timeout]))) 1
             # Subscribe (dev_getCommandsTopic sim
                 (mc_subscribe sim (dev_getConfigTopic sim (settled example_config sim (facing [Net_timeout])))
                    1 (settled example_config sim (facing [Net_timeout])))) 0
             # (if logConnect (facing [Net_timeout])
                then announce sim (subscribed sim (settled example_config sim (facing [Net_timeout])))
                else [])
           \<and> Serial (Println ''Settings incorrect or missing a cyper for SSL'') \<in> set pre
           \<and> Serial (Println ''Library connected!'') \<notin> set pre)"
proof -
  have h: "connect_failed sim (facing [Net_timeout])"
    by (simp add: connect_failed_def attempt_failed_def connect_outcome_def token_source_def
        sim_defs example_defs)
  from mqttConnect_subscribes_after_failure[OF h, of example_config False] h
  show ?thesis by blast
qed

text \<open>
  \<^bold>\<open>C27\<close> (a silent failure counts as success). If
  \<^verbatim>\<open>connect\<close> returns false but the client reports no error,
  \<^verbatim>\<open>mqttConnect\<close> takes its success branch: it prints that the
  library is connected and resets the delay to the minimum, although no session was
  opened.
\<close>
theorem mqttConnect_success_without_connection:
  assumes "mc_lastError I (snd (connect_outcome I False s)) = LWMQTT_SUCCESS"
    and "\<not> fst (connect_outcome I False s)"
  shows "backoff (exec (mqttConnect cfg I skip) s) = minbackoff cfg
         \<and> (\<exists>pre post. calls (exec (mqttConnect cfg I skip) s) =
               pre @ Serial (Println ''Library connected!'') # post)"
  using assms
  by (simp add: mqttConnect_members calls_mqttConnect verdict_def connect_failed_def
      attempt_failed_def)
     (metis append.assoc append_Cons append_Nil)

theorem mqttConnect_success_without_connection_witness:
  "mc_lastError sim_silent (snd (connect_outcome sim_silent False (facing [Net_unreachable])))
     = LWMQTT_SUCCESS
   \<and> \<not> fst (connect_outcome sim_silent False (facing [Net_unreachable]))
   \<and> backoff (exec (mqttConnect example_config sim_silent False) (facing [Net_unreachable]))
       = minbackoff example_config
   \<and> (\<exists>pre post. calls (exec (mqttConnect example_config sim_silent False)
                          (facing [Net_unreachable])) =
          pre @ Serial (Println ''Library connected!'') # post)"
proof -
  have h1: "mc_lastError sim_silent (snd (connect_outcome sim_silent False (facing [Net_unreachable])))
     = LWMQTT_SUCCESS" by simp
  have h2: "\<not> fst (connect_outcome sim_silent False (facing [Net_unreachable]))"
    by (simp add: connect_outcome_def token_source_def sim_connect_def sim_getJwt_def example_defs)
  from mqttConnect_success_without_connection[OF h1 h2, of example_config False] h1 h2
  show ?thesis by blast
qed

text \<open>
  \<^bold>\<open>C30\<close> (nothing happens at the expiry instant itself). At the
  instant the token expires (the clock equals the expiry instant) a connected client
  is left alone: \<^verbatim>\<open>loop\<close> only pumps. The reconnect is forced
  only once the clock has passed the expiry instant.
\<close>
theorem loop_idle_at_expiry_instant:
  assumes "sys_millis I (world s) = dev_getExpMillis I (world s)" and "mc_connected I (world s)"
  shows "run_state (loop cfg I) s
           = ((), s\<lparr>calls := calls s @ [Pump], world := mc_loop I (world s)\<rparr>)"
  using assms
  by (intro run_loop_idle) (simp add: not_needs_reconnect_iff token_expired_def backoff_elapsed_def)

theorem loop_idle_at_expiry_instant_witness:
  "sys_millis sim (world (online\<lparr>world := (world online)\<lparr>w_now := 3605000\<rparr>\<rparr>))
     = dev_getExpMillis sim (world (online\<lparr>world := (world online)\<lparr>w_now := 3605000\<rparr>\<rparr>))
   \<and> mc_connected sim (world (online\<lparr>world := (world online)\<lparr>w_now := 3605000\<rparr>\<rparr>))
   \<and> run_state (loop example_config sim) (online\<lparr>world := (world online)\<lparr>w_now := 3605000\<rparr>\<rparr>)
       = ((), online\<lparr>calls := [Pump], world := (world online)\<lparr>w_now := 3605000\<rparr>\<rparr>)"
  using loop_idle_at_expiry_instant[of sim "online\<lparr>world := (world online)\<lparr>w_now := 3605000\<rparr>\<rparr>"
      example_config]
  by (simp add: example_defs)

section \<open>Setup, options and publishing\<close>

lemma run_publish [simp]:
  "run_state (publishTelemetry I d) s = run_state (mqttClient_publish I (Pub (dev_getEventsTopic I (world s)) d)) s"
  "run_state (publishTelemetry_qos I d q) s = run_state (mqttClient_publish I (PubQos (dev_getEventsTopic I (world s)) d False q)) s"
  "run_state (publishTelemetry_raw I d n) s = run_state (mqttClient_publish I (PubRaw (dev_getEventsTopic I (world s)) d n)) s"
  "run_state (publishTelemetry_sub I t d) s = run_state (mqttClient_publish I (Pub (dev_getEventsTopic I (world s) @ t) d)) s"
  "run_state (publishTelemetry_sub_qos I t d q) s = run_state (mqttClient_publish I (PubQos (dev_getEventsTopic I (world s) @ t) d False q)) s"
  "run_state (publishTelemetry_sub_raw I t d n) s = run_state (mqttClient_publish I (PubRaw (dev_getEventsTopic I (world s) @ t) d n)) s"
  "run_state (publishState I d) s = run_state (mqttClient_publish I (Pub (dev_getStateTopic I (world s)) d)) s"
  "run_state (publishState_raw I d n) s = run_state (mqttClient_publish I (PubRaw (dev_getStateTopic I (world s)) d n)) s"
  by (simp_all add: publish_defs)

text \<open>
  \<^bold>\<open>C37\<close> (publishing is a pass-through). A publish method makes
  exactly one \<^verbatim>\<open>publish\<close> call on the client, on the events
  topic (with the subtopic appended, if one is given) or on the state topic, with the
  payload and options it was given, and returns what the client returned; stated for
  one overload of each argument shape (text, text with quality of service, bytes with
  length). The history records the call with the result the client returned.
\<close>
theorem publish_passes_through:
  "run_state (publishTelemetry I d) s =
     (fst (mc_publish I (Pub (dev_getEventsTopic I (world s)) d) (world s)),
      s\<lparr>calls := calls s @ [Publish (Pub (dev_getEventsTopic I (world s)) d)
          (fst (mc_publish I (Pub (dev_getEventsTopic I (world s)) d) (world s)))],
        world := snd (mc_publish I (Pub (dev_getEventsTopic I (world s)) d) (world s))\<rparr>)
   \<and> run_state (publishTelemetry_sub_qos I t d q) s =
     (fst (mc_publish I (PubQos (dev_getEventsTopic I (world s) @ t) d False q) (world s)),
      s\<lparr>calls := calls s @ [Publish (PubQos (dev_getEventsTopic I (world s) @ t) d False q)
          (fst (mc_publish I (PubQos (dev_getEventsTopic I (world s) @ t) d False q) (world s)))],
        world := snd (mc_publish I (PubQos (dev_getEventsTopic I (world s) @ t) d False q) (world s))\<rparr>)
   \<and> run_state (publishState_raw I d n) s =
     (fst (mc_publish I (PubRaw (dev_getStateTopic I (world s)) d n) (world s)),
      s\<lparr>calls := calls s @ [Publish (PubRaw (dev_getStateTopic I (world s)) d n)
          (fst (mc_publish I (PubRaw (dev_getStateTopic I (world s)) d n) (world s)))],
        world := snd (mc_publish I (PubRaw (dev_getStateTopic I (world s)) d n) (world s))\<rparr>)"
  by simp

text \<open>
  \<^bold>\<open>C36\<close> (publishing while disconnected). If the client refuses to
  publish while it is disconnected, each of the eight publish methods returns false on
  a disconnected client, and none of the eight changes a member of the controller.
\<close>
theorem publish_fails_when_disconnected:
  assumes "publish_needs_connection I" and "\<not> mc_connected I (world s)"
  shows "\<not> result (publishTelemetry I d) s \<and> \<not> result (publishTelemetry_qos I d q) s
         \<and> \<not> result (publishTelemetry_raw I d n) s \<and> \<not> result (publishTelemetry_sub I t d) s
         \<and> \<not> result (publishTelemetry_sub_qos I t d q) s
         \<and> \<not> result (publishTelemetry_sub_raw I t d n) s
         \<and> \<not> result (publishState I d) s \<and> \<not> result (publishState_raw I d n) s
         \<and> members (exec (publishTelemetry I d) s) = members s
         \<and> members (exec (publishTelemetry_qos I d q) s) = members s
         \<and> members (exec (publishTelemetry_raw I d n) s) = members s
         \<and> members (exec (publishTelemetry_sub I t d) s) = members s
         \<and> members (exec (publishTelemetry_sub_qos I t d q) s) = members s
         \<and> members (exec (publishTelemetry_sub_raw I t d n) s) = members s
         \<and> members (exec (publishState I d) s) = members s
         \<and> members (exec (publishState_raw I d n) s) = members s"
  using assms by (simp add: result_def publish_needs_connection_def calls_only_members)

theorem publish_fails_when_disconnected_witness:
  "publish_needs_connection sim \<and> \<not> mc_connected sim (world boot)
   \<and> \<not> result (publishTelemetry sim ''t=21'') boot \<and> \<not> result (publishTelemetry_qos sim ''t=21'' 1) boot
   \<and> \<not> result (publishTelemetry_raw sim ''t=21'' 4) boot
   \<and> \<not> result (publishTelemetry_sub sim ''/a'' ''t=21'') boot
   \<and> \<not> result (publishTelemetry_sub_qos sim ''/a'' ''t=21'' 1) boot
   \<and> \<not> result (publishTelemetry_sub_raw sim ''/a'' ''t=21'' 4) boot
   \<and> \<not> result (publishState sim ''t=21'') boot \<and> \<not> result (publishState_raw sim ''t=21'' 4) boot
   \<and> members (exec (publishTelemetry sim ''t=21'') boot) = members boot
   \<and> members (exec (publishTelemetry_qos sim ''t=21'' 1) boot) = members boot
   \<and> members (exec (publishTelemetry_raw sim ''t=21'' 4) boot) = members boot
   \<and> members (exec (publishTelemetry_sub sim ''/a'' ''t=21'') boot) = members boot
   \<and> members (exec (publishTelemetry_sub_qos sim ''/a'' ''t=21'' 1) boot) = members boot
   \<and> members (exec (publishTelemetry_sub_raw sim ''/a'' ''t=21'' 4) boot) = members boot
   \<and> members (exec (publishState sim ''t=21'') boot) = members boot
   \<and> members (exec (publishState_raw sim ''t=21'' 4) boot) = members boot"
proof -
  have h: "\<not> mc_connected sim (world boot)" by (simp add: example_defs)
  from publish_fails_when_disconnected[OF sim_publish_needs_connection h] h
  show ?thesis by simp
qed

theorem startMQTT_selects_endpoint:
  "run_state (startMQTT cfg I) s =
     ((), s\<lparr>calls := calls s @
              [Begin (if useLts s then mqtt_host_lts cfg else mqtt_host cfg)
                     (if use443Port s then http_port cfg else mqtt_port cfg), OnMessage],
            world := mc_onMessage I
              (mc_begin I (if useLts s then mqtt_host_lts cfg else mqtt_host cfg)
                 (if use443Port s then http_port cfg else mqtt_port cfg) (world s))\<rparr>)"
  by (simp add: startMQTT_def)

text \<open>
  \<^bold>\<open>C40\<close> (the options take effect). After the two endpoint setters
  \<^verbatim>\<open>startMQTT\<close> calls \<^verbatim>\<open>begin\<close> with the
  long-term-support host if that option was set and the default host otherwise, with
  the HTTPS port if that option was set and the MQTT port otherwise, then registers
  the message handler, and changes nothing else; after notifications are disabled
  \<^verbatim>\<open>onConnect\<close> makes no call; each setter writes its one
  option and the constructor stores the collaborators, and nothing else changes.
\<close>
theorem setters_take_effect:
  "exec (do { setUseLts lts; setUse443Port on443; startMQTT cfg I }) s =
     s\<lparr>useLts := lts, use443Port := on443,
       calls := calls s @ [Begin (if lts then mqtt_host_lts cfg else mqtt_host cfg)
                      (if on443 then http_port cfg else mqtt_port cfg), OnMessage],
       world := mc_onMessage I
              (mc_begin I (if lts then mqtt_host_lts cfg else mqtt_host cfg)
                 (if on443 then http_port cfg else mqtt_port cfg) (world s))\<rparr>
   \<and> calls (exec (do { setLogConnect False; onConnect I }) s) = calls s
   \<and> exec (setLogConnect b) s = s\<lparr>logConnect := b\<rparr>
   \<and> exec (setUseLts b) s = s\<lparr>useLts := b\<rparr>
   \<and> exec (setUse443Port b) s = s\<lparr>use443Port := b\<rparr>
   \<and> exec (CloudIoTCoreMqtt w) s = s\<lparr>world := w\<rparr>"
  by (simp add: setLogConnect_def setUseLts_def setUse443Port_def CloudIoTCoreMqtt_def
      startMQTT_def calls_onConnect)

theorem onConnect_announces:
  "calls (exec (onConnect I) s) = calls s @
     (if logConnect s
      then (let p = Pub (dev_getStateTopic I (world s)) ''connected'';
                w' = snd (mc_publish I p (world s));
                p' = Pub (dev_getEventsTopic I w' @ ''/events'')
                       (dev_getDeviceId I w' @ ''-connected'')
            in [Publish p (fst (mc_publish I p (world s))),
                Publish p' (fst (mc_publish I p' w'))])
      else [])
   \<and> members (exec (onConnect I) s) = members s"
  by (simp add: calls_onConnect announce_def Let_def calls_only_members)

section \<open>The collaborators after an attempt, and the tick without its pump\<close>

text \<open>
  \<open>announced\<close> is the world after the two publishes of \<^verbatim>\<open>onConnect\<close>.
  \<open>tick_core\<close> is \<^verbatim>\<open>loop\<close> up to, and without, its last statement (lines 35 to
  51): what the tick decides and does before it hands over to the client's pump.
\<close>

definition announced :: "'w platform \<Rightarrow> 'w \<Rightarrow> 'w" where
  "announced I w =
     snd (mc_publish I
       (Pub (dev_getEventsTopic I (snd (mc_publish I (Pub (dev_getStateTopic I w) ''connected'') w))
               @ ''/events'')
            (dev_getDeviceId I (snd (mc_publish I (Pub (dev_getStateTopic I w) ''connected'') w))
               @ ''-connected''))
       (snd (mc_publish I (Pub (dev_getStateTopic I w) ''connected'') w)))"

lemma world_onConnect:
  "world (exec (onConnect I) s) = (if logConnect s then announced I (world s) else world s)"
  by (simp add: onConnect_def publish_defs announced_def)

lemma world_resubscribe:
  "world (exec (resubscribe I) s) =
     (if logConnect s then announced I (subscribed I (world s)) else subscribed I (world s))"
  by (simp add: resubscribe_def world_onConnect subscribed_def)

lemma world_mqttConnect:
  "world (exec (mqttConnect cfg I skip) s) =
     (if logConnect s then announced I (subscribed I (settled cfg I s))
      else subscribed I (settled cfg I s))"
  by (simp add: mqttConnect_blocks world_resubscribe world_settle settle_members settled_def
      connect_failed_def)

definition tick_core :: "config \<Rightarrow> 'w platform \<Rightarrow> ('w mqtt, unit) state" where
  "tick_core cfg I = do { need \<leftarrow> decide I; whenM need (mqttConnect cfg I False) }"

lemma loop_tick_core: "loop cfg I = do { tick_core cfg I; mqttClient_loop I }"
  by (simp add: loop_blocks tick_core_def)

lemma exec_tick_core:
  "exec (tick_core cfg I) s =
     (if needs_reconnect I s then exec (mqttConnect cfg I False) (before_connect I s) else s)"
  by (simp add: tick_core_def needs_reconnect_def before_connect_def
      before_connect_idle[unfolded needs_reconnect_def before_connect_def])

section \<open>The delay across attempts\<close>

text \<open>
  \<^bold>\<open>C25\<close> (a failure multiplies the delay). For a configuration
  with 0 \<le> minimum \<le> maximum and factor at least 1 and a
  \<^verbatim>\<open>random\<close> that returns no negative number, a failed attempt
  leaves a delay of at least the old delay times the factor, or the maximum if that is
  smaller; the history it leaves holds a call of \<^verbatim>\<open>random\<close>
  with the jitter bound as argument, and the new delay is the policy
  \<open>next_backoff\<close> applied to the old delay and the number that call
  returned.
\<close>
theorem mqttConnect_failure_raises_backoff:
  assumes "backoff_cfg_ok cfg" and "random_in_range I" and "connect_failed I s"
  shows "min (max_backoff cfg) (backoff s * factor cfg) \<le> backoff (exec (mqttConnect cfg I skip) s)
         \<and> (\<exists>rest r. calls (exec (mqttConnect cfg I skip) s) = calls s @ rest
               \<and> Random (jitter cfg) r \<in> set rest
               \<and> backoff (exec (mqttConnect cfg I skip) s) = next_backoff cfg (backoff s) r)"
proof -
  let ?r = "fst (sys_random I (jitter cfg) (snd (connect_outcome I False s)))"
  from assms(1) have f: "0 \<le> factor cfg" by (simp add: backoff_cfg_ok_def)
  have "backoff s * factor cfg \<le> max (minbackoff cfg) (backoff s) * factor cfg"
    using f by (intro mult_right_mono) simp_all
  moreover have "0 \<le> ?r" by (rule random_in_rangeD(1)[OF assms(2)])
  ultimately have "min (max_backoff cfg) (backoff s * factor cfg) \<le> next_backoff cfg (backoff s) ?r"
    by (simp add: next_backoff_def min_le_iff_disj)
  with assms(3) show ?thesis
    by (auto simp: mqttConnect_members calls_mqttConnect verdict_def failure_report_def
        intro!: exI[of _ ?r])
qed

theorem mqttConnect_failure_raises_backoff_witness:
  "backoff_cfg_ok example_config \<and> random_in_range sim \<and> connect_failed sim (facing [Net_timeout])
   \<and> min (max_backoff example_config) (backoff (facing [Net_timeout]) * factor example_config)
        \<le> backoff (exec (mqttConnect example_config sim False) (facing [Net_timeout]))
   \<and> (\<exists>rest r. calls (exec (mqttConnect example_config sim False) (facing [Net_timeout]))
                 = calls (facing [Net_timeout]) @ rest
               \<and> Random (jitter example_config) r \<in> set rest
               \<and> backoff (exec (mqttConnect example_config sim False) (facing [Net_timeout]))
                   = next_backoff example_config (backoff (facing [Net_timeout])) r)"
proof -
  have h: "connect_failed sim (facing [Net_timeout])"
    by (simp add: connect_failed_def attempt_failed_def connect_outcome_def token_source_def
        sim_defs example_defs)
  have c: "backoff_cfg_ok example_config" by (simp add: backoff_cfg_ok_def example_defs)
  from mqttConnect_failure_raises_backoff[OF c sim_random_in_range h, of False] h c
  show ?thesis by simp
qed

text \<open>
  \<^bold>\<open>C24\<close> (the delay restarts after a success). The first failed
  attempt after a successful one, whatever happened to the collaborators in between,
  sets the delay to the minimum times the factor plus the jitter drawn, capped at the
  maximum: nothing of the delay accumulated before the success remains.
\<close>
theorem backoff_restarts_after_success:
  assumes "\<not> connect_failed I s"
    and "connect_failed I ((exec (mqttConnect cfg I skip) s)\<lparr>world := w\<rparr>)"
  shows "backoff (exec (mqttConnect cfg I skip') ((exec (mqttConnect cfg I skip) s)\<lparr>world := w\<rparr>))
           = min (max_backoff cfg)
               (minbackoff cfg * factor cfg
                  + fst (sys_random I (jitter cfg)
                      (snd (connect_outcome I False
                         ((exec (mqttConnect cfg I skip) s)\<lparr>world := w\<rparr>)))))"
  using assms by (simp add: mqttConnect_members[of cfg I skip'] mqttConnect_members(1)[of cfg I skip s]
      next_backoff_def)

theorem backoff_restarts_after_success_witness:
  "\<not> connect_failed sim (facing [Net_accept])
   \<and> connect_failed sim ((exec (mqttConnect example_config sim False) (facing [Net_accept]))
         \<lparr>world := boot_world\<lparr>w_net := [Net_timeout]\<rparr>\<rparr>)
   \<and> backoff (exec (mqttConnect example_config sim False)
        ((exec (mqttConnect example_config sim False) (facing [Net_accept]))
           \<lparr>world := boot_world\<lparr>w_net := [Net_timeout]\<rparr>\<rparr>))
       = min (max_backoff example_config)
           (minbackoff example_config * factor example_config
              + fst (sys_random sim (jitter example_config)
                  (snd (connect_outcome sim False
                     ((exec (mqttConnect example_config sim False) (facing [Net_accept]))
                        \<lparr>world := boot_world\<lparr>w_net := [Net_timeout]\<rparr>\<rparr>)))))"
proof -
  have h1: "\<not> connect_failed sim (facing [Net_accept])"
    by (simp add: connect_failed_def attempt_failed_def connect_outcome_def token_source_def
        sim_defs example_defs)
  have h2: "connect_failed sim ((exec (mqttConnect example_config sim False) (facing [Net_accept]))
         \<lparr>world := boot_world\<lparr>w_net := [Net_timeout]\<rparr>\<rparr>)"
    by (simp add: connect_failed_def attempt_failed_def connect_outcome_def token_source_def
        sim_defs example_defs split: if_splits)
  from backoff_restarts_after_success[OF h1 h2, of False] h1 h2 show ?thesis by blast
qed


section \<open>The two connect paths compared\<close>

lemma on_wire_append_serial [simp]:
  "filter on_wire (xs @ [Serial out]) = filter on_wire xs"
  by simp

lemma on_wire_failure_report [simp]: "filter on_wire (failure_report cfg I w b) = []"
  by (simp add: failure_report_def)

lemma wire_settle:
  "filter on_wire (calls (exec (settle cfg I res) s)) = filter on_wire (calls s)"
  by (simp add: calls_settle)

lemma exec_settle_async:
  "exec (settle_async cfg I res) s =
     (if mc_lastError I (world s) \<noteq> LWMQTT_SUCCESS \<and> res then exec (report_failure cfg I) s
      else if \<not> mc_connected I (world s)
      then exec (increaseBackoff cfg I)
             (s\<lparr>calls := calls s @
                [Serial (Println ''not connected''),
                 Serial (Println ''No internet or Settings incorrect or missing a cyper for SSL''),
                 Serial (Println (''Connect with '' @ mqtt_host_lts cfg @ '':''
                                    @ String_int (mqtt_port cfg))),
                 Serial (Println (''ClientId: '' @ dev_getClientId I (world s))),
                 Serial (Println (CHR 0x0A # ''aborting mqtt connection attempt, lets rety later...''
                                    @ CHR 0x09 # ''Library not connected!''))]\<rparr>)
      else s\<lparr>backoff := minbackoff cfg,
             calls := calls s @ [Serial (Println ''connected''),
                                 Serial (Println (CHR 0x0A # ''Library connected!''))]\<rparr>)"
  by (simp add: settle_async_def exec_def[of "logConfiguration cfg I False"]
      run_logConfiguration_quiet)

lemma wire_settle_async:
  "filter on_wire (calls (exec (settle_async cfg I res) s)) = filter on_wire (calls s)"
  by (simp add: exec_settle_async exec_increaseBackoff)

lemma world_settle_async:
  "world (exec (settle_async cfg I res) s) =
     (if (mc_lastError I (world s) \<noteq> LWMQTT_SUCCESS \<and> res) \<or> \<not> mc_connected I (world s)
      then snd (sys_random I (jitter cfg) (world s)) else world s)"
  by (simp add: exec_settle_async exec_increaseBackoff)

lemma world_mqttConnectAsync:
  "world (exec (mqttConnectAsync cfg I skip) s) =
     (let w = snd (connect_outcome I skip s);
          w' = (if (mc_lastError I w \<noteq> LWMQTT_SUCCESS \<and> fst (connect_outcome I skip s))
                   \<or> \<not> mc_connected I w
                then snd (sys_random I (jitter cfg) w) else w)
      in if logConnect s then announced I (subscribed I w') else subscribed I w')"
  by (simp add: mqttConnectAsync_blocks world_resubscribe world_settle_async
      settle_async_members Let_def)

subsection \<open>The calls of the asynchronous path\<close>

text \<open>
  What \<^verbatim>\<open>mqttConnectAsync\<close> appends to the history after its \<^verbatim>\<open>connect\<close>, as
  \<open>verdict\<close> and \<open>aftermath\<close> give it for \<^verbatim>\<open>mqttConnect\<close>: \<open>async_failed\<close> is
  the guard of line 118, \<open>verdict_async\<close> what the three branches of lines 118 to
  140 print and draw, \<open>settled_async\<close> the world they leave.
\<close>

definition async_failed :: "'w platform \<Rightarrow> bool \<Rightarrow> 'w mqtt \<Rightarrow> bool" where
  "async_failed I skip s \<longleftrightarrow>
     mc_lastError I (snd (connect_outcome I skip s)) \<noteq> LWMQTT_SUCCESS
     \<and> fst (connect_outcome I skip s)"

definition settled_async :: "config \<Rightarrow> 'w platform \<Rightarrow> bool \<Rightarrow> 'w mqtt \<Rightarrow> 'w" where
  "settled_async cfg I skip s =
     (if async_failed I skip s \<or> \<not> mc_connected I (snd (connect_outcome I skip s))
      then snd (sys_random I (jitter cfg) (snd (connect_outcome I skip s)))
      else snd (connect_outcome I skip s))"

definition verdict_async :: "config \<Rightarrow> 'w platform \<Rightarrow> bool \<Rightarrow> 'w mqtt \<Rightarrow> call list" where
  "verdict_async cfg I skip s =
     (let w = snd (connect_outcome I skip s);
          r = fst (sys_random I (jitter cfg) w);
          b = next_backoff cfg (backoff s) r
      in if async_failed I skip s then failure_report cfg I w b
         else if \<not> mc_connected I w
         then [Serial (Println ''not connected''),
               Serial (Println ''No internet or Settings incorrect or missing a cyper for SSL''),
               Serial (Println (''Connect with '' @ mqtt_host_lts cfg @ '':''
                                  @ String_int (mqtt_port cfg))),
               Serial (Println (''ClientId: '' @ dev_getClientId I w)),
               Serial (Println (CHR 0x0A # ''aborting mqtt connection attempt, lets rety later...''
                                  @ CHR 0x09 # ''Library not connected!'')),
               Random (jitter cfg) r,
               Serial (Print (''Back-off: '' @ String_int b @ ''ms'' @ [CHR 0x0A]))]
         else [Serial (Println ''connected''),
               Serial (Println (CHR 0x0A # ''Library connected!''))])"

lemma calls_mqttConnectAsync:
  "calls (exec (mqttConnectAsync cfg I skip) s) =
     calls s @ Serial (Print ''Connecting MQTT async [NOT COMPLETE IMPLEMENTATION]...'')
       # (if iat s = 0 then [GetJwt (fst (fst (token_source I s)))] else [])
       @ connect_call I skip s # verdict_async cfg I skip s
       @ subscriptions I (settled_async cfg I skip s)
       @ (if logConnect s then announce I (subscribed I (settled_async cfg I skip s)) else [])"
  by (simp add: mqttConnectAsync_blocks calls_resubscribe_eq exec_settle_async
      exec_increaseBackoff verdict_async_def settled_async_def async_failed_def Let_def)

lemma not_connect_verdict_async [simp]: "\<not> list_ex is_connect (verdict_async cfg I skip s)"
  by (simp add: verdict_async_def failure_report_def Let_def)

text \<open>
  \<^bold>\<open>C29\<close> (the asynchronous path never reports a rejection). With a
  client whose \<^verbatim>\<open>connect\<close> returns true exactly when it is
  connected and reports no error, the failure report of
  \<^verbatim>\<open>mqttConnectAsync\<close> is unreachable: the guard of line 118 is
  false, so the calls after \<^verbatim>\<open>connect\<close> are those of the
  connected or of the not-connected branch, never \<^verbatim>\<open>logError\<close>
  or \<^verbatim>\<open>logReturnCode\<close>; the issued-at stamp after the call is
  the one the attempt started with or obtained, also when the broker rejected the
  credential, and the delay is reset or increased according to the result of
  \<^verbatim>\<open>connect\<close> alone.
\<close>
theorem mqttConnectAsync_never_invalidates:
  assumes "connect_coherent I"
  shows "iat (exec (mqttConnectAsync cfg I skip) s) = snd (fst (token_source I s))
         \<and> backoff (exec (mqttConnectAsync cfg I skip) s) =
             (if fst (connect_outcome I skip s) then minbackoff cfg
              else next_backoff cfg (backoff s)
                     (fst (sys_random I (jitter cfg) (snd (connect_outcome I skip s)))))
         \<and> \<not> async_failed I skip s
         \<and> calls (exec (mqttConnectAsync cfg I skip) s) =
             calls s @ Serial (Print ''Connecting MQTT async [NOT COMPLETE IMPLEMENTATION]...'')
               # (if iat s = 0 then [GetJwt (fst (fst (token_source I s)))] else [])
               @ connect_call I skip s # verdict_async cfg I skip s
               @ subscriptions I (settled_async cfg I skip s)
               @ (if logConnect s then announce I (subscribed I (settled_async cfg I skip s))
                  else [])"
  using connect_coherentD[OF assms, of skip s]
  by (auto simp: mqttConnectAsync_members calls_mqttConnectAsync async_failed_def)

theorem mqttConnectAsync_never_invalidates_witness:
  "connect_coherent sim
   \<and> iat (exec (mqttConnectAsync example_config sim False)
            (facing [Net_reject LWMQTT_BAD_USERNAME_OR_PASSWORD]))
       = snd (fst (token_source sim (facing [Net_reject LWMQTT_BAD_USERNAME_OR_PASSWORD])))
   \<and> backoff (exec (mqttConnectAsync example_config sim False)
            (facing [Net_reject LWMQTT_BAD_USERNAME_OR_PASSWORD])) =
         (if fst (connect_outcome sim False (facing [Net_reject LWMQTT_BAD_USERNAME_OR_PASSWORD]))
          then minbackoff example_config
          else next_backoff example_config (backoff (facing [Net_reject LWMQTT_BAD_USERNAME_OR_PASSWORD]))
                 (fst (sys_random sim (jitter example_config)
                    (snd (connect_outcome sim False (facing [Net_reject LWMQTT_BAD_USERNAME_OR_PASSWORD]))))))
   \<and> snd (fst (token_source sim (facing [Net_reject LWMQTT_BAD_USERNAME_OR_PASSWORD]))) = 1600000000
   \<and> \<not> async_failed sim False (facing [Net_reject LWMQTT_BAD_USERNAME_OR_PASSWORD])"
  using mqttConnectAsync_never_invalidates[OF sim_connect_coherent, of example_config False
      "facing [Net_reject LWMQTT_BAD_USERNAME_OR_PASSWORD]"]
  by (simp add: token_source_def sim_getJwt_def example_defs)

lemma wire_resubscribe:
  "filter on_wire (calls (exec (resubscribe I) s)) =
     filter on_wire (calls s) @ subscriptions I (world s)
       @ (if logConnect s then announce I (subscribed I (world s)) else [])"
  by (simp add: calls_resubscribe_eq subscriptions_def announce_def Let_def)

lemma wire_mqttConnect:
  "filter on_wire (calls (exec (mqttConnect cfg I skip) s)) =
     filter on_wire (calls s) @ connect_call I False s # subscriptions I (settled cfg I s)
       @ (if logConnect s then announce I (subscribed I (settled cfg I s)) else [])"
  by (simp add: calls_mqttConnect connect_call_def verdict_def aftermath_def subscriptions_def
      announce_def Let_def)

lemma wire_mqttConnectAsync:
  "filter on_wire (calls (exec (mqttConnectAsync cfg I skip) s)) =
     filter on_wire (calls s) @ connect_call I skip s
       # subscriptions I (world (exec (settle_async cfg I (fst (connect_outcome I skip s)))
            (exec (begin_attempt ''Connecting MQTT async [NOT COMPLETE IMPLEMENTATION]...'' I skip) s)))
       @ (if logConnect s
          then announce I (subscribed I (world (exec (settle_async cfg I (fst (connect_outcome I skip s)))
            (exec (begin_attempt ''Connecting MQTT async [NOT COMPLETE IMPLEMENTATION]...'' I skip) s))))
          else [])"
  by (simp add: mqttConnectAsync_blocks wire_resubscribe wire_settle_async settle_async_members
      connect_call_def)

lemma settled_coherent:
  assumes "connect_coherent I"
  shows "settled cfg I s =
     (if fst (connect_outcome I False s) then snd (connect_outcome I False s)
      else snd (sys_random I (jitter cfg) (snd (connect_outcome I False s))))"
  by (simp add: settled_def connect_failed_coherent[OF assms])

text \<open>
  \<^bold>\<open>C15\<close> (the two connect methods agree unless the broker rejects
  the credential). For a client whose \<^verbatim>\<open>connect\<close> returns true
  exactly when it is connected and reports no error,
  \<^verbatim>\<open>mqttConnectAsync\<close> called with skip false and
  \<^verbatim>\<open>mqttConnect\<close> started in the same state end with the same
  members, leave the collaborators in the same state and make the same calls on the
  collaborators in the same order (they differ only in what they print), provided the
  attempt succeeds or the return code of the broker is not one that clears the
  issued-at stamp.
\<close>
theorem connect_paths_agree:
  assumes "connect_coherent I"
    and "fst (connect_outcome I False s)
         \<or> \<not> invalidates_token (mc_returnCode I (snd (connect_outcome I False s)))"
  shows "members (exec (mqttConnectAsync cfg I False) s) = members (exec (mqttConnect cfg I skip) s)
         \<and> world (exec (mqttConnectAsync cfg I False) s) = world (exec (mqttConnect cfg I skip) s)
         \<and> filter on_wire (calls (exec (mqttConnectAsync cfg I False) s))
             = filter on_wire (calls (exec (mqttConnect cfg I skip) s))"
proof -
  note c = connect_coherentD[OF assms(1), of False s]
  have m: "members (exec (mqttConnectAsync cfg I False) s) = members (exec (mqttConnect cfg I skip) s)"
    using assms(2) c
    by (auto simp: members_def mqttConnectAsync_members mqttConnect_members
        connect_failed_coherent[OF assms(1)])
  have w: "world (exec (mqttConnectAsync cfg I False) s) = world (exec (mqttConnect cfg I skip) s)"
    using c by (auto simp: world_mqttConnectAsync world_mqttConnect settled_coherent[OF assms(1)]
        Let_def)
  have "world (exec (settle_async cfg I (fst (connect_outcome I False s)))
      (exec (begin_attempt ''Connecting MQTT async [NOT COMPLETE IMPLEMENTATION]...'' I False) s))
    = settled cfg I s"
    using c by (auto simp: world_settle_async settled_coherent[OF assms(1)])
  then have "filter on_wire (calls (exec (mqttConnectAsync cfg I False) s))
             = filter on_wire (calls (exec (mqttConnect cfg I skip) s))"
    by (simp add: wire_mqttConnectAsync wire_mqttConnect)
  with m w show ?thesis by simp
qed

theorem connect_paths_agree_witness:
  "connect_coherent sim
   \<and> (fst (connect_outcome sim False (facing [Net_timeout]))
        \<or> \<not> invalidates_token (mc_returnCode sim (snd (connect_outcome sim False (facing [Net_timeout])))))
   \<and> members (exec (mqttConnectAsync example_config sim False) (facing [Net_timeout]))
       = members (exec (mqttConnect example_config sim False) (facing [Net_timeout]))
   \<and> world (exec (mqttConnectAsync example_config sim False) (facing [Net_timeout]))
       = world (exec (mqttConnect example_config sim False) (facing [Net_timeout]))
   \<and> filter on_wire (calls (exec (mqttConnectAsync example_config sim False) (facing [Net_timeout])))
       = filter on_wire (calls (exec (mqttConnect example_config sim False) (facing [Net_timeout])))"
proof -
  have h: "fst (connect_outcome sim False (facing [Net_timeout]))
        \<or> \<not> invalidates_token (mc_returnCode sim (snd (connect_outcome sim False (facing [Net_timeout]))))"
    by (simp add: connect_outcome_def token_source_def sim_defs example_defs invalidates_token_def)
  from connect_paths_agree[OF sim_connect_coherent h, of example_config False] h
  show ?thesis by simp
qed

end
