(* ===== verification/Lifecycle.thy ===== *)
theory Lifecycle
  imports Controller
begin

text \<open>
  The controller as a machine driven from outside: the sketch calls one public method
  of \<^verbatim>\<open>CloudIoTCoreMqtt\<close> after another, and between two calls the environment
  changes the collaborators (time passes, the link drops, the broker closes the
  session). \<open>operation\<close> names the public methods of
  \<^verbatim>\<open>src/src/CloudIoTCoreMqtt.cpp\<close> with their arguments, \<open>perform\<close> runs one,
  \<open>run_ops\<close> a sequence, and \<open>reachable\<close> is the set of states a device can be
  in. The invariants of the controller are proved for every reachable state by
  induction over this relation, from one lemma per method: the bounds of the delay, the
  growth of the history, the stability of the options, and the well-formedness of
  every recorded call (\<open>wf_call\<close>).
\<close>

section \<open>Operations\<close>

datatype 'w operation =
    StartMQTT
  | Loop
  | MqttConnect bool
  | MqttConnectAsync bool
  | PublishTelemetry payload
  | PublishTelemetryQos payload int
  | PublishTelemetryRaw payload int
  | PublishTelemetrySub topic payload
  | PublishTelemetrySubQos topic payload int
  | PublishTelemetrySubRaw topic payload int
  | PublishState payload
  | PublishStateRaw payload int
  | LogError
  | LogReturnCode
  | LogConfiguration bool
  | SetLogConnect bool
  | SetUseLts bool
  | SetUse443Port bool
  | Environment "'w \<Rightarrow> 'w"

fun perform :: "config \<Rightarrow> 'w platform \<Rightarrow> 'w operation \<Rightarrow> 'w mqtt \<Rightarrow> 'w mqtt" where
  "perform cfg I StartMQTT s = exec (startMQTT cfg I) s"
| "perform cfg I Loop s = exec (loop cfg I) s"
| "perform cfg I (MqttConnect skip) s = exec (mqttConnect cfg I skip) s"
| "perform cfg I (MqttConnectAsync skip) s = exec (mqttConnectAsync cfg I skip) s"
| "perform cfg I (PublishTelemetry d) s = exec (publishTelemetry I d) s"
| "perform cfg I (PublishTelemetryQos d q) s = exec (publishTelemetry_qos I d q) s"
| "perform cfg I (PublishTelemetryRaw d n) s = exec (publishTelemetry_raw I d n) s"
| "perform cfg I (PublishTelemetrySub t d) s = exec (publishTelemetry_sub I t d) s"
| "perform cfg I (PublishTelemetrySubQos t d q) s = exec (publishTelemetry_sub_qos I t d q) s"
| "perform cfg I (PublishTelemetrySubRaw t d n) s = exec (publishTelemetry_sub_raw I t d n) s"
| "perform cfg I (PublishState d) s = exec (publishState I d) s"
| "perform cfg I (PublishStateRaw d n) s = exec (publishState_raw I d n) s"
| "perform cfg I LogError s = exec (logError I) s"
| "perform cfg I LogReturnCode s = exec (logReturnCode I) s"
| "perform cfg I (LogConfiguration showJWT) s = exec (logConfiguration cfg I showJWT) s"
| "perform cfg I (SetLogConnect b) s = exec (setLogConnect b) s"
| "perform cfg I (SetUseLts b) s = exec (setUseLts b) s"
| "perform cfg I (SetUse443Port b) s = exec (setUse443Port b) s"
| "perform cfg I (Environment f) s = s\<lparr>world := f (world s)\<rparr>"

definition run_ops :: "config \<Rightarrow> 'w platform \<Rightarrow> 'w operation list \<Rightarrow> 'w mqtt \<Rightarrow> 'w mqtt" where
  "run_ops cfg I ops s = foldl (\<lambda>t op. perform cfg I op t) s ops"

inductive reachable :: "config \<Rightarrow> 'w platform \<Rightarrow> 'w mqtt \<Rightarrow> 'w mqtt \<Rightarrow> bool"
  for cfg :: config and I :: "'w platform" and s0 :: "'w mqtt" where
  start: "reachable cfg I s0 s0"
| step: "reachable cfg I s0 s \<Longrightarrow> reachable cfg I s0 (perform cfg I op s)"

fun is_setter :: "'w operation \<Rightarrow> bool" where
  "is_setter (SetLogConnect b) = True"
| "is_setter (SetUseLts b) = True"
| "is_setter (SetUse443Port b) = True"
| "is_setter op = False"

definition options :: "'w mqtt \<Rightarrow> bool \<times> bool \<times> bool" where
  "options s = (logConnect s, useLts s, use443Port s)"

section \<open>Sequences and reachability\<close>

lemma run_ops_simps [simp]:
  "run_ops cfg I [] s = s"
  "run_ops cfg I (op # ops) s = run_ops cfg I ops (perform cfg I op s)"
  "run_ops cfg I (ops @ [op]) s = perform cfg I op (run_ops cfg I ops s)"
  "run_ops cfg I (ops @ ops') s = run_ops cfg I ops' (run_ops cfg I ops s)"
  by (simp_all add: run_ops_def)

lemma reachable_run_ops: "reachable cfg I s (run_ops cfg I ops s)"
  by (induction ops rule: rev_induct) (auto intro: reachable.intros)

lemma reachable_iff_run_ops: "reachable cfg I s0 s \<longleftrightarrow> (\<exists>ops. s = run_ops cfg I ops s0)"
proof
  assume "reachable cfg I s0 s"
  then show "\<exists>ops. s = run_ops cfg I ops s0"
  proof induction
    case start
    have "s0 = run_ops cfg I [] s0" by simp
    then show ?case ..
  next
    case (step s op)
    from step.IH obtain ops where "s = run_ops cfg I ops s0" ..
    then have "perform cfg I op s = run_ops cfg I (ops @ [op]) s0" by simp
    then show ?case ..
  qed
qed (auto simp: reachable_run_ops)

lemma reachable_trans:
  "reachable cfg I s0 s \<Longrightarrow> reachable cfg I s s' \<Longrightarrow> reachable cfg I s0 s'"
  by (metis reachable_iff_run_ops run_ops_simps(4))

lemma reachable_invariant:
  assumes "reachable cfg I s0 s" and "P s0" and "\<And>op t. P t \<Longrightarrow> P (perform cfg I op t)"
  shows "P s"
  using assms(1) by induction (simp_all add: assms(2,3))

section \<open>Every method only appends to the history\<close>

lemma appends_diagnostics [simp]:
  "appends (logError I)" "appends (logReturnCode I)" "appends (logConfiguration cfg I showJWT)"
  "appends (increaseBackoff cfg I)"
  by (cases showJWT; simp add: appends_def exec_def run_simps Let_def)+

lemma appends_publish [simp]:
  "appends (publishTelemetry I d)" "appends (publishTelemetry_qos I d q)"
  "appends (publishTelemetry_raw I d n)" "appends (publishTelemetry_sub I t d)"
  "appends (publishTelemetry_sub_qos I t d q)" "appends (publishTelemetry_sub_raw I t d n)"
  "appends (publishState I d)" "appends (publishState_raw I d n)"
  by (simp_all add: publish_defs appends_bind)

lemma appends_setup [simp]:
  "appends (startMQTT cfg I)" "appends (setLogConnect b)" "appends (setUseLts b)"
  "appends (setUse443Port b)" "appends (onConnect I)" "appends (resubscribe I)"
  by (simp_all add: startMQTT_def setLogConnect_def setUseLts_def setUse443Port_def
      onConnect_def resubscribe_def appends_intros)

lemma appends_connect [simp]:
  "appends (begin_attempt banner I skip)" "appends (report_failure cfg I)"
  "appends (settle cfg I res)" "appends (settle_async cfg I res)"
  "appends (mqttConnect cfg I skip)" "appends (mqttConnectAsync cfg I skip)"
  by (simp_all add: begin_attempt_def report_failure_def settle_def settle_async_def
      mqttConnect_blocks mqttConnectAsync_blocks appends_intros)

lemma appends_loop [simp]: "appends (check_expiry I)" "appends (check_backoff I need)"
  "appends (decide I)" "appends (loop cfg I)"
  by (simp_all add: check_expiry_def check_backoff_def decide_def loop_blocks appends_intros)

lemma perform_appends: "\<exists>cs. calls (perform cfg I op s) = calls s @ cs"
  by (cases op) (simp_all add: appendsD)

section \<open>Invariants of the reachable states\<close>

lemma perform_backoff_range:
  assumes "backoff_cfg_ok cfg" and "random_in_range I" and "backoff_in_range cfg s"
  shows "backoff_in_range cfg (perform cfg I op s)"
proof (cases op)
  case Loop
  with preservesD[OF preserves_loop_range[OF assms(1,2)] assms(3)] show ?thesis by simp
next
  case (MqttConnect skip)
  with mqttConnect_establishes_range[OF assms(1,2)] show ?thesis by simp
next
  case (MqttConnectAsync skip)
  with mqttConnectAsync_establishes_range[OF assms(1,2)] show ?thesis by simp
next
  case (LogConfiguration showJWT)
  with assms(3) show ?thesis
    by (cases showJWT) (simp_all add: backoff_in_range_def exec_def run_simps)
qed (use assms(3) in \<open>simp_all add: backoff_in_range_def exec_def run_simps startMQTT_def
      setLogConnect_def setUseLts_def setUse443Port_def\<close>)

text \<open>
  \<^bold>\<open>C18\<close> (the delay is in range in every reachable state).
  Whatever sequence of public methods the sketch calls and however the environment
  changes the collaborators in between, the delay stays between the minimum and the
  maximum, provided it starts there, 0 \<le> minimum \<le> maximum, the factor is at
  least 1 and \<^verbatim>\<open>random\<close> returns no negative number.
\<close>
theorem reachable_backoff_in_range:
  assumes "backoff_cfg_ok cfg" and "random_in_range I" and "backoff_in_range cfg s0"
    and "reachable cfg I s0 s"
  shows "backoff_in_range cfg s"
  using assms(4,3) by (rule reachable_invariant) (rule perform_backoff_range[OF assms(1,2)])

theorem reachable_backoff_in_range_witness:
  "backoff_cfg_ok example_config \<and> random_in_range sim \<and> backoff_in_range example_config boot
   \<and> reachable example_config sim boot
        (run_ops example_config sim [StartMQTT, Loop, Environment (advance 400), Loop] boot)
   \<and> backoff_in_range example_config
        (run_ops example_config sim [StartMQTT, Loop, Environment (advance 400), Loop] boot)"
proof -
  have c: "backoff_cfg_ok example_config" by (simp add: backoff_cfg_ok_def example_defs)
  have b: "backoff_in_range example_config boot" by (simp add: backoff_in_range_def example_defs)
  note r = reachable_run_ops[of example_config sim boot
      "[StartMQTT, Loop, Environment (advance 400), Loop]"]
  from reachable_backoff_in_range[OF c sim_random_in_range b r] c b r show ?thesis by simp
qed

theorem reachable_history_grows:
  assumes "reachable cfg I s0 s"
  shows "\<exists>cs. calls s = calls s0 @ cs"
  using assms
proof induction
  case start
  show ?case by simp
next
  case (step s op)
  from step.IH obtain cs where "calls s = calls s0 @ cs" ..
  moreover obtain cs' where "calls (perform cfg I op s) = calls s @ cs'"
    using perform_appends by blast
  ultimately have "calls (perform cfg I op s) = calls s0 @ cs @ cs'" by simp
  then show ?case ..
qed

theorem reachable_history_grows_witness:
  "reachable example_config sim boot
     (run_ops example_config sim [StartMQTT, PublishState ''on'', SetUseLts True] boot)
   \<and> (\<exists>cs. calls (run_ops example_config sim [StartMQTT, PublishState ''on'', SetUseLts True] boot)
             = calls boot @ cs)"
proof -
  note r = reachable_run_ops[of example_config sim boot
      "[StartMQTT, PublishState ''on'', SetUseLts True]"]
  from reachable_history_grows[OF r] r show ?thesis by simp
qed

section \<open>Options and token change only where the code says so\<close>

lemma perform_options: "\<not> is_setter op \<Longrightarrow> options (perform cfg I op s) = options s"
proof (cases op)
  case Loop
  then show ?thesis by (simp add: options_def exec_loop mqttConnect_members before_connect_members)
next
  case (MqttConnect skip)
  then show ?thesis by (simp add: options_def mqttConnect_members)
next
  case (MqttConnectAsync skip)
  then show ?thesis by (simp add: options_def mqttConnectAsync_members)
next
  case (LogConfiguration showJWT)
  then show ?thesis by (cases showJWT) (simp_all add: options_def exec_def run_simps)
qed (simp_all add: options_def exec_def run_simps startMQTT_def case_prod_beta)

text \<open>
  The three options are changed by their setters and by no other method.
\<close>
theorem options_change_only_by_setters:
  assumes "\<not> list_ex is_setter ops"
  shows "options (run_ops cfg I ops s) = options s"
  using assms by (induction ops rule: rev_induct) (simp_all add: perform_options)

theorem options_change_only_by_setters_witness:
  "\<not> list_ex is_setter [StartMQTT, Loop, Environment (advance 400), Loop, PublishState ''on'']
   \<and> options (run_ops example_config sim
         [StartMQTT, Loop, Environment (advance 400), Loop, PublishState ''on''] boot)
       = options boot"
  using options_change_only_by_setters[of
      "[StartMQTT, Loop, Environment (advance 400), Loop, PublishState ''on'']" example_config sim boot]
  by simp

section \<open>Well-formed calls\<close>

text \<open>
  The argument conventions of the calls the methods make: the user name of
  \<^verbatim>\<open>connect\<close> is the placeholder, subscriptions ask for quality of service 0 or 1,
  the random source is asked for the jitter bound, \<^verbatim>\<open>begin\<close> names one of the two
  hosts and one of the two ports, and no publish is retained. \<open>wf_call\<close> is the
  predicate on one recorded call; every history the methods produce satisfies it.
\<close>

fun wf_pub :: "pub \<Rightarrow> bool" where
  "wf_pub (PubQos t d retained qos) = (\<not> retained)"
| "wf_pub p = True"

fun wf_call :: "config \<Rightarrow> call \<Rightarrow> bool" where
  "wf_call cfg (Connect clientId username password skip res) = (username = ''unused'')"
| "wf_call cfg (Subscribe t qos) = (qos = 0 \<or> qos = 1)"
| "wf_call cfg (Random n r) = (n = jitter cfg)"
| "wf_call cfg (Begin h p) =
     ((h = mqtt_host cfg \<or> h = mqtt_host_lts cfg) \<and> (p = mqtt_port cfg \<or> p = http_port cfg))"
| "wf_call cfg (Publish p res) = wf_pub p"
| "wf_call cfg c = True"

lemma wf_serial [simp]: "wf_call cfg (Serial out)"
  by simp

lemma emits_wf_diagnostics [simp]:
  "emits (wf_call cfg) (logError I)" "emits (wf_call cfg) (logReturnCode I)"
  "emits (wf_call cfg) (logConfiguration cfg' I showJWT)"
  "emits (wf_call cfg) (increaseBackoff cfg I)"
  by (cases showJWT; simp add: emits_def exec_def run_simps Let_def)+

lemma emits_wf_publish [simp]:
  "emits (wf_call cfg) (publishTelemetry I d)" "emits (wf_call cfg) (publishTelemetry_qos I d q)"
  "emits (wf_call cfg) (publishTelemetry_raw I d n)" "emits (wf_call cfg) (publishTelemetry_sub I t d)"
  "emits (wf_call cfg) (publishTelemetry_sub_qos I t d q)"
  "emits (wf_call cfg) (publishTelemetry_sub_raw I t d n)"
  "emits (wf_call cfg) (publishState I d)" "emits (wf_call cfg) (publishState_raw I d n)"
  by (simp_all add: publish_defs emits_intros)

lemma emits_wf_setup [simp]:
  "emits (wf_call cfg) (startMQTT cfg I)" "emits (wf_call cfg) (setLogConnect b)"
  "emits (wf_call cfg) (setUseLts b)" "emits (wf_call cfg) (setUse443Port b)"
  "emits (wf_call cfg) (onConnect I)" "emits (wf_call cfg) (resubscribe I)"
  by (simp_all add: startMQTT_def setLogConnect_def setUseLts_def setUse443Port_def
      onConnect_def resubscribe_def emits_intros)

lemma emits_wf_connect [simp]:
  "emits (wf_call cfg) (begin_attempt banner I skip)" "emits (wf_call cfg) (report_failure cfg I)"
  "emits (wf_call cfg) (settle cfg I res)" "emits (wf_call cfg) (settle_async cfg I res)"
  "emits (wf_call cfg) (mqttConnect cfg I skip)" "emits (wf_call cfg) (mqttConnectAsync cfg I skip)"
  by (simp_all add: begin_attempt_def report_failure_def settle_def settle_async_def
      mqttConnect_blocks mqttConnectAsync_blocks emits_intros)

lemma emits_wf_loop [simp]:
  "emits (wf_call cfg) (check_expiry I)" "emits (wf_call cfg) (check_backoff I need)"
  "emits (wf_call cfg) (decide I)" "emits (wf_call cfg) (loop cfg I)"
  by (simp_all add: check_expiry_def check_backoff_def decide_def loop_blocks emits_intros)

lemma perform_well_formed:
  assumes "list_all (wf_call cfg) (calls s)"
  shows "list_all (wf_call cfg) (calls (perform cfg I op s))"
  using assms by (cases op) (simp_all add: emits_keeps)

text \<open>
  \<^bold>\<open>C17\<close> (every call on a collaborator is well formed). In every
  history the public methods produce, from a history that is well formed, each
  \<^verbatim>\<open>connect\<close> passes the user name unused, each subscription
  asks for quality of service 0 or 1, each \<^verbatim>\<open>random\<close> is called
  with the jitter bound, each \<^verbatim>\<open>begin\<close> names one of the two
  configured hosts and one of the two configured ports, and no publish with a quality
  of service is retained.
\<close>
theorem reachable_history_well_formed:
  assumes "reachable cfg I s0 s" and "list_all (wf_call cfg) (calls s0)"
  shows "list_all (wf_call cfg) (calls s)"
  using assms by (rule reachable_invariant) (rule perform_well_formed)

theorem reachable_history_well_formed_witness:
  "reachable example_config sim boot
     (run_ops example_config sim [StartMQTT, Loop, PublishTelemetryQos ''t=21'' 1] boot)
   \<and> list_all (wf_call example_config) (calls boot)
   \<and> list_all (wf_call example_config)
        (calls (run_ops example_config sim [StartMQTT, Loop, PublishTelemetryQos ''t=21'' 1] boot))"
proof -
  note r = reachable_run_ops[of example_config sim boot
      "[StartMQTT, Loop, PublishTelemetryQos ''t=21'' 1]"]
  have b: "list_all (wf_call example_config) (calls boot)" by (simp add: example_defs)
  from reachable_history_well_formed[OF r b] r b show ?thesis by simp
qed

end
