(* ===== verification/Session.thy ===== *)
theory Session
  imports Controller
begin

text \<open>
  What the controller promises, independent of how the methods are written: a session
  that is disconnected, connecting or connected; a token that is held or cleared; a
  delay. \<open>session_step\<close> is the session's transition relation, \<open>tick_spec\<close> says
  what one tick does to the three, given what the tick observes of the outside
  (\<open>observation\<close>), and \<open>abs_ctl\<close> reads the three off a state of the code. The
  refinement theorem states that \<^verbatim>\<open>loop\<close> of \<^verbatim>\<open>src/src/CloudIoTCoreMqtt.cpp\<close>, up
  to its pump, computes \<open>tick_spec\<close>, for collaborators that are \<open>well_behaved\<close>.
  Among the observations is whether the token provider stamped the token it issued
  (\<open>o_stamped\<close>): a token without a stamp does not count as held.
\<close>

section \<open>The abstract controller\<close>

datatype session = Disconnected | Connecting | Connected

datatype event = Force | Attempt | Accept | Refuse | Drop | Pump_step

inductive session_step :: "session \<Rightarrow> event \<Rightarrow> session \<Rightarrow> bool" where
  force: "session_step \<sigma> Force Disconnected"
| attempt: "session_step Disconnected Attempt Connecting"
| accept: "session_step Connecting Accept Connected"
| refuse: "session_step Connecting Refuse Disconnected"
| drop: "session_step Connected Drop Disconnected"
| pump: "\<sigma> \<noteq> Connecting \<Longrightarrow> session_step \<sigma> Pump_step \<sigma>"

inductive_cases session_step_AttemptE: "session_step \<sigma> Attempt \<sigma>'"
inductive_cases session_step_AcceptE: "session_step \<sigma> Accept \<sigma>'"
inductive_cases session_step_RefuseE: "session_step \<sigma> Refuse \<sigma>'"
inductive_simps session_step_simps: "session_step \<sigma> e \<sigma>'"

code_pred session_step .

inductive session_path :: "session \<Rightarrow> event list \<Rightarrow> session \<Rightarrow> bool" where
  path_nil: "session_path \<sigma> [] \<sigma>"
| path_cons: "session_step \<sigma> e \<sigma>' \<Longrightarrow> session_path \<sigma>' es \<sigma>'' \<Longrightarrow> session_path \<sigma> (e # es) \<sigma>''"

fun session_next :: "session \<Rightarrow> event \<Rightarrow> session option" where
  "session_next \<sigma> Force = Some Disconnected"
| "session_next Disconnected Attempt = Some Connecting"
| "session_next Connecting Accept = Some Connected"
| "session_next Connecting Refuse = Some Disconnected"
| "session_next Connected Drop = Some Disconnected"
| "session_next \<sigma> Pump_step = (if \<sigma> = Connecting then None else Some \<sigma>)"
| "session_next \<sigma> e = None"

fun session_run :: "session \<Rightarrow> event list \<Rightarrow> session option" where
  "session_run \<sigma> [] = Some \<sigma>"
| "session_run \<sigma> (e # es) = (case session_next \<sigma> e of None \<Rightarrow> None | Some \<sigma>' \<Rightarrow> session_run \<sigma>' es)"

record ctl =
  c_session :: session
  c_token_held :: bool
  c_delay :: int

record observation =
  o_expired :: bool
  o_elapsed :: bool
  o_accepted :: bool
  o_rejected :: bool
  o_stamped :: bool
  o_jitter :: int

definition tick_due :: "observation \<Rightarrow> ctl \<Rightarrow> bool" where
  "tick_due ob c \<longleftrightarrow> o_expired ob \<or> (c_session c \<noteq> Connected \<and> o_elapsed ob)"

definition attempt_spec :: "config \<Rightarrow> observation \<Rightarrow> ctl \<Rightarrow> ctl" where
  "attempt_spec cfg ob c =
     (if o_accepted ob
      then \<lparr>c_session = Connected, c_token_held = o_stamped ob, c_delay = minbackoff cfg\<rparr>
      else \<lparr>c_session = Disconnected, c_token_held = (\<not> o_rejected ob \<and> o_stamped ob),
            c_delay = next_backoff cfg (c_delay c) (o_jitter ob)\<rparr>)"

definition tick_spec :: "config \<Rightarrow> observation \<Rightarrow> ctl \<Rightarrow> ctl" where
  "tick_spec cfg ob c = (if tick_due ob c then attempt_spec cfg ob c else c)"

definition tick_events :: "observation \<Rightarrow> ctl \<Rightarrow> event list" where
  "tick_events ob c =
     (if tick_due ob c
      then (if o_expired ob then [Force] else [])
             @ [Attempt, if o_accepted ob then Accept else Refuse]
      else [])"

section \<open>What a state of the code stands for\<close>

definition session_of :: "'w platform \<Rightarrow> 'w \<Rightarrow> session" where
  "session_of I w = (if mc_connected I w then Connected else Disconnected)"

definition abs_ctl :: "'w platform \<Rightarrow> 'w mqtt \<Rightarrow> ctl" where
  "abs_ctl I s = \<lparr>c_session = session_of I (world s), c_token_held = (iat s \<noteq> 0),
                  c_delay = backoff s\<rparr>"

definition observe :: "config \<Rightarrow> 'w platform \<Rightarrow> 'w mqtt \<Rightarrow> observation" where
  "observe cfg I s =
     \<lparr>o_expired = token_expired I (world s),
      o_elapsed = (backoff s \<le> \<bar>last_retry_at s - sys_millis I (world (exec (check_expiry I) s))\<bar>),
      o_accepted = fst (connect_outcome I False (before_connect I s)),
      o_rejected = invalidates_token
        (mc_returnCode I (snd (connect_outcome I False (before_connect I s)))),
      o_stamped = (snd (fst (token_source I (before_connect I s))) \<noteq> 0),
      o_jitter = fst (sys_random I (jitter cfg) (snd (connect_outcome I False (before_connect I s))))\<rparr>"

definition link_stable :: "'w platform \<Rightarrow> bool" where
  "link_stable I \<longleftrightarrow>
     (\<forall>w t q. mc_connected I (mc_subscribe I t q w) = mc_connected I w)
     \<and> (\<forall>w p. mc_connected I (snd (mc_publish I p w)) = mc_connected I w)
     \<and> (\<forall>w n. mc_connected I (snd (sys_random I n w)) = mc_connected I w)"

definition well_behaved :: "'w platform \<Rightarrow> bool" where
  "well_behaved I \<longleftrightarrow> connect_coherent I \<and> disconnect_disconnects I \<and> link_stable I"

section \<open>The abstract machine\<close>

lemma session_path_iff_run: "session_path \<sigma> es \<sigma>' \<longleftrightarrow> session_run \<sigma> es = Some \<sigma>'"
proof
  show "session_path \<sigma> es \<sigma>' \<Longrightarrow> session_run \<sigma> es = Some \<sigma>'"
    by (induction rule: session_path.induct) (auto elim!: session_step.cases)
  show "session_run \<sigma> es = Some \<sigma>' \<Longrightarrow> session_path \<sigma> es \<sigma>'"
  proof (induction es arbitrary: \<sigma>)
    case Nil
    then show ?case by (simp add: session_path.path_nil)
  next
    case (Cons e es)
    then obtain \<tau> where n: "session_next \<sigma> e = Some \<tau>" and r: "session_run \<tau> es = Some \<sigma>'"
      by (auto split: option.splits)
    from n have "session_step \<sigma> e \<tau>"
      by (cases \<sigma>; cases e) (auto intro: session_step.intros split: if_splits)
    then show ?case using Cons.IH[OF r] by (rule session_path.path_cons)
  qed
qed

lemma attempt_from_disconnected:
  "session_step \<sigma> Attempt \<sigma>' \<Longrightarrow> \<sigma> = Disconnected \<and> \<sigma>' = Connecting"
  by (erule session_step_AttemptE) simp

lemma outcome_from_connecting:
  "session_step \<sigma> Accept \<sigma>' \<Longrightarrow> \<sigma> = Connecting \<and> \<sigma>' = Connected"
  "session_step \<sigma> Refuse \<sigma>' \<Longrightarrow> \<sigma> = Connecting \<and> \<sigma>' = Disconnected"
  by (erule session_step_AcceptE, simp) (erule session_step_RefuseE, simp)

lemma connected_only_by_accept:
  assumes "session_path \<sigma> es \<sigma>'" and "\<sigma>' = Connected" and "\<sigma> \<noteq> Connected"
  shows "Accept \<in> set es"
  using assms
  by (induction rule: session_path.induct) (auto simp: session_step_simps)

lemma tick_events_legal:
  assumes "c_session c \<noteq> Connecting"
  shows "session_path (c_session c) (tick_events ob c) (c_session (tick_spec cfg ob c))"
  using assms
  by (cases "c_session c")
     (auto simp: session_path_iff_run tick_events_def tick_spec_def attempt_spec_def tick_due_def)

section \<open>The code implements the abstract controller\<close>

lemma link_stableD:
  assumes "link_stable I"
  shows "mc_connected I (subscribed I w) = mc_connected I w"
    and "mc_connected I (announced I w) = mc_connected I w"
    and "mc_connected I (snd (sys_random I n w)) = mc_connected I w"
  using assms by (simp_all add: link_stable_def subscribed_def announced_def)

lemma session_after_mqttConnect:
  assumes "connect_coherent I" and "link_stable I"
  shows "session_of I (world (exec (mqttConnect cfg I skip) s))
           = (if fst (connect_outcome I False s) then Connected else Disconnected)"
  using connect_coherentD(1)[OF assms(1), of False s]
  by (simp add: session_of_def world_mqttConnect link_stableD[OF assms(2)] settled_def)

lemma session_after_mqttConnectAsync:
  assumes "connect_coherent I" and "link_stable I"
  shows "session_of I (world (exec (mqttConnectAsync cfg I skip) s))
           = (if fst (connect_outcome I skip s) then Connected else Disconnected)"
  using connect_coherentD[OF assms(1), of skip s]
  by (auto simp: session_of_def world_mqttConnectAsync link_stableD[OF assms(2)] Let_def)

lemma abs_mqttConnect:
  assumes "well_behaved I"
  shows "abs_ctl I (exec (mqttConnect cfg I skip) s) =
     (if fst (connect_outcome I False s)
      then \<lparr>c_session = Connected, c_token_held = (snd (fst (token_source I s)) \<noteq> 0),
            c_delay = minbackoff cfg\<rparr>
      else \<lparr>c_session = Disconnected,
            c_token_held = (\<not> invalidates_token (mc_returnCode I (snd (connect_outcome I False s)))
                             \<and> snd (fst (token_source I s)) \<noteq> 0),
            c_delay = next_backoff cfg (backoff s)
              (fst (sys_random I (jitter cfg) (snd (connect_outcome I False s))))\<rparr>)"
proof -
  from assms have c: "connect_coherent I" and l: "link_stable I"
    by (simp_all add: well_behaved_def)
  show ?thesis
    by (auto simp: abs_ctl_def session_after_mqttConnect[OF c l] mqttConnect_members
        connect_failed_coherent[OF c])
qed

lemma observe_fields [simp]:
  "o_expired (observe cfg I s) = token_expired I (world s)"
  "o_elapsed (observe cfg I s)
     = (backoff s \<le> \<bar>last_retry_at s - sys_millis I (world (exec (check_expiry I) s))\<bar>)"
  "o_accepted (observe cfg I s) = fst (connect_outcome I False (before_connect I s))"
  "o_rejected (observe cfg I s) = invalidates_token
     (mc_returnCode I (snd (connect_outcome I False (before_connect I s))))"
  "o_stamped (observe cfg I s) = (snd (fst (token_source I (before_connect I s))) \<noteq> 0)"
  "o_jitter (observe cfg I s)
     = fst (sys_random I (jitter cfg) (snd (connect_outcome I False (before_connect I s))))"
  by (simp_all add: observe_def)

lemma abs_ctl_fields [simp]:
  "c_session (abs_ctl I s) = session_of I (world s)"
  "c_token_held (abs_ctl I s) = (iat s \<noteq> 0)"
  "c_delay (abs_ctl I s) = backoff s"
  by (simp_all add: abs_ctl_def)

lemma tick_due_iff:
  "tick_due (observe cfg I s) (abs_ctl I s) \<longleftrightarrow> needs_reconnect I s"
  by (auto simp: tick_due_def session_of_def needs_reconnect_iff
      backoff_elapsed_def exec_check_expiry split: if_splits)

lemma tick_refines_tick_spec_aux:
  assumes "well_behaved I"
  shows "abs_ctl I (exec (tick_core cfg I) s) = tick_spec cfg (observe cfg I s) (abs_ctl I s)"
proof (cases "needs_reconnect I s")
  case True
  then show ?thesis
    by (simp add: exec_tick_core abs_mqttConnect[OF assms(1)] tick_spec_def tick_due_iff
        attempt_spec_def before_connect_members)
next
  case False
  then show ?thesis by (simp add: exec_tick_core tick_spec_def tick_due_iff)
qed

text \<open>
  \<^bold>\<open>C10\<close> (the tick implements the abstract controller). For a
  client whose \<^verbatim>\<open>connect\<close> result agrees with its connection
  state and error, whose \<^verbatim>\<open>disconnect\<close> disconnects and whose
  other calls leave the link as it is, \<^verbatim>\<open>loop\<close> up to its pump
  takes the abstract controller state (session, token held, delay) read off the state
  before to the one read off the state after exactly as \<open>tick_spec\<close>
  prescribes from what the tick observes; the token counts as held afterwards only if
  the provider stamped the one it issued.
\<close>
theorem tick_refines_tick_spec:
  assumes "well_behaved I"
  shows "abs_ctl I (exec (tick_core cfg I) s) = tick_spec cfg (observe cfg I s) (abs_ctl I s)"
  using assms by (rule tick_refines_tick_spec_aux)

lemma sim_link_stable [simp]: "link_stable sim"
  by (simp add: link_stable_def sim_subscribe_def sim_publish_def sim_random_def
      split: list.splits)

lemma sim_well_behaved [simp]: "well_behaved sim"
  by (simp add: well_behaved_def)

lemma stale_observed:
  "o_expired (observe example_config sim stale)" "o_accepted (observe example_config sim stale)"
  "o_stamped (observe example_config sim stale)"
proof -
  have w: "world (before_connect sim stale) = sim_disconnect (world stale)"
    by (simp add: world_before_connect token_expired_def example_defs)
  have need: "needs_reconnect sim stale"
    by (simp add: needs_reconnect_iff token_expired_def example_defs)
  have t: "token_source sim (before_connect sim stale) = sim_getJwt (sim_disconnect (world stale))"
    by (simp add: token_source_fresh before_connect_members(1)[OF need] w)
  have o: "connect_outcome sim False (before_connect sim stale)
      = sim_connect (sim_clientId (snd (sim_getJwt (sim_disconnect (world stale))))) ''unused''
          (fst (fst (sim_getJwt (sim_disconnect (world stale))))) False
          (snd (sim_getJwt (sim_disconnect (world stale))))"
    by (simp add: connect_outcome_def t)
  show "o_expired (observe example_config sim stale)"
    by (simp add: token_expired_def example_defs)
  show "o_accepted (observe example_config sim stale)"
    by (simp add: o) (simp add: sim_defs example_defs)
  show "o_stamped (observe example_config sim stale)"
    by (simp add: t) (simp add: sim_defs example_defs)
qed

theorem tick_refines_tick_spec_witness:
  "well_behaved sim
   \<and> abs_ctl sim (exec (tick_core example_config sim) stale)
       = tick_spec example_config (observe example_config sim stale) (abs_ctl sim stale)
   \<and> abs_ctl sim stale = \<lparr>c_session = Connected, c_token_held = True, c_delay = 1000\<rparr>
   \<and> tick_spec example_config (observe example_config sim stale) (abs_ctl sim stale)
       = \<lparr>c_session = Connected, c_token_held = True, c_delay = 1000\<rparr>
   \<and> tick_events (observe example_config sim stale) (abs_ctl sim stale) = [Force, Attempt, Accept]"
proof -
  have a: "abs_ctl sim stale = \<lparr>c_session = Connected, c_token_held = True, c_delay = 1000\<rparr>"
    by (simp add: abs_ctl_def session_of_def example_defs)
  from tick_refines_tick_spec[OF sim_well_behaved, of example_config stale] a stale_observed
  show ?thesis
    by (simp add: tick_spec_def tick_due_def attempt_spec_def tick_events_def example_config_def)
qed

theorem tick_session_path:
  assumes "well_behaved I"
  shows "session_path (session_of I (world s)) (tick_events (observe cfg I s) (abs_ctl I s))
           (session_of I (world (exec (tick_core cfg I) s)))"
proof -
  have "c_session (abs_ctl I s) \<noteq> Connecting" by (simp add: abs_ctl_def session_of_def)
  from tick_events_legal[OF this, of "observe cfg I s" cfg]
  show ?thesis
    by (simp add: tick_refines_tick_spec_aux[OF assms, symmetric])
qed

theorem tick_session_path_witness:
  "well_behaved sim
   \<and> session_path (session_of sim (world stale))
         (tick_events (observe example_config sim stale) (abs_ctl sim stale))
         (session_of sim (world (exec (tick_core example_config sim) stale)))"
  using tick_session_path[OF sim_well_behaved, of stale example_config] by simp

end
