(* ===== verification/Scenarios.thy ===== *)
theory Scenarios
  imports Lifecycle Session
begin

text \<open>
  The clean reconnect cycle of \<^verbatim>\<open>loop\<close> on every platform, and runs of the
  controller against the simulated collaborators of \<open>Sim_World\<close>, each evaluated
  from the definitions of the methods: the first tick of a device, three attempts in a
  row that the broker rejects, a publish on a dropped link, and a run in which a tick
  comes before the delay has elapsed.
\<close>

section \<open>Evaluating attempts on the simulation\<close>

lemma sim_token_source_fresh:
  "iat s = 0 \<Longrightarrow> token_source sim s =
     ((''jwt-'' @ String_int (w_clock (world s)), w_clock (world s)),
      (world s)\<lparr>w_exp_millis := w_now (world s) + w_ttl (world s)\<rparr>)"
  by (simp add: token_source_def sim_getJwt_def)

lemma sim_connect_outcome:
  "connect_outcome sim k s =
     (case w_net (snd (token_source sim s)) of
        Net_accept # rest \<Rightarrow>
          (True, (sim_attempt (snd (token_source sim s)))\<lparr>w_connected := True,
             w_last_error := LWMQTT_SUCCESS, w_return_code := LWMQTT_CONNECTION_ACCEPTED\<rparr>)
      | Net_reject rc # rest \<Rightarrow>
          (False, (sim_attempt (snd (token_source sim s)))\<lparr>w_connected := False,
             w_last_error := LWMQTT_CONNECTION_DENIED, w_return_code := rc\<rparr>)
      | Net_timeout # rest \<Rightarrow>
          (False, (sim_attempt (snd (token_source sim s)))\<lparr>w_connected := False,
             w_last_error := LWMQTT_NETWORK_TIMEOUT\<rparr>)
      | _ \<Rightarrow> (False, (sim_attempt (snd (token_source sim s)))\<lparr>w_connected := False,
             w_last_error := LWMQTT_NETWORK_FAILED_CONNECT\<rparr>))"
  by (simp add: connect_outcome_def sim_connect_def split: list.splits net_outcome.splits)

definition first_tick :: "sim_world mqtt" where
  "first_tick = exec (loop example_config sim) (facing [Net_accept])"

lemma boot_needs_reconnect: "needs_reconnect sim (facing net)"
  by (simp add: needs_reconnect_iff token_expired_def example_defs)

lemma boot_before_connect:
  "before_connect sim (facing net) =
     (facing net)\<lparr>calls := [Serial (Println ''Reconnecting before JWT expiration''),
                              Serial (Println ''Reconnecting with back-off'')]\<rparr>"
  by (simp add: before_connect_def decide_def exec_check_expiry exec_check_backoff
      token_expired_def backoff_elapsed_def example_defs)

lemma boot_attempt_state:
  "iat (before_connect sim (facing net)) = 0"
  "world (before_connect sim (facing net)) = boot_world\<lparr>w_net := net\<rparr>"
  "backoff (before_connect sim (facing net)) = 1000"
  "logConnect (before_connect sim (facing net))"
  "calls (before_connect sim (facing net))
     = [Serial (Println ''Reconnecting before JWT expiration''),
        Serial (Println ''Reconnecting with back-off'')]"
  by (simp_all add: boot_before_connect) (simp_all add: facing_def boot_def)

definition first_attempt :: "sim_world mqtt" where
  "first_attempt = before_connect sim (facing [Net_accept])"

lemma first_attempt_state:
  "iat first_attempt = 0" "world first_attempt = boot_world\<lparr>w_net := [Net_accept]\<rparr>"
  "logConnect first_attempt"
  "calls first_attempt = [Serial (Println ''Reconnecting before JWT expiration''),
                          Serial (Println ''Reconnecting with back-off'')]"
  by (simp_all add: first_attempt_def boot_before_connect) (simp_all add: facing_def boot_def)

lemma first_attempt_token:
  "token_source sim first_attempt =
     ((''jwt-1600000000'', 1600000000),
      boot_world\<lparr>w_net := [Net_accept], w_exp_millis := 3605000\<rparr>)"
  by (simp add: sim_token_source_fresh first_attempt_state)
     (simp add: boot_world_def render_defs)

lemma first_attempt_outcome:
  "connect_outcome sim False first_attempt =
     (True, boot_world\<lparr>w_net := [], w_exp_millis := 3605000, w_now := 5150,
        w_connected := True\<rparr>)"
  by (simp add: sim_connect_outcome first_attempt_token) (simp add: sim_attempt_def example_defs)

lemma first_attempt_succeeds:
  "\<not> connect_failed sim first_attempt"
  "settled example_config sim first_attempt = snd (connect_outcome sim False first_attempt)"
  by (simp_all add: settled_def connect_failed_def attempt_failed_def first_attempt_outcome)

lemma first_tick_eq:
  "first_tick = exec (mqttClient_loop sim) (exec (mqttConnect example_config sim False) first_attempt)"
  by (simp add: first_tick_def first_attempt_def exec_loop boot_needs_reconnect)

lemmas first_attempt_facts =
  first_attempt_state first_attempt_token first_attempt_outcome first_attempt_succeeds

section \<open>The clean reconnect cycle\<close>

text \<open>
  One tick on a disconnected client whose reconnect is due and whose attempt the
  broker accepts, on every platform: what \<^verbatim>\<open>loop\<close> prints and calls, in order, and
  what it leaves in the members. \<open>m\<close> is what the token provider returns and
  \<open>c\<close> what \<^verbatim>\<open>connect\<close> returns; the first tick of the simulated device is the
  instance on which the theorem is applied.
\<close>

lemma before_connect_disconnected_state:
  assumes "\<not> mc_connected I (world s)" and "token_expired I (world s) \<or> backoff_elapsed I s"
  shows "needs_reconnect I s" and "world (before_connect I s) = world s"
    and "iat (before_connect I s) = 0"
    and "prelude_calls I s =
      (if token_expired I (world s)
       then [Serial (Println ''Reconnecting before JWT expiration'')] else [])
      @ (if backoff_elapsed I s then [Serial (Println ''Reconnecting with back-off'')] else [])"
proof -
  have e: "backoff_elapsed I (exec (check_expiry I) s) = backoff_elapsed I s"
    using assms(1) by (simp add: exec_check_expiry backoff_elapsed_def)
  with assms(2) show n: "needs_reconnect I s" by (auto simp: needs_reconnect_iff)
  from assms(1) show "world (before_connect I s) = world s" by (simp add: world_before_connect)
  from n show "iat (before_connect I s) = 0" by (rule before_connect_members(1))
  from assms(1) e show "prelude_calls I s =
      (if token_expired I (world s)
       then [Serial (Println ''Reconnecting before JWT expiration'')] else [])
      @ (if backoff_elapsed I s then [Serial (Println ''Reconnecting with back-off'')] else [])"
    by (simp add: prelude_calls_def)
qed

text \<open>
  \<^bold>\<open>C38\<close> (the clean reconnect cycle). On every platform: if the
  client is disconnected, a reconnect is due (the token has expired or the delay has
  elapsed), \<^verbatim>\<open>connect\<close> returns true and the client then
  reports that it is connected, one call of \<^verbatim>\<open>loop\<close> prints
  which test fired, asks the token provider for a token, calls
  \<^verbatim>\<open>connect\<close> once with the client id, the user name
  \<^verbatim>\<open>unused\<close> and that token, prints the outcome, subscribes to
  the configuration topic with quality of service 1 and to the commands topic with 0,
  publishes the two connect notifications if they are enabled, and pumps the client,
  in this order and with no other call; afterwards the delay is the minimum, the token
  and its stamp are the ones obtained, and the time of the last attempt is the clock
  as read after the token was obtained.
\<close>
theorem clean_reconnect_cycle:
  fixes I :: "'w platform" and s :: "'w mqtt"
  defines "m \<equiv> sys_getJwt I (world s)"
  defines "c \<equiv> mc_connect I (dev_getClientId I (snd m)) ''unused'' (fst (fst m)) False (snd m)"
  assumes "\<not> mc_connected I (world s)"
    and "token_expired I (world s) \<or> backoff_elapsed I s"
    and "fst c" and "mc_connected I (snd c)"
  shows "calls (exec (loop cfg I) s) =
           calls s
           @ (if token_expired I (world s)
              then [Serial (Println ''Reconnecting before JWT expiration'')] else [])
           @ (if backoff_elapsed I s then [Serial (Println ''Reconnecting with back-off'')] else [])
           @ [Serial (Print ''Connecting MQTT... ''), GetJwt (fst (fst m)),
              Connect (dev_getClientId I (snd m)) ''unused'' (fst (fst m)) False True,
              Serial (Println ''connected''), Serial (Println ''Library connected!''),
              Subscribe (dev_getConfigTopic I (snd c)) 1,
              Subscribe (dev_getCommandsTopic I
                (mc_subscribe I (dev_getConfigTopic I (snd c)) 1 (snd c))) 0]
           @ (if logConnect s then announce I (subscribed I (snd c)) else [])
           @ [Pump]
         \<and> backoff (exec (loop cfg I) s) = minbackoff cfg
         \<and> jwt (exec (loop cfg I) s) = fst (fst m)
         \<and> iat (exec (loop cfg I) s) = snd (fst m)
         \<and> last_retry_at (exec (loop cfg I) s) = sys_millis I (snd m)
         \<and> world (exec (loop cfg I) s) =
             mc_loop I (if logConnect s then announced I (subscribed I (snd c))
                        else subscribed I (snd c))"
proof -
  note b = before_connect_disconnected_state[OF assms(3,4)]
  have t: "token_source I (before_connect I s) = m"
    by (simp add: token_source_def b m_def)
  have o: "connect_outcome I False (before_connect I s) = c"
    by (simp add: connect_outcome_def t c_def)
  from assms(5) have f: "\<not> connect_failed I (before_connect I s)"
    by (simp add: connect_failed_def attempt_failed_def o)
  then have st: "settled cfg I (before_connect I s) = snd c" by (simp add: settled_def o)
  have "calls (exec (loop cfg I) s) = calls s @ prelude_calls I s
      @ [Serial (Print ''Connecting MQTT... ''), GetJwt (fst (fst m)),
         Connect (dev_getClientId I (snd m)) ''unused'' (fst (fst m)) False True,
         Serial (Println ''connected''), Serial (Println ''Library connected!''),
         Subscribe (dev_getConfigTopic I (snd c)) 1,
         Subscribe (dev_getCommandsTopic I
           (mc_subscribe I (dev_getConfigTopic I (snd c)) 1 (snd c))) 0]
      @ (if logConnect s then announce I (subscribed I (snd c)) else []) @ [Pump]"
    using assms(5,6) f
    by (simp add: exec_loop b(1,3) calls_mqttConnect calls_before_connect connect_call_def t o
        verdict_def aftermath_def st subscriptions_def before_connect_members)
  moreover have "backoff (exec (loop cfg I) s) = minbackoff cfg"
    "jwt (exec (loop cfg I) s) = fst (fst m)" "iat (exec (loop cfg I) s) = snd (fst m)"
    "last_retry_at (exec (loop cfg I) s) = sys_millis I (snd m)"
    using f by (simp_all add: exec_loop b(1) mqttConnect_members t)
  moreover have "world (exec (loop cfg I) s) =
      mc_loop I (if logConnect s then announced I (subscribed I (snd c))
                 else subscribed I (snd c))"
    by (simp add: exec_loop b(1) world_mqttConnect st before_connect_members)
  ultimately show ?thesis by (simp add: b(4))
qed

lemma first_tick_platform:
  "world (facing [Net_accept]) = boot_world\<lparr>w_net := [Net_accept]\<rparr>"
  "sim_getJwt (boot_world\<lparr>w_net := [Net_accept]\<rparr>) =
     ((''jwt-1600000000'', 1600000000),
      boot_world\<lparr>w_net := [Net_accept], w_exp_millis := 3605000\<rparr>)"
  "sim_connect
     (sim_clientId (boot_world\<lparr>w_net := [Net_accept], w_exp_millis := 3605000\<rparr>))
     ''unused'' ''jwt-1600000000'' False
     (boot_world\<lparr>w_net := [Net_accept], w_exp_millis := 3605000\<rparr>) =
     (True, boot_world\<lparr>w_net := [], w_exp_millis := 3605000, w_now := 5150,
        w_connected := True\<rparr>)"
  using first_attempt_token first_attempt_outcome
  by (simp_all add: token_source_def connect_outcome_def first_attempt_state)
     (simp add: facing_def boot_def)

theorem clean_reconnect_cycle_witness:
  "\<not> mc_connected sim (world (facing [Net_accept]))
   \<and> (token_expired sim (world (facing [Net_accept])) \<or> backoff_elapsed sim (facing [Net_accept]))
   \<and> fst (mc_connect sim
      (dev_getClientId sim (snd (sys_getJwt sim (world (facing [Net_accept]))))) ''unused''
      (fst (fst (sys_getJwt sim (world (facing [Net_accept]))))) False
      (snd (sys_getJwt sim (world (facing [Net_accept])))))
   \<and> mc_connected sim (snd (mc_connect sim
      (dev_getClientId sim (snd (sys_getJwt sim (world (facing [Net_accept]))))) ''unused''
      (fst (fst (sys_getJwt sim (world (facing [Net_accept]))))) False
      (snd (sys_getJwt sim (world (facing [Net_accept]))))))
   \<and> calls first_tick =
     [Serial (Println ''Reconnecting before JWT expiration''),
      Serial (Println ''Reconnecting with back-off''),
      Serial (Print ''Connecting MQTT... ''), GetJwt ''jwt-1600000000'',
      Connect ''registries/reg1/devices/dev1'' ''unused'' ''jwt-1600000000'' False True,
      Serial (Println ''connected''), Serial (Println ''Library connected!''),
      Subscribe ''/devices/dev1/config'' 1, Subscribe ''/devices/dev1/commands/#'' 0,
      Publish (Pub ''/devices/dev1/state'' ''connected'') True,
      Publish (Pub ''/devices/dev1/events/events'' ''dev1-connected'') True, Pump]
   \<and> backoff first_tick = minbackoff example_config
   \<and> iat first_tick = 1600000000 \<and> jwt first_tick = ''jwt-1600000000''
   \<and> last_retry_at first_tick = 5000
   \<and> w_connected (world first_tick)
   \<and> w_subs (world first_tick) = [(''/devices/dev1/config'', 1), (''/devices/dev1/commands/#'', 0)]
   \<and> w_exp_millis (world first_tick) = 3605000"
proof -
  note p = first_tick_platform
  have h: "\<not> mc_connected sim (world (facing [Net_accept]))"
    "token_expired sim (world (facing [Net_accept])) \<or> backoff_elapsed sim (facing [Net_accept])"
    "backoff_elapsed sim (facing [Net_accept])" "logConnect (facing [Net_accept])"
    "calls (facing [Net_accept]) = []"
    by (simp_all add: token_expired_def backoff_elapsed_def example_defs)
  have e: "token_expired sim (world (facing [Net_accept]))"
    by (simp add: token_expired_def example_defs)
  have a: "fst (mc_connect sim
      (dev_getClientId sim (snd (sys_getJwt sim (world (facing [Net_accept]))))) ''unused''
      (fst (fst (sys_getJwt sim (world (facing [Net_accept]))))) False
      (snd (sys_getJwt sim (world (facing [Net_accept])))))"
    "mc_connected sim (snd (mc_connect sim
      (dev_getClientId sim (snd (sys_getJwt sim (world (facing [Net_accept]))))) ''unused''
      (fst (fst (sys_getJwt sim (world (facing [Net_accept]))))) False
      (snd (sys_getJwt sim (world (facing [Net_accept]))))))"
    by (simp_all add: p)
  from clean_reconnect_cycle[OF h(1,2) a, of example_config] h e a
  show ?thesis
    by (simp add: first_tick_def p subscribed_def announced_def announce_def Let_def)
       (simp add: sim_defs example_defs)
qed

section \<open>Three rejections in a row\<close>

lemma sim_rejected_attempt:
  assumes "iat s = 0" and "w_net (world s) = Net_reject rc # rest" and "invalidates_token rc"
    and "w_rng (world s) = x # xs" and "jitter cfg \<noteq> 0"
  shows "backoff (exec (mqttConnect cfg sim k) s)
           = next_backoff cfg (backoff s) (\<bar>x\<bar> mod \<bar>jitter cfg\<bar>)"
    and "iat (exec (mqttConnect cfg sim k) s) = 0"
    and "w_net (world (exec (mqttConnect cfg sim k) s)) = rest"
    and "w_rng (world (exec (mqttConnect cfg sim k) s)) = xs"
    and "length (filter is_getJwt (calls (exec (mqttConnect cfg sim k) s)))
           = Suc (length (filter is_getJwt (calls s)))"
proof -
  have ts: "snd (token_source sim s) = (world s)\<lparr>w_exp_millis := w_now (world s) + w_ttl (world s)\<rparr>"
    by (simp add: sim_token_source_fresh assms(1))
  have co: "connect_outcome sim False s =
      (False, (sim_attempt (snd (token_source sim s)))\<lparr>w_connected := False,
         w_last_error := LWMQTT_CONNECTION_DENIED, w_return_code := rc\<rparr>)"
    by (simp add: sim_connect_outcome) (simp add: ts assms(2))
  have f: "connect_failed sim s" by (simp add: connect_failed_def attempt_failed_def co)
  have r: "sim_random (jitter cfg) (snd (connect_outcome sim False s))
      = (\<bar>x\<bar> mod \<bar>jitter cfg\<bar>, (snd (connect_outcome sim False s))\<lparr>w_rng := xs\<rparr>)"
    by (simp add: co sim_random_def sim_attempt_def ts assms(4,5))
  show "backoff (exec (mqttConnect cfg sim k) s)
           = next_backoff cfg (backoff s) (\<bar>x\<bar> mod \<bar>jitter cfg\<bar>)"
    by (simp add: mqttConnect_members f r)
  show "iat (exec (mqttConnect cfg sim k) s) = 0"
    by (simp add: mqttConnect_members f) (simp add: co assms(3))
  have st: "settled cfg sim s = (snd (connect_outcome sim False s))\<lparr>w_rng := xs\<rparr>"
    by (simp add: settled_def f r)
  show "w_net (world (exec (mqttConnect cfg sim k) s)) = rest"
    by (simp add: world_mqttConnect st subscribed_def announced_def)
       (simp add: co sim_subscribe_def sim_publish_def sim_attempt_def ts assms(2))
  show "w_rng (world (exec (mqttConnect cfg sim k) s)) = xs"
    by (simp add: world_mqttConnect st subscribed_def announced_def)
       (simp add: co sim_subscribe_def sim_publish_def)
  show "length (filter is_getJwt (calls (exec (mqttConnect cfg sim k) s)))
           = Suc (length (filter is_getJwt (calls s)))"
    by (simp add: calls_mqttConnect assms(1) connect_call_def verdict_def aftermath_def f
        failure_report_def subscriptions_def announce_def Let_def)
qed

definition rejections :: "net_outcome list" where
  "rejections = [Net_reject LWMQTT_NOT_AUTHORIZED, Net_reject LWMQTT_NOT_AUTHORIZED,
                 Net_reject LWMQTT_NOT_AUTHORIZED]"

definition rejected :: "nat \<Rightarrow> sim_world mqtt" where
  "rejected n = ((exec (mqttConnect example_config sim False)) ^^ n) (facing rejections)"

theorem scenario_repeated_rejection:
  "backoff (rejected 0) = 1000 \<and> backoff (rejected 1) = 2007 \<and> backoff (rejected 2) = 4248
   \<and> backoff (rejected 3) = 8995
   \<and> iat (rejected 1) = 0 \<and> iat (rejected 2) = 0 \<and> iat (rejected 3) = 0
   \<and> length (filter is_getJwt (calls (rejected 3))) = 3
   \<and> backoff (rejected 1) * factor example_config \<le> backoff (rejected 2)
   \<and> backoff (rejected 2) * factor example_config \<le> backoff (rejected 3)"
proof -
  have inv: "invalidates_token LWMQTT_NOT_AUTHORIZED" by (simp add: invalidates_token_def)
  have j: "jitter example_config \<noteq> 0" by (simp add: example_config_def)
  have s0: "iat (rejected 0) = 0" "backoff (rejected 0) = 1000"
    "length (filter is_getJwt (calls (rejected 0))) = 0"
    "w_net (world (rejected 0)) = Net_reject LWMQTT_NOT_AUTHORIZED
       # [Net_reject LWMQTT_NOT_AUTHORIZED, Net_reject LWMQTT_NOT_AUTHORIZED]"
    "w_rng (world (rejected 0)) = 7 # [1234, 499, 500, 40001]"
    by (simp_all add: rejected_def rejections_def example_defs)
  have e: "rejected (Suc n) = exec (mqttConnect example_config sim False) (rejected n)" for n
    by (simp add: rejected_def)
  note a1 = sim_rejected_attempt[OF s0(1,4) inv s0(5) j, of False, folded e]
  note a2 = sim_rejected_attempt[OF a1(2,3) inv a1(4) j, of False, folded e]
  note a3 = sim_rejected_attempt[OF a2(2,3) inv a2(4) j, of False, folded e]
  have b1: "backoff (rejected (Suc 0)) = 2007"
    using a1(1) by (simp add: s0 next_backoff_def example_config_def)
  have b2: "backoff (rejected (Suc (Suc 0))) = 4248"
    using a2(1) by (simp add: b1 next_backoff_def example_config_def)
  have b3: "backoff (rejected (Suc (Suc (Suc 0)))) = 8995"
    using a3(1) by (simp add: b2 next_backoff_def example_config_def)
  have c: "length (filter is_getJwt (calls (rejected (Suc (Suc (Suc 0)))))) = 3"
    using a1(5) a2(5) a3(5) by (simp add: s0)
  from a1(2) a2(2) a3(2) b1 b2 b3 c s0(2) show ?thesis
    by (simp add: example_config_def numeral_2_eq_2 numeral_3_eq_3)
qed

section \<open>Publishing on a dropped link\<close>

theorem scenario_publish_after_disconnect:
  "run_state (publishTelemetry sim ''t=21.5'') waiting =
     (False, waiting\<lparr>calls := [Publish (Pub ''/devices/dev1/events'' ''t=21.5'') False],
        world := (world waiting)\<lparr>w_last_error := LWMQTT_NETWORK_FAILED_WRITE\<rparr>\<rparr>)
   \<and> members (exec (publishTelemetry sim ''t=21.5'') waiting) = members waiting
   \<and> w_sent (world (exec (publishTelemetry sim ''t=21.5'') waiting)) = []"
  by (simp add: members_def exec_def sim_publish_def sim_topic_def example_defs)

section \<open>A failed attempt, a tick too early, and the retry\<close>

text \<open>
  A device boots while the broker does not answer, ticks again one second later, and
  again after another 1.1 seconds, by when the broker accepts. \<open>life\<close> is this run
  as a sequence of operations; \<open>d1\<close>, \<open>d3\<close> and \<open>d5\<close> are the states after the
  three ticks.
\<close>

definition life :: "sim_world operation list" where
  "life = [Loop, Environment (advance 1000), Loop, Environment (advance 1100), Loop]"

definition d0 :: "sim_world mqtt" where
  "d0 = facing [Net_timeout, Net_accept]"

definition d1 :: "sim_world mqtt" where
  "d1 = exec (loop example_config sim) d0"

definition d2 :: "sim_world mqtt" where
  "d2 = d1\<lparr>world := advance 1000 (world d1)\<rparr>"

definition d3 :: "sim_world mqtt" where
  "d3 = exec (loop example_config sim) d2"

definition d4 :: "sim_world mqtt" where
  "d4 = d3\<lparr>world := advance 1100 (world d3)\<rparr>"

definition d5 :: "sim_world mqtt" where
  "d5 = exec (loop example_config sim) d4"

lemma life_states: "run_ops example_config sim life d0 = d5"
  by (simp add: life_def d5_def d4_def d3_def d2_def d1_def)

lemma d1_attempt:
  "token_source sim (before_connect sim d0) =
     ((''jwt-1600000000'', 1600000000),
      boot_world\<lparr>w_net := [Net_timeout, Net_accept], w_exp_millis := 3605000\<rparr>)"
  "connect_outcome sim False (before_connect sim d0) =
     (False, boot_world\<lparr>w_net := [Net_accept], w_exp_millis := 3605000, w_now := 5150,
        w_last_error := LWMQTT_NETWORK_TIMEOUT\<rparr>)"
proof -
  show ts: "token_source sim (before_connect sim d0) =
     ((''jwt-1600000000'', 1600000000),
      boot_world\<lparr>w_net := [Net_timeout, Net_accept], w_exp_millis := 3605000\<rparr>)"
    by (simp add: d0_def sim_token_source_fresh boot_attempt_state)
       (simp add: boot_world_def render_defs)
  show "connect_outcome sim False (before_connect sim d0) =
     (False, boot_world\<lparr>w_net := [Net_accept], w_exp_millis := 3605000, w_now := 5150,
        w_last_error := LWMQTT_NETWORK_TIMEOUT\<rparr>)"
    by (simp add: sim_connect_outcome ts) (simp add: sim_attempt_def example_defs)
qed

lemma d1_failed: "connect_failed sim (before_connect sim d0)"
  by (simp add: connect_failed_def attempt_failed_def d1_attempt)

lemma d1_eq: "d1 = exec (mqttClient_loop sim) (exec (mqttConnect example_config sim False)
    (before_connect sim d0))"
  by (simp add: d1_def d0_def exec_loop boot_needs_reconnect)

lemma d1_state:
  "backoff d1 = 2007" "last_retry_at d1 = 5000" "iat d1 = 1600000000"
  "jwt d1 = ''jwt-1600000000''"
  "world d1 = boot_world\<lparr>w_net := [Net_accept], w_exp_millis := 3605000, w_now := 5150,
     w_last_error := LWMQTT_NETWORK_FAILED_WRITE, w_rng := [1234, 499, 500, 40001]\<rparr>"
  "length (filter is_connect (calls d1)) = 1" "length (filter is_getJwt (calls d1)) = 1"
proof -
  have r: "sim_random (jitter example_config)
      (snd (connect_outcome sim False (before_connect sim d0)))
    = (7, boot_world\<lparr>w_net := [Net_accept], w_exp_millis := 3605000, w_now := 5150,
        w_last_error := LWMQTT_NETWORK_TIMEOUT, w_rng := [1234, 499, 500, 40001]\<rparr>)"
    by (simp add: d1_attempt) (simp add: sim_random_def example_defs)
  show "backoff d1 = 2007"
    by (simp add: d1_eq mqttConnect_members d1_failed r)
       (simp add: d0_def boot_attempt_state next_backoff_def example_config_def)
  show "last_retry_at d1 = 5000" "iat d1 = 1600000000" "jwt d1 = ''jwt-1600000000''"
    by (simp_all add: d1_eq mqttConnect_members d1_failed d1_attempt)
       (simp_all add: invalidates_token_def example_defs)
  show "world d1 = boot_world\<lparr>w_net := [Net_accept], w_exp_millis := 3605000, w_now := 5150,
     w_last_error := LWMQTT_NETWORK_FAILED_WRITE, w_rng := [1234, 499, 500, 40001]\<rparr>"
    by (simp add: d1_eq world_mqttConnect settled_def d1_failed r subscribed_def announced_def)
       (simp add: sim_subscribe_def sim_publish_def example_defs)
  show "length (filter is_connect (calls d1)) = 1" "length (filter is_getJwt (calls d1)) = 1"
    by (simp_all add: d1_eq calls_mqttConnect connect_call_def verdict_def aftermath_def d1_failed
          failure_report_def subscriptions_def announce_def Let_def)
       (simp_all add: d0_def boot_attempt_state)
qed

lemma d3_state: "d3 = d2\<lparr>calls := calls d2 @ [Pump]\<rparr>"
proof -
  have "\<not> needs_reconnect sim d2"
    by (simp add: not_needs_reconnect_iff token_expired_def backoff_elapsed_def d2_def d1_state)
       (simp add: advance_def boot_world_def)
  from run_loop_idle[OF this, of example_config] show ?thesis
    by (simp add: d3_def exec_def)
qed

lemma d4_state:
  "backoff d4 = 2007" "last_retry_at d4 = 5000" "iat d4 = 1600000000"
  "world d4 = boot_world\<lparr>w_net := [Net_accept], w_exp_millis := 3605000, w_now := 7250,
     w_clock := 1600000002,
     w_last_error := LWMQTT_NETWORK_FAILED_WRITE, w_rng := [1234, 499, 500, 40001]\<rparr>"
  "length (filter is_connect (calls d4)) = 1" "length (filter is_getJwt (calls d4)) = 1"
  by (simp_all add: d4_def d3_state d2_def d1_state)
     (simp add: advance_def boot_world_def)

lemma d4_due: "needs_reconnect sim d4"
  by (simp add: needs_reconnect_iff exec_check_expiry token_expired_def backoff_elapsed_def
      d4_state)
     (simp add: boot_world_def)

lemma d5_attempt:
  "token_source sim (before_connect sim d4) =
     ((''jwt-1600000002'', 1600000002), (world d4)\<lparr>w_exp_millis := 3607250\<rparr>)"
  "connect_outcome sim False (before_connect sim d4) =
     (True, (world d4)\<lparr>w_exp_millis := 3607250, w_now := 7400, w_net := [],
        w_connected := True, w_last_error := LWMQTT_SUCCESS,
        w_return_code := LWMQTT_CONNECTION_ACCEPTED\<rparr>)"
proof -
  have w: "world (before_connect sim d4) = world d4"
    by (simp add: world_before_connect d4_state) (simp add: boot_world_def)
  show ts: "token_source sim (before_connect sim d4) =
     ((''jwt-1600000002'', 1600000002), (world d4)\<lparr>w_exp_millis := 3607250\<rparr>)"
    by (simp add: sim_token_source_fresh before_connect_members(1)[OF d4_due] w)
       (simp add: d4_state boot_world_def render_defs)
  show "connect_outcome sim False (before_connect sim d4) =
     (True, (world d4)\<lparr>w_exp_millis := 3607250, w_now := 7400, w_net := [],
        w_connected := True, w_last_error := LWMQTT_SUCCESS,
        w_return_code := LWMQTT_CONNECTION_ACCEPTED\<rparr>)"
    by (simp add: sim_connect_outcome ts) (simp add: ts d4_state sim_attempt_def boot_world_def)
qed

lemma d5_state:
  "backoff d5 = minbackoff example_config" "jwt d5 = ''jwt-1600000002''"
  "last_retry_at d5 = 7250" "iat d5 = 1600000002"
  "length (filter is_connect (calls d5)) = 2" "length (filter is_getJwt (calls d5)) = 2"
  "mc_connected sim (world d5)"
proof -
  have nf: "\<not> connect_failed sim (before_connect sim d4)"
    by (simp add: connect_failed_def attempt_failed_def d5_attempt)
  have e: "d5 = exec (mqttClient_loop sim) (exec (mqttConnect example_config sim False)
      (before_connect sim d4))"
    by (simp add: d5_def exec_loop d4_due)
  show "backoff d5 = minbackoff example_config" "jwt d5 = ''jwt-1600000002''"
    "last_retry_at d5 = 7250" "iat d5 = 1600000002"
    by (simp_all add: e mqttConnect_members nf d5_attempt) (simp add: d4_state boot_world_def)
  show "length (filter is_connect (calls d5)) = 2" "length (filter is_getJwt (calls d5)) = 2"
    by (simp_all add: e calls_mqttConnect connect_call_def verdict_def aftermath_def nf
        subscriptions_def announce_def Let_def calls_before_connect prelude_calls_def
        before_connect_members(1)[OF d4_due] d4_state)
  show "mc_connected sim (world d5)"
    by (simp add: e world_mqttConnect settled_def nf d5_attempt subscribed_def announced_def)
       (simp add: sim_subscribe_def sim_publish_def)
qed

theorem scenario_gated_retry:
  "run_ops example_config sim life d0 = d5
   \<and> d3 = d2\<lparr>calls := calls d2 @ [Pump]\<rparr>
   \<and> backoff d1 = 2007 \<and> backoff d5 = minbackoff example_config
   \<and> length (filter is_connect (calls d1)) = 1
   \<and> length (filter is_connect (calls d3)) = 1
   \<and> length (filter is_connect (calls d5)) = 2
   \<and> length (filter is_getJwt (calls d5)) = 2
   \<and> jwt d5 = ''jwt-1600000002'' \<and> last_retry_at d5 = 7250
   \<and> mc_connected sim (world d5)"
  using life_states d3_state d1_state(1,6) d5_state
  by (simp add: d3_state d2_def d1_state)

end
