(* ===== verification/Run_Refinement.thy ===== *)
theory Run_Refinement
  imports Scenarios
begin

text \<open>
  The refinement of theory \<open>Session\<close> is about one tick. Here it is extended to every
  public method of \<^verbatim>\<open>src/src/CloudIoTCoreMqtt.cpp\<close> and to whole runs: each
  operation of theory \<open>Lifecycle\<close> is matched by an abstract operation on the data
  model (session, token held, delay), \<open>abs_op_of\<close> says which, and a run of the code
  is a run of the abstract machine over the trace of its operations. The session of
  the abstract machine moves along \<open>session_step\<close>, so along every run of the code
  a session is opened only by an attempt that the broker accepts.
\<close>

section \<open>The abstract machine\<close>

datatype abs_op =
    Tick observation bool
  | Try observation
  | Link bool
  | Clear_token
  | Stamp bool bool

definition drop_if :: "bool \<Rightarrow> ctl \<Rightarrow> ctl" where
  "drop_if d c = (if d \<and> c_session c = Connected then c\<lparr>c_session := Disconnected\<rparr> else c)"

definition drop_events :: "bool \<Rightarrow> ctl \<Rightarrow> event list" where
  "drop_events d c = (if d \<and> c_session c = Connected then [Drop] else [])"

fun ctl_next :: "config \<Rightarrow> abs_op \<Rightarrow> ctl \<Rightarrow> ctl" where
  "ctl_next cfg (Tick ob d) c = drop_if d (tick_spec cfg ob c)"
| "ctl_next cfg (Try ob) c = attempt_spec cfg ob c"
| "ctl_next cfg (Link d) c = drop_if d c"
| "ctl_next cfg Clear_token c = c\<lparr>c_token_held := False\<rparr>"
| "ctl_next cfg (Stamp st d) c = drop_if d (c\<lparr>c_token_held := st\<rparr>)"

definition ctl_run :: "config \<Rightarrow> abs_op list \<Rightarrow> ctl \<Rightarrow> ctl" where
  "ctl_run cfg as c = foldl (\<lambda>c a. ctl_next cfg a c) c as"

fun op_events :: "config \<Rightarrow> abs_op \<Rightarrow> ctl \<Rightarrow> event list" where
  "op_events cfg (Tick ob d) c = tick_events ob c @ drop_events d (tick_spec cfg ob c)"
| "op_events cfg (Try ob) c =
     (if c_session c = Connected then [Force] else [])
       @ [Attempt, if o_accepted ob then Accept else Refuse]"
| "op_events cfg (Link d) c = drop_events d c"
| "op_events cfg Clear_token c = []"
| "op_events cfg (Stamp st d) c = drop_events d c"

fun run_events :: "config \<Rightarrow> abs_op list \<Rightarrow> ctl \<Rightarrow> event list" where
  "run_events cfg [] c = []"
| "run_events cfg (a # as) c = op_events cfg a c @ run_events cfg as (ctl_next cfg a c)"

section \<open>What an operation of the code stands for\<close>

text \<open>
  Only \<^verbatim>\<open>connect\<close> opens a session: the pump, the token provider, \<^verbatim>\<open>begin\<close> and
  \<^verbatim>\<open>onMessage\<close> may lose the link and never establish it. The environment is held to
  the same (\<open>supervised\<close>).
\<close>

definition only_drops :: "'w platform \<Rightarrow> ('w \<Rightarrow> 'w) \<Rightarrow> bool" where
  "only_drops I f \<longleftrightarrow> (\<forall>w. mc_connected I (f w) \<longrightarrow> mc_connected I w)"

definition only_connect_opens :: "'w platform \<Rightarrow> bool" where
  "only_connect_opens I \<longleftrightarrow>
     only_drops I (mc_loop I) \<and> only_drops I (\<lambda>w. snd (sys_getJwt I w))
     \<and> (\<forall>h p. only_drops I (mc_begin I h p)) \<and> only_drops I (mc_onMessage I)"

fun supervised :: "'w platform \<Rightarrow> 'w operation \<Rightarrow> bool" where
  "supervised I (Environment f) = only_drops I f"
| "supervised I op = True"

definition dropped :: "'w platform \<Rightarrow> 'w \<Rightarrow> 'w \<Rightarrow> bool" where
  "dropped I w w' \<longleftrightarrow> mc_connected I w \<and> \<not> mc_connected I w'"

definition observe_attempt :: "config \<Rightarrow> 'w platform \<Rightarrow> bool \<Rightarrow> 'w mqtt \<Rightarrow> observation" where
  "observe_attempt cfg I skip s =
     \<lparr>o_expired = token_expired I (world s),
      o_elapsed = backoff_elapsed I s,
      o_accepted = fst (connect_outcome I skip s),
      o_rejected = invalidates_token (mc_returnCode I (snd (connect_outcome I skip s))),
      o_stamped = (snd (fst (token_source I s)) \<noteq> 0),
      o_jitter = fst (sys_random I (jitter cfg) (snd (connect_outcome I skip s)))\<rparr>"

fun abs_op_of :: "config \<Rightarrow> 'w platform \<Rightarrow> 'w operation \<Rightarrow> 'w mqtt \<Rightarrow> abs_op" where
  "abs_op_of cfg I Loop s =
     Tick (observe cfg I s)
       (dropped I (world (exec (tick_core cfg I) s)) (world (exec (loop cfg I) s)))"
| "abs_op_of cfg I (MqttConnect skip) s = Try (observe_attempt cfg I False s)"
| "abs_op_of cfg I (MqttConnectAsync skip) s =
     Try ((observe_attempt cfg I skip s)\<lparr>o_rejected := False\<rparr>)"
| "abs_op_of cfg I LogReturnCode s =
     (if invalidates_token (mc_returnCode I (world s)) then Clear_token else Link False)"
| "abs_op_of cfg I (LogConfiguration showJWT) s =
     (if showJWT
      then Stamp (snd (fst (sys_getJwt I (world s))) \<noteq> 0)
             (dropped I (world s) (snd (sys_getJwt I (world s))))
      else Link False)"
| "abs_op_of cfg I op s = Link (dropped I (world s) (world (perform cfg I op s)))"

fun quiet :: "'w operation \<Rightarrow> bool" where
  "quiet Loop = False"
| "quiet (MqttConnect skip) = False"
| "quiet (MqttConnectAsync skip) = False"
| "quiet LogReturnCode = False"
| "quiet (LogConfiguration showJWT) = (\<not> showJWT)"
| "quiet op = True"

fun trace :: "config \<Rightarrow> 'w platform \<Rightarrow> 'w operation list \<Rightarrow> 'w mqtt \<Rightarrow> abs_op list" where
  "trace cfg I [] s = []"
| "trace cfg I (op # ops) s = abs_op_of cfg I op s # trace cfg I ops (perform cfg I op s)"

section \<open>The abstract machine keeps to the session's transitions\<close>

lemma ctl_run_simps [simp]:
  "ctl_run cfg [] c = c"
  "ctl_run cfg (a # as) c = ctl_run cfg as (ctl_next cfg a c)"
  by (simp_all add: ctl_run_def)

lemma session_path_append:
  "session_path \<sigma> es \<sigma>' \<Longrightarrow> session_path \<sigma>' es' \<sigma>'' \<Longrightarrow> session_path \<sigma> (es @ es') \<sigma>''"
  by (induction rule: session_path.induct) (auto intro: session_path.intros)

lemma drop_events_legal:
  "session_path (c_session c) (drop_events d c) (c_session (drop_if d c))"
  by (cases "c_session c") (auto simp: drop_events_def drop_if_def session_path_iff_run)

lemma token_held_irrelevant [simp]:
  "drop_events d (c\<lparr>c_token_held := b\<rparr>) = drop_events d c"
  "c_session (drop_if d (c\<lparr>c_token_held := b\<rparr>)) = c_session (drop_if d c)"
  by (simp_all add: drop_events_def drop_if_def)

lemma never_connecting:
  "c_session c \<noteq> Connecting \<Longrightarrow> c_session (ctl_next cfg a c) \<noteq> Connecting"
  by (cases a) (auto simp: drop_if_def tick_spec_def attempt_spec_def)

lemma op_events_legal:
  assumes "c_session c \<noteq> Connecting"
  shows "session_path (c_session c) (op_events cfg a c) (c_session (ctl_next cfg a c))"
proof (cases a)
  case (Tick ob d)
  with tick_events_legal[OF assms, of ob cfg] drop_events_legal[of "tick_spec cfg ob c" d]
  show ?thesis by (simp add: session_path_append)
next
  case (Try ob)
  with assms show ?thesis
    by (cases "c_session c") (auto simp: session_path_iff_run attempt_spec_def)
qed (simp_all add: drop_events_legal session_path.path_nil)

lemma run_events_legal:
  assumes "c_session c \<noteq> Connecting"
  shows "session_path (c_session c) (run_events cfg as c) (c_session (ctl_run cfg as c))"
  using assms
proof (induction as arbitrary: c)
  case Nil
  then show ?case by (simp add: session_path.path_nil)
next
  case (Cons a as)
  from op_events_legal[OF Cons.prems, of cfg a]
    Cons.IH[OF never_connecting[OF Cons.prems, of cfg a]]
  show ?case by (simp add: session_path_append)
qed

section \<open>Each method implements its abstract operation\<close>

lemma only_dropsD: "only_drops I f \<Longrightarrow> mc_connected I (f w) \<Longrightarrow> mc_connected I w"
  by (simp add: only_drops_def)

lemma abs_ctl_link:
  assumes "iat t = iat s" and "backoff t = backoff s"
    and "mc_connected I (world t) \<longrightarrow> mc_connected I (world s)"
  shows "abs_ctl I t = drop_if (dropped I (world s) (world t)) (abs_ctl I s)"
  using assms by (auto simp: abs_ctl_def drop_if_def dropped_def session_of_def)

lemma dropped_same [simp]: "\<not> dropped I w w"
  by (simp add: dropped_def)

lemma drop_if_False [simp]: "drop_if False c = c"
  by (simp add: drop_if_def)

lemma quiet_frame:
  assumes "quiet op"
  shows "iat (perform cfg I op s) = iat s" and "backoff (perform cfg I op s) = backoff s"
  using assms
  by (cases op; simp add: exec_def run_simps startMQTT_def setLogConnect_def setUseLts_def
      setUse443Port_def)+

lemma quiet_link:
  assumes "link_stable I" and "only_connect_opens I" and "supervised I op" and "quiet op"
  shows "mc_connected I (world (perform cfg I op s)) \<longrightarrow> mc_connected I (world s)"
proof -
  from assms(2) have b: "\<And>h p. only_drops I (mc_begin I h p)" and m: "only_drops I (mc_onMessage I)"
    by (simp_all add: only_connect_opens_def)
  have "mc_connected I (world (exec (startMQTT cfg I) s)) \<longrightarrow> mc_connected I (world s)"
    by (auto simp: exec_def startMQTT_def dest!: only_dropsD[OF m] only_dropsD[OF b])
  with assms(1,3,4) show ?thesis
    by (cases op)
       (auto simp: exec_def run_simps link_stable_def setLogConnect_def setUseLts_def
          setUse443Port_def dest: only_dropsD)
qed

lemma quiet_abs_op:
  assumes "quiet op"
  shows "abs_op_of cfg I op s = Link (dropped I (world s) (world (perform cfg I op s)))"
  using assms by (cases op) (simp_all add: exec_def run_simps)

lemma quiet_refines:
  assumes "link_stable I" and "only_connect_opens I" and "supervised I op" and "quiet op"
  shows "abs_ctl I (perform cfg I op s) = ctl_next cfg (abs_op_of cfg I op s) (abs_ctl I s)"
  using abs_ctl_link[OF quiet_frame[OF assms(4), of cfg I s] quiet_link[OF assms, of cfg s]]
  by (simp add: quiet_abs_op[OF assms(4)])

lemma abs_ctl_loop:
  assumes "only_connect_opens I"
  shows "abs_ctl I (exec (loop cfg I) s)
           = drop_if (dropped I (world (exec (tick_core cfg I) s)) (world (exec (loop cfg I) s)))
               (abs_ctl I (exec (tick_core cfg I) s))"
proof (rule abs_ctl_link)
  from assms have "only_drops I (mc_loop I)" by (simp add: only_connect_opens_def)
  then show "mc_connected I (world (exec (loop cfg I) s))
      \<longrightarrow> mc_connected I (world (exec (tick_core cfg I) s))"
    by (auto simp: loop_tick_core run_simps dest: only_dropsD)
qed (simp_all add: loop_tick_core run_simps)

lemma abs_ctl_logConfiguration:
  assumes "only_connect_opens I"
  shows "abs_ctl I (exec (logConfiguration cfg I True) s)
           = drop_if (dropped I (world s) (snd (sys_getJwt I (world s))))
               ((abs_ctl I s)\<lparr>c_token_held := (snd (fst (sys_getJwt I (world s))) \<noteq> 0)\<rparr>)"
proof -
  from assms have "only_drops I (\<lambda>w. snd (sys_getJwt I w))" by (simp add: only_connect_opens_def)
  from only_dropsD[OF this, of "world s"] show ?thesis
    by (auto simp: exec_def run_logConfiguration_show abs_ctl_def drop_if_def dropped_def
        session_of_def)
qed

lemma abs_mqttConnectAsync:
  assumes "well_behaved I"
  shows "abs_ctl I (exec (mqttConnectAsync cfg I skip) s)
           = attempt_spec cfg ((observe_attempt cfg I skip s)\<lparr>o_rejected := False\<rparr>) (abs_ctl I s)"
proof -
  from assms have c: "connect_coherent I" and l: "link_stable I"
    by (simp_all add: well_behaved_def)
  from connect_coherentD[OF c, of skip s] show ?thesis
    by (auto simp: abs_ctl_def attempt_spec_def observe_attempt_def mqttConnectAsync_members
        session_after_mqttConnectAsync[OF c l])
qed

lemma abs_mqttConnect_attempt:
  assumes "well_behaved I"
  shows "abs_ctl I (exec (mqttConnect cfg I skip) s)
           = attempt_spec cfg (observe_attempt cfg I False s) (abs_ctl I s)"
  by (auto simp: abs_mqttConnect[OF assms] attempt_spec_def observe_attempt_def)

lemma perform_refines:
  assumes "well_behaved I" and "only_connect_opens I" and "supervised I op"
  shows "abs_ctl I (perform cfg I op s) = ctl_next cfg (abs_op_of cfg I op s) (abs_ctl I s)"
proof (cases "quiet op")
  case True
  from assms(1) have "link_stable I" by (simp add: well_behaved_def)
  from quiet_refines[OF this assms(2,3) True] show ?thesis .
next
  case False
  then show ?thesis
  proof (cases op)
    case Loop
    then show ?thesis
      by (simp add: abs_ctl_loop[OF assms(2)] tick_refines_tick_spec_aux[OF assms(1)])
  next
    case (LogConfiguration showJWT)
    with False show ?thesis by (simp add: abs_ctl_logConfiguration[OF assms(2)])
  next
    case LogReturnCode
    then show ?thesis by (simp add: exec_logReturnCode abs_ctl_def)
  qed (simp_all add: abs_mqttConnect_attempt[OF assms(1)] abs_mqttConnectAsync[OF assms(1)])
qed

section \<open>Runs\<close>

lemma run_refines:
  assumes "well_behaved I" and "only_connect_opens I" and "list_all (supervised I) ops"
  shows "abs_ctl I (run_ops cfg I ops s) = ctl_run cfg (trace cfg I ops s) (abs_ctl I s)"
  using assms(3)
  by (induction ops arbitrary: s) (simp_all add: perform_refines[OF assms(1,2)])

lemma sim_only_connect_opens [simp]: "only_connect_opens sim"
  by (simp add: only_connect_opens_def only_drops_def sim_defs)

lemma sim_environment [simp]: "only_drops sim (advance dt)" "only_drops sim drop_link"
  by (simp_all add: only_drops_def advance_def drop_link_def)

text \<open>
  \<^bold>\<open>C11\<close> (every run of the methods is a run of the abstract
  controller). For such a client, on which furthermore only
  \<^verbatim>\<open>connect\<close> opens a session, every sequence of calls of the
  public methods, interleaved with changes of the environment that may drop the link,
  takes the abstract controller state along the run of the abstract machine over the
  trace of the calls: a tick is \<open>tick_spec\<close>,
  \<^verbatim>\<open>mqttConnect\<close> is an attempt,
  \<^verbatim>\<open>mqttConnectAsync\<close> is an attempt that never clears the
  token, \<^verbatim>\<open>logReturnCode\<close> clears the token on a rejecting
  code, \<^verbatim>\<open>logConfiguration(true)\<close> replaces the stamp, and
  every other method leaves token and delay alone.
\<close>
theorem run_refines_ctl_run:
  assumes "well_behaved I" and "only_connect_opens I" and "list_all (supervised I) ops"
  shows "abs_ctl I (run_ops cfg I ops s) = ctl_run cfg (trace cfg I ops s) (abs_ctl I s)"
  using assms by (rule run_refines)

lemma life_supervised: "list_all (supervised sim) life"
  by (simp add: life_def)

lemma life_link: "w_connected (world d5)" "\<not> w_connected (world d0)"
  using d5_state(7) by (simp_all add: d0_def example_defs)

lemma life_ends:
  "abs_ctl sim d0 = \<lparr>c_session = Disconnected, c_token_held = False, c_delay = 1000\<rparr>"
  "abs_ctl sim (run_ops example_config sim life d0)
     = \<lparr>c_session = Connected, c_token_held = True, c_delay = 1000\<rparr>"
  by (simp_all add: life_states abs_ctl_def session_of_def d5_state(1,4) life_link)
     (simp_all add: d0_def example_defs)

theorem run_refines_ctl_run_witness:
  "well_behaved sim \<and> only_connect_opens sim \<and> list_all (supervised sim) life
   \<and> abs_ctl sim (run_ops example_config sim life d0)
       = ctl_run example_config (trace example_config sim life d0) (abs_ctl sim d0)
   \<and> ctl_run example_config (trace example_config sim life d0)
         \<lparr>c_session = Disconnected, c_token_held = False, c_delay = 1000\<rparr>
       = \<lparr>c_session = Connected, c_token_held = True, c_delay = 1000\<rparr>"
  using run_refines_ctl_run[where I = sim and cfg = example_config and s = d0 and ops = life]
    life_supervised life_ends
  by simp

text \<open>
  The session of every run moves along \<open>session_step\<close>: it is opened by an
  accepted attempt and by nothing else.
\<close>
theorem session_opened_only_by_accept:
  assumes "well_behaved I" and "only_connect_opens I" and "list_all (supervised I) ops"
  shows "session_path (session_of I (world s))
           (run_events cfg (trace cfg I ops s) (abs_ctl I s))
           (session_of I (world (run_ops cfg I ops s)))
         \<and> (mc_connected I (world (run_ops cfg I ops s)) \<and> \<not> mc_connected I (world s)
              \<longrightarrow> Accept \<in> set (run_events cfg (trace cfg I ops s) (abs_ctl I s)))"
proof -
  have "c_session (abs_ctl I s) \<noteq> Connecting" by (simp add: session_of_def)
  from run_events_legal[OF this, of cfg "trace cfg I ops s"]
  have p: "session_path (session_of I (world s))
      (run_events cfg (trace cfg I ops s) (abs_ctl I s))
      (session_of I (world (run_ops cfg I ops s)))"
    by (simp add: run_refines[OF assms, symmetric])
  then show ?thesis
    by (auto simp: session_of_def dest: connected_only_by_accept split: if_splits)
qed

theorem session_opened_only_by_accept_witness:
  "well_behaved sim \<and> only_connect_opens sim \<and> list_all (supervised sim) life
   \<and> session_path Disconnected
        (run_events example_config (trace example_config sim life d0) (abs_ctl sim d0)) Connected
   \<and> mc_connected sim (world (run_ops example_config sim life d0))
   \<and> \<not> mc_connected sim (world d0)
   \<and> Accept \<in> set (run_events example_config (trace example_config sim life d0) (abs_ctl sim d0))"
proof -
  have c: "mc_connected sim (world (run_ops example_config sim life d0))"
    "\<not> mc_connected sim (world d0)"
    by (simp_all add: life_states life_link)
  from session_opened_only_by_accept[where I = sim and cfg = example_config and s = d0
      and ops = life, OF sim_well_behaved sim_only_connect_opens life_supervised] c
  show ?thesis by (simp add: life_supervised session_of_def)
qed

end
