(* ===== verification/Driver.thy ===== *)
theory Driver
  imports Run_Refinement "HOL-Library.While_Combinator"
begin

text \<open>
  The sketch calls \<^verbatim>\<open>loop\<close> of \<^verbatim>\<open>src/src/CloudIoTCoreMqtt.cpp\<close> again and again.
  \<open>tick_until_connected\<close> is that loop, kept as a loop and stopped at the first state
  in which the client is connected: between two ticks the environment \<open>env\<close> acts on
  the collaborators. Whether the loop stops depends on the collaborators and the
  environment: it does for every platform that meets the contract \<open>converges\<close>,
  and the simulated broker meets it as soon as the script of answers holds an
  acceptance; the theorem says so with the result, not only about it. What holds when
  the loop has stopped is proved for every platform, from the refinement of theory
  \<open>Run_Refinement\<close>: the delay is back at its minimum.
\<close>

section \<open>The loop of the sketch\<close>

definition tick_after :: "config \<Rightarrow> 'w platform \<Rightarrow> ('w \<Rightarrow> 'w) \<Rightarrow> 'w mqtt \<Rightarrow> 'w mqtt" where
  "tick_after cfg I env s = exec (loop cfg I) (s\<lparr>world := env (world s)\<rparr>)"

definition tick_until_connected ::
  "config \<Rightarrow> 'w platform \<Rightarrow> ('w \<Rightarrow> 'w) \<Rightarrow> 'w mqtt \<Rightarrow> 'w mqtt option" where
  "tick_until_connected cfg I env s =
     while_option (\<lambda>s. \<not> mc_connected I (world s)) (tick_after cfg I env) s"

text \<open>
  When the loop stops depends on the collaborators. \<open>converges\<close> is what the proof of
  termination asks of them, for a set \<open>good\<close> of worlds and a number \<open>rank\<close> of
  refusals the broker still has in store: the token provider, \<^verbatim>\<open>random\<close>,
  \<^verbatim>\<open>subscribe\<close>, \<^verbatim>\<open>publish\<close> and the pump are \<open>bystander\<close>s (they keep the
  world good and the link as it is, do not raise the rank and do not turn the clock
  back); the environment lets time pass and may drop the link; and a
  \<^verbatim>\<open>connect\<close> of a disconnected client is accepted or lowers the rank.
  \<open>attempts_left\<close> and \<open>time_to_wait\<close> are the two quantities of which one shrinks at
  every tick.
\<close>

definition bystander :: "'w platform \<Rightarrow> ('w \<Rightarrow> bool) \<Rightarrow> ('w \<Rightarrow> nat) \<Rightarrow> ('w \<Rightarrow> 'w) \<Rightarrow> bool" where
  "bystander I good rank f \<longleftrightarrow>
     (\<forall>w. good w \<longrightarrow> good (f w) \<and> rank (f w) \<le> rank w \<and> sys_millis I w \<le> sys_millis I (f w)
                     \<and> mc_connected I (f w) = mc_connected I w)"

definition converges ::
  "'w platform \<Rightarrow> ('w \<Rightarrow> 'w) \<Rightarrow> ('w \<Rightarrow> bool) \<Rightarrow> ('w \<Rightarrow> nat) \<Rightarrow> bool" where
  "converges I env good rank \<longleftrightarrow>
     bystander I good rank (\<lambda>w. snd (sys_getJwt I w))
     \<and> (\<forall>n. bystander I good rank (\<lambda>w. snd (sys_random I n w)))
     \<and> (\<forall>t q. bystander I good rank (mc_subscribe I t q))
     \<and> (\<forall>p. bystander I good rank (\<lambda>w. snd (mc_publish I p w)))
     \<and> bystander I good rank (mc_loop I)
     \<and> (\<forall>w. good w \<longrightarrow> good (env w) \<and> rank (env w) \<le> rank w
                     \<and> sys_millis I w < sys_millis I (env w)
                     \<and> (mc_connected I (env w) \<longrightarrow> mc_connected I w))
     \<and> (\<forall>c u p k w. good w \<and> \<not> mc_connected I w \<longrightarrow>
            good (snd (mc_connect I c u p k w))
            \<and> (mc_connected I (snd (mc_connect I c u p k w))
                 \<or> rank (snd (mc_connect I c u p k w)) < rank w))"

definition attempts_left :: "'w platform \<Rightarrow> ('w \<Rightarrow> nat) \<Rightarrow> 'w mqtt \<Rightarrow> nat" where
  "attempts_left I rank s = (if mc_connected I (world s) then 0 else Suc (rank (world s)))"

definition time_to_wait :: "'w platform \<Rightarrow> 'w mqtt \<Rightarrow> nat" where
  "time_to_wait I s = nat (last_retry_at s + backoff s - sys_millis I (world s))"

definition hopeful :: "sim_world \<Rightarrow> bool" where
  "hopeful w \<longleftrightarrow> w_connected w \<or> Net_accept \<in> set (w_net w)"

definition answers_left :: "sim_world \<Rightarrow> nat" where
  "answers_left w = length (w_net w)"

section \<open>Bystanders\<close>

lemma bystanderD:
  assumes "bystander I good rank f" and "good w"
  shows "good (f w)" and "rank (f w) \<le> rank w" and "sys_millis I w \<le> sys_millis I (f w)"
    and "mc_connected I (f w) = mc_connected I w"
  using assms by (simp_all add: bystander_def)

lemma bystander_id: "bystander I good rank (\<lambda>w. w)"
  by (simp add: bystander_def)

lemma bystander_then:
  assumes "bystander I good rank g" and "\<And>a. bystander I good rank (f a)"
  shows "bystander I good rank (\<lambda>w. f (h w) (g w))"
  unfolding bystander_def
proof (intro allI impI)
  fix w assume "good w"
  note g = bystanderD[OF assms(1) this]
  note f = bystanderD[OF assms(2) g(1), of "h w"]
  from f g show "good (f (h w) (g w)) \<and> rank (f (h w) (g w)) \<le> rank w
      \<and> sys_millis I w \<le> sys_millis I (f (h w) (g w))
      \<and> mc_connected I (f (h w) (g w)) = mc_connected I w"
    by auto
qed

lemma bystander_if:
  "bystander I good rank f \<Longrightarrow> bystander I good rank g
     \<Longrightarrow> bystander I good rank (\<lambda>w. if c w then f w else g w)"
  by (simp add: bystander_def)

lemma converges_bystanders:
  assumes "converges I env good rank"
  shows "bystander I good rank (\<lambda>w. snd (sys_getJwt I w))"
    and "bystander I good rank (\<lambda>w. snd (sys_random I n w))"
    and "bystander I good rank (mc_subscribe I t q)"
    and "bystander I good rank (\<lambda>w. snd (mc_publish I p w))"
    and "bystander I good rank (mc_loop I)"
  using assms by (simp_all add: converges_def)

lemma converges_aftermath:
  assumes "converges I env good rank"
  shows "bystander I good rank (subscribed I)" and "bystander I good rank (announced I)"
proof -
  note b = converges_bystanders[OF assms]
  have s: "bystander I good rank (\<lambda>w. mc_subscribe I (h w) q w)" for h q
    using bystander_then[OF bystander_id, of I good rank "\<lambda>t. mc_subscribe I t q" h] b(3)
    by simp
  have p: "bystander I good rank (\<lambda>w. snd (mc_publish I (h w) w))" for h
    using bystander_then[OF bystander_id, of I good rank "\<lambda>p w. snd (mc_publish I p w)" h] b(4)
    by simp
  from bystander_then[OF s, of "\<lambda>t. mc_subscribe I t 0"] b(3)
  show "bystander I good rank (subscribed I)" by (simp add: subscribed_def[abs_def])
  from bystander_then[OF p, of "\<lambda>p w. snd (mc_publish I p w)"] b(4)
  show "bystander I good rank (announced I)" by (simp add: announced_def[abs_def])
qed

lemma converges_after_connect:
  assumes "converges I env good rank" and "good (snd (connect_outcome I False s))"
  shows "good (world (exec (mqttConnect cfg I False) s))"
    and "rank (world (exec (mqttConnect cfg I False) s)) \<le> rank (snd (connect_outcome I False s))"
    and "mc_connected I (world (exec (mqttConnect cfg I False) s))
           = mc_connected I (snd (connect_outcome I False s))"
proof -
  note b = converges_bystanders(2)[OF assms(1)] converges_aftermath[OF assms(1)]
  have "bystander I good rank (\<lambda>w. if connect_failed I s then snd (sys_random I (jitter cfg) w) else w)"
    by (intro bystander_if b bystander_id)
  from bystanderD[OF this assms(2)] have t: "good (settled cfg I s)"
    "rank (settled cfg I s) \<le> rank (snd (connect_outcome I False s))"
    "mc_connected I (settled cfg I s) = mc_connected I (snd (connect_outcome I False s))"
    by (simp_all add: settled_def)
  note u = bystanderD[OF b(2) t(1)]
  note a = bystanderD[OF b(3) u(1)]
  from t u a show "good (world (exec (mqttConnect cfg I False) s))"
    and "rank (world (exec (mqttConnect cfg I False) s)) \<le> rank (snd (connect_outcome I False s))"
    and "mc_connected I (world (exec (mqttConnect cfg I False) s))
           = mc_connected I (snd (connect_outcome I False s))"
    by (auto simp: world_mqttConnect)
qed

section \<open>One tick\<close>

lemma converges_env:
  assumes "converges I env good rank" and "good w"
  shows "good (env w)" and "rank (env w) \<le> rank w" and "sys_millis I w < sys_millis I (env w)"
    and "\<not> mc_connected I w \<Longrightarrow> \<not> mc_connected I (env w)"
  using assms by (auto simp: converges_def)

lemma converges_connect:
  assumes "converges I env good rank" and "good w" and "\<not> mc_connected I w"
  shows "good (snd (mc_connect I c u p k w))"
    and "mc_connected I (snd (mc_connect I c u p k w)) \<or> rank (snd (mc_connect I c u p k w)) < rank w"
  using assms by (auto simp: converges_def)

lemma tick_attempt:
  assumes "converges I env good rank" and "good (world s)" and "\<not> mc_connected I (world s)"
    and "needs_reconnect I (s\<lparr>world := env (world s)\<rparr>)"
  shows "good (world (tick_after cfg I env s))"
    and "attempts_left I rank (tick_after cfg I env s) < attempts_left I rank s"
proof -
  let ?t = "s\<lparr>world := env (world s)\<rparr>"
  let ?b = "before_connect I ?t"
  note e = converges_env[OF assms(1,2)]
  from e(4)[OF assms(3)] have w: "world ?b = env (world s)" by (simp add: world_before_connect)
  have ts: "token_source I ?b = sys_getJwt I (env (world s))"
    by (simp add: token_source_fresh before_connect_members(1)[OF assms(4)] w)
  note g = bystanderD[OF converges_bystanders(1)[OF assms(1)] e(1)]
  from g(4) e(4)[OF assms(3)] have "\<not> mc_connected I (snd (sys_getJwt I (env (world s))))" by simp
  note c = converges_connect[OF assms(1) g(1) this]
  have o: "good (snd (connect_outcome I False ?b))"
    "mc_connected I (snd (connect_outcome I False ?b))
       \<or> rank (snd (connect_outcome I False ?b)) < rank (world s)"
    using c[of "dev_getClientId I (snd (sys_getJwt I (env (world s))))" "''unused''"
        "fst (fst (sys_getJwt I (env (world s))))" False] g(2) e(2)
    by (auto simp: connect_outcome_def ts)
  note a = converges_after_connect[OF assms(1) o(1), of cfg]
  note l = bystanderD[OF converges_bystanders(5)[OF assms(1)] a(1)]
  have x: "world (tick_after cfg I env s) = mc_loop I (world (exec (mqttConnect cfg I False) ?b))"
    using assms(4) by (simp add: tick_after_def exec_loop run_simps)
  from l(1) show "good (world (tick_after cfg I env s))" by (simp add: x)
  from o(2) a(2,3) l(2,4) assms(3)
  show "attempts_left I rank (tick_after cfg I env s) < attempts_left I rank s"
    by (auto simp: attempts_left_def x)
qed

lemma tick_idle:
  assumes "converges I env good rank" and "good (world s)" and "\<not> mc_connected I (world s)"
    and "\<not> needs_reconnect I (s\<lparr>world := env (world s)\<rparr>)"
  shows "good (world (tick_after cfg I env s))"
    and "attempts_left I rank (tick_after cfg I env s) \<le> attempts_left I rank s"
    and "time_to_wait I (tick_after cfg I env s) < time_to_wait I s"
proof -
  note e = converges_env[OF assms(1,2)]
  note l = bystanderD[OF converges_bystanders(5)[OF assms(1)] e(1)]
  have x: "tick_after cfg I env s
      = s\<lparr>calls := calls s @ [Pump], world := mc_loop I (env (world s))\<rparr>"
    using run_loop_idle[OF assms(4), of cfg] by (simp add: tick_after_def exec_def)
  from l(1) show "good (world (tick_after cfg I env s))" by (simp add: x)
  from l(2,4) e(2) e(4)[OF assms(3)] assms(3)
  show "attempts_left I rank (tick_after cfg I env s) \<le> attempts_left I rank s"
    by (simp add: attempts_left_def x)
  from assms(4) e(4)[OF assms(3)]
  have "\<bar>last_retry_at s - sys_millis I (env (world s))\<bar> < backoff s"
    by (simp add: not_needs_reconnect_iff backoff_elapsed_def)
  with e(3) l(3) show "time_to_wait I (tick_after cfg I env s) < time_to_wait I s"
    by (simp add: time_to_wait_def x)
qed

section \<open>The loop stops\<close>

lemma tick_until_connected_stops:
  assumes "converges I env good rank" and "good (world s)"
  shows "\<exists>t. tick_until_connected cfg I env s = Some t"
  unfolding tick_until_connected_def
proof (rule wf_rel_while_option_Some[where P = "\<lambda>s. good (world s)"
      and R = "inv_image (less_than <*lex*> less_than)
                 (\<lambda>s. (attempts_left I rank s, time_to_wait I s))"])
  show "wf (inv_image (less_than <*lex*> less_than)
              (\<lambda>s. (attempts_left I rank s, time_to_wait I s)))"
    by (intro wf_inv_image wf_lex_prod wf_less_than)
  show "good (world s)" by (rule assms(2))
  show "(tick_after cfg I env u, u)
          \<in> inv_image (less_than <*lex*> less_than)
              (\<lambda>s. (attempts_left I rank s, time_to_wait I s))"
    if "good (world u) \<and> \<not> mc_connected I (world u)" for u
    using tick_attempt(2)[OF assms(1), of u cfg] tick_idle(2,3)[OF assms(1), of u cfg] that
    by (cases "needs_reconnect I (u\<lparr>world := env (world u)\<rparr>)") auto
  show "good (world (tick_after cfg I env u))"
    if "good (world u) \<and> \<not> mc_connected I (world u)" for u
    using tick_attempt(1)[OF assms(1), of u cfg] tick_idle(1)[OF assms(1), of u cfg] that
    by (cases "needs_reconnect I (u\<lparr>world := env (world u)\<rparr>)") auto
qed

section \<open>The simulation converges\<close>

lemma advance_fields [simp]:
  "w_now (advance dt w) = w_now w + dt" "w_net (advance dt w) = w_net w"
  "w_connected (advance dt w) = w_connected w" "w_connect_cost (advance dt w) = w_connect_cost w"
  "w_exp_millis (advance dt w) = w_exp_millis w"
  by (simp_all add: advance_def)

lemma sim_bystanders:
  "bystander sim hopeful answers_left (\<lambda>w. snd (sim_getJwt w))"
  "bystander sim hopeful answers_left (\<lambda>w. snd (sim_random n w))"
  "bystander sim hopeful answers_left (sim_subscribe t q)"
  "bystander sim hopeful answers_left (\<lambda>w. snd (sim_publish p w))"
  by (simp_all add: bystander_def hopeful_def answers_left_def sim_getJwt_def sim_random_def
      sim_subscribe_def sim_publish_def split: list.splits)

lemma sim_connect_hope:
  assumes "hopeful w" and "\<not> w_connected w"
  shows "hopeful (snd (sim_connect c u p k w))"
    and "w_connected (snd (sim_connect c u p k w))
           \<or> answers_left (snd (sim_connect c u p k w)) < answers_left w"
  using assms
  by (auto simp: hopeful_def answers_left_def sim_connect_def sim_attempt_def
      split: list.splits net_outcome.splits)

lemma sim_converges:
  assumes "0 < dt"
  shows "converges sim (advance dt) hopeful answers_left"
  using assms
  by (simp add: converges_def sim_bystanders sim_connect_hope bystander_id)
     (simp add: hopeful_def answers_left_def)

section \<open>What holds when the loop has stopped\<close>

lemma tick_after_refines:
  assumes "well_behaved I" and "only_connect_opens I" and "only_drops I env"
  shows "abs_ctl I (tick_after cfg I env s)
           = ctl_run cfg (trace cfg I [Environment env, Loop] s) (abs_ctl I s)"
  using run_refines[OF assms(1,2), of "[Environment env, Loop]" cfg s] assms(3)
  by (simp add: tick_after_def)

lemma tick_connects_with_reset:
  assumes "well_behaved I" and "only_connect_opens I" and "only_drops I env"
    and "\<not> mc_connected I (world s)" and "mc_connected I (world (tick_after cfg I env s))"
  shows "backoff (tick_after cfg I env s) = minbackoff cfg"
proof -
  let ?t = "tick_after cfg I env s"
  from assms(4,5) have "c_session (abs_ctl I s) = Disconnected" "c_session (abs_ctl I ?t) = Connected"
    by (simp_all add: session_of_def)
  with tick_after_refines[OF assms(1-3), of cfg s]
  have "c_delay (abs_ctl I ?t) = minbackoff cfg"
    by (auto simp: drop_if_def tick_spec_def attempt_spec_def split: if_splits)
  then show ?thesis by simp
qed

lemma tick_until_connected_resets:
  assumes "well_behaved I" and "only_connect_opens I" and "only_drops I env"
    and "tick_until_connected cfg I env s = Some t" and "\<not> mc_connected I (world s)"
  shows "mc_connected I (world t) \<and> backoff t = minbackoff cfg"
proof -
  have "mc_connected I (world t) \<longrightarrow> backoff t = minbackoff cfg"
  proof (rule while_option_rule[where P = "\<lambda>u. mc_connected I (world u) \<longrightarrow> backoff u = minbackoff cfg",
        OF _ assms(4)[unfolded tick_until_connected_def]])
    show "mc_connected I (world (tick_after cfg I env u)) \<longrightarrow>
        backoff (tick_after cfg I env u) = minbackoff cfg"
      if "\<not> mc_connected I (world u)" for u
      using tick_connects_with_reset[OF assms(1-3) that] by blast
  qed (use assms(5) in simp)
  moreover from assms(4) have "mc_connected I (world t)"
    unfolding tick_until_connected_def by (auto dest: while_option_stop)
  ultimately show ?thesis by simp
qed

lemma tick_until_connected_total:
  assumes "well_behaved I" and "only_connect_opens I" and "only_drops I env"
    and "converges I env good rank" and "good (world s)"
  shows "\<exists>t. tick_until_connected cfg I env s = Some t \<and> mc_connected I (world t)
             \<and> (mc_connected I (world s) \<or> backoff t = minbackoff cfg)"
proof -
  from tick_until_connected_stops[OF assms(4,5)] obtain t where
    t: "tick_until_connected cfg I env s = Some t" by blast
  then have c: "mc_connected I (world t)"
    unfolding tick_until_connected_def by (auto dest: while_option_stop)
  have "backoff t = minbackoff cfg" if "\<not> mc_connected I (world s)"
    using tick_until_connected_resets[OF assms(1-3) t that] by simp
  with t c show ?thesis by blast
qed

text \<open>
  \<^bold>\<open>C16\<close> (the reconnect loop of the sketch ends, with the delay
  reset). A sketch that lets the environment act and calls
  \<^verbatim>\<open>loop\<close>, again and again until the client is connected,
  stops after finitely many calls with the client connected, for every platform that
  converges: time passes between two calls, the token provider,
  \<^verbatim>\<open>random\<close>, \<^verbatim>\<open>subscribe\<close>,
  \<^verbatim>\<open>publish\<close> and the pump leave the link as it is and do not
  turn the clock back, and every \<^verbatim>\<open>connect\<close> of a disconnected
  client either is accepted or lowers the number of refusals the broker still has in
  store. Refusals and ticks that come before the delay has elapsed only postpone the
  connection. Unless the client was connected from the start, the delay is at its
  minimum when the loop stops; this part uses that \<^verbatim>\<open>connect\<close>
  returns true exactly when it leaves the client connected without an error, that only
  \<^verbatim>\<open>connect\<close> opens a session, and that the environment only
  drops the link. The simulated broker converges as soon as its script of answers
  holds an acceptance.
\<close>
theorem reconnect_loop_terminates:
  assumes "well_behaved I" and "only_connect_opens I" and "only_drops I env"
    and "converges I env good rank" and "good (world s)"
  shows "\<exists>t. tick_until_connected cfg I env s = Some t \<and> mc_connected I (world t)
             \<and> (mc_connected I (world s) \<or> backoff t = minbackoff cfg)"
  using tick_until_connected_total[OF assms] .

theorem reconnect_loop_terminates_witness:
  "well_behaved sim \<and> only_connect_opens sim \<and> only_drops sim (advance 1000)
   \<and> converges sim (advance 1000) hopeful answers_left \<and> hopeful (world d0)
   \<and> \<not> mc_connected sim (world d0)
   \<and> (\<exists>t. tick_until_connected example_config sim (advance 1000) d0 = Some t
          \<and> mc_connected sim (world t) \<and> backoff t = 1000)"
proof -
  have c: "converges sim (advance 1000) hopeful answers_left" by (simp add: sim_converges)
  have h: "hopeful (world d0)" "\<not> mc_connected sim (world d0)"
    by (simp_all add: hopeful_def d0_def example_defs)
  from reconnect_loop_terminates[OF sim_well_behaved sim_only_connect_opens
      sim_environment(1) c h(1), of example_config] c h
  show ?thesis by (simp add: example_config_def)
qed

theorem sim_eventually_connects:
  assumes "Net_accept \<in> set (w_net (world s))" and "0 < dt"
  shows "\<exists>t. tick_until_connected cfg sim (advance dt) s = Some t \<and> mc_connected sim (world t)
             \<and> (mc_connected sim (world s) \<or> backoff t = minbackoff cfg)"
proof -
  from assms(1) have "hopeful (world s)" by (simp add: hopeful_def)
  from tick_until_connected_total[OF sim_well_behaved sim_only_connect_opens
      sim_environment(1) sim_converges[OF assms(2)] this]
  show ?thesis .
qed

theorem sim_eventually_connects_witness:
  "Net_accept \<in> set (w_net (world d0)) \<and> (0::int) < 1000
   \<and> (\<exists>t. tick_until_connected example_config sim (advance 1000) d0 = Some t
          \<and> mc_connected sim (world t)
          \<and> (mc_connected sim (world d0) \<or> backoff t = minbackoff example_config))"
proof -
  have h: "Net_accept \<in> set (w_net (world d0))" by (simp add: d0_def example_defs)
  from sim_eventually_connects[OF h, of 1000 example_config] h show ?thesis by simp
qed

end
