(* ===== verification/History.thy ===== *)
theory History
  imports Run_Refinement
begin

text \<open>
  What the history of calls says on its own. The history records every call the
  methods of \<^verbatim>\<open>src/src/CloudIoTCoreMqtt.cpp\<close> make on a collaborator together with
  the value that came back, so properties of a run can be stated about the list of
  calls alone, whatever the collaborators are: which tokens were obtained
  (\<open>minted\<close>), whether every token presented to the broker had been obtained before
  (\<open>tokens_known\<close>), whether every \<^verbatim>\<open>connect\<close> directly follows the
  \<^verbatim>\<open>getJwt\<close> that returned its password (\<open>fresh_connects\<close>), and what the session
  is if one believes the results of \<^verbatim>\<open>connect\<close> and \<^verbatim>\<open>disconnect\<close> (\<open>replay\<close>).
  The functions are primitive recursive over the list, with one lemma each about
  appended histories. \<open>perform_shape\<close> says what one public method appends: calls
  without a \<^verbatim>\<open>connect\<close>, then its \<open>attempt\<close> (the token request and the
  \<^verbatim>\<open>connect\<close> of lines 69 to 78, if the method gets that far), then calls that are
  \<open>neutral\<close> (neither \<^verbatim>\<open>connect\<close> nor \<^verbatim>\<open>disconnect\<close>). The theorems are
  invariants of all runs, each proved by \<open>run_history\<close> from what one method does.
\<close>

section \<open>Functions over the history\<close>

text \<open>
  \<open>new_calls s t\<close> are the calls of \<open>t\<close> beyond those of \<open>s\<close>. \<open>tokens_known K\<close>
  starts from the set \<open>K\<close> of tokens known beforehand. \<open>replay\<close> starts from a
  session and follows the recorded results: an accepted \<^verbatim>\<open>connect\<close> gives
  \<open>Connected\<close>, a refused one and every \<^verbatim>\<open>disconnect\<close> give \<open>Disconnected\<close>.
\<close>

fun minted :: "call list \<Rightarrow> string list" where
  "minted [] = []"
| "minted (GetJwt tok # cs) = tok # minted cs"
| "minted (c # cs) = minted cs"

fun is_accept :: "call \<Rightarrow> bool" where
  "is_accept (Connect clientId username password skip res) = res"
| "is_accept c = False"

fun neutral :: "call \<Rightarrow> bool" where
  "neutral (Connect clientId username password skip res) = False"
| "neutral Disconnect = False"
| "neutral c = True"

fun tokens_known :: "string set \<Rightarrow> call list \<Rightarrow> bool" where
  "tokens_known K [] = True"
| "tokens_known K (GetJwt tok # cs) = tokens_known (insert tok K) cs"
| "tokens_known K (Connect clientId username password skip res # cs) =
     (password \<in> K \<and> tokens_known K cs)"
| "tokens_known K (c # cs) = tokens_known K cs"

fun fresh_connects :: "call list \<Rightarrow> bool" where
  "fresh_connects [] = True"
| "fresh_connects (GetJwt tok # Connect clientId username password skip res # cs) =
     (password = tok \<and> fresh_connects cs)"
| "fresh_connects (Connect clientId username password skip res # cs) = False"
| "fresh_connects (c # cs) = fresh_connects cs"

fun replay :: "session \<Rightarrow> call list \<Rightarrow> session" where
  "replay \<sigma> [] = \<sigma>"
| "replay \<sigma> (Connect clientId username password skip res # cs) =
     replay (if res then Connected else Disconnected) cs"
| "replay \<sigma> (Disconnect # cs) = replay Disconnected cs"
| "replay \<sigma> (c # cs) = replay \<sigma> cs"

definition new_calls :: "'w mqtt \<Rightarrow> 'w mqtt \<Rightarrow> call list" where
  "new_calls s t = drop (length (calls s)) (calls t)"

section \<open>Histories put together\<close>

lemma minted_append [simp]: "minted (xs @ ys) = minted xs @ minted ys"
  by (induction xs rule: minted.induct) simp_all

lemma replay_append [simp]: "replay \<sigma> (xs @ ys) = replay (replay \<sigma> xs) ys"
  by (induction \<sigma> xs rule: replay.induct) simp_all

lemma tokens_known_append [simp]:
  "tokens_known K (xs @ ys) \<longleftrightarrow> tokens_known K xs \<and> tokens_known (K \<union> set (minted xs)) ys"
  by (induction K xs rule: tokens_known.induct) simp_all

lemma tokens_known_mono: "tokens_known K cs \<Longrightarrow> K \<subseteq> K' \<Longrightarrow> tokens_known K' cs"
proof (induction K cs arbitrary: K' rule: tokens_known.induct)
  case (2 K tok cs)
  from "2.IH"[of "insert tok K'"] "2.prems" show ?case by auto
qed auto

lemma fresh_connects_append:
  assumes "ys = [] \<or> \<not> is_connect (hd ys)"
  shows "fresh_connects (xs @ ys) \<longleftrightarrow> fresh_connects xs \<and> fresh_connects ys"
  using assms
  by (induction xs rule: fresh_connects.induct) (simp_all, (cases ys; cases "hd ys"; simp)+)

lemma no_connect_calls:
  assumes "\<not> list_ex is_connect cs"
  shows "tokens_known K cs" and "fresh_connects cs" and "cs = [] \<or> \<not> is_connect (hd cs)"
proof -
  show "tokens_known K cs" using assms by (induction K cs rule: tokens_known.induct) simp_all
  show "fresh_connects cs" using assms by (induction cs rule: fresh_connects.induct) simp_all
  show "cs = [] \<or> \<not> is_connect (hd cs)" using assms by (cases cs) simp_all
qed

lemma neutral_calls:
  assumes "list_all neutral cs"
  shows "replay \<sigma> cs = \<sigma>" and "\<not> list_ex is_connect cs"
proof -
  show "replay \<sigma> cs = \<sigma>" using assms by (induction \<sigma> cs rule: replay.induct) simp_all
  show "\<not> list_ex is_connect cs" using assms by (induction cs) (auto elim: neutral.elims)
qed

lemma replay_connected:
  "replay \<sigma> cs = Connected \<Longrightarrow> \<sigma> = Connected \<or> list_ex is_accept cs"
  by (induction \<sigma> cs rule: replay.induct) (auto split: if_splits)

section \<open>What one method adds to the history\<close>

text \<open>
  \<open>attempt_calls\<close> are the calls of the opening of both connect methods that matter
  to the session: the token request, made only when the stamp is zero, and
  \<^verbatim>\<open>connect\<close> with the token the object then holds. \<open>attempt\<close> gives them for
  each public method: \<^verbatim>\<open>loop\<close> attempts when it decides to reconnect, in the state
  its two conditionals leave; the other methods never call \<^verbatim>\<open>connect\<close>.
\<close>

definition attempt_calls :: "'w platform \<Rightarrow> bool \<Rightarrow> 'w mqtt \<Rightarrow> call list" where
  "attempt_calls I skip s =
     (if iat s = 0 then [GetJwt (fst (fst (token_source I s)))] else [])
       @ [connect_call I skip s]"

fun attempt :: "'w platform \<Rightarrow> 'w operation \<Rightarrow> 'w mqtt \<Rightarrow> call list" where
  "attempt I Loop s =
     (if needs_reconnect I s then attempt_calls I False (before_connect I s) else [])"
| "attempt I (MqttConnect skip) s = attempt_calls I False s"
| "attempt I (MqttConnectAsync skip) s = attempt_calls I skip s"
| "attempt I op s = []"

fun tick_driven :: "'w operation \<Rightarrow> bool" where
  "tick_driven (MqttConnect skip) = False"
| "tick_driven (MqttConnectAsync skip) = False"
| "tick_driven op = True"

lemma emits_neutral_diagnostics [simp]:
  "emits neutral (logError I)" "emits neutral (logReturnCode I)"
  "emits neutral (logConfiguration cfg I showJWT)" "emits neutral (increaseBackoff cfg I)"
  by (cases showJWT; simp add: emits_def exec_def run_simps Let_def)+

lemma emits_neutral_publish [simp]:
  "emits neutral (publishTelemetry I d)" "emits neutral (publishTelemetry_qos I d q)"
  "emits neutral (publishTelemetry_raw I d n)" "emits neutral (publishTelemetry_sub I t d)"
  "emits neutral (publishTelemetry_sub_qos I t d q)"
  "emits neutral (publishTelemetry_sub_raw I t d n)"
  "emits neutral (publishState I d)" "emits neutral (publishState_raw I d n)"
  by (simp_all add: publish_defs emits_intros)

lemma emits_neutral_setup [simp]:
  "emits neutral (startMQTT cfg I)" "emits neutral (setLogConnect b)"
  "emits neutral (setUseLts b)" "emits neutral (setUse443Port b)"
  "emits neutral (onConnect I)" "emits neutral (resubscribe I)"
  by (simp_all add: startMQTT_def setLogConnect_def setUseLts_def setUse443Port_def
      onConnect_def resubscribe_def emits_intros)

lemma emits_neutral_settle [simp]:
  "emits neutral (report_failure cfg I)" "emits neutral (settle cfg I res)"
  "emits neutral (settle_async cfg I res)"
  by (simp_all add: report_failure_def settle_def settle_async_def emits_intros)

lemma attempt_then:
  assumes "\<And>r. emits P (f r)"
  shows "\<exists>rest. calls (exec (State_Monad.bind (begin_attempt banner I skip) f) s)
             = calls s @ Serial (Print banner) # attempt_calls I skip s @ rest
           \<and> list_all P rest"
  using emitsD[OF assms, of "fst (connect_outcome I skip s)"
      "exec (begin_attempt banner I skip) s"]
  by (auto simp: attempt_calls_def)

lemma calls_connect_paths:
  "\<exists>rest. calls (exec (mqttConnect cfg I skip) s)
       = calls s @ Serial (Print ''Connecting MQTT... '') # attempt_calls I False s @ rest
     \<and> list_all neutral rest"
  "\<exists>rest. calls (exec (mqttConnectAsync cfg I skip) s)
       = calls s @ Serial (Print ''Connecting MQTT async [NOT COMPLETE IMPLEMENTATION]...'')
           # attempt_calls I skip s @ rest
     \<and> list_all neutral rest"
  unfolding mqttConnect_blocks mqttConnectAsync_blocks
  by (rule attempt_then; simp add: emits_intros)+

lemma attempt_calls_nonempty [simp]: "attempt_calls I skip s \<noteq> []"
  by (simp add: attempt_calls_def)

lemma shapeI:
  assumes "calls t = calls s @ pre @ att @ rest"
    and "\<not> list_ex is_connect pre" and "list_all neutral rest" and "att = [] \<longrightarrow> pre = []"
  shows "\<exists>pre rest. calls t = calls s @ pre @ att @ rest
     \<and> \<not> list_ex is_connect pre \<and> list_all neutral rest \<and> (att = [] \<longrightarrow> pre = [])"
  using assms by blast

lemma calls_loop_shape:
  "\<exists>pre rest. calls (exec (loop cfg I) s) = calls s @ pre @ attempt I Loop s @ rest
     \<and> \<not> list_ex is_connect pre \<and> list_all neutral rest
     \<and> (attempt I Loop s = [] \<longrightarrow> pre = [])"
proof (cases "needs_reconnect I s")
  case True
  from calls_connect_paths(1)[of cfg I False "before_connect I s"] obtain rest where
    r: "calls (exec (mqttConnect cfg I False) (before_connect I s))
          = calls (before_connect I s) @ Serial (Print ''Connecting MQTT... '')
              # attempt_calls I False (before_connect I s) @ rest"
    and n: "list_all neutral rest" by blast
  show ?thesis
    by (rule shapeI[where pre = "prelude_calls I s @ [Serial (Print ''Connecting MQTT... '')]"
          and rest = "rest @ [Pump]"])
       (simp_all add: True r n exec_loop calls_before_connect)
next
  case False
  show ?thesis
    by (rule shapeI[where pre = "[]" and rest = "[Pump]"]) (simp_all add: False exec_loop)
qed

lemma tick_driven_neutral:
  assumes "tick_driven op" and "op \<noteq> Loop"
  shows "\<exists>rest. calls (perform cfg I op s) = calls s @ rest \<and> list_all neutral rest"
  using assms by (cases op) (simp_all add: emitsD)

lemma perform_shape:
  "\<exists>pre rest. calls (perform cfg I op s) = calls s @ pre @ attempt I op s @ rest
     \<and> \<not> list_ex is_connect pre \<and> list_all neutral rest
     \<and> (attempt I op s = [] \<longrightarrow> pre = [])"
proof (cases "tick_driven op \<and> op \<noteq> Loop")
  case True
  then have a: "attempt I op s = []" by (cases op) simp_all
  from tick_driven_neutral[of op cfg I s] True obtain rest where
    r: "calls (perform cfg I op s) = calls s @ rest" "list_all neutral rest" by blast
  show ?thesis by (rule shapeI[where pre = "[]" and rest = rest]) (simp_all add: a r)
next
  case False
  then consider "op = Loop" | skip where "op = MqttConnect skip"
    | skip where "op = MqttConnectAsync skip"
    by (cases op) simp_all
  then show ?thesis
  proof cases
    case 1
    with calls_loop_shape[of cfg I s] show ?thesis by simp
  next
    case 2
    from calls_connect_paths(1)[of cfg I skip s] obtain rest where
      r: "calls (exec (mqttConnect cfg I skip) s) = calls s @ Serial (Print ''Connecting MQTT... '')
         # attempt_calls I False s @ rest" "list_all neutral rest" by blast
    show ?thesis
      by (rule shapeI[where pre = "[Serial (Print ''Connecting MQTT... '')]" and rest = rest])
         (simp_all add: 2 r)
  next
    case 3
    from calls_connect_paths(2)[of cfg I skip s] obtain rest where
      r: "calls (exec (mqttConnectAsync cfg I skip) s) = calls s
         @ Serial (Print ''Connecting MQTT async [NOT COMPLETE IMPLEMENTATION]...'')
         # attempt_calls I skip s @ rest" "list_all neutral rest" by blast
    show ?thesis
      by (rule shapeI[where pre = "[Serial (Print ''Connecting MQTT async [NOT COMPLETE IMPLEMENTATION]...'')]"
            and rest = rest])
         (simp_all add: 3 r)
  qed
qed

section \<open>What one method does to the three readings of the history\<close>

lemma new_calls_eq: "calls t = calls s @ cs \<Longrightarrow> new_calls s t = cs"
  by (simp add: new_calls_def)

lemma perform_jwt:
  "jwt (perform cfg I op s) \<in> insert (jwt s) (set (minted (attempt I op s)))"
proof (cases op)
  case Loop
  then show ?thesis
    by (simp add: exec_loop mqttConnect_members before_connect_members attempt_calls_def
        token_source_def)
next
  case (MqttConnect skip)
  then show ?thesis by (simp add: mqttConnect_members attempt_calls_def token_source_def)
next
  case (MqttConnectAsync skip)
  then show ?thesis by (simp add: mqttConnectAsync_members attempt_calls_def token_source_def)
next
  case (LogConfiguration showJWT)
  then show ?thesis by (cases showJWT) (simp_all add: exec_def run_simps)
qed (simp_all add: exec_def run_simps startMQTT_def case_prod_beta setLogConnect_def
    setUseLts_def setUse443Port_def)

lemma attempt_tokens_known: "jwt s \<in> K \<Longrightarrow> tokens_known K (attempt I op s)"
  by (cases op)
     (simp_all add: attempt_calls_def connect_call_def token_source_def before_connect_members)

lemma attempt_fresh:
  assumes "tick_driven op"
  shows "fresh_connects (attempt I op s)" and "attempt I op s = [] \<or> \<not> is_connect (hd (attempt I op s))"
  using assms
  by (cases op; simp add: attempt_calls_def connect_call_def token_source_def
      before_connect_members)+

lemma replay_attempt:
  "attempt I op s \<noteq> [] \<Longrightarrow>
     replay \<sigma> (attempt I op s)
       = (if is_accept (last (attempt I op s)) then Connected else Disconnected)"
  by (cases op) (simp_all add: attempt_calls_def connect_call_def split: if_splits)

lemma quiet_no_attempt: "quiet op \<Longrightarrow> attempt I op s = []"
  by (cases op) simp_all

lemma perform_link:
  assumes "well_behaved I" and "only_connect_opens I" and "supervised I op"
    and "mc_connected I (world (perform cfg I op s))"
  shows "if attempt I op s = [] then mc_connected I (world s)
         else is_accept (last (attempt I op s))"
proof (cases "quiet op")
  case True
  from assms(1) have "link_stable I" by (simp add: well_behaved_def)
  from quiet_link[OF this assms(2,3) True, of cfg s] assms(4) show ?thesis
    by (simp add: quiet_no_attempt[OF True])
next
  case False
  from assms(1) have c: "connect_coherent I" and l: "link_stable I"
    by (simp_all add: well_behaved_def)
  from assms(2) have p: "only_drops I (mc_loop I)" and g: "only_drops I (\<lambda>w. snd (sys_getJwt I w))"
    by (simp_all add: only_connect_opens_def)
  note after = session_after_mqttConnect[OF c l] session_after_mqttConnectAsync[OF c l]
  from False show ?thesis
  proof (cases op)
    case Loop
    from assms(4) have "mc_connected I (world (exec (tick_core cfg I) s))"
      by (auto simp: Loop loop_tick_core run_simps dest: only_dropsD[OF p])
    with after(1)[of cfg False "before_connect I s"] show ?thesis
      by (auto simp: Loop exec_tick_core attempt_calls_def connect_call_def session_of_def
          split: if_splits)
  next
    case (MqttConnect skip)
    with after(1)[of cfg skip s] assms(4) show ?thesis
      by (auto simp: attempt_calls_def connect_call_def session_of_def split: if_splits)
  next
    case (MqttConnectAsync skip)
    with after(2)[of cfg skip s] assms(4) show ?thesis
      by (auto simp: attempt_calls_def connect_call_def session_of_def split: if_splits)
  next
    case LogReturnCode
    with assms(4) show ?thesis by (simp add: exec_logReturnCode)
  next
    case (LogConfiguration showJWT)
    with False assms(4) show ?thesis
      by (auto simp: exec_def run_logConfiguration_show dest: only_dropsD[OF g])
  qed simp_all
qed

lemma perform_replay:
  assumes "well_behaved I" and "only_connect_opens I" and "supervised I op"
    and "mc_connected I (world s) \<longrightarrow> \<sigma> = Connected"
  shows "\<exists>ds. calls (perform cfg I op s) = calls s @ ds
           \<and> (mc_connected I (world (perform cfg I op s)) \<longrightarrow> replay \<sigma> ds = Connected)"
proof -
  from perform_shape[of cfg I op s] obtain pre rest where
    d: "calls (perform cfg I op s) = calls s @ pre @ attempt I op s @ rest"
    and n: "list_all neutral rest" and e: "attempt I op s = [] \<longrightarrow> pre = []" by blast
  have "replay \<sigma> (pre @ attempt I op s @ rest) = Connected"
    if "mc_connected I (world (perform cfg I op s))"
    using perform_link[OF assms(1-3) that] assms(4) e
    by (auto simp: neutral_calls(1)[OF n] replay_attempt split: if_splits)
  with d show ?thesis by blast
qed

lemma perform_tokens:
  assumes "jwt s \<in> K"
  shows "\<exists>ds. calls (perform cfg I op s) = calls s @ ds \<and> tokens_known K ds
           \<and> jwt (perform cfg I op s) \<in> K \<union> set (minted ds)"
proof -
  from perform_shape[of cfg I op s] obtain pre rest where
    d: "calls (perform cfg I op s) = calls s @ pre @ attempt I op s @ rest"
    and p: "\<not> list_ex is_connect pre" and n: "list_all neutral rest" by blast
  from perform_jwt[of cfg I op s] assms
  have "tokens_known K (pre @ attempt I op s @ rest)
      \<and> jwt (perform cfg I op s) \<in> K \<union> set (minted (pre @ attempt I op s @ rest))"
    by (auto simp: no_connect_calls(1)[OF p] no_connect_calls(1)[OF neutral_calls(2)[OF n]]
        attempt_tokens_known)
  with d show ?thesis by blast
qed

lemma perform_fresh:
  assumes "tick_driven op"
  shows "\<exists>ds. calls (perform cfg I op s) = calls s @ ds \<and> fresh_connects ds
           \<and> (ds = [] \<or> \<not> is_connect (hd ds))"
proof -
  from perform_shape[of cfg I op s] obtain pre rest where
    d: "calls (perform cfg I op s) = calls s @ pre @ attempt I op s @ rest"
    and p: "\<not> list_ex is_connect pre" and n: "list_all neutral rest" by blast
  note r = no_connect_calls(2,3)[OF neutral_calls(2)[OF n]]
  note a = attempt_fresh[OF assms, of I s]
  have h: "attempt I op s @ rest = [] \<or> \<not> is_connect (hd (attempt I op s @ rest))"
    using a(2) r(2) by (cases "attempt I op s") auto
  have "fresh_connects (pre @ attempt I op s @ rest)"
    by (simp add: fresh_connects_append[OF h] fresh_connects_append[OF r(2)]
        no_connect_calls(2)[OF p] a(1) r(1))
  moreover have "pre @ attempt I op s @ rest = [] \<or> \<not> is_connect (hd (pre @ attempt I op s @ rest))"
    using no_connect_calls(3)[OF p] h by (cases pre) auto
  ultimately show ?thesis using d by blast
qed

section \<open>Runs\<close>

text \<open>
  A property of the state and of the calls made since the start that holds at the
  start and that every method of a run extends, holds after the run.
\<close>

lemma run_history:
  assumes "P s0 []"
    and "\<And>op s cs. op \<in> set ops \<Longrightarrow> P s cs \<Longrightarrow>
           \<exists>ds. calls (perform cfg I op s) = calls s @ ds \<and> P (perform cfg I op s) (cs @ ds)"
  shows "calls (run_ops cfg I ops s0) = calls s0 @ new_calls s0 (run_ops cfg I ops s0)
         \<and> P (run_ops cfg I ops s0) (new_calls s0 (run_ops cfg I ops s0))"
proof -
  have "\<exists>cs. calls (run_ops cfg I ops s0) = calls s0 @ cs \<and> P (run_ops cfg I ops s0) cs"
    using assms(2)
  proof (induction ops rule: rev_induct)
    case Nil
    from assms(1) show ?case by simp
  next
    case (snoc op ops)
    from snoc.IH snoc.prems obtain cs where
      c: "calls (run_ops cfg I ops s0) = calls s0 @ cs" "P (run_ops cfg I ops s0) cs" by auto
    from snoc.prems[of op, OF _ c(2)] obtain ds where
      "calls (perform cfg I op (run_ops cfg I ops s0)) = calls (run_ops cfg I ops s0) @ ds"
      "P (perform cfg I op (run_ops cfg I ops s0)) (cs @ ds)" by auto
    with c(1) show ?case by (intro exI[of _ "cs @ ds"]) simp
  qed
  then obtain cs where
    c: "calls (run_ops cfg I ops s0) = calls s0 @ cs" "P (run_ops cfg I ops s0) cs" by blast
  from c show ?thesis by (simp add: new_calls_eq[OF c(1)])
qed

lemma run_replay:
  assumes "well_behaved I" and "only_connect_opens I" and "list_all (supervised I) ops"
    and "mc_connected I (world (run_ops cfg I ops s))"
  shows "replay (session_of I (world s)) (new_calls s (run_ops cfg I ops s)) = Connected"
proof -
  let ?P = "\<lambda>t cs. mc_connected I (world t) \<longrightarrow> replay (session_of I (world s)) cs = Connected"
  have "\<exists>ds. calls (perform cfg I op t) = calls t @ ds \<and> ?P (perform cfg I op t) (cs @ ds)"
    if "op \<in> set ops" and "?P t cs" for op t cs
  proof -
    from that(1) assms(3) have "supervised I op" by (simp add: list_all_iff)
    from perform_replay[OF assms(1,2) this that(2)] show ?thesis by simp
  qed
  from run_history[of ?P s ops cfg I, OF _ this, THEN conjunct2] assms(4) show ?thesis
    by (simp add: session_of_def)
qed

lemma run_fresh:
  assumes "list_all tick_driven ops"
  shows "fresh_connects (new_calls s (run_ops cfg I ops s))"
proof -
  have "\<exists>ds. calls (perform cfg I op t) = calls t @ ds \<and> fresh_connects (cs @ ds)"
    if "op \<in> set ops" and "fresh_connects cs" for op t cs
  proof -
    from that(1) assms have "tick_driven op" by (simp add: list_all_iff)
    from perform_fresh[OF this, of cfg I t] that(2) show ?thesis
      by (auto simp: fresh_connects_append)
  qed
  from run_history[of "\<lambda>t. fresh_connects" s ops cfg I, OF _ this, THEN conjunct2]
  show ?thesis by simp
qed

lemma run_tokens:
  "calls (run_ops cfg I ops s) = calls s @ new_calls s (run_ops cfg I ops s)
   \<and> tokens_known {jwt s} (new_calls s (run_ops cfg I ops s))
   \<and> jwt (run_ops cfg I ops s) \<in> insert (jwt s) (set (minted (new_calls s (run_ops cfg I ops s))))"
proof -
  let ?P = "\<lambda>t cs. tokens_known {jwt s} cs \<and> jwt t \<in> insert (jwt s) (set (minted cs))"
  have step: "\<exists>ds. calls (perform cfg I op t) = calls t @ ds \<and> ?P (perform cfg I op t) (cs @ ds)"
    if "?P t cs" for op t cs
    using perform_tokens[of t "insert (jwt s) (set (minted cs))" cfg I op] that by auto
  have "?P s []" by simp
  from run_history[of ?P s ops cfg I, OF this step] show ?thesis .
qed

section \<open>Properties of every run\<close>

text \<open>
  The recorded results alone tell whether the client is connected at the end of a
  run.
\<close>
theorem history_tells_session:
  assumes "well_behaved I" and "only_connect_opens I" and "list_all (supervised I) ops"
    and "mc_connected I (world (run_ops cfg I ops s))"
  shows "replay (session_of I (world s)) (new_calls s (run_ops cfg I ops s)) = Connected
         \<and> (mc_connected I (world s) \<or> list_ex is_accept (new_calls s (run_ops cfg I ops s)))"
  using run_replay[OF assms] replay_connected[of "session_of I (world s)"]
  by (auto simp: session_of_def split: if_splits)

theorem history_tells_session_witness:
  "well_behaved sim \<and> only_connect_opens sim \<and> list_all (supervised sim) life
   \<and> mc_connected sim (world (run_ops example_config sim life d0))
   \<and> \<not> mc_connected sim (world d0)
   \<and> replay Disconnected (new_calls d0 (run_ops example_config sim life d0)) = Connected
   \<and> list_ex is_accept (new_calls d0 (run_ops example_config sim life d0))"
proof -
  have c: "mc_connected sim (world (run_ops example_config sim life d0))"
    "\<not> mc_connected sim (world d0)"
    by (simp_all add: life_states life_link)
  from history_tells_session[where I = sim and cfg = example_config and s = d0 and ops = life,
      OF sim_well_behaved sim_only_connect_opens life_supervised c(1)] c
  show ?thesis by (simp add: life_supervised session_of_def)
qed

text \<open>
  \<^bold>\<open>C20\<close> (a sketch that only ticks never presents an old token).
  In a run in which the sketch never calls \<^verbatim>\<open>mqttConnect\<close> or
  \<^verbatim>\<open>mqttConnectAsync\<close> itself, whatever else it calls and
  whatever the environment does, every \<^verbatim>\<open>connect\<close> in the
  history directly follows a \<^verbatim>\<open>getJwt\<close> and passes the token
  that call returned as password: \<^verbatim>\<open>loop\<close> clears the stamp
  before every attempt it starts.
\<close>
theorem loop_connects_with_fresh_token:
  assumes "list_all tick_driven ops"
  shows "fresh_connects (new_calls s (run_ops cfg I ops s))"
  using run_fresh[OF assms] .

theorem loop_connects_with_fresh_token_witness:
  "list_all tick_driven life
   \<and> fresh_connects (new_calls d0 (run_ops example_config sim life d0))"
proof -
  have t: "list_all tick_driven life" by (simp add: life_def)
  from loop_connects_with_fresh_token[OF t, of d0 example_config sim] t show ?thesis by simp
qed

text \<open>
  \<^bold>\<open>C21\<close> (only tokens of the provider are presented). After every
  sequence of calls of the public methods and changes of the environment, the history
  extends the history at the start; every password passed to
  \<^verbatim>\<open>connect\<close> since the start is the token stored at the start
  or a token that an earlier \<^verbatim>\<open>getJwt\<close> of the run returned;
  and the token stored at the end is one of those as well.
\<close>
theorem presented_tokens_are_known:
  "calls (run_ops cfg I ops s) = calls s @ new_calls s (run_ops cfg I ops s)
   \<and> tokens_known {jwt s} (new_calls s (run_ops cfg I ops s))
   \<and> jwt (run_ops cfg I ops s) \<in> insert (jwt s) (set (minted (new_calls s (run_ops cfg I ops s))))"
  using run_tokens .

theorem presented_tokens_are_known_witness:
  "calls (run_ops example_config sim life d0)
     = calls d0 @ new_calls d0 (run_ops example_config sim life d0)
   \<and> tokens_known {jwt d0} (new_calls d0 (run_ops example_config sim life d0))
   \<and> jwt (run_ops example_config sim life d0)
       \<in> insert (jwt d0) (set (minted (new_calls d0 (run_ops example_config sim life d0))))"
  using presented_tokens_are_known[of example_config sim life d0] .

end
