(* ===== verification/Spacing.thy ===== *)
theory Spacing
  imports History
begin

text \<open>
  How far apart the connection attempts of a run are. The back-off test of
  \<^verbatim>\<open>loop\<close> (line 43 of \<^verbatim>\<open>src/src/CloudIoTCoreMqtt.cpp\<close>) compares the clock with
  the two members \<^verbatim>\<open>mqttConnect\<close> leaves behind: the instant of the attempt
  (\<^verbatim>\<open>__last_retry_at\<close>, line 72) and the delay (\<^verbatim>\<open>__backoff__\<close>). \<open>attempt_log\<close>
  lists, for a sequence of calls of the public methods, what each attempt left in
  these two members and whether the attempt was \<open>forced\<close> (by an expired token, or by
  the sketch calling a connect method itself). For a clock that no collaborator and
  no change of the environment turns back (\<open>clock_forward\<close>, \<open>timely\<close>), every
  attempt that is not forced comes at least the delay after the one before
  (\<open>spaced_after\<close>), so the attempts of a run are as far apart as their delays add up
  to. The members involved change in attempts only.
\<close>

section \<open>A clock that is not turned back\<close>

text \<open>
  Contracts are stated for the worlds of a set \<open>G\<close> that the collaborators do not
  leave: \<open>later I G w w'\<close> says that \<open>w'\<close> is again in \<open>G\<close> and that its clock does not
  read less than that of \<open>w\<close>, if \<open>w\<close> is in \<open>G\<close>. \<open>past I G s\<close>: the collaborators
  are in \<open>G\<close> and the last attempt does not lie in the future.
\<close>

definition later :: "'w platform \<Rightarrow> ('w \<Rightarrow> bool) \<Rightarrow> 'w \<Rightarrow> 'w \<Rightarrow> bool" where
  "later I G w w' \<longleftrightarrow> (G w \<longrightarrow> G w' \<and> sys_millis I w \<le> sys_millis I w')"

definition forward :: "'w platform \<Rightarrow> ('w \<Rightarrow> bool) \<Rightarrow> ('w \<Rightarrow> 'w) \<Rightarrow> bool" where
  "forward I G f \<longleftrightarrow> (\<forall>w. later I G w (f w))"

definition clock_forward :: "'w platform \<Rightarrow> ('w \<Rightarrow> bool) \<Rightarrow> bool" where
  "clock_forward I G \<longleftrightarrow>
     forward I G (\<lambda>w. snd (sys_getJwt I w)) \<and> (\<forall>n. forward I G (\<lambda>w. snd (sys_random I n w)))
     \<and> (\<forall>c u p k. forward I G (\<lambda>w. snd (mc_connect I c u p k w)))
     \<and> forward I G (mc_disconnect I) \<and> (\<forall>t q. forward I G (mc_subscribe I t q))
     \<and> (\<forall>p. forward I G (\<lambda>w. snd (mc_publish I p w))) \<and> forward I G (mc_loop I)
     \<and> (\<forall>h p. forward I G (mc_begin I h p)) \<and> forward I G (mc_onMessage I)"

fun timely :: "'w platform \<Rightarrow> ('w \<Rightarrow> bool) \<Rightarrow> 'w operation \<Rightarrow> bool" where
  "timely I G (Environment f) = forward I G f"
| "timely I G op = True"

definition past :: "'w platform \<Rightarrow> ('w \<Rightarrow> bool) \<Rightarrow> 'w mqtt \<Rightarrow> bool" where
  "past I G s \<longleftrightarrow> G (world s) \<and> last_retry_at s \<le> sys_millis I (world s)"

lemma later_order: "reflp (later I G)" "transp (later I G)"
  by (auto simp: later_def intro!: reflpI transpI)

lemma later_refl [simp]: "later I G w w"
  by (simp add: later_def)

lemma later_trans [trans]: "later I G a b \<Longrightarrow> later I G b c \<Longrightarrow> later I G a c"
  by (auto simp: later_def)

lemma laterD:
  assumes "later I G w w'" and "G w"
  shows "G w'" and "sys_millis I w \<le> sys_millis I w'"
  using assms by (simp_all add: later_def)

lemma forwardD: "forward I G f \<Longrightarrow> later I G w (f w)"
  by (simp add: forward_def)

lemma clock_forwardD:
  assumes "clock_forward I G"
  shows "later I G w (snd (sys_getJwt I w))" and "later I G w (snd (sys_random I n w))"
    and "later I G w (snd (mc_connect I c u p k w))" and "later I G w (mc_disconnect I w)"
    and "later I G w (mc_subscribe I t q w)" and "later I G w (snd (mc_publish I pb w))"
    and "later I G w (mc_loop I w)" and "later I G w (mc_begin I h pt w)"
    and "later I G w (mc_onMessage I w)"
  using assms by (simp_all add: clock_forward_def forward_def)

lemmas later_intros =
  moves_bind[OF later_order(2)] moves_branch[OF later_order(1)]
  moves_modify[OF later_order(1)] moves_pure[OF later_order(1)]

lemma later_callee:
  assumes "clock_forward I G"
  shows "moves (later I G) (Serial_print str)" and "moves (later I G) (Serial_println str)"
    and "moves (later I G) (millis I)" and "moves (later I G) (random I n)"
    and "moves (later I G) (getJwt I)" and "moves (later I G) (mqttClient_connect I c u p k)"
    and "moves (later I G) (mqttClient_connected I)"
    and "moves (later I G) (mqttClient_disconnect I)"
    and "moves (later I G) (mqttClient_subscribe I t q)"
    and "moves (later I G) (mqttClient_publish I pb)"
    and "moves (later I G) (mqttClient_lastError I)"
    and "moves (later I G) (mqttClient_returnCode I)"
    and "moves (later I G) (mqttClient_loop I)" and "moves (later I G) (mqttClient_begin I h pt)"
    and "moves (later I G) (mqttClient_onMessage I)"
  by (simp_all add: callee_defs later_intros moves_prims clock_forwardD[OF assms])

section \<open>No method turns the clock back\<close>

lemma later_diagnostics:
  assumes "clock_forward I G"
  shows "moves (later I G) (logError I)" and "moves (later I G) (logReturnCode I)"
    and "moves (later I G) (logConfiguration cfg I showJWT)"
    and "moves (later I G) (increaseBackoff cfg I)"
  using clock_forwardD(1,2)[OF assms]
  by (cases showJWT; simp add: moves_def exec_def run_simps Let_def)+

lemma later_publish:
  assumes "clock_forward I G"
  shows "moves (later I G) (publishTelemetry I d)"
    and "moves (later I G) (publishTelemetry_qos I d q)"
    and "moves (later I G) (publishTelemetry_raw I d n)"
    and "moves (later I G) (publishTelemetry_sub I t d)"
    and "moves (later I G) (publishTelemetry_sub_qos I t d q)"
    and "moves (later I G) (publishTelemetry_sub_raw I t d n)"
    and "moves (later I G) (publishState I d)" and "moves (later I G) (publishState_raw I d n)"
  by (simp_all add: publish_defs later_intros later_callee[OF assms])

lemma later_setup:
  assumes "clock_forward I G"
  shows "moves (later I G) (startMQTT cfg I)" and "moves (later I G) (setLogConnect b)"
    and "moves (later I G) (setUseLts b)" and "moves (later I G) (setUse443Port b)"
    and "moves (later I G) (onConnect I)" and "moves (later I G) (resubscribe I)"
  by (simp_all add: startMQTT_def setLogConnect_def setUseLts_def setUse443Port_def
      onConnect_def resubscribe_def later_intros later_callee[OF assms] later_publish[OF assms])

lemma later_connect:
  assumes "clock_forward I G"
  shows "moves (later I G) (begin_attempt banner I skip)"
    and "moves (later I G) (report_failure cfg I)"
    and "moves (later I G) (settle cfg I res)" and "moves (later I G) (settle_async cfg I res)"
    and "moves (later I G) (mqttConnect cfg I skip)"
    and "moves (later I G) (mqttConnectAsync cfg I skip)"
  by (simp_all add: begin_attempt_def report_failure_def settle_def settle_async_def
      mqttConnect_blocks mqttConnectAsync_blocks later_intros later_callee[OF assms]
      later_diagnostics[OF assms] later_setup[OF assms])

lemma later_loop:
  assumes "clock_forward I G"
  shows "moves (later I G) (check_expiry I)" and "moves (later I G) (check_backoff I need)"
    and "moves (later I G) (decide I)" and "moves (later I G) (loop cfg I)"
  by (simp_all add: check_expiry_def check_backoff_def decide_def loop_blocks later_intros
      later_callee[OF assms] later_connect[OF assms])

lemma perform_forward:
  assumes "clock_forward I G" and "timely I G op"
  shows "later I G (world s) (world (perform cfg I op s))"
  using assms(2)
  by (cases op)
     (simp_all add: movesD later_diagnostics[OF assms(1)] later_publish[OF assms(1)]
        later_setup[OF assms(1)] later_connect[OF assms(1)] later_loop[OF assms(1)] forwardD)

section \<open>The retry state changes in attempts only\<close>

lemma perform_retry_frame:
  assumes "attempt I op s = []"
  shows "backoff (perform cfg I op s) = backoff s"
    and "last_retry_at (perform cfg I op s) = last_retry_at s"
    and "jwt (perform cfg I op s) = jwt s"
proof -
  have "backoff (perform cfg I op s) = backoff s
      \<and> last_retry_at (perform cfg I op s) = last_retry_at s \<and> jwt (perform cfg I op s) = jwt s"
  proof (cases op)
    case Loop
    with assms have "\<not> needs_reconnect I s" by (simp split: if_splits)
    from run_loop_idle[OF this, of cfg] Loop show ?thesis by (simp add: exec_def)
  next
    case (LogConfiguration showJWT)
    then show ?thesis by (cases showJWT) (simp_all add: exec_def run_simps)
  qed (use assms in \<open>simp_all add: exec_def run_simps startMQTT_def case_prod_beta
      setLogConnect_def setUseLts_def setUse443Port_def\<close>)
  then show "backoff (perform cfg I op s) = backoff s"
    and "last_retry_at (perform cfg I op s) = last_retry_at s"
    and "jwt (perform cfg I op s) = jwt s"
    by simp_all
qed

section \<open>The instant of an attempt lies in the past when the method returns\<close>

lemma attempt_tail:
  assumes "clock_forward I G" and "\<And>r. moves (later I G) (f r)" and "G (world s)"
  shows "G (world (exec (State_Monad.bind (begin_attempt banner I skip) f) s))"
    and "sys_millis I (snd (token_source I s))
           \<le> sys_millis I (world (exec (State_Monad.bind (begin_attempt banner I skip) f) s))"
proof -
  let ?end = "world (exec (State_Monad.bind (begin_attempt banner I skip) f) s)"
  have "later I G (world s) (snd (token_source I s))"
    by (simp add: token_source_def clock_forwardD(1)[OF assms(1)])
  from laterD(1)[OF this assms(3)] have g: "G (snd (token_source I s))" .
  have "later I G (snd (token_source I s)) (snd (connect_outcome I skip s))"
    by (simp add: connect_outcome_def clock_forwardD(3)[OF assms(1)])
  also have "later I G (snd (connect_outcome I skip s)) ?end"
    using movesD[OF assms(2)[of "fst (connect_outcome I skip s)"],
        of "exec (begin_attempt banner I skip) s"]
    by simp
  finally have "later I G (snd (token_source I s)) ?end" .
  from laterD[OF this g] show "G ?end"
    and "sys_millis I (snd (token_source I s)) \<le> sys_millis I ?end" .
qed

lemma attempt_instant_past:
  assumes "clock_forward I G" and "G (world s)"
  shows "past I G (exec (mqttConnect cfg I skip) s)"
    and "past I G (exec (mqttConnectAsync cfg I skip) s)"
proof -
  note l = later_intros later_callee[OF assms(1)] later_connect[OF assms(1)]
    later_setup[OF assms(1)]
  have "G (world (exec (mqttConnect cfg I skip) s))"
    and "sys_millis I (snd (token_source I s))
           \<le> sys_millis I (world (exec (mqttConnect cfg I skip) s))"
    unfolding mqttConnect_blocks by (rule attempt_tail[OF assms(1) _ assms(2)]; simp add: l)+
  then show "past I G (exec (mqttConnect cfg I skip) s)"
    by (simp add: past_def mqttConnect_members)
  have "G (world (exec (mqttConnectAsync cfg I skip) s))"
    and "sys_millis I (snd (token_source I s))
           \<le> sys_millis I (world (exec (mqttConnectAsync cfg I skip) s))"
    unfolding mqttConnectAsync_blocks by (rule attempt_tail[OF assms(1) _ assms(2)]; simp add: l)+
  then show "past I G (exec (mqttConnectAsync cfg I skip) s)"
    by (simp add: past_def mqttConnectAsync_members)
qed

lemma perform_keeps_past:
  assumes "clock_forward I G" and "timely I G op" and "past I G s"
  shows "past I G (perform cfg I op s)"
proof (cases "attempt I op s = []")
  case True
  from laterD[OF perform_forward[OF assms(1,2), of s cfg]] assms(3) show ?thesis
    by (simp add: past_def perform_retry_frame(2)[OF True])
next
  case False
  from assms(3) have g: "G (world s)" by (simp add: past_def)
  from False consider "op = Loop" and "needs_reconnect I s" | skip where "op = MqttConnect skip"
    | skip where "op = MqttConnectAsync skip"
    by (cases op) (simp_all split: if_splits)
  then show ?thesis
  proof cases
    case 1
    from laterD(1)[OF movesD[OF later_loop(3)[OF assms(1)], of s] g]
    have "G (world (before_connect I s))" by (simp add: before_connect_def)
    from attempt_instant_past(1)[OF assms(1) this, of cfg False]
    have p: "past I G (exec (mqttConnect cfg I False) (before_connect I s))" .
    from laterD[OF clock_forwardD(7)[OF assms(1)], of
        "world (exec (mqttConnect cfg I False) (before_connect I s))"] p
    show ?thesis by (simp add: 1 exec_loop run_simps past_def)
  qed (simp_all add: attempt_instant_past[OF assms(1) g])
qed

lemma run_keeps_past:
  assumes "clock_forward I G" and "list_all (timely I G) ops" and "past I G s"
  shows "past I G (run_ops cfg I ops s)"
  using assms(2,3)
  by (induction ops arbitrary: s) (simp_all add: perform_keeps_past[OF assms(1)])

section \<open>The attempts of a run\<close>

text \<open>
  An entry of the log is what an attempt leaves in the two members the back-off test
  reads, with the reason of the attempt. \<open>standing s\<close> is the entry the members of
  \<open>s\<close> amount to: the attempt a state remembers.
\<close>

record attempt_entry =
  e_forced :: bool
  e_at :: millis_t
  e_delay :: int

fun forced :: "'w platform \<Rightarrow> 'w operation \<Rightarrow> 'w mqtt \<Rightarrow> bool" where
  "forced I Loop s = token_expired I (world s)"
| "forced I (MqttConnect skip) s = True"
| "forced I (MqttConnectAsync skip) s = True"
| "forced I op s = False"

definition entry :: "config \<Rightarrow> 'w platform \<Rightarrow> 'w operation \<Rightarrow> 'w mqtt \<Rightarrow> attempt_entry" where
  "entry cfg I op s =
     \<lparr>e_forced = forced I op s, e_at = last_retry_at (perform cfg I op s),
      e_delay = backoff (perform cfg I op s)\<rparr>"

definition standing :: "'w mqtt \<Rightarrow> attempt_entry" where
  "standing s = \<lparr>e_forced = True, e_at = last_retry_at s, e_delay = backoff s\<rparr>"

fun attempt_log ::
  "config \<Rightarrow> 'w platform \<Rightarrow> 'w operation list \<Rightarrow> 'w mqtt \<Rightarrow> attempt_entry list" where
  "attempt_log cfg I [] s = []"
| "attempt_log cfg I (op # ops) s =
     (if attempt I op s = [] then [] else [entry cfg I op s])
       @ attempt_log cfg I ops (perform cfg I op s)"

definition spaced_after :: "attempt_entry \<Rightarrow> attempt_entry \<Rightarrow> bool" where
  "spaced_after a b \<longleftrightarrow> e_forced b \<or> e_at a + e_delay a \<le> e_at b"

lemma spaced_head:
  assumes "e_at a = e_at b" and "e_delay a = e_delay b"
  shows "successively spaced_after (a # xs) \<longleftrightarrow> successively spaced_after (b # xs)"
  using assms by (cases xs) (simp_all add: spaced_after_def)

lemma attempt_log_append:
  "attempt_log cfg I (ops @ ops') s
     = attempt_log cfg I ops s @ attempt_log cfg I ops' (run_ops cfg I ops s)"
  by (induction ops arbitrary: s) simp_all

section \<open>An attempt that is not forced comes after the delay\<close>

lemma unforced_attempt:
  assumes "attempt I op s \<noteq> []" and "\<not> forced I op s"
  shows "op = Loop" and "\<not> token_expired I (world s)" and "backoff_elapsed I s"
    and "last_retry_at (perform cfg I op s) = sys_millis I (snd (sys_getJwt I (world s)))"
proof -
  from assms show op: "op = Loop" by (cases op) simp_all
  with assms show e: "\<not> token_expired I (world s)" by simp
  from assms(1) op have n: "needs_reconnect I s" by (simp split: if_splits)
  with e show "backoff_elapsed I s" by (simp add: needs_reconnect_iff exec_check_expiry)
  from e have "world (before_connect I s) = world s" by (simp add: world_before_connect)
  then show "last_retry_at (perform cfg I op s) = sys_millis I (snd (sys_getJwt I (world s)))"
    by (simp add: op exec_loop n mqttConnect_members run_simps token_source_fresh
        before_connect_members(1)[OF n])
qed

lemma perform_spaced:
  assumes "clock_forward I G" and "past I G s" and "attempt I op s \<noteq> []"
  shows "spaced_after (standing s) (entry cfg I op s)"
proof (cases "forced I op s")
  case False
  note u = unforced_attempt(3)[OF assms(3) False] unforced_attempt(4)[OF assms(3) False, of cfg]
  from u(1) assms(2) have "last_retry_at s + backoff s \<le> sys_millis I (world s)"
    by (simp add: backoff_elapsed_def past_def)
  also from laterD(2)[OF clock_forwardD(1)[OF assms(1)], of "world s"] assms(2)
  have "sys_millis I (world s) \<le> sys_millis I (snd (sys_getJwt I (world s)))"
    by (simp add: past_def)
  finally show ?thesis by (simp add: spaced_after_def standing_def entry_def u(2))
qed (simp add: spaced_after_def entry_def)

lemma log_spaced:
  assumes "clock_forward I G" and "list_all (timely I G) ops" and "past I G s"
  shows "successively spaced_after (standing s # attempt_log cfg I ops s)"
  using assms(2,3)
proof (induction ops arbitrary: s)
  case (Cons op ops)
  from Cons.prems have t: "timely I G op" "list_all (timely I G) ops" by simp_all
  note ih = Cons.IH[OF t(2) perform_keeps_past[OF assms(1) t(1) Cons.prems(2), of cfg]]
  show ?case
  proof (cases "attempt I op s = []")
    case True
    from perform_retry_frame(1,2)[OF True, of cfg] have "standing (perform cfg I op s) = standing s"
      by (simp add: standing_def)
    with ih True show ?thesis by simp
  next
    case False
    have "successively spaced_after (entry cfg I op s # attempt_log cfg I ops (perform cfg I op s))
        \<longleftrightarrow> successively spaced_after
              (standing (perform cfg I op s) # attempt_log cfg I ops (perform cfg I op s))"
      by (rule spaced_head) (simp_all add: entry_def standing_def)
    with ih have "successively spaced_after
        (entry cfg I op s # attempt_log cfg I ops (perform cfg I op s))" by simp
    with perform_spaced[OF assms(1) Cons.prems(2) False, of cfg] False show ?thesis by simp
  qed
qed simp

section \<open>How much time a number of attempts takes\<close>

lemma successively_span:
  fixes f g :: "'a \<Rightarrow> int"
  assumes "successively (\<lambda>a b. f a + g a \<le> f b) xs" and "xs \<noteq> []"
  shows "sum_list (map g (butlast xs)) \<le> f (last xs) - f (hd xs)"
  using assms
proof (induction xs rule: induct_list012)
  case (3 x y zs)
  then have "sum_list (map g (butlast (y # zs))) \<le> f (last (y # zs)) - f y" and "f x + g x \<le> f y"
    by simp_all
  then show ?case by simp
qed simp_all

lemma unforced_spaced:
  assumes "successively spaced_after xs" and "list_all (\<lambda>e. \<not> e_forced e) (tl xs)"
  shows "successively (\<lambda>a b. e_at a + e_delay a \<le> e_at b) xs"
  using assms by (induction xs rule: induct_list012) (simp_all add: spaced_after_def)

lemma entry_in_range:
  assumes "backoff_cfg_ok cfg" and "random_in_range I" and "attempt I op s \<noteq> []"
  shows "minbackoff cfg \<le> e_delay (entry cfg I op s)"
    and "e_delay (entry cfg I op s) \<le> max_backoff cfg"
proof -
  from assms(3) consider "op = Loop" and "needs_reconnect I s" | skip where "op = MqttConnect skip"
    | skip where "op = MqttConnectAsync skip"
    by (cases op) (simp_all split: if_splits)
  then have "backoff_in_range cfg (perform cfg I op s)"
  proof cases
    case 1
    from mqttConnect_establishes_range[OF assms(1,2), of False "before_connect I s"]
    show ?thesis by (simp add: 1 exec_loop run_simps backoff_in_range_def)
  qed (simp_all add: mqttConnect_establishes_range[OF assms(1,2)]
      mqttConnectAsync_establishes_range[OF assms(1,2)])
  then show "minbackoff cfg \<le> e_delay (entry cfg I op s)"
    and "e_delay (entry cfg I op s) \<le> max_backoff cfg"
    by (simp_all add: entry_def backoff_in_range_def)
qed

lemma log_in_range:
  assumes "backoff_cfg_ok cfg" and "random_in_range I"
  shows "list_all (\<lambda>e. minbackoff cfg \<le> e_delay e \<and> e_delay e \<le> max_backoff cfg)
           (attempt_log cfg I ops s)"
  by (induction ops arbitrary: s) (simp_all add: entry_in_range[OF assms])

lemma log_span:
  assumes "clock_forward I G" and "list_all (timely I G) ops" and "past I G s"
    and "list_all (\<lambda>e. \<not> e_forced e) (tl (attempt_log cfg I ops s))"
    and "attempt_log cfg I ops s \<noteq> []"
  shows "sum_list (map e_delay (butlast (attempt_log cfg I ops s)))
           \<le> e_at (last (attempt_log cfg I ops s)) - e_at (hd (attempt_log cfg I ops s))"
proof -
  let ?log = "attempt_log cfg I ops s"
  from log_spaced[OF assms(1-3), of cfg] assms(5) have "successively spaced_after ?log"
    by (simp add: successively_Cons)
  from successively_span[OF unforced_spaced[OF this assms(4)] assms(5)] show ?thesis .
qed

lemma sum_list_lower:
  fixes g :: "'a \<Rightarrow> int"
  assumes "list_all (\<lambda>x. m \<le> g x) xs"
  shows "int (length xs) * m \<le> sum_list (map g xs)"
  using assms by (induction xs) (simp_all add: algebra_simps)

lemma list_all_butlast: "list_all P xs \<Longrightarrow> list_all P (butlast xs)"
  by (auto simp: list_all_iff dest: in_set_butlastD)

lemma run_retry_frame:
  assumes "attempt_log cfg I ops s = []"
  shows "backoff (run_ops cfg I ops s) = backoff s"
    and "last_retry_at (run_ops cfg I ops s) = last_retry_at s"
    and "jwt (run_ops cfg I ops s) = jwt s"
  using assms
  by (induction ops arbitrary: s) (simp_all add: perform_retry_frame split: if_splits)

section \<open>The simulation keeps its clock\<close>

definition steady :: "sim_world \<Rightarrow> bool" where
  "steady w \<longleftrightarrow> 0 \<le> w_connect_cost w"

lemma sim_clock_forward [simp]: "clock_forward sim steady"
  by (auto simp: clock_forward_def forward_def later_def steady_def sim_getJwt_def
      sim_random_def sim_connect_def sim_attempt_def sim_disconnect_def sim_subscribe_def
      sim_publish_def sim_begin_def sim_onMessage_def split: list.splits net_outcome.splits)

lemma sim_timely [simp]: "0 \<le> dt \<Longrightarrow> forward sim steady (advance dt)"
  by (simp add: forward_def later_def steady_def advance_def)

lemma life_timely: "list_all (timely sim steady) life"
  by (simp add: life_def)

lemma d0_past: "past sim steady d0"
  by (simp add: past_def steady_def d0_def example_defs)

lemma d2_idle: "\<not> needs_reconnect sim d2"
  by (simp add: not_needs_reconnect_iff token_expired_def backoff_elapsed_def d2_def d1_state)
     (simp add: advance_def boot_world_def)

lemma life_log:
  "attempt_log example_config sim life d0
     = [\<lparr>e_forced = True, e_at = 5000, e_delay = 2007\<rparr>,
        \<lparr>e_forced = False, e_at = 7250, e_delay = 1000\<rparr>]"
proof -
  have a: "attempt sim Loop d0 \<noteq> []" "attempt sim Loop d2 = []" "attempt sim Loop d4 \<noteq> []"
    by (simp_all add: d0_def boot_needs_reconnect d2_idle d4_due)
  have f: "forced sim Loop d0" "\<not> forced sim Loop d4"
    by (simp_all add: token_expired_def d4_state) (simp_all add: d0_def example_defs)
  have p: "perform example_config sim Loop d0 = d1"
    "perform example_config sim (Environment (advance 1000)) d1 = d2"
    "perform example_config sim Loop d2 = d3"
    "perform example_config sim (Environment (advance 1100)) d3 = d4"
    "perform example_config sim Loop d4 = d5"
    by (simp_all add: d1_def d2_def d3_def d4_def d5_def)
  show ?thesis
    by (simp add: life_def a p entry_def f d1_state d5_state
          del: perform.simps attempt.simps forced.simps)
       (simp add: example_config_def)
qed

section \<open>A direct call is not held back\<close>

text \<open>
  The back-off test is in \<^verbatim>\<open>loop\<close>. A call of \<^verbatim>\<open>mqttConnect\<close> by the sketch
  makes an attempt at the instant of the call, whatever the delay: after the failed
  attempt of the example, at 5000 with a delay of 2007, a direct call at 5150 is an
  attempt at 5150. This is why the entries of such calls are \<open>forced\<close>.
\<close>

theorem direct_call_is_not_held_back:
  "attempt I (MqttConnect skip) s \<noteq> []"
  "e_forced (entry cfg I (MqttConnect skip) s)"
  "iat s \<noteq> 0 \<Longrightarrow> e_at (entry cfg I (MqttConnect skip) s) = sys_millis I (world s)"
  by (simp_all add: entry_def mqttConnect_members token_source_def attempt_calls_def)

theorem direct_call_within_the_delay:
  "e_at (entry example_config sim (MqttConnect False) d1) = 5150
   \<and> e_at (standing d1) + e_delay (standing d1) = 7007
   \<and> \<not> spaced_after (standing d1)
         ((entry example_config sim (MqttConnect False) d1)\<lparr>e_forced := False\<rparr>)"
  using direct_call_is_not_held_back(3)[of d1 example_config sim False]
  by (simp add: standing_def spaced_after_def d1_state)

section \<open>Properties of every run\<close>

text \<open>
  \<^bold>\<open>C4\<close> (attempts are at least the delay apart). On a platform
  whose collaborators do not turn the clock back, with an environment that does not
  either, and started with the last attempt not in the future: in every sequence of
  calls of the public methods, each connection attempt that is not forced (by an
  expired token, or by the sketch calling \<^verbatim>\<open>mqttConnect\<close> or
  \<^verbatim>\<open>mqttConnectAsync\<close> itself) is made at least the delay after
  the attempt before it, where instant and delay are what that attempt left in
  \<^verbatim>\<open>__last_retry_at\<close> and
  \<^verbatim>\<open>__backoff__\<close>; and the last attempt is still not in the
  future at the end.
\<close>
theorem attempts_are_spaced:
  assumes "clock_forward I G" and "list_all (timely I G) ops" and "past I G s"
  shows "successively spaced_after (standing s # attempt_log cfg I ops s)
         \<and> past I G (run_ops cfg I ops s)"
  using log_spaced[OF assms] run_keeps_past[OF assms] by simp

theorem attempts_are_spaced_witness:
  "clock_forward sim steady \<and> list_all (timely sim steady) life \<and> past sim steady d0
   \<and> successively spaced_after
        [standing d0, \<lparr>e_forced = True, e_at = 5000, e_delay = 2007\<rparr>,
         \<lparr>e_forced = False, e_at = 7250, e_delay = 1000\<rparr>]
   \<and> past sim steady (run_ops example_config sim life d0)"
  using attempts_are_spaced[OF sim_clock_forward life_timely d0_past, of example_config]
  by (simp add: life_log life_timely d0_past)

text \<open>
  \<^bold>\<open>C14\<close> (how much time a number of attempts takes). Under the
  same assumptions on the clock, for a configuration with 0 \<le> minimum \<le>
  maximum and factor at least 1 and a \<^verbatim>\<open>random\<close> that returns
  no negative number: if no attempt of a run after its first is forced, the time
  between the first and the last attempt is at least the sum of the delays the
  attempts before the last one left, and so at least the minimum delay times the
  number of attempts less one.
\<close>
theorem attempt_rate_bounded:
  assumes "backoff_cfg_ok cfg" and "random_in_range I"
    and "clock_forward I G" and "list_all (timely I G) ops" and "past I G s"
    and "list_all (\<lambda>e. \<not> e_forced e) (tl (attempt_log cfg I ops s))"
    and "attempt_log cfg I ops s \<noteq> []"
  shows "sum_list (map e_delay (butlast (attempt_log cfg I ops s)))
           \<le> e_at (last (attempt_log cfg I ops s)) - e_at (hd (attempt_log cfg I ops s))
         \<and> int (length (attempt_log cfg I ops s) - 1) * minbackoff cfg
           \<le> e_at (last (attempt_log cfg I ops s)) - e_at (hd (attempt_log cfg I ops s))"
proof -
  let ?log = "attempt_log cfg I ops s"
  note span = log_span[OF assms(3-7)]
  from log_in_range[OF assms(1,2), of ops s]
  have "list_all (\<lambda>e. minbackoff cfg \<le> e_delay e) (butlast ?log)"
    by (intro list_all_butlast) (simp add: list_all_iff)
  from sum_list_lower[OF this] span show ?thesis by simp
qed

theorem attempt_rate_bounded_witness:
  "backoff_cfg_ok example_config \<and> random_in_range sim \<and> clock_forward sim steady
   \<and> list_all (timely sim steady) life \<and> past sim steady d0
   \<and> list_all (\<lambda>e. \<not> e_forced e) (tl (attempt_log example_config sim life d0))
   \<and> attempt_log example_config sim life d0 \<noteq> []
   \<and> (2007::int) \<le> 7250 - 5000
   \<and> int (length (attempt_log example_config sim life d0) - 1) * minbackoff example_config
        \<le> 7250 - 5000"
proof -
  have c: "backoff_cfg_ok example_config" by (simp add: backoff_cfg_ok_def example_defs)
  have l: "list_all (\<lambda>e. \<not> e_forced e) (tl (attempt_log example_config sim life d0))"
    "attempt_log example_config sim life d0 \<noteq> []"
    by (simp_all add: life_log)
  from attempt_rate_bounded[OF c sim_random_in_range sim_clock_forward life_timely d0_past l]
    c l life_timely d0_past
  show ?thesis by (simp add: life_log)
qed

text \<open>
  \<^bold>\<open>C19\<close> (members change only where the code writes them). After a
  sequence of calls of the public methods and changes of the environment in which no
  call made a connection attempt, the delay, the time of the last attempt and the
  stored token are what they were at the start; after a sequence that contains no
  setter, the three options (connect notifications, long-term-support host, port 443)
  are.
\<close>
theorem members_change_where_written:
  "(attempt_log cfg I ops s = [] \<longrightarrow>
      backoff (run_ops cfg I ops s) = backoff s
      \<and> last_retry_at (run_ops cfg I ops s) = last_retry_at s
      \<and> jwt (run_ops cfg I ops s) = jwt s)
   \<and> (\<not> list_ex is_setter ops \<longrightarrow> options (run_ops cfg I ops s) = options s)"
proof -
  have "options (run_ops cfg I ops s) = options s" if "\<not> list_ex is_setter ops"
    using that by (induction ops rule: rev_induct) (simp_all add: perform_options)
  then show ?thesis by (simp add: run_retry_frame)
qed

theorem members_change_where_written_witness:
  "attempt_log example_config sim [StartMQTT, PublishState ''on'', LogConfiguration True] boot = []
   \<and> \<not> list_ex is_setter [StartMQTT, PublishState ''on'', LogConfiguration True]
   \<and> backoff (run_ops example_config sim [StartMQTT, PublishState ''on'', LogConfiguration True] boot)
       = backoff boot
   \<and> last_retry_at (run_ops example_config sim [StartMQTT, PublishState ''on'', LogConfiguration True] boot)
       = last_retry_at boot
   \<and> jwt (run_ops example_config sim [StartMQTT, PublishState ''on'', LogConfiguration True] boot)
       = jwt boot
   \<and> options (run_ops example_config sim [StartMQTT, PublishState ''on'', LogConfiguration True] boot)
       = options boot"
  using members_change_where_written[of example_config sim
      "[StartMQTT, PublishState ''on'', LogConfiguration True]" boot]
  by simp

end
