(* ===== verification/Machine_Int.thy ===== *)
theory Machine_Int
  imports Backoff
begin

text \<open>
  The arithmetic of \<^verbatim>\<open>increaseBackoff\<close> (lines 57 to 63 of
  \<^verbatim>\<open>src/src/CloudIoTCoreMqtt.cpp\<close>) at the width of the machine's \<^verbatim>\<open>int\<close>. The
  members are two's-complement integers of some width: 32 bits on the ESP boards, 16 on
  AVR. \<open>increase_w\<close> is the computation on words of any width, with the signed
  comparisons of the source and with multiplication and addition wrapping around;
  the theorems say when it agrees with \<open>next_backoff\<close> on unbounded integers, and
  what happens when it does not. The second part does the same for the back-off test
  of \<^verbatim>\<open>loop\<close> (line 43), whose operands are readings of a clock that wraps around.
\<close>

unbundle bit_operations_syntax

definition fits :: "nat \<Rightarrow> int \<Rightarrow> bool" where
  "fits n x \<longleftrightarrow> - (2 ^ (n - 1)) \<le> x \<and> x < 2 ^ (n - 1)"

definition increase_w ::
  "'a::len word \<Rightarrow> 'a word \<Rightarrow> 'a word \<Rightarrow> 'a word \<Rightarrow> 'a word \<Rightarrow> 'a word" where
  "increase_w mn fac mx b r =
     (let b1 = (if b <s mn then mn else b);
          b2 = b1 * fac + r
      in if mx <s b2 then mx else b2)"

lemma sint_of_int_fits:
  "fits LENGTH('a) x \<Longrightarrow> sint (word_of_int x :: 'a::len word) = x"
  by (simp add: fits_def sint_sbintrunc' signed_take_bit_int_eq_self)

lemma sint_mult_fits:
  "fits LENGTH('a) (sint a * sint b) \<Longrightarrow> sint (a * b :: 'a::len word) = sint a * sint b"
  by (simp add: fits_def sint_word_mult signed_take_bit_int_eq_self)

lemma sint_add_fits:
  "fits LENGTH('a) (sint a + sint b) \<Longrightarrow> sint (a + b :: 'a::len word) = sint a + sint b"
  by (simp add: fits_def sint_word_add signed_take_bit_int_eq_self)

lemma sint_increase_w:
  fixes mn fac mx b r :: "'a::len word"
  assumes "fits LENGTH('a) (max (sint mn) (sint b) * sint fac)"
    and "fits LENGTH('a) (max (sint mn) (sint b) * sint fac + sint r)"
  shows "sint (increase_w mn fac mx b r)
           = min (sint mx) (max (sint mn) (sint b) * sint fac + sint r)"
proof -
  define b1 where "b1 = (if b <s mn then mn else b)"
  have b1: "sint b1 = max (sint mn) (sint b)"
    by (simp add: b1_def word_sless_alt max_def)
  from assms(1) have m: "sint (b1 * fac) = max (sint mn) (sint b) * sint fac"
    by (simp add: sint_mult_fits b1)
  from assms(2) have a: "sint (b1 * fac + r) = max (sint mn) (sint b) * sint fac + sint r"
    by (simp add: sint_add_fits m)
  have "increase_w mn fac mx b r = (if mx <s b1 * fac + r then mx else b1 * fac + r)"
    by (simp add: increase_w_def Let_def b1_def)
  then show ?thesis by (simp add: word_sless_alt a min_def)
qed

text \<open>
  \<^bold>\<open>C31\<close> (no overflow at the machine width). If the maximum times
  the factor plus the jitter bound is below 2 to the width minus one, the computation
  of \<^verbatim>\<open>increaseBackoff\<close> on two's-complement integers of that
  width, started from a delay that does not exceed the maximum, never wraps around:
  read as signed integers its result is \<open>next_backoff\<close> of the unbounded
  model.
\<close>
theorem increase_w_refines_next_backoff:
  fixes cfg :: config and b r :: int
  assumes "backoff_cfg_ok cfg"
    and "max_backoff cfg * factor cfg + jitter cfg < 2 ^ (LENGTH('a::len) - 1)"
    and "factor cfg < 2 ^ (LENGTH('a) - 1)"
    and "0 \<le> r" and "r \<le> jitter cfg"
    and "- (2 ^ (LENGTH('a) - 1)) \<le> b" and "b \<le> max_backoff cfg"
  shows "sint (increase_w (word_of_int (minbackoff cfg) :: 'a word) (word_of_int (factor cfg))
           (word_of_int (max_backoff cfg)) (word_of_int b) (word_of_int r))
         = next_backoff cfg b r"
proof -
  let ?L = "LENGTH('a)"
  let ?m = "minbackoff cfg" and ?f = "factor cfg" and ?M = "max_backoff cfg"
  from assms(1) have m0: "0 \<le> ?m" and mM: "?m \<le> ?M" and f1: "1 \<le> ?f"
    by (simp_all add: backoff_cfg_ok_def)
  have M0: "0 \<le> ?M" using m0 mM by simp
  have "?M * 1 \<le> ?M * ?f" using M0 f1 by (intro mult_left_mono) simp_all
  then have Mf: "?M \<le> ?M * ?f" by simp
  have top: "?M * ?f + r < 2 ^ (?L - 1)" using assms(2,5) by simp
  have lo: "- (2 ^ (?L - 1)) \<le> (0::int)" by simp
  have fM: "fits ?L ?M" using M0 Mf top assms(4) lo by (simp add: fits_def)
  have fm: "fits ?L ?m" using m0 mM fM by (simp add: fits_def)
  have ff: "fits ?L ?f" using f1 assms(3) lo by (simp add: fits_def)
  have fb: "fits ?L b" using assms(6,7) fM by (simp add: fits_def)
  have fr: "fits ?L r" using assms(4) top Mf M0 lo by (simp add: fits_def)
  define c where "c = max ?m b"
  have c0: "0 \<le> c" and cM: "c \<le> ?M" using m0 mM assms(7) by (simp_all add: c_def)
  have "c * ?f \<le> ?M * ?f" using cM f1 by (intro mult_right_mono) simp_all
  moreover have "0 \<le> c * ?f" using c0 f1 by simp
  ultimately have f1': "fits ?L (c * ?f)" and f2': "fits ?L (c * ?f + r)"
    using top assms(4) lo by (simp_all add: fits_def)
  note s = sint_of_int_fits[OF fM] sint_of_int_fits[OF fm] sint_of_int_fits[OF ff]
    sint_of_int_fits[OF fb] sint_of_int_fits[OF fr]
  from f1' f2' show ?thesis
    by (subst sint_increase_w) (simp_all add: s c_def next_backoff_def)
qed

theorem increase_w_refines_next_backoff_witness:
  "backoff_cfg_ok example_config
   \<and> max_backoff example_config * factor example_config + jitter example_config
        < 2 ^ (LENGTH(32) - 1)
   \<and> factor example_config < 2 ^ (LENGTH(32) - 1)
   \<and> (0::int) \<le> 499 \<and> 499 \<le> jitter example_config
   \<and> - (2 ^ (LENGTH(32) - 1)) \<le> (40000::int) \<and> 40000 \<le> max_backoff example_config
   \<and> sint (increase_w (word_of_int (minbackoff example_config) :: 32 word)
        (word_of_int (factor example_config)) (word_of_int (max_backoff example_config))
        (word_of_int 40000) (word_of_int 499))
       = next_backoff example_config 40000 499"
  using increase_w_refines_next_backoff[where 'a = 32, of example_config 499 40000]
  by (simp add: backoff_cfg_ok_def example_config_def)

section \<open>The back-off test of the tick at machine width\<close>

text \<open>
  Line 43 compares \<^verbatim>\<open>abs(__last_retry_at - millis())\<close> with the delay. What this
  computes depends on the declared type of \<^verbatim>\<open>__last_retry_at\<close>, which the header
  fixes, and on what \<^verbatim>\<open>abs\<close> is on the board: the function on signed integers, or
  the macro \<^verbatim>\<open>((x)>0?(x):-(x))\<close> of the Arduino core applied to the difference as it
  is. Both readings are modelled, on words of any width. The difference is computed
  on words and wraps around. \<open>elapsed_signed\<close> reads it as a signed integer, takes
  its absolute value (\<open>abs_w\<close>, where negating the least integer wraps around) and
  compares signed; \<open>elapsed_unsigned\<close> is the macro on an unsigned difference, which
  returns its operand unless that is zero, followed by an unsigned comparison. The
  instants in the theorems are the true ones, as unbounded integers; the words are
  what the machine holds of them after the clock has wrapped around any number of
  times.
\<close>

definition abs_w :: "'a::len word \<Rightarrow> 'a word" where
  "abs_w x = (if 0 <s x then x else - x)"

definition elapsed_signed :: "'a::len word \<Rightarrow> 'a word \<Rightarrow> 'a word \<Rightarrow> bool" where
  "elapsed_signed prev now delay \<longleftrightarrow> delay \<le>s abs_w (prev - now)"

definition elapsed_unsigned :: "'a::len word \<Rightarrow> 'a word \<Rightarrow> 'a word \<Rightarrow> bool" where
  "elapsed_unsigned prev now delay \<longleftrightarrow>
     delay \<le> (if 0 < prev - now then prev - now else - (prev - now))"

lemma sint_diff_of_int:
  assumes "fits LENGTH('a) (x - y)"
  shows "sint (word_of_int x - word_of_int y :: 'a::len word) = x - y"
proof -
  have "(word_of_int x - word_of_int y :: 'a word) = word_of_int (x - y)" by simp
  then have "sint (word_of_int x - word_of_int y :: 'a word) = sint (word_of_int (x - y) :: 'a word)"
    by (rule arg_cong)
  also have "\<dots> = x - y" using assms by (rule sint_of_int_fits)
  finally show ?thesis .
qed

lemma sint_uminus_fits:
  "fits LENGTH('a) (- sint a) \<Longrightarrow> sint (- a :: 'a::len word) = - sint a"
proof -
  assume f: "fits LENGTH('a) (- sint a)"
  have "- a = (word_of_int (- sint a) :: 'a word)" by simp
  then have "sint (- a) = sint (word_of_int (- sint a) :: 'a word)" by (rule arg_cong)
  also have "\<dots> = - sint a" using f by (rule sint_of_int_fits)
  finally show ?thesis .
qed

lemma sint_abs_w:
  assumes "fits LENGTH('a) (- sint x)"
  shows "sint (abs_w x :: 'a::len word) = \<bar>sint x\<bar>"
proof (cases "0 <s x")
  case True
  then show ?thesis by (simp add: abs_w_def word_sless_alt)
next
  case False
  then have "sint x \<le> 0" by (simp add: word_sless_alt)
  with False assms show ?thesis by (simp add: abs_w_def sint_uminus_fits)
qed

lemma elapsed_signed_iff:
  fixes prev now delay :: int
  assumes "prev \<le> now" and "now - prev < 2 ^ (LENGTH('a::len) - 1)"
    and "0 \<le> delay" and "delay < 2 ^ (LENGTH('a) - 1)"
  shows "elapsed_signed (word_of_int prev :: 'a word) (word_of_int now) (word_of_int delay)
           \<longleftrightarrow> delay \<le> \<bar>prev - now\<bar>"
proof -
  have d: "fits LENGTH('a) (prev - now)" and d': "fits LENGTH('a) (- (prev - now))"
    using assms(1,2) by (simp_all add: fits_def)
  have dl: "fits LENGTH('a) delay"
    using assms(3,4) by (simp add: fits_def)
  have s: "sint (word_of_int prev - word_of_int now :: 'a word) = prev - now"
    using d by (rule sint_diff_of_int)
  have "fits LENGTH('a) (- sint (word_of_int prev - word_of_int now :: 'a word))"
    using d' by (simp only: s)
  then have "sint (abs_w (word_of_int prev - word_of_int now :: 'a word)) = \<bar>prev - now\<bar>"
    by (simp only: sint_abs_w s)
  then show ?thesis
    by (simp only: elapsed_signed_def word_sle_eq sint_of_int_fits[OF dl])
qed

lemma uint_diff_of_int:
  assumes "prev < now" and "now - prev < 2 ^ LENGTH('a)"
  shows "uint (word_of_int prev - word_of_int now :: 'a::len word) = 2 ^ LENGTH('a) - (now - prev)"
proof -
  have "(word_of_int prev - word_of_int now :: 'a word) = word_of_int (prev - now)" by simp
  then have "uint (word_of_int prev - word_of_int now :: 'a word)
      = uint (word_of_int (prev - now) :: 'a word)" by (rule arg_cong)
  also have "\<dots> = (prev - now) mod 2 ^ LENGTH('a)" by (simp only: uint_word_of_int)
  also have "\<dots> = (prev - now + 2 ^ LENGTH('a)) mod 2 ^ LENGTH('a)" by simp
  also have "\<dots> = prev - now + 2 ^ LENGTH('a)"
    using assms by (intro mod_pos_pos_trivial) simp_all
  finally show ?thesis by simp
qed

lemma elapsed_unsigned_early:
  fixes prev now delay :: int
  assumes "prev < now" and "now - prev < 2 ^ LENGTH('a::len)"
    and "0 \<le> delay" and "delay \<le> 2 ^ LENGTH('a) - (now - prev)"
  shows "elapsed_unsigned (word_of_int prev :: 'a word) (word_of_int now) (word_of_int delay)"
proof -
  let ?x = "word_of_int prev - word_of_int now :: 'a word"
  have u: "uint ?x = 2 ^ LENGTH('a) - (now - prev)" using assms(1,2) by (rule uint_diff_of_int)
  with assms(2) have "0 < uint ?x" by simp
  then have "0 < ?x" by (simp add: word_less_def del: of_int_diff)
  moreover have "uint (word_of_int delay :: 'a word) \<le> delay"
    using assms(3) by (simp only: uint_word_of_int) (rule zmod_le_nonneg_dividend)
  ultimately show ?thesis
    using assms(4) u by (simp only: elapsed_unsigned_def if_True word_le_def)
qed

lemma elapsed_at_machine_width:
  fixes prev now delay :: int
  assumes "prev < now" and "now - prev < 2 ^ (LENGTH('a::len) - 1)"
    and "0 \<le> delay" and "delay < 2 ^ (LENGTH('a) - 1)"
  shows "(elapsed_signed (word_of_int prev :: 'a word) (word_of_int now) (word_of_int delay)
            \<longleftrightarrow> delay \<le> now - prev)
         \<and> elapsed_unsigned (word_of_int prev :: 'a word) (word_of_int now) (word_of_int delay)"
proof -
  have "(2::int) ^ LENGTH('a) = 2 * 2 ^ (LENGTH('a) - 1)"
    by (cases "LENGTH('a)") simp_all
  with assms have "now - prev < 2 ^ LENGTH('a)" and "delay \<le> 2 ^ LENGTH('a) - (now - prev)"
    by simp_all
  with assms(1,3) have "elapsed_unsigned (word_of_int prev :: 'a word) (word_of_int now)
      (word_of_int delay)"
    by (intro elapsed_unsigned_early)
  moreover from assms have "elapsed_signed (word_of_int prev :: 'a word) (word_of_int now)
      (word_of_int delay) \<longleftrightarrow> delay \<le> \<bar>prev - now\<bar>"
    by (intro elapsed_signed_iff) simp_all
  ultimately show ?thesis using assms(1) by simp
qed

section \<open>When the width is too small\<close>

text \<open>
  Without the side condition of \<open>increase_w_refines_next_backoff\<close> the
  computation leaves the range. Whatever the operands, the sum of line 60 is the
  unbounded sum reduced to the width (\<open>sint_increase_w_wraps\<close>). If the unbounded
  sum lies between 2 to the width minus one and 2 to the width, the reduced sum is
  negative, the comparison of line 61 does not catch it, and a negative delay lets the
  back-off test of line 43 succeed at every tick.
\<close>

lemma exp_double: "(2::int) ^ LENGTH('a::len) = 2 * 2 ^ (LENGTH('a) - 1)"
  by (cases "LENGTH('a)") simp_all

lemma sint_of_int_wraps:
  assumes "2 ^ (LENGTH('a::len) - 1) \<le> x" and "x < 2 ^ LENGTH('a)"
  shows "sint (word_of_int x :: 'a word) = x - 2 ^ LENGTH('a)"
proof -
  have "(word_of_int x :: 'a word) = word_of_int (x - 2 ^ LENGTH('a))"
    by (simp add: word_of_int_eq_iff take_bit_int_def)
  then have "sint (word_of_int x :: 'a word) = sint (word_of_int (x - 2 ^ LENGTH('a)) :: 'a word)"
    by (rule arg_cong)
  also have "\<dots> = x - 2 ^ LENGTH('a)"
    using assms exp_double[where 'a = 'a] by (intro sint_of_int_fits) (simp add: fits_def)
  finally show ?thesis .
qed

lemma increase_w_of_int:
  fixes mn fac mx b r :: "'a::len word"
  shows "increase_w mn fac mx b r =
     (let t = word_of_int (max (sint mn) (sint b) * sint fac + sint r) :: 'a word
      in if mx <s t then mx else t)"
proof -
  have "(if b <s mn then mn else b) = (word_of_int (max (sint mn) (sint b)) :: 'a word)"
    by (simp add: word_sless_alt max_def)
  then show ?thesis by (simp add: increase_w_def Let_def)
qed

lemma sint_increase_w_wraps:
  fixes mn fac mx b r :: "'a::len word"
  shows "sint (increase_w mn fac mx b r)
           = min (sint mx)
               (sint (word_of_int (max (sint mn) (sint b) * sint fac + sint r) :: 'a word))"
  by (simp add: increase_w_of_int Let_def word_sless_alt min_def)

lemma elapsed_signed_negative_delay:
  fixes prev now delay :: "'a::len word"
  assumes "sint delay < 0" and "- (2 ^ (LENGTH('a) - 1)) < sint (prev - now)"
  shows "elapsed_signed prev now delay"
proof -
  have "sint (prev - now) < 2 ^ (LENGTH('a) - 1)" by (rule sint_lt)
  with assms(2) have "fits LENGTH('a) (- sint (prev - now))" by (simp add: fits_def)
  then have "sint (abs_w (prev - now)) = \<bar>sint (prev - now)\<bar>" by (rule sint_abs_w)
  with assms(1) show ?thesis by (simp add: elapsed_signed_def word_sle_eq)
qed

lemma increase_w_negative_ceiling:
  fixes mn fac mx b r :: "'a::len word"
  assumes "sint mx < 0" and "0 \<le> max (sint mn) (sint b) * sint fac + sint r"
    and "max (sint mn) (sint b) * sint fac + sint r < 2 ^ (LENGTH('a) - 1)"
  shows "increase_w mn fac mx b r = mx"
proof -
  from assms(2,3) have "fits LENGTH('a) (max (sint mn) (sint b) * sint fac + sint r)"
    by (simp add: fits_def)
  from sint_of_int_fits[OF this] assms(1,2) show ?thesis
    by (simp add: increase_w_of_int Let_def word_sless_alt)
qed

text \<open>
  \<^bold>\<open>C32\<close> (a width that is too small). At any width of
  \<^verbatim>\<open>int\<close>, for any members and any jitter: if the maximum is
  not negative and the sum of line 60, computed without bounds from the signed values
  of the operands, lies between 2 to the width minus one and 2 to the width, then
  \<^verbatim>\<open>increaseBackoff\<close> leaves that sum less 2 to the width in
  \<^verbatim>\<open>__backoff__\<close>, a negative delay, where the policy on
  unbounded integers answers the maximum; and with that delay the back-off test of
  line 43 succeeds whatever the clock reads, unless the difference of the instants is
  the least integer.
\<close>
theorem increase_w_wraps_when_too_narrow:
  fixes mn fac mx b r prev now :: "'a::len word"
  assumes "minbackoff cfg = sint mn" and "factor cfg = sint fac" and "max_backoff cfg = sint mx"
    and "0 \<le> sint mx"
    and "2 ^ (LENGTH('a) - 1) \<le> max (sint mn) (sint b) * sint fac + sint r"
    and "max (sint mn) (sint b) * sint fac + sint r < 2 ^ LENGTH('a)"
    and "- (2 ^ (LENGTH('a) - 1)) < sint (prev - now)"
  shows "sint (increase_w mn fac mx b r)
           = max (sint mn) (sint b) * sint fac + sint r - 2 ^ LENGTH('a)
         \<and> sint (increase_w mn fac mx b r) < 0
         \<and> next_backoff cfg (sint b) (sint r) = max_backoff cfg
         \<and> elapsed_signed prev now (increase_w mn fac mx b r)"
proof -
  let ?t = "max (sint mn) (sint b) * sint fac + sint r"
  have w: "sint (word_of_int ?t :: 'a word) = ?t - 2 ^ LENGTH('a)"
    using assms(5,6) by (rule sint_of_int_wraps)
  with assms(4,6) have r: "sint (increase_w mn fac mx b r) = ?t - 2 ^ LENGTH('a)"
    by (simp add: sint_increase_w_wraps)
  with assms(6) have n: "sint (increase_w mn fac mx b r) < 0" by simp
  have "sint mx < 2 ^ (LENGTH('a) - 1)" by (rule sint_lt)
  with assms(5) have "sint mx \<le> ?t" by simp
  then have i: "next_backoff cfg (sint b) (sint r) = max_backoff cfg"
    by (simp add: next_backoff_def assms(1-3))
  from r n i elapsed_signed_negative_delay[OF n assms(7)] show ?thesis by simp
qed

theorem increase_w_wraps_when_too_narrow_witness:
  "minbackoff (example_config\<lparr>max_backoff := 30000\<rparr>) = sint (1000 :: 16 word)
   \<and> factor (example_config\<lparr>max_backoff := 30000\<rparr>) = sint (2 :: 16 word)
   \<and> max_backoff (example_config\<lparr>max_backoff := 30000\<rparr>) = sint (30000 :: 16 word)
   \<and> 0 \<le> sint (30000 :: 16 word)
   \<and> 2 ^ (LENGTH(16) - 1)
        \<le> max (sint (1000 :: 16 word)) (sint (20000 :: 16 word)) * sint (2 :: 16 word)
            + sint (7 :: 16 word)
   \<and> max (sint (1000 :: 16 word)) (sint (20000 :: 16 word)) * sint (2 :: 16 word)
        + sint (7 :: 16 word) < 2 ^ LENGTH(16)
   \<and> - (2 ^ (LENGTH(16) - 1)) < sint (5000 - 5150 :: 16 word)
   \<and> sint (increase_w (1000 :: 16 word) 2 30000 20000 7) = - 25529
   \<and> next_backoff (example_config\<lparr>max_backoff := 30000\<rparr>) 20000 7 = 30000
   \<and> elapsed_signed (5000 :: 16 word) 5150 (increase_w 1000 2 30000 20000 7)"
  using increase_w_wraps_when_too_narrow[where 'a = 16,
      of "example_config\<lparr>max_backoff := 30000\<rparr>" 1000 2 30000 20000 7 5000 5150]
  by (simp add: example_config_def)

text \<open>
  Two configurations at 16 bits. A maximum of 60000 is read as -5536, and the
  comparison of line 61 puts it in place of the first delay of 2007; with a maximum of
  30000, which does fit, a delay of 20000 doubles to -25529.
\<close>

theorem increase_w_wraps_at_16_bits:
  "sint (increase_w (1000 :: 16 word) 2 60000 1000 7) = - 5536
   \<and> sint (increase_w (1000 :: 16 word) 2 30000 20000 7) = - 25529
   \<and> next_backoff (example_config\<lparr>max_backoff := 30000\<rparr>) 20000 7 = 30000"
  by (simp add: increase_w_def word_sless_alt next_backoff_def example_config_def)

end
