(* ===== verification/Spec2Isabelle.thy ===== *)
theory Spec2Isabelle
  imports Driver Spacing Machine_Int
begin

text \<open>
  \<^bold>\<open>A verification development for the Cloud IoT Core MQTT connection controller.\<close>

  \<^bold>\<open>The program.\<close> \<^verbatim>\<open>src/src/CloudIoTCoreMqtt.cpp\<close> implements the class
  \<^verbatim>\<open>CloudIoTCoreMqtt\<close>, which keeps an authenticated MQTT session between a device
  and a broker alive. The sketch calls \<^verbatim>\<open>startMQTT\<close> once and \<^verbatim>\<open>loop\<close> on every
  pass of its main loop. \<^verbatim>\<open>loop\<close> decides whether the token has expired or the
  back-off delay since the last attempt has elapsed on a disconnected client; if so it
  calls \<^verbatim>\<open>mqttConnect\<close>, which obtains a token when the issued-at stamp \<^verbatim>\<open>iat\<close> is
  zero, connects, reports the outcome (\<^verbatim>\<open>logError\<close>, \<^verbatim>\<open>logReturnCode\<close>,
  \<^verbatim>\<open>logConfiguration\<close>), adjusts the delay (\<^verbatim>\<open>increaseBackoff\<close> or a reset),
  subscribes and runs \<^verbatim>\<open>onConnect\<close>. The publish methods hand a payload to the MQTT
  client. The class owns seven members (delay, time of the last attempt, three
  options, \<^verbatim>\<open>iat\<close>, \<^verbatim>\<open>jwt\<close>) and calls five collaborators that are not part of
  the file: the MQTT client, the device identity, the sketch's \<^verbatim>\<open>getJwt\<close>, the
  Arduino clock and random source, and \<^verbatim>\<open>Serial\<close>. The methods contain no loop and no
  recursion, so every method is a total function and no fuel is needed. The only loop
  is the one of the sketch around \<^verbatim>\<open>loop\<close>; it is modelled with \<open>while_option\<close>, so
  that not ending is the value \<open>None\<close>, and it is proved to end, for every
  platform that meets the contract \<open>converges\<close>, by a measure: the number of
  refusals the broker has left, then the time left until the delay has elapsed. The
  simulated broker meets the contract when its script holds an acceptance.

  \<^bold>\<open>How the code is modelled.\<close> Every method is one action of the state monad over
  the record \<open>mqtt\<close> (theory \<open>Mqtt_State\<close>): the seven members, the opaque state
  \<open>world\<close> of all collaborators, and \<open>calls\<close>, the history of every call made on a
  collaborator and every line printed, in order; a call that returns a value
  (\<^verbatim>\<open>getJwt\<close>, \<^verbatim>\<open>connect\<close>, \<^verbatim>\<open>publish\<close>, \<^verbatim>\<open>random\<close>) is recorded with
  the value it returned. The collaborators are a record
  \<open>platform\<close> of functions on the world; a method takes the platform as its
  parameter \<open>I\<close>, so every theorem holds for every MQTT client, device, clock and token
  provider, and assumptions on them are named predicates (\<open>connect_coherent\<close>,
  \<open>disconnect_disconnects\<close>, \<open>publish_needs_connection\<close>, \<open>random_in_range\<close>,
  \<open>link_stable\<close>, \<open>only_connect_opens\<close>) stated in the theorems that need
  them. The constants of the header file are the record \<open>config\<close>. Integers are
  unbounded, with one exception: theory \<open>Machine_Int\<close> repeats the arithmetic of
  the delay and the back-off test of the tick on machine words of any width.

  \<^item> \<open>IoT_Prelude\<close>: fact collections, the monad vocabulary (\<open>gets\<close>, \<open>modify\<close>,
    \<open>whenM\<close>, \<open>exec\<close>, \<open>result\<close>), preserved predicates, clamping, decimal
    rendering of numbers and its inverse.
  \<^item> \<open>Lwmqtt\<close>: the error and return-code enumerations the two \<^verbatim>\<open>switch\<close>
    statements name, as datatypes of class \<open>enum\<close>.
  \<^item> \<open>Mqtt_State\<close>: the records \<open>config\<close>, \<open>platform\<close>, \<open>mqtt\<close>; the history
    datatype \<open>call\<close>; one action per call on a collaborator (\<open>getJwt\<close>,
    \<open>mqttClient_connect\<close>, ...); the frame properties \<open>calls_only\<close>, \<open>appends\<close>,
    \<open>emits\<close> and \<open>moves\<close> (the collaborators end in a state related to the one they
    started in), each with the rules that follow the structure of an action.
  \<^item> \<open>Sim_World\<close>: an executable platform \<open>sim\<close> (a broker that answers connection
    attempts from a script, a clock, a random tape) that meets every assumption, a
    second one that breaks \<open>connect_coherent\<close>, and the example states on which
    theorems are instantiated.
  \<^item> \<open>Backoff\<close>: \<^verbatim>\<open>increaseBackoff\<close> (lines 55 to 65) as the action
    \<open>increaseBackoff\<close>, its arithmetic as the function \<open>next_backoff\<close>, runs of
    failures as \<open>backoff_after\<close>, and \<open>read_backoff_line\<close>, which reads the printed
    delay.
  \<^item> \<open>Machine_Int\<close>: the same arithmetic on two's-complement words of any width
    (\<open>increase_w\<close>), and the test \<^verbatim>\<open>abs(__last_retry_at - millis()) >= __backoff__\<close> of
    line 43 on words, once with a signed difference (\<open>elapsed_signed\<close>, with
    \<^verbatim>\<open>abs\<close> as \<open>abs_w\<close>) and once with an unsigned one (\<open>elapsed_unsigned\<close>).
  \<^item> \<open>Diagnostics\<close>: \<^verbatim>\<open>logError\<close>, \<^verbatim>\<open>logConfiguration\<close>, \<^verbatim>\<open>logReturnCode\<close>
    (lines 197 to 284) with every case of their switches; \<open>error_text\<close>,
    \<open>return_code_text\<close> and \<open>invalidates_token\<close> are the classification they compute;
    \<open>error_of_text\<close> and \<open>return_code_of_text\<close> read a printed line back.
  \<^item> \<open>Controller\<close>: the constructor, \<^verbatim>\<open>loop\<close>, \<^verbatim>\<open>mqttConnect\<close>,
    \<^verbatim>\<open>mqttConnectAsync\<close>, \<^verbatim>\<open>startMQTT\<close>, the eight publish overloads,
    \<^verbatim>\<open>onConnect\<close> and the setters, each one definition that follows the source
    statement by statement. The two long methods are also cut into blocks
    (\<open>begin_attempt\<close>, \<open>settle\<close>, \<open>resubscribe\<close>; \<open>check_expiry\<close>,
    \<open>check_backoff\<close>) and proved equal to the sequence of their blocks
    (\<open>mqttConnect_blocks\<close>, \<open>mqttConnectAsync_blocks\<close>, \<open>loop_blocks\<close>); member
    by member and call by call descriptions of what a method does
    (\<open>mqttConnect_members\<close>, \<open>calls_mqttConnect\<close>, \<open>calls_mqttConnectAsync\<close>,
    \<open>exec_loop\<close>) carry the proofs of the properties; \<open>async_failed\<close>,
    \<open>verdict_async\<close> and \<open>settled_async\<close> are the guard of line 118 and what the
    three branches of lines 118 to 140 print and leave. The calls that reach a collaborator (\<open>on_wire\<close>, everything
    but \<^verbatim>\<open>Serial\<close> output) are what the two connect paths are compared on.
  \<^item> \<open>Lifecycle\<close>: the public methods as a datatype \<open>operation\<close>, environment
    changes included; \<open>perform\<close>, \<open>run_ops\<close>, the inductive set \<open>reachable\<close>, and
    the invariants of every reachable state, among them \<open>wf_call\<close>, the argument
    conventions of every call in the history.
  \<^item> \<open>Session\<close>: what the controller promises: the session state machine
    \<open>session_step\<close>, the abstract tick \<open>tick_spec\<close> on (session, token held, delay),
    the abstraction \<open>abs_ctl\<close>, and the proof that \<^verbatim>\<open>loop\<close> implements it. What a
    tick observes of the collaborators is the record \<open>observation\<close>, which includes
    whether the token provider stamped the token it issued.
  \<^item> \<open>Scenarios\<close>: the clean reconnect cycle, for every platform (the complete
    list of calls of a tick that reconnects and is accepted), and runs on \<open>sim\<close>
    evaluated from the definitions: the first tick of a device, three rejections in a
    row, a publish on a dropped link, and a failed attempt followed by a tick that
    comes too early and by the retry.
  \<^item> \<open>Run_Refinement\<close>: one abstract operation per public method (\<open>abs_op\<close>,
    \<open>ctl_next\<close>), the operation a call stands for (\<open>abs_op_of\<close>), and the proof
    that every run of the methods is a run of the abstract machine; the contract
    \<open>only_connect_opens\<close> on the pump, \<^verbatim>\<open>begin\<close>, \<^verbatim>\<open>onMessage\<close> and the token
    provider, and \<open>supervised\<close> for the environment.
  \<^item> \<open>History\<close>: functions that read the history: the tokens obtained
    (\<open>minted\<close>), whether every password presented was obtained before
    (\<open>tokens_known\<close>), whether every \<^verbatim>\<open>connect\<close> directly follows the
    \<^verbatim>\<open>getJwt\<close> of its password (\<open>fresh_connects\<close>), and the session the
    recorded results add up to (\<open>replay\<close>); \<open>attempt_calls\<close>, the token request
    and the \<^verbatim>\<open>connect\<close> of lines 69 to 78 as recorded; the shape of what each
    public method appends (\<open>perform_shape\<close>), from which the invariants of all
    runs follow by one induction (\<open>run_history\<close>).
  \<^item> \<open>Spacing\<close>: the time between the attempts of a run. The contract
    \<open>clock_forward\<close> says that no call on a collaborator turns the clock back, on a
    set of collaborator states that the calls do not leave (for the simulation
    \<open>steady\<close>, the states in which a connection attempt takes no negative time);
    \<open>attempt_log\<close> lists, for every method of a run that made an attempt, the
    instant and the delay it left in \<^verbatim>\<open>__last_retry_at\<close> and \<^verbatim>\<open>__backoff__\<close>
    and whether the attempt was \<open>forced\<close> (token expired, or a direct call of a
    connect method); \<open>spaced_after\<close> relates two consecutive entries.
  \<^item> \<open>Driver\<close>: the main loop of a sketch, \<open>tick_until_connected\<close>: let the
    environment act, call \<^verbatim>\<open>loop\<close>, until the client is connected; the
    contract \<open>converges\<close> on collaborators and environment under which it ends,
    and the proof that the simulation meets it.
  \<^item> This theory: the properties that span components (the delay of the abstract
    controller along every run, the history the loop of the sketch leaves, the
    back-off test at machine width), and \<open>late\<close>, a device whose clock has wrapped
    around.

  \<^bold>\<open>What is proved.\<close> About the tick: no attempt before the delay has elapsed; a
  new token before the reconnect that follows expiry; attempts only on a disconnected
  client, and at most one in a tick. About an attempt: which token is used, when the stamp is cleared, what the
  delay is afterwards, that it restarts after a success and stays within its bounds.
  About the policy: bounds, growth, reaching the ceiling, agreement of the machine
  arithmetic with the unbounded one when nothing overflows, a negative delay that lets
  every tick through when the sum of line 60 overflows, and agreement of the back-off test
  on signed words with the test on the true instants across a wrap of the clock.
  About the two connect paths: they agree on members, collaborators and calls unless
  the broker rejects the credential. About all runs: the delay invariant, the growing
  history, stable options, well-formed calls; every password presented to the broker
  is a token the provider returned earlier in the run or the one stored at the start;
  a connected client has a history whose last \<^verbatim>\<open>connect\<close> returned true with no
  \<^verbatim>\<open>disconnect\<close> after it; and in a run in which only \<^verbatim>\<open>loop\<close> connects,
  every \<^verbatim>\<open>connect\<close> presents the token requested just before it; with a clock
  that is not turned back, every attempt that is not forced comes at least the delay
  after the attempt before it, so that a number of attempts takes at least the sum of
  their delays, and at least the minimum delay for each attempt but the first; the
  delay, the instant of the last attempt and the token change in attempts only, the
  options in setters only. About the
  sketch's loop: it ends, with the client connected and the delay at its minimum, on
  every platform that converges; it makes at most one attempt more than the broker
  has refusals in store; and the history it leaves has these properties. About
  the log: the printed lines determine the error, the return code and the delay.
  About the specification: the tick refines \<open>tick_spec\<close>; every run of the public
  methods, with an environment that may drop the link, refines the run of the
  abstract machine over its trace, and moves the session along \<open>session_step\<close>, so
  that a session is opened only by an accepted attempt. The development
  also records where the code behaves differently from what a description of the
  lifecycle suggests: an attempt counts as failed only if the client reports an
  error \<^emph>\<open>and\<close> \<^verbatim>\<open>connect\<close> returned false, so a false result without a recorded error
  resets the delay; \<^verbatim>\<open>mqttConnect\<close> subscribes and announces after a failed attempt
  as well; the failure report of \<^verbatim>\<open>mqttConnectAsync\<close> is unreachable for a coherent
  client; the expiry test is strict; \<^verbatim>\<open>logConfiguration\<close> prints one fixed endpoint;
  \<^verbatim>\<open>mqttConnect\<close> ignores its parameter; 16-bit integers do not hold the delay; with
  an unsigned difference the back-off test holds back nothing.

  \<^bold>\<open>What is not modelled.\<close> The header \<^verbatim>\<open>CloudIoTCoreMqtt.h\<close> is not part of the
  sources, so the types and initial values of the members and the values of the
  constants are parameters. The MQTT client library, TLS, the network client, token
  signing and the device class are behind the platform interface; \<^verbatim>\<open>setupCert\<close>,
  \<^verbatim>\<open>setupNetwork\<close> and \<^verbatim>\<open>messageReceived\<close> are declared in the file and never
  called by it. Inside the methods instants are unbounded integers; which integer
  type the difference inside \<^verbatim>\<open>abs\<close> in \<^verbatim>\<open>loop\<close> has is fixed by the header, so
  \<open>Machine_Int\<close> treats both readings and the methods are not tied to one of them.
  \<^verbatim>\<open>getJwt\<close> is only declared in the file: that it sets \<^verbatim>\<open>iat\<close> and leaves
  \<^verbatim>\<open>jwt\<close> to \<^verbatim>\<open>mqttConnect\<close> is taken from the description of the provider. The
  call \<^verbatim>\<open>mqttConnect()\<close> in \<^verbatim>\<open>loop\<close> uses the default argument of the header, read as
  false. The constructor stores three pointers; the model has one value for the state
  of all collaborators and installs it. Values of the two enumerations that the
  switches do not name are one constructor each, and the number printed for an error
  is not interpreted. \<open>backoff_after\<close>, \<open>attempt_log\<close>, \<open>replay\<close> and the other
  functions over runs and histories are vocabulary of the theorems and correspond to
  no line of the source.
  The loop of the sketch is proved to end under the contract \<open>converges\<close>, which
  the simulated broker meets: whether a real broker and network meet it is outside
  the development. The history records calls and results, not instants, so the
  time between the attempts of a run is stated on what the attempts leave in
  \<^verbatim>\<open>__last_retry_at\<close> and \<^verbatim>\<open>__backoff__\<close> and not on the history; it is stated
  for unbounded instants, and an attempt the sketch starts by calling a connect method
  itself is not held back by anything. Calls are synchronous and return; blocking and
  timing of the transport are outside the model.
\<close>

section \<open>A device that has been up for fifty days\<close>

text \<open>
  \<open>late\<close> is a disconnected device whose last attempt was shortly before the
  32-bit millisecond clock wrapped around and whose clock reads an instant shortly
  after.
\<close>

definition late :: "sim_world mqtt" where
  "late = boot\<lparr>backoff := 2007, last_retry_at := 4294967000,
            world := (world boot)\<lparr>w_now := 4294968500\<rparr>\<rparr>"

section \<open>The delay of the abstract controller along every run\<close>

theorem run_ticks_stay_in_range:
  assumes "backoff_cfg_ok cfg" and "random_in_range I" and "well_behaved I"
    and "backoff_in_range cfg s0" and "reachable cfg I s0 s"
  shows "minbackoff cfg \<le> c_delay (tick_spec cfg (observe cfg I s) (abs_ctl I s))
         \<and> c_delay (tick_spec cfg (observe cfg I s) (abs_ctl I s)) \<le> max_backoff cfg
         \<and> reachable cfg I s0 (exec (loop cfg I) s)"
proof -
  have r: "reachable cfg I s0 (perform cfg I Loop s)"
    using assms(5) by (rule reachable.step)
  from r assms(4) have "backoff_in_range cfg (perform cfg I Loop s)"
    by (rule reachable_invariant) (rule perform_backoff_range[OF assms(1,2)])
  moreover have "backoff (exec (loop cfg I) s) = backoff (exec (tick_core cfg I) s)"
    by (simp add: loop_tick_core)
  moreover have "c_delay (tick_spec cfg (observe cfg I s) (abs_ctl I s))
      = backoff (exec (tick_core cfg I) s)"
    by (simp add: tick_refines_tick_spec_aux[OF assms(3), symmetric])
  ultimately show ?thesis using r by (simp add: backoff_in_range_def)
qed

theorem run_ticks_stay_in_range_witness:
  "backoff_cfg_ok example_config \<and> random_in_range sim \<and> well_behaved sim
   \<and> backoff_in_range example_config boot \<and> reachable example_config sim boot boot
   \<and> minbackoff example_config
        \<le> c_delay (tick_spec example_config (observe example_config sim boot) (abs_ctl sim boot))
   \<and> c_delay (tick_spec example_config (observe example_config sim boot) (abs_ctl sim boot))
        \<le> max_backoff example_config
   \<and> reachable example_config sim boot (exec (loop example_config sim) boot)"
proof -
  have c: "backoff_cfg_ok example_config" by (simp add: backoff_cfg_ok_def example_defs)
  have b: "backoff_in_range example_config boot" by (simp add: backoff_in_range_def example_defs)
  note r = reachable.start[of example_config sim boot]
  from run_ticks_stay_in_range[OF c sim_random_in_range sim_well_behaved b r] c b r
  show ?thesis by simp
qed

section \<open>The history of the reconnect loop\<close>

text \<open>
  The states the loop of the sketch passes through are states of a run of the two
  operations it repeats, so what holds of the history of every run holds of the
  history of the loop.
\<close>

lemma tick_until_connected_run:
  assumes "tick_until_connected cfg I env s = Some t"
  shows "\<exists>ops. t = run_ops cfg I ops s \<and> set ops \<subseteq> {Environment env, Loop}"
proof (rule while_option_rule[where
      P = "\<lambda>u. \<exists>ops. u = run_ops cfg I ops s \<and> set ops \<subseteq> {Environment env, Loop}",
      OF _ assms[unfolded tick_until_connected_def]])
  fix u
  assume "\<exists>ops. u = run_ops cfg I ops s \<and> set ops \<subseteq> {Environment env, Loop}"
  then obtain ops where o: "u = run_ops cfg I ops s" "set ops \<subseteq> {Environment env, Loop}"
    by blast
  then have "tick_after cfg I env u = run_ops cfg I (ops @ [Environment env, Loop]) s"
    by (simp add: tick_after_def)
  with o(2) show "\<exists>ops. tick_after cfg I env u = run_ops cfg I ops s
      \<and> set ops \<subseteq> {Environment env, Loop}"
    by (intro exI[of _ "ops @ [Environment env, Loop]"]) auto
next
  have "s = run_ops cfg I [] s" by simp
  then show "\<exists>ops. s = run_ops cfg I ops s \<and> set ops \<subseteq> {Environment env, Loop}"
    by (intro exI[of _ "[]"]) simp
qed

text \<open>
  \<^bold>\<open>C22\<close> (the history of the reconnect loop). When the loop of the
  sketch (let the environment act, call \<^verbatim>\<open>loop\<close>, until the
  client is connected) has stopped, for a client that meets the assumptions of the
  refinement and an environment that may drop the link: every
  \<^verbatim>\<open>connect\<close> it made directly followed the
  \<^verbatim>\<open>getJwt\<close> whose token it passed, every token passed was
  known, and the calls read in order end in connected, that is the last
  \<^verbatim>\<open>connect\<close> returned true and no
  \<^verbatim>\<open>disconnect\<close> followed it.
\<close>
theorem reconnect_loop_history:
  assumes "well_behaved I" and "only_connect_opens I" and "only_drops I env"
    and "tick_until_connected cfg I env s = Some t"
  shows "calls t = calls s @ new_calls s t \<and> fresh_connects (new_calls s t)
         \<and> tokens_known {jwt s} (new_calls s t)
         \<and> replay (session_of I (world s)) (new_calls s t) = Connected"
proof -
  from tick_until_connected_run[OF assms(4)] obtain ops where
    o: "t = run_ops cfg I ops s" "set ops \<subseteq> {Environment env, Loop}" by blast
  from o(2) assms(3) have l: "list_all tick_driven ops" "list_all (supervised I) ops"
    by (auto simp: list_all_iff)
  from assms(4) have c: "mc_connected I (world t)"
    unfolding tick_until_connected_def by (auto dest: while_option_stop)
  from run_tokens[of cfg I ops s] run_fresh[OF l(1), of s cfg I]
    run_replay[OF assms(1,2) l(2), of cfg s] c
  show ?thesis by (simp add: o(1))
qed

theorem reconnect_loop_history_witness:
  "well_behaved sim \<and> only_connect_opens sim \<and> only_drops sim (advance 1000)
   \<and> (\<exists>t. tick_until_connected example_config sim (advance 1000) d0 = Some t
          \<and> calls t = calls d0 @ new_calls d0 t \<and> fresh_connects (new_calls d0 t)
          \<and> tokens_known {jwt d0} (new_calls d0 t)
          \<and> replay (session_of sim (world d0)) (new_calls d0 t) = Connected)"
proof -
  have "hopeful (world d0)" by (simp add: hopeful_def d0_def example_defs)
  from tick_until_connected_stops[OF sim_converges this, of 1000 example_config]
  obtain t where t: "tick_until_connected example_config sim (advance 1000) d0 = Some t"
    by auto
  from reconnect_loop_history[OF sim_well_behaved sim_only_connect_opens sim_environment(1) t] t
  show ?thesis by simp
qed

section \<open>How many attempts the reconnect loop makes\<close>

text \<open>
  Each tick of the loop makes at most one \<^verbatim>\<open>connect\<close> call, and each refused
  call lowers the number of refusals the broker has in store; so the attempts the
  loop has made and \<open>attempts_left\<close> never add up to more than \<open>attempts_left\<close> at
  the start.
\<close>

lemma tick_after_connects:
  "length (filter is_connect (new_calls u (tick_after cfg I env u)))
     = (if needs_reconnect I (u\<lparr>world := env (world u)\<rparr>) then 1 else 0)"
  using connects_per_tick[of "u\<lparr>world := env (world u)\<rparr>" cfg I]
  by (simp add: new_calls_def tick_after_def)

lemma tick_after_appends: "\<exists>cs. calls (tick_after cfg I env u) = calls u @ cs"
  using perform_appends[of cfg I Loop "u\<lparr>world := env (world u)\<rparr>"]
  by (simp add: tick_after_def)

lemma new_calls_trans:
  assumes "calls t = calls s @ a" and "calls u = calls t @ b"
  shows "new_calls s u = new_calls s t @ new_calls t u"
  using assms by (simp add: new_calls_def)

lemma tick_spends_an_attempt:
  assumes "converges I env good rank" and "good (world u)" and "\<not> mc_connected I (world u)"
  shows "length (filter is_connect (new_calls u (tick_after cfg I env u)))
           + attempts_left I rank (tick_after cfg I env u) \<le> attempts_left I rank u"
proof (cases "needs_reconnect I (u\<lparr>world := env (world u)\<rparr>)")
  case True
  from tick_attempt(2)[OF assms True, of cfg] show ?thesis
    by (simp add: tick_after_connects True)
next
  case False
  from tick_idle(2)[OF assms False, of cfg] show ?thesis
    by (simp add: tick_after_connects False)
qed

lemma attempts_bounded:
  assumes "converges I env good rank" and "good (world s)"
    and "tick_until_connected cfg I env s = Some t"
  shows "length (filter is_connect (new_calls s t)) \<le> attempts_left I rank s"
proof -
  let ?P = "\<lambda>u. good (world u) \<and> (\<exists>cs. calls u = calls s @ cs)
      \<and> length (filter is_connect (new_calls s u)) + attempts_left I rank u
            \<le> attempts_left I rank s"
  have "?P t"
  proof (rule while_option_rule[where P = ?P, OF _ assms(3)[unfolded tick_until_connected_def]])
    show "?P s" by (simp add: assms(2) new_calls_def)
  next
    fix u
    assume u: "?P u" and d: "\<not> mc_connected I (world u)"
    then obtain cs where cs: "calls u = calls s @ cs" by blast
    from tick_after_appends[of cfg I env u] obtain ds where
      ds: "calls (tick_after cfg I env u) = calls u @ ds" by blast
    from u d have g: "good (world (tick_after cfg I env u))"
      using tick_attempt(1)[OF assms(1), of u cfg] tick_idle(1)[OF assms(1), of u cfg]
      by (cases "needs_reconnect I (u\<lparr>world := env (world u)\<rparr>)") auto
    from u d tick_spends_an_attempt[OF assms(1), of u cfg]
    have "length (filter is_connect (new_calls s (tick_after cfg I env u)))
        + attempts_left I rank (tick_after cfg I env u) \<le> attempts_left I rank s"
      by (simp add: new_calls_trans[OF cs ds])
    with g cs ds show "?P (tick_after cfg I env u)" by simp
  qed
  then show ?thesis by simp
qed

text \<open>
  \<^bold>\<open>C23\<close> (how many attempts the reconnect loop makes). On a
  platform that converges, the loop of the sketch has made, when it stops, at most one
  \<^verbatim>\<open>connect\<close> call more than the number of refusals the broker
  had in store at its start, and none if the client was connected already:
  \<^verbatim>\<open>loop\<close> makes at most one attempt in a tick, and idle ticks
  and the calls after an attempt do not raise the number of refusals left.
\<close>
theorem reconnect_attempts_bounded:
  assumes "converges I env good rank" and "good (world s)"
    and "tick_until_connected cfg I env s = Some t"
  shows "length (filter is_connect (new_calls s t)) \<le> attempts_left I rank s"
  using attempts_bounded[OF assms] .

theorem reconnect_attempts_bounded_witness:
  "converges sim (advance 1000) hopeful answers_left \<and> hopeful (world d0)
   \<and> (\<exists>t. tick_until_connected example_config sim (advance 1000) d0 = Some t
          \<and> length (filter is_connect (new_calls d0 t)) \<le> 3)"
proof -
  have c: "converges sim (advance 1000) hopeful answers_left" by (simp add: sim_converges)
  have h: "hopeful (world d0)" by (simp add: hopeful_def d0_def example_defs)
  from tick_until_connected_stops[OF c h, of example_config]
  obtain t where t: "tick_until_connected example_config sim (advance 1000) d0 = Some t"
    by auto
  have "attempts_left sim answers_left d0 = 3"
    by (simp add: attempts_left_def answers_left_def d0_def example_defs)
  with reconnect_attempts_bounded[OF c h t] c h t show ?thesis by simp
qed

section \<open>The back-off test of the tick on the machine's integers\<close>

text \<open>
  \<^bold>\<open>C33\<close> (the back-off test on the machine's integers). If the
  member that holds the time of the last attempt and the difference in line 43 are
  signed integers of some width, the test \<^verbatim>\<open>abs(__last_retry_at -
  millis()) >= __backoff__\<close> on the machine decides as the test on the true
  instants does, also when the millisecond clock has wrapped around in between, as
  long as less than half the range of the clock has passed since the last attempt and
  the delay is not negative and fits the width. If the difference is unsigned, the
  test succeeds in the same situation whatever the delay: the retry is not held back
  at all.
\<close>
theorem backoff_gate_at_machine_width:
  assumes "\<not> mc_connected I (world s)"
    and "last_retry_at s < sys_millis I (world s)"
    and "sys_millis I (world s) - last_retry_at s < 2 ^ (LENGTH('a::len) - 1)"
    and "0 \<le> backoff s" and "backoff s < 2 ^ (LENGTH('a) - 1)"
  shows "(elapsed_signed (word_of_int (last_retry_at s) :: 'a word)
            (word_of_int (sys_millis I (world s))) (word_of_int (backoff s))
          \<longleftrightarrow> backoff_elapsed I s)
         \<and> elapsed_unsigned (word_of_int (last_retry_at s) :: 'a word)
            (word_of_int (sys_millis I (world s))) (word_of_int (backoff s))"
  using elapsed_at_machine_width[where 'a = 'a, OF assms(2-5)] assms(1,2)
  by (simp add: backoff_elapsed_def)

theorem backoff_gate_at_machine_width_witness:
  "\<not> mc_connected sim (world late) \<and> last_retry_at late < sys_millis sim (world late)
   \<and> sys_millis sim (world late) - last_retry_at late < 2 ^ (LENGTH(32) - 1)
   \<and> 0 \<le> backoff late \<and> backoff late < 2 ^ (LENGTH(32) - 1)
   \<and> (word_of_int (sys_millis sim (world late)) :: 32 word) = 1204
   \<and> \<not> backoff_elapsed sim late
   \<and> \<not> elapsed_signed (word_of_int (last_retry_at late) :: 32 word)
            (word_of_int (sys_millis sim (world late))) (word_of_int (backoff late))
   \<and> elapsed_unsigned (word_of_int (last_retry_at late) :: 32 word)
            (word_of_int (sys_millis sim (world late))) (word_of_int (backoff late))"
proof -
  have f: "\<not> mc_connected sim (world late)" "last_retry_at late = 4294967000"
    "sys_millis sim (world late) = 4294968500" "backoff late = 2007"
    by (simp_all add: late_def sim_defs example_defs)
  have b: "\<not> backoff_elapsed sim late"
    by (simp add: backoff_elapsed_def late_def sim_defs example_defs)
  from backoff_gate_at_machine_width[where 'a = 32, of sim late] f b
  show ?thesis by simp
qed

end
